(* ===== verification/Js_Prelude.thy ===== *)
theory Js_Prelude
  imports Main "HOL-Library.Sublist" "HOL-Library.Multiset"
begin

text \<open>
  The part of JavaScript the bridge scripts use, and the lemmas about it that the components share:
  string primitives (split, join, the regular expressions of the sources, \<open>parseInt\<close>), array reads
  that give \<open>undefined\<close> out of range, the stable \<open>Array.prototype.sort\<close>, the key order of objects
  and dynamically typed values.

  Strings are lists of 8-bit characters and hold ASCII text. \<open>undefined\<close> is \<open>None\<close> where the
  sources test for it statically, and \<open>JUndef\<close> inside dynamically typed values.
\<close>

named_theorems js_simps \<open>rewrite rules that evaluate the JavaScript primitives\<close>

section \<open>Strings\<close>

text \<open>\<open>s.split(c)\<close> for a separator of one character: never the empty array.\<close>

fun js_split :: "char \<Rightarrow> string \<Rightarrow> string list" where
  "js_split c [] = [[]]"
| "js_split c (x # xs) =
     (if x = c then [] # js_split c xs
      else (case js_split c xs of [] \<Rightarrow> [[x]] | y # ys \<Rightarrow> (x # y) # ys))"

text \<open>\<open>xs.join(sep)\<close>; \<open>Array.toString\<close> is the join with a comma.\<close>

fun js_join :: "string \<Rightarrow> string list \<Rightarrow> string" where
  "js_join sep [] = []"
| "js_join sep [x] = x"
| "js_join sep (x # y # ys) = x @ sep @ js_join sep (y # ys)"

text \<open>\<open>xs[i]\<close> for a natural number index: \<open>undefined\<close> out of range.\<close>

definition js_nth :: "'a list \<Rightarrow> nat \<Rightarrow> 'a option" where
  "js_nth xs i = (if i < length xs then Some (xs ! i) else None)"

definition js_startsWith :: "string \<Rightarrow> string \<Rightarrow> bool" where
  "js_startsWith s p = (take (length p) s = p)"

definition js_endsWith :: "string \<Rightarrow> string \<Rightarrow> bool" where
  "js_endsWith s p = js_startsWith (rev s) (rev p)"

fun js_includes :: "string \<Rightarrow> string \<Rightarrow> bool" where
  "js_includes [] p = (p = [])"
| "js_includes (x # xs) p = (js_startsWith (x # xs) p \<or> js_includes xs p)"

text \<open>\<open>s.replace(p, r)\<close> with a string pattern replaces the first occurrence only.\<close>

fun js_replace_first :: "string \<Rightarrow> string \<Rightarrow> string \<Rightarrow> string" where
  "js_replace_first [] p r = (if p = [] then r else [])"
| "js_replace_first (x # xs) p r =
     (if js_startsWith (x # xs) p then r @ drop (length p) (x # xs)
      else x # js_replace_first xs p r)"

text \<open>The white space of the regular expression class \<open>\s\<close>, restricted to ASCII.\<close>

definition js_space :: "char \<Rightarrow> bool" where
  "js_space c = (c \<in> {CHR 0x09, CHR 0x0A, CHR 0x0B, CHR 0x0C, CHR 0x0D, CHR 0x20})"

text \<open>\<open>s.replace(/\s+/g, "")\<close>\<close>

definition js_strip_spaces :: "string \<Rightarrow> string" where
  "js_strip_spaces s = filter (\<lambda>c. \<not> js_space c) s"

text \<open>\<open>s.replace(/\/+$/, "")\<close>\<close>

definition js_strip_slashes :: "string \<Rightarrow> string" where
  "js_strip_slashes s = rev (dropWhile (\<lambda>c. c = CHR ''/'') (rev s))"

text \<open>\<open>toLowerCase\<close> on one ASCII character.\<close>

definition js_lower :: "char \<Rightarrow> char" where
  "js_lower c = (if 65 \<le> (of_char c :: nat) \<and> (of_char c :: nat) \<le> 90
                 then char_of ((of_char c :: nat) + 32) else c)"

section \<open>Numbers\<close>

text \<open>The value of a digit in a radix of at most 16.\<close>

definition js_digit :: "nat \<Rightarrow> char \<Rightarrow> nat option" where
  "js_digit radix c =
     (let n = (of_char c :: nat);
          v = (if 48 \<le> n \<and> n \<le> 57 then n - 48
               else if 97 \<le> n \<and> n \<le> 102 then n - 87
               else if 65 \<le> n \<and> n \<le> 70 then n - 55
               else 16)
      in if v < radix then Some v else None)"

fun js_digits :: "nat \<Rightarrow> nat \<Rightarrow> string \<Rightarrow> nat" where
  "js_digits radix acc [] = acc"
| "js_digits radix acc (c # cs) =
     (case js_digit radix c of None \<Rightarrow> acc | Some d \<Rightarrow> js_digits radix (acc * radix + d) cs)"

text \<open>
  \<open>parseInt(s, radix)\<close>: leading white space and one sign are skipped, a \<open>0x\<close> prefix is skipped in
  radix 16, and the longest run of digits is read; \<open>NaN\<close> (here \<open>None\<close>) when there is no digit.
\<close>

definition js_unsigned :: "nat \<Rightarrow> string \<Rightarrow> nat option" where
  "js_unsigned radix s =
     (let t = (if radix = 16 \<and> (js_startsWith s ''0x'' \<or> js_startsWith s ''0X'')
               then drop 2 s else s)
      in case t of
           [] \<Rightarrow> None
         | c # _ \<Rightarrow> (case js_digit radix c of None \<Rightarrow> None | Some _ \<Rightarrow> Some (js_digits radix 0 t)))"

definition js_parseInt :: "nat \<Rightarrow> string \<Rightarrow> int option" where
  "js_parseInt radix s =
     (case dropWhile js_space s of
        [] \<Rightarrow> None
      | c # cs \<Rightarrow>
          (if c = CHR ''-'' then map_option (\<lambda>n. - int n) (js_unsigned radix cs)
           else if c = CHR ''+'' then map_option int (js_unsigned radix cs)
           else map_option int (js_unsigned radix (c # cs))))"

text \<open>\<open>parseInt(s)\<close> without a radix: 16 after a \<open>0x\<close> prefix, 10 otherwise.\<close>

definition js_parseInt_auto :: "string \<Rightarrow> int option" where
  "js_parseInt_auto s =
     (let t = dropWhile js_space s;
          u = (case t of [] \<Rightarrow> [] | c # cs \<Rightarrow> if c = CHR ''-'' \<or> c = CHR ''+'' then cs else t)
      in js_parseInt (if js_startsWith u ''0x'' \<or> js_startsWith u ''0X'' then 16 else 10) s)"

text \<open>\<open>n.toString(radix)\<close> of a natural number, for a radix between 2 and 16.\<close>

definition js_digit_char :: "nat \<Rightarrow> char" where
  "js_digit_char d = char_of (if d < 10 then d + 48 else d + 87)"

fun js_show_radix :: "nat \<Rightarrow> nat \<Rightarrow> string" where
  "js_show_radix radix n =
     (if radix < 2 \<or> n < radix then [js_digit_char n]
      else js_show_radix radix (n div radix) @ [js_digit_char (n mod radix)])"

declare js_show_radix.simps [simp del]

definition js_show_nat :: "nat \<Rightarrow> string" where
  "js_show_nat n = js_show_radix 10 n"

definition js_show_int :: "int \<Rightarrow> string" where
  "js_show_int i = (if i < 0 then CHR ''-'' # js_show_nat (nat (- i)) else js_show_nat (nat i))"

section \<open>Arrays\<close>

text \<open>
  \<open>Array.prototype.sort\<close> with a comparator: a stable sort. A comparator that returns \<open>NaN\<close> is read
  as returning 0, which the callers' comparators below write out. For an inconsistent comparator
  the language fixes only that the result is a permutation, which is all that is proved then.
\<close>

fun js_insert :: "('a \<Rightarrow> 'a \<Rightarrow> int) \<Rightarrow> 'a \<Rightarrow> 'a list \<Rightarrow> 'a list" where
  "js_insert cmp x [] = [x]"
| "js_insert cmp x (y # ys) = (if cmp x y \<le> 0 then x # y # ys else y # js_insert cmp x ys)"

fun js_sort :: "('a \<Rightarrow> 'a \<Rightarrow> int) \<Rightarrow> 'a list \<Rightarrow> 'a list" where
  "js_sort cmp [] = []"
| "js_sort cmp (x # xs) = js_insert cmp x (js_sort cmp xs)"

section \<open>Dynamically typed values\<close>

text \<open>
  \<open>JBig\<close> is an ethers \<open>BigNumber\<close>, \<open>JFun\<close> the function \<open>Object\<close> that every plain object inherits as
  its property \<open>constructor\<close>. Objects keep their own properties in insertion order. Of the names
  inherited from \<open>Object.prototype\<close> the sources only ever read \<open>constructor\<close>.
\<close>

datatype jsval =
    JUndef
  | JBool bool
  | JNum int
  | JStr string
  | JBig int
  | JFun
  | JArr "jsval list"
  | JObj "(string \<times> jsval) list"

type_synonym js_object = "(string \<times> jsval) list"

text \<open>\<open>obj[k]\<close> on own properties, \<open>obj[k] = v\<close> in place or at the end.\<close>

definition obj_get :: "js_object \<Rightarrow> string \<Rightarrow> jsval" where
  "obj_get ps k = (case map_of ps k of None \<Rightarrow> JUndef | Some v \<Rightarrow> v)"

fun obj_put :: "string \<Rightarrow> 'v \<Rightarrow> (string \<times> 'v) list \<Rightarrow> (string \<times> 'v) list" where
  "obj_put k v [] = [(k, v)]"
| "obj_put k v (p # ps) = (if fst p = k then (k, v) # ps else p # obj_put k v ps)"

text \<open>A property read; \<open>None\<close> is the \<open>TypeError\<close> of reading a property of \<open>undefined\<close>.\<close>

fun js_prop :: "jsval \<Rightarrow> string \<Rightarrow> jsval option" where
  "js_prop JUndef k = None"
| "js_prop (JObj ps) k = Some (obj_get ps k)"
| "js_prop _ k = Some JUndef"

text \<open>The read of the property \<open>constructor\<close>, which a plain object inherits if it has no own one.\<close>

fun js_prop_constructor :: "jsval \<Rightarrow> jsval option" where
  "js_prop_constructor (JObj ps) =
     (case map_of ps ''constructor'' of None \<Rightarrow> Some JFun | Some v \<Rightarrow> Some v)"
| "js_prop_constructor v = js_prop v ''constructor''"

text \<open>
  \<open>Object.keys(o)\<close> and \<open>for (k in o)\<close>: array indices in ascending order first, then the other keys in
  insertion order.
\<close>

definition js_array_index :: "string \<Rightarrow> bool" where
  "js_array_index s =
     (s \<noteq> [] \<and> list_all (\<lambda>c. js_digit 10 c \<noteq> None) s
      \<and> (hd s = CHR ''0'' \<longrightarrow> s = ''0'') \<and> js_digits 10 0 s < 4294967295)"

definition js_keys :: "(string \<times> 'v) list \<Rightarrow> string list" where
  "js_keys ps =
     sort_key (js_digits 10 0) (filter js_array_index (map fst ps))
     @ filter (\<lambda>k. \<not> js_array_index k) (map fst ps)"

text \<open>\<open>String(v)\<close> as \<open>Array.toString\<close> applies it to the elements: \<open>undefined\<close> gives the empty string.\<close>

fun js_to_string :: "jsval \<Rightarrow> string" where
  "js_to_string JUndef = []"
| "js_to_string (JBool b) = (if b then ''true'' else ''false'')"
| "js_to_string (JNum n) = js_show_int n"
| "js_to_string (JStr s) = s"
| "js_to_string (JBig n) = js_show_int n"
| "js_to_string JFun = ''function Object() { [native code] }''"
| "js_to_string (JArr vs) = js_join '','' (map js_to_string vs)"
| "js_to_string (JObj ps) = ''[object Object]''"

text \<open>Objects have at most one own property of a name.\<close>

fun wf_js :: "jsval \<Rightarrow> bool" where
  "wf_js (JArr vs) = list_all wf_js vs"
| "wf_js (JObj ps) = (distinct (map fst ps) \<and> list_all (\<lambda>p. wf_js (snd p)) ps)"
| "wf_js _ = True"

section \<open>Lemmas\<close>

subsection \<open>Strings\<close>

lemma js_split_nonempty [simp]: "js_split c s \<noteq> []"
  by (cases s) (auto split: list.splits)

lemma js_split_no_sep [js_simps]: "c \<notin> set s \<Longrightarrow> js_split c s = [s]"
  by (induction s) auto

lemma js_split_append:
  "c \<notin> set s \<Longrightarrow> js_split c (s @ c # t) = s # js_split c t"
  by (induction s) auto

lemma js_split_elem_no_sep: "t \<in> set (js_split c s) \<Longrightarrow> c \<notin> set t"
  by (induction s arbitrary: t) (auto split: list.splits if_splits)

text \<open>Joining with a separator that occurs in no element is inverted by splitting.\<close>

lemma js_split_join:
  assumes "xs \<noteq> []" and "\<forall>x \<in> set xs. c \<notin> set x"
  shows "js_split c (js_join [c] xs) = xs"
  using assms
proof (induction "[c]" xs rule: js_join.induct)
  case (3 x y ys)
  then show ?case by (simp add: js_split_append)
qed (auto simp: js_split_no_sep)

lemma js_join_Cons: "ys \<noteq> [] \<Longrightarrow> js_join sep (y # ys) = y @ sep @ js_join sep ys"
  by (cases ys) auto

lemma js_join_Cons_Cons: "js_join sep ((x # y) # ys) = x # js_join sep (y # ys)"
  by (cases ys) auto

lemma js_join_split: "js_join [c] (js_split c s) = s"
proof (induction s)
  case (Cons x xs)
  obtain y ys where "js_split c xs = y # ys"
    by (cases "js_split c xs") auto
  with Cons show ?case
    by (simp add: js_join_Cons js_join_Cons_Cons del: js_join.simps)
qed simp

lemma js_strip_spaces_id: "\<forall>x \<in> set s. \<not> js_space x \<Longrightarrow> js_strip_spaces s = s"
  by (simp add: js_strip_spaces_def)

lemma js_strip_spaces_append [js_simps]:
  "js_strip_spaces (s @ t) = js_strip_spaces s @ js_strip_spaces t"
  by (simp add: js_strip_spaces_def)

lemma js_strip_spaces_join:
  "js_strip_spaces (js_join sep xs) = js_join (js_strip_spaces sep) (map js_strip_spaces xs)"
  by (induction sep xs rule: js_join.induct) (auto simp: js_strip_spaces_def)

lemma js_strip_slashes_append_slash [js_simps]:
  "js_strip_slashes (s @ ''/'') = js_strip_slashes s"
  by (simp add: js_strip_slashes_def)

lemma js_strip_slashes_id:
  "s = [] \<or> last s \<noteq> CHR ''/'' \<Longrightarrow> js_strip_slashes s = s"
  by (induction s rule: rev_induct) (auto simp: js_strip_slashes_def)

lemma js_strip_slashes_last:
  "js_strip_slashes s \<noteq> [] \<Longrightarrow> last (js_strip_slashes s) \<noteq> CHR ''/''"
  using hd_dropWhile [of "\<lambda>c. c = CHR ''/''" "rev s"]
  by (auto simp: js_strip_slashes_def last_rev)

lemma js_startsWith_prefix: "js_startsWith s p \<longleftrightarrow> prefix p s"
proof
  assume "js_startsWith s p"
  then have "s = p @ drop (length p) s"
    unfolding js_startsWith_def by (metis append_take_drop_id)
  then show "prefix p s" by (rule prefixI)
qed (auto simp: js_startsWith_def prefix_def)

lemma js_includes_sublist: "js_includes s p \<longleftrightarrow> sublist p s"
  by (induction s) (auto simp: js_startsWith_prefix sublist_Cons_right)

subsection \<open>Numbers\<close>

lemma js_digit_digit_char: "d < radix \<Longrightarrow> radix \<le> 16 \<Longrightarrow> js_digit radix (js_digit_char d) = Some d"
  by (auto simp: js_digit_def js_digit_char_def Let_def)

lemma js_digits_append:
  "list_all (\<lambda>c. js_digit radix c \<noteq> None) s \<Longrightarrow>
     js_digits radix acc (s @ t) = js_digits radix (js_digits radix acc s) t"
  by (induction s arbitrary: acc) auto

text \<open>Reading back what \<open>toString\<close> printed.\<close>

lemma js_show_radix_digits:
  assumes "2 \<le> radix" and "radix \<le> 16"
  shows "list_all (\<lambda>c. js_digit radix c \<noteq> None) (js_show_radix radix n)
         \<and> js_digits radix 0 (js_show_radix radix n) = n"
  using assms
proof (induction radix n rule: js_show_radix.induct)
  case (1 radix n)
  show ?case
  proof (cases "n < radix")
    case True
    with 1 show ?thesis
      by (subst (1 2) js_show_radix.simps) (simp add: js_digit_digit_char)
  next
    case False
    with 1 have "\<not> (radix < 2 \<or> n < radix)" by simp
    from 1(1) [OF this 1(2,3)] show ?thesis
      using False 1 by (subst (1 2) js_show_radix.simps) (simp add: js_digit_digit_char js_digits_append)
  qed
qed

lemma js_show_radix_not_Nil [simp]: "js_show_radix radix n \<noteq> []"
  by (subst js_show_radix.simps) simp

lemma js_digits_show_nat [js_simps]: "js_digits 10 0 (js_show_nat n) = n"
  using js_show_radix_digits [of 10 n] by (simp add: js_show_nat_def)

lemma js_show_nat_chars: "c \<in> set (js_show_nat n) \<Longrightarrow> js_digit 10 c \<noteq> None"
  using js_show_radix_digits [of 10 n] by (auto simp: js_show_nat_def list_all_iff)

lemma js_parseInt_show_nat [js_simps]: "js_parseInt 10 (js_show_nat n) = Some (int n)"
proof -
  obtain c cs where s: "js_show_nat n = c # cs"
    by (cases "js_show_nat n") (auto simp: js_show_nat_def)
  then obtain d where d: "js_digit 10 c = Some d"
    using js_show_nat_chars [of c n] by auto
  then have "\<not> js_space c" "c \<noteq> CHR ''-''" "c \<noteq> CHR ''+''"
    by (auto simp: js_digit_def js_space_def)
  with s d show ?thesis
    using js_digits_show_nat [of n] by (simp add: js_parseInt_def js_unsigned_def)
qed

subsection \<open>Sorting\<close>

lemma mset_js_insert: "mset (js_insert cmp x xs) = add_mset x (mset xs)"
  by (induction xs) auto

lemma mset_js_sort: "mset (js_sort cmp xs) = mset xs"
  by (induction xs) (auto simp: mset_js_insert)

lemma set_js_sort [simp]: "set (js_sort cmp xs) = set xs"
  by (metis mset_js_sort set_mset_mset)

text \<open>With numeric keys the comparator sort is the library's stable sort by key.\<close>

lemma js_insert_key:
  assumes "\<And>y. y \<in> set xs \<Longrightarrow> cmp x y = key x - key y"
  shows "js_insert cmp x xs = insort_key key x xs"
  using assms by (induction xs) auto

lemma js_sort_key:
  assumes "\<And>x y. x \<in> set xs \<Longrightarrow> y \<in> set xs \<Longrightarrow> cmp x y = key x - key y"
  shows "js_sort cmp xs = sort_key key xs"
  using assms
proof (induction xs)
  case (Cons x xs)
  then have "js_sort cmp xs = sort_key key xs" by simp
  moreover have "js_insert cmp x (sort_key key xs) = insort_key key x (sort_key key xs)"
    by (rule js_insert_key) (use Cons.prems in auto)
  ultimately show ?case by simp
qed simp

lemma set_js_keys: "set (js_keys ps) = fst ` set ps"
  by (auto simp: js_keys_def)

lemma js_keys_no_index:
  "\<forall>p \<in> set ps. \<not> js_array_index (fst p) \<Longrightarrow> js_keys ps = map fst ps"
  by (auto simp: js_keys_def filter_map comp_def filter_empty_conv intro!: filter_True)

subsection \<open>Objects\<close>

lemma map_of_obj_put: "map_of (obj_put k v ps) = (map_of ps)(k \<mapsto> v)"
  by (induction ps) auto

lemma keys_obj_put: "fst ` set (obj_put k v ps) = insert k (fst ` set ps)"
  by (induction ps) auto

lemma distinct_obj_put: "distinct (map fst ps) \<Longrightarrow> distinct (map fst (obj_put k v ps))"
proof (induction ps)
  case (Cons p ps)
  have "fst p \<noteq> k \<Longrightarrow> fst p \<notin> fst ` set (obj_put k v ps)"
    using Cons.prems by (auto simp: keys_obj_put)
  with Cons show ?case by auto
qed simp

lemma obj_put_new: "k \<notin> fst ` set ps \<Longrightarrow> obj_put k v ps = ps @ [(k, v)]"
  by (induction ps) auto

lemma obj_get_put [simp]: "obj_get (obj_put k v ps) j = (if j = k then v else obj_get ps j)"
  by (auto simp: obj_get_def map_of_obj_put)

lemma list_all_obj_put:
  "list_all (\<lambda>p. P (snd p)) ps \<Longrightarrow> P v \<Longrightarrow> list_all (\<lambda>p. P (snd p)) (obj_put k v ps)"
  by (induction ps) auto

lemma wf_js_obj_put: "wf_js (JObj ps) \<Longrightarrow> wf_js v \<Longrightarrow> wf_js (JObj (obj_put k v ps))"
  by (auto simp: distinct_obj_put list_all_obj_put)

lemma wf_js_obj_get: "wf_js (JObj ps) \<Longrightarrow> wf_js (obj_get ps k)"
  by (auto simp: obj_get_def list_all_iff dest!: map_of_SomeD split: option.split)

subsection \<open>Stores of properties\<close>

text \<open>
  What the clients of a store of properties rely on: a write is seen by reads of its key and by no
  other read. A sequence of writes is then read through the last write of the key.
\<close>

locale prop_store =
  fixes get :: "'s \<Rightarrow> 'k \<Rightarrow> 'v"
    and put :: "'k \<Rightarrow> 'v \<Rightarrow> 's \<Rightarrow> 's"
  assumes get_put: "get (put k v s) j = (if j = k then v else get s j)"
begin

lemma get_put_fun: "get (put k v s) = (get s)(k := v)"
  by (simp add: get_put fun_eq_iff)

lemma get_puts:
  "get (fold (\<lambda>(k, v). put k v) kvs s) j =
     (case map_of (rev kvs) j of None \<Rightarrow> get s j | Some v \<Rightarrow> v)"
  by (induction kvs rule: rev_induct) (auto simp: get_put)

lemma put_commute: "k \<noteq> j \<Longrightarrow> get (put k v (put j u s)) = get (put j u (put k v s))"
  by (auto simp: get_put fun_eq_iff)

end

interpretation obj_store: prop_store obj_get obj_put
  by unfold_locales simp

end
