(* ===== verification/Evm_Chain.thy ===== *)
theory Evm_Chain
  imports Js_Prelude "HOL-Library.Word"
begin

unbundle bit_operations_syntax

text \<open>
  The contracts the scripts drive: \<open>AliceNetFactory\<close> with its base contract and \<open>Proxy\<close>, over a
  chain state of accounts (code, nonce, storage, balance). The hash functions behind contract
  addresses, the success of a logic contract's constructor and the behaviour of every other
  contract are parameters, the fields of the record \<open>evm\<close>. Calldata is kept in decoded form: one
  constructor for each function of the factory's interface, and \<open>OtherCall\<close> for the other contracts.
\<close>

named_theorems evm_simps \<open>rewrite rules that run a call of the factory\<close>

type_synonym addr = "160 word"
type_synonym bytes32 = "256 word"
type_synonym bytecode = string

section \<open>Data\<close>

datatype revert =
    Unauthorized
  | CodeSizeZero
  | SaltAlreadyInUse
  | Imploc
  | AssertFailed
  | NoCode
  | NonPayable
  | InsufficientBalance
  | ExternalRevert string

datatype abi = AUint nat | AInt int | AAddr addr | AB32 bytes32 | AStr string | AArr "abi list"

text \<open>
  \<open>ProxyAdmin\<close> is the calldata \<open>0xca11c0de <address>\<close> that \<open>ProxyUpgrader.__upgrade\<close> sends; \<open>MCArgs\<close> is the
  struct \<open>MultiCallArgs\<close>.
\<close>

datatype cdata =
    NoData
  | DeployCreate bytecode
  | DeployCreate2 nat bytes32 bytecode
  | DeployProxy bytes32
  | UpgradeProxy bytes32 addr cdata
  | InitializeContract addr cdata
  | MultiCall "mcArgs list"
  | CallAny addr nat cdata
  | DelegateCallAny addr cdata
  | SetOwner addr
  | SetImplementation addr
  | AddNewExternalContract bytes32 addr
  | Lookup bytes32
  | ProxyAdmin addr
  | OtherCall string string "abi list"
and mcArgs = MCArgs addr nat cdata

text \<open>Logs: the emitting contract first.\<close>

datatype event =
    DeployedRaw addr addr
  | DeployedProxy addr addr
  | OtherEvent addr "bytes32 list"

datatype code = FactoryCode | ProxyTemplateCode | ProxyCode addr | LogicCode bytecode

text \<open>The storage and the immutables of a factory.\<close>

record factory_store =
  fs_owner :: addr
  fs_contracts :: "bytes32 list"
  fs_implementation :: addr
  fs_registry :: "bytes32 \<Rightarrow> addr option"
  fs_proxyTemplate :: addr
  fs_aTokenAddress :: addr

record chain =
  ch_code :: "addr \<Rightarrow> code option"
  ch_nonce :: "addr \<Rightarrow> nat"
  ch_storage :: "addr \<Rightarrow> bytes32 \<Rightarrow> bytes32"
  ch_balance :: "addr \<Rightarrow> nat"
  ch_fact :: "addr \<Rightarrow> factory_store"
  ch_block :: nat

type_synonym call_result = "revert + (event list \<times> chain)"

record evm =
  create_addr :: "addr \<Rightarrow> nat \<Rightarrow> addr"
  create2_addr :: "addr \<Rightarrow> bytes32 \<Rightarrow> bytes32 \<Rightarrow> addr"
  keccak :: "bytecode \<Rightarrow> bytes32"
  ctor_ok :: "chain \<Rightarrow> addr \<Rightarrow> bytecode \<Rightarrow> bool"
  aToken_creation :: "addr \<Rightarrow> bytecode"
  ext_call :: "chain \<Rightarrow> addr \<Rightarrow> addr \<Rightarrow> nat \<Rightarrow> cdata \<Rightarrow> call_result"
  ext_delegate :: "chain \<Rightarrow> addr \<Rightarrow> addr \<Rightarrow> cdata \<Rightarrow> call_result"
  ext_impl :: "chain \<Rightarrow> addr \<Rightarrow> addr option"

definition METAMORPHIC_CODE :: bytecode where
  "METAMORPHIC_CODE = ''6020363636335afa1536363636515af43d36363e3d36f3''"

definition METAMORPHIC_HASH :: bytes32 where
  "METAMORPHIC_HASH = 0x1c0bf703a3415cada9785e89e9d70314c3111ae7d8e04f33bb42eb1d264088be"

definition ATOKEN_SALT :: bytes32 where
  "ATOKEN_SALT = 0x41546f6b656e0000000000000000000000000000000000000000000000000000"

section \<open>Proxy\<close>

text \<open>The implementation slot \<open>not(0)\<close>: the address in the low 160 bits, the lock in the high 96.\<close>

definition IMPL_SLOT :: bytes32 where
  "IMPL_SLOT = NOT 0"

definition PROXY_LOCK :: bytes32 where
  "PROXY_LOCK = 0xca11c0de15dead10cced0000"

definition proxy_locked :: "bytes32 \<Rightarrow> bool" where
  "proxy_locked slot = (drop_bit 160 slot = PROXY_LOCK)"

definition getImplementationAddress :: "bytes32 \<Rightarrow> addr" where
  "getImplementationAddress slot = ucast (slot AND mask 160)"

definition lockImplementation :: "bytes32 \<Rightarrow> bytes32" where
  "lockImplementation slot =
     0xca11c0de15dead10cced00000000000000000000000000000000000000000000 OR slot"

definition unlockImplementation :: "bytes32 \<Rightarrow> bytes32" where
  "unlockImplementation slot = mask 160 AND slot"

definition set_slot :: "addr \<Rightarrow> bytes32 \<Rightarrow> chain \<Rightarrow> chain" where
  "set_slot a v ch =
     ch\<lparr>ch_storage := (ch_storage ch)(a := (ch_storage ch a)(IMPL_SLOT := v))\<rparr>"

text \<open>\<open>admin()\<close> of \<open>Proxy._fallback\<close>.\<close>

definition proxy_admin :: "addr \<Rightarrow> addr \<Rightarrow> chain \<Rightarrow> call_result" where
  "proxy_admin proxy newImpl ch =
     (if proxy_locked (ch_storage ch proxy IMPL_SLOT) then Inl Imploc
      else Inr ([], set_slot proxy (ucast newImpl) ch))"

text \<open>The value of a message call moves from the caller to the callee.\<close>

definition transfer :: "addr \<Rightarrow> addr \<Rightarrow> nat \<Rightarrow> chain \<Rightarrow> chain" where
  "transfer src dst val ch =
     (let b = (ch_balance ch)(src := ch_balance ch src - val)
      in ch\<lparr>ch_balance := b(dst := b dst + val)\<rparr>)"

text \<open>
  A message call to an account other than the factory: an account without code accepts it, a proxy
  of the factory runs its admin branch on \<open>ProxyAdmin\<close>, everything else is another contract's code
  (which also books the value).
\<close>

definition call_other :: "evm \<Rightarrow> addr \<Rightarrow> addr \<Rightarrow> nat \<Rightarrow> cdata \<Rightarrow> chain \<Rightarrow> call_result" where
  "call_other E self target val data ch =
     (case ch_code ch target of
        None \<Rightarrow> Inr ([], transfer self target val ch)
      | Some c \<Rightarrow>
          (case (c, data) of
             (ProxyCode f, ProxyAdmin newImpl) \<Rightarrow>
               (if f = self then proxy_admin target newImpl (transfer self target val ch)
                else ext_call E ch self target val data)
           | _ \<Rightarrow> ext_call E ch self target val data))"

section \<open>AliceNetFactory\<close>

definition getMetamorphicContractAddress :: "evm \<Rightarrow> bytes32 \<Rightarrow> addr \<Rightarrow> addr" where
  "getMetamorphicContractAddress E salt factory = create2_addr E factory salt METAMORPHIC_HASH"

definition set_fact :: "addr \<Rightarrow> (factory_store \<Rightarrow> factory_store) \<Rightarrow> chain \<Rightarrow> chain" where
  "set_fact self f ch = ch\<lparr>ch_fact := (ch_fact ch)(self := f (ch_fact ch self))\<rparr>"

definition bump_nonce :: "addr \<Rightarrow> chain \<Rightarrow> chain" where
  "bump_nonce a ch = ch\<lparr>ch_nonce := (ch_nonce ch)(a := ch_nonce ch a + 1)\<rparr>"

text \<open>
  A new account: code, nonce 1 and empty storage. Creation fails at an address that has code or a
  nonce.
\<close>

definition fresh_account :: "chain \<Rightarrow> addr \<Rightarrow> bool" where
  "fresh_account ch a = (ch_code ch a = None \<and> ch_nonce ch a = 0)"

definition new_account :: "addr \<Rightarrow> code \<Rightarrow> chain \<Rightarrow> chain" where
  "new_account a c ch =
     ch\<lparr>ch_code := (ch_code ch)(a \<mapsto> c), ch_nonce := (ch_nonce ch)(a := 1),
       ch_storage := (ch_storage ch)(a := (\<lambda>_. 0))\<rparr>"

definition deployCreate :: "evm \<Rightarrow> addr \<Rightarrow> bytecode \<Rightarrow> chain \<Rightarrow> call_result" where
  "deployCreate E self deployCode ch =
     (let a = create_addr E self (ch_nonce ch self); ch1 = bump_nonce self ch
      in if fresh_account ch1 a \<and> ctor_ok E ch1 a deployCode
         then Inr ([DeployedRaw self a], new_account a (LogicCode deployCode) ch1)
         else Inl CodeSizeZero)"

definition deployCreate2 :: "evm \<Rightarrow> addr \<Rightarrow> nat \<Rightarrow> bytes32 \<Rightarrow> bytecode \<Rightarrow> chain \<Rightarrow> call_result" where
  "deployCreate2 E self val salt deployCode ch =
     (let a = create2_addr E self salt (keccak E deployCode); ch1 = bump_nonce self ch
      in if fresh_account ch1 a \<and> ctor_ok E ch1 a deployCode \<and> val \<le> ch_balance ch self
         then Inr ([DeployedRaw self a],
                set_fact self (\<lambda>f. f\<lparr>fs_contracts := fs_contracts f @ [salt]\<rparr>)
                  (new_account a (LogicCode deployCode) (transfer self a val ch1)))
         else Inl CodeSizeZero)"

text \<open>
  The metamorphic init code asks its creator for the implementation and runs the code found there,
  which yields a proxy when it is the proxy template.
\<close>

definition deployProxy :: "evm \<Rightarrow> addr \<Rightarrow> bytes32 \<Rightarrow> chain \<Rightarrow> call_result" where
  "deployProxy E self salt ch =
     (let ch0 = set_fact self (\<lambda>f. f\<lparr>fs_implementation := fs_proxyTemplate f\<rparr>) ch;
          a = create2_addr E self salt (keccak E METAMORPHIC_CODE);
          ch1 = bump_nonce self ch0
      in if fresh_account ch1 a
            \<and> ch_code ch1 (fs_implementation (ch_fact ch1 self)) = Some ProxyTemplateCode
         then Inr ([DeployedProxy self a],
                set_fact self (\<lambda>f. f\<lparr>fs_contracts := fs_contracts f @ [salt]\<rparr>)
                  (new_account a (ProxyCode self) ch1))
         else Inl CodeSizeZero)"

definition read_impl :: "evm \<Rightarrow> addr \<Rightarrow> chain \<Rightarrow> addr option" where
  "read_impl E proxy ch =
     (case ch_code ch proxy of
        None \<Rightarrow> None
      | Some (ProxyCode _) \<Rightarrow> Some (getImplementationAddress (ch_storage ch proxy IMPL_SLOT))
      | Some _ \<Rightarrow> ext_impl E ch proxy)"

definition lookup :: "evm \<Rightarrow> addr \<Rightarrow> bytes32 \<Rightarrow> chain \<Rightarrow> addr" where
  "lookup E self salt ch =
     (if salt = ATOKEN_SALT then fs_aTokenAddress (ch_fact ch self)
      else (case fs_registry (ch_fact ch self) salt of
              Some a \<Rightarrow> a
            | None \<Rightarrow> getMetamorphicContractAddress E salt self))"

text \<open>\<open>onlyOwner\<close>\<close>

definition auth :: "addr \<Rightarrow> addr \<Rightarrow> chain \<Rightarrow> bool" where
  "auth self sender ch = (sender = self \<or> sender = fs_owner (ch_fact ch self))"

text \<open>The functions that accept value.\<close>

fun payable :: "cdata \<Rightarrow> bool" where
  "payable (CallAny _ _ _) = True"
| "payable (DelegateCallAny _ _) = True"
| "payable (DeployCreate2 _ _ _) = True"
| "payable _ = False"

text \<open>
  One message call to the factory. A call runs in the given state and either reverts or returns its
  logs and the new state; a revert anywhere in \<open>multiCall\<close> reverts all of it.
\<close>

function (sequential)
  factory_exec :: "evm \<Rightarrow> addr \<Rightarrow> addr \<Rightarrow> nat \<Rightarrow> cdata \<Rightarrow> chain \<Rightarrow> call_result"
  and factory_call :: "evm \<Rightarrow> addr \<Rightarrow> addr \<Rightarrow> cdata \<Rightarrow> chain \<Rightarrow> call_result"
  and callAny :: "evm \<Rightarrow> addr \<Rightarrow> addr \<Rightarrow> nat \<Rightarrow> cdata \<Rightarrow> chain \<Rightarrow> call_result"
  and initializeContract :: "evm \<Rightarrow> addr \<Rightarrow> addr \<Rightarrow> cdata \<Rightarrow> chain \<Rightarrow> call_result"
  and upgradeProxy :: "evm \<Rightarrow> addr \<Rightarrow> bytes32 \<Rightarrow> addr \<Rightarrow> cdata \<Rightarrow> chain \<Rightarrow> call_result"
  and multiCall :: "evm \<Rightarrow> addr \<Rightarrow> mcArgs list \<Rightarrow> chain \<Rightarrow> call_result"
where
  "factory_exec E self sender val data ch =
     (if val \<noteq> 0 \<and> \<not> payable data then Inl NonPayable
      else factory_call E self sender data ch)"
| "factory_call E self sender (DeployCreate c) ch =
     (if auth self sender ch then deployCreate E self c ch else Inl Unauthorized)"
| "factory_call E self sender (DeployCreate2 v salt c) ch =
     (if auth self sender ch then deployCreate2 E self v salt c ch else Inl Unauthorized)"
| "factory_call E self sender (DeployProxy salt) ch =
     (if auth self sender ch then deployProxy E self salt ch else Inl Unauthorized)"
| "factory_call E self sender (UpgradeProxy salt newImpl d) ch =
     (if auth self sender ch then upgradeProxy E self salt newImpl d ch else Inl Unauthorized)"
| "factory_call E self sender (InitializeContract c d) ch =
     (if auth self sender ch then initializeContract E self c d ch else Inl Unauthorized)"
| "factory_call E self sender (MultiCall cs) ch =
     (if auth self sender ch then multiCall E self cs ch else Inl Unauthorized)"
| "factory_call E self sender (CallAny t v d) ch =
     (if auth self sender ch then callAny E self t v d ch else Inl Unauthorized)"
| "factory_call E self sender (DelegateCallAny t d) ch =
     (if auth self sender ch then ext_delegate E ch self t d else Inl Unauthorized)"
| "factory_call E self sender (SetOwner a) ch =
     (if auth self sender ch then Inr ([], set_fact self (\<lambda>f. f\<lparr>fs_owner := a\<rparr>) ch)
      else Inl Unauthorized)"
| "factory_call E self sender (SetImplementation a) ch =
     (if auth self sender ch then Inr ([], set_fact self (\<lambda>f. f\<lparr>fs_implementation := a\<rparr>) ch)
      else Inl Unauthorized)"
| "factory_call E self sender (AddNewExternalContract salt a) ch =
     (if \<not> auth self sender ch then Inl Unauthorized
      else if fs_registry (ch_fact ch self) salt \<noteq> None then Inl SaltAlreadyInUse
      else Inr ([], set_fact self (\<lambda>f. f\<lparr>fs_registry := (fs_registry f)(salt \<mapsto> a)\<rparr>) ch))"
| "factory_call E self sender _ ch = Inr ([], ch)"
| "callAny E self t v d ch =
     (if ch_balance ch self < v then Inl InsufficientBalance
      else if t = self then factory_exec E self self v d ch
      else call_other E self t v d ch)"
| "initializeContract E self c d ch =
     (if d = NoData then Inr ([], ch) else callAny E self c 0 d ch)"
| "upgradeProxy E self salt newImpl d ch =
     (let proxy = getMetamorphicContractAddress E salt self
      in case call_other E self proxy 0 (ProxyAdmin newImpl) ch of
           Inl r \<Rightarrow> Inl r
         | Inr (es, ch1) \<Rightarrow>
             (case read_impl E proxy ch1 of
                None \<Rightarrow> Inl NoCode
              | Some i \<Rightarrow>
                  (if i \<noteq> newImpl then Inl AssertFailed
                   else (case initializeContract E self proxy d ch1 of
                           Inl r \<Rightarrow> Inl r
                         | Inr (es', ch2) \<Rightarrow> Inr (es @ es', ch2)))))"
| "multiCall E self [] ch = Inr ([], ch)"
| "multiCall E self (MCArgs t v d # cs) ch =
     (case callAny E self t v d ch of
        Inl r \<Rightarrow> Inl r
      | Inr (es, ch1) \<Rightarrow>
          (case multiCall E self cs ch1 of
             Inl r \<Rightarrow> Inl r
           | Inr (es', ch2) \<Rightarrow> Inr (es @ es', ch2)))"
  by pat_completeness auto
termination
  by (relation "measure (\<lambda>x. case x of
        Inl (Inl (_, _, _, _, d, _)) \<Rightarrow> 6 * size d + 1
      | Inl (Inr (Inl (_, _, _, d, _))) \<Rightarrow> 6 * size d
      | Inl (Inr (Inr (_, _, _, _, d, _))) \<Rightarrow> 6 * size d + 2
      | Inr (Inl (_, _, _, d, _)) \<Rightarrow> 6 * size d + 3
      | Inr (Inr (Inl (_, _, _, _, d, _))) \<Rightarrow> 6 * size d + 4
      | Inr (Inr (Inr (_, _, cs, _))) \<Rightarrow> 6 * size_list size cs)") auto

text \<open>
  The constructor, run by a creation transaction of an account: the template is the first contract
  the factory creates (nonce 1), AToken the second.
\<close>

definition factory_constructor :: "evm \<Rightarrow> addr \<Rightarrow> addr \<Rightarrow> addr \<Rightarrow> chain \<Rightarrow> revert + chain" where
  "factory_constructor E self sender legacyToken ch =
     (let addr = create_addr E self (ch_nonce ch self);
          ch1 = bump_nonce self ch;
          creationCode = aToken_creation E legacyToken;
          aToken = create2_addr E self ATOKEN_SALT (keccak E creationCode);
          ch2 = bump_nonce self (new_account addr ProxyTemplateCode ch1)
      in if \<not> fresh_account ch1 addr then Inl (ExternalRevert [])
         else if \<not> fresh_account ch2 aToken \<or> \<not> ctor_ok E ch2 aToken creationCode then Inl CodeSizeZero
         else Inr (set_fact self
                (\<lambda>_. \<lparr>fs_owner = sender, fs_contracts = [], fs_implementation = 0,
                  fs_registry = (\<lambda>_. None), fs_proxyTemplate = addr, fs_aTokenAddress = aToken\<rparr>)
                (new_account aToken (LogicCode creationCode) ch2)))"

definition create_factory :: "evm \<Rightarrow> addr \<Rightarrow> addr \<Rightarrow> chain \<Rightarrow> revert + (addr \<times> chain)" where
  "create_factory E sender legacyToken ch =
     (let self = create_addr E sender (ch_nonce ch sender); ch1 = bump_nonce sender ch
      in if \<not> fresh_account ch1 self then Inl (ExternalRevert [])
         else (case factory_constructor E self sender legacyToken (new_account self FactoryCode ch1) of
                 Inl r \<Rightarrow> Inl r
               | Inr ch2 \<Rightarrow> Inr (self, ch2)))"

section \<open>Lemmas\<close>

subsection \<open>The implementation slot\<close>

lemma getImplementationAddress_ucast [simp]: "getImplementationAddress (ucast a) = a"
  unfolding getImplementationAddress_def
  by (rule bit_word_eqI) (simp add: bit_simps)

lemma proxy_locked_ucast [simp]: "\<not> proxy_locked (ucast (a :: addr))"
proof
  assume "proxy_locked (ucast a)"
  then have "bit (drop_bit 160 (ucast a :: bytes32)) 95 = bit PROXY_LOCK 95"
    by (simp add: proxy_locked_def)
  then have "bit a 255" by (simp add: bit_simps PROXY_LOCK_def)
  then show False by (auto dest: bit_imp_le_length)
qed

lemma proxy_locked_zero [simp]: "\<not> proxy_locked 0"
  by (simp add: proxy_locked_def PROXY_LOCK_def)

lemma lockImplementation_push: "lockImplementation slot = push_bit 160 PROXY_LOCK OR slot"
  by (simp add: lockImplementation_def PROXY_LOCK_def push_bit_eq_mult)

lemma lock_keeps_address:
  "getImplementationAddress (lockImplementation slot) = getImplementationAddress slot"
  unfolding getImplementationAddress_def lockImplementation_push
  by (rule bit_word_eqI) (auto simp: bit_simps)

lemma lock_locks:
  assumes "drop_bit 160 slot = 0"
  shows "proxy_locked (lockImplementation slot)"
proof -
  have "drop_bit 160 (push_bit 160 PROXY_LOCK) = PROXY_LOCK"
    by (simp add: PROXY_LOCK_def push_bit_eq_mult drop_bit_eq_div)
  then show ?thesis
    using assms by (simp add: proxy_locked_def lockImplementation_push drop_bit_or)
qed

lemma drop_bit_ucast_addr [simp]: "drop_bit 160 (ucast (a :: addr) :: bytes32) = 0"
  by (rule bit_word_eqI) (auto simp: bit_simps dest: bit_imp_le_length)

lemma unlock_unlocks: "\<not> proxy_locked (unlockImplementation slot)"
proof -
  have "drop_bit 160 (mask 160 AND slot) = 0"
    by (rule bit_word_eqI) (simp add: bit_simps)
  then show ?thesis
    by (simp add: proxy_locked_def unlockImplementation_def PROXY_LOCK_def)
qed

subsection \<open>State updates\<close>

lemma ch_simps [simp]:
  "ch_code (set_slot a v ch) = ch_code ch"
  "ch_nonce (set_slot a v ch) = ch_nonce ch"
  "ch_fact (set_slot a v ch) = ch_fact ch"
  "ch_balance (set_slot a v ch) = ch_balance ch"
  "ch_code (set_fact a f ch) = ch_code ch"
  "ch_nonce (set_fact a f ch) = ch_nonce ch"
  "ch_storage (set_fact a f ch) = ch_storage ch"
  "ch_balance (set_fact a f ch) = ch_balance ch"
  "ch_fact (set_fact a f ch) = (ch_fact ch)(a := f (ch_fact ch a))"
  "ch_code (bump_nonce a ch) = ch_code ch"
  "ch_nonce (bump_nonce a ch) = (ch_nonce ch)(a := ch_nonce ch a + 1)"
  "ch_storage (bump_nonce a ch) = ch_storage ch"
  "ch_balance (bump_nonce a ch) = ch_balance ch"
  "ch_fact (bump_nonce a ch) = ch_fact ch"
  "ch_code (new_account a c ch) = (ch_code ch)(a \<mapsto> c)"
  "ch_nonce (new_account a c ch) = (ch_nonce ch)(a := 1)"
  "ch_storage (new_account a c ch) = (ch_storage ch)(a := (\<lambda>_. 0))"
  "ch_balance (new_account a c ch) = ch_balance ch"
  "ch_fact (new_account a c ch) = ch_fact ch"
  by (simp_all add: set_slot_def set_fact_def bump_nonce_def new_account_def)

lemma slot_set_slot [simp]:
  "ch_storage (set_slot a v ch) b s =
     (if b = a \<and> s = IMPL_SLOT then v else ch_storage ch b s)"
  by (simp add: set_slot_def)

lemma transfer_zero [simp]: "transfer src dst 0 ch = ch"
  by (simp add: transfer_def Let_def)

lemma ch_transfer [simp]:
  "ch_code (transfer s d v ch) = ch_code ch"
  "ch_nonce (transfer s d v ch) = ch_nonce ch"
  "ch_storage (transfer s d v ch) = ch_storage ch"
  "ch_fact (transfer s d v ch) = ch_fact ch"
  by (simp_all add: transfer_def Let_def)

declare factory_exec.simps [evm_simps] factory_call.simps [evm_simps] callAny.simps [evm_simps]
  initializeContract.simps [evm_simps] multiCall.simps [evm_simps]

declare factory_exec.simps [simp del] factory_call.simps [simp del] callAny.simps [simp del]
  initializeContract.simps [simp del] upgradeProxy.simps [simp del] multiCall.simps [simp del]

lemma deployCreate_Inr:
  "deployCreate E self c ch = Inr (es, ch') \<Longrightarrow>
     (let a = create_addr E self (ch_nonce ch self) in
        es = [DeployedRaw self a]
        \<and> ch' = new_account a (LogicCode c) (bump_nonce self ch)
        \<and> fresh_account (bump_nonce self ch) a)"
  by (auto simp: deployCreate_def Let_def split: if_splits)

lemma fresh_not_self: "fresh_account (bump_nonce self ch) a \<Longrightarrow> a \<noteq> self"
  by (auto simp: fresh_account_def)

lemma deployProxy_Inr:
  assumes "deployProxy E self salt ch = Inr (es, ch')"
  defines "p \<equiv> create2_addr E self salt (keccak E METAMORPHIC_CODE)"
  shows "es = [DeployedProxy self p]"
    and "ch_code ch p = None" and "p \<noteq> self"
    and "ch_code ch' = (ch_code ch)(p \<mapsto> ProxyCode self)"
    and "ch_storage ch' = (ch_storage ch)(p := (\<lambda>_. 0))"
    and "ch_nonce ch' = (ch_nonce ch)(self := ch_nonce ch self + 1, p := 1)"
    and "ch_fact ch' self = (ch_fact ch self)\<lparr>fs_implementation := fs_proxyTemplate (ch_fact ch self),
           fs_contracts := fs_contracts (ch_fact ch self) @ [salt]\<rparr>"
    and "ch_balance ch' = ch_balance ch"
  using assms(1) unfolding p_def
  by (auto simp: deployProxy_def Let_def fresh_account_def split: if_splits)

text \<open>The factory points an unlocked proxy of its own at the new implementation.\<close>

lemma upgradeProxy_own:
  assumes "ch_code ch (getMetamorphicContractAddress E salt self) = Some (ProxyCode self)"
    and "\<not> proxy_locked (ch_storage ch (getMetamorphicContractAddress E salt self) IMPL_SLOT)"
  shows "upgradeProxy E self salt newImpl d ch =
    initializeContract E self (getMetamorphicContractAddress E salt self) d
      (set_slot (getMetamorphicContractAddress E salt self) (ucast newImpl) ch)"
  using assms
  by (auto simp: upgradeProxy.simps Let_def call_other_def proxy_admin_def read_impl_def
      split: sum.splits)

lemma upgradeProxy_locked:
  assumes "ch_code ch (getMetamorphicContractAddress E salt self) = Some (ProxyCode self)"
    and "proxy_locked (ch_storage ch (getMetamorphicContractAddress E salt self) IMPL_SLOT)"
  shows "upgradeProxy E self salt newImpl d ch = Inl Imploc"
  using assms by (auto simp: upgradeProxy.simps call_other_def proxy_admin_def)

lemma upgradeProxy_no_code:
  assumes "ch_code ch (getMetamorphicContractAddress E salt self) = None"
  shows "upgradeProxy E self salt newImpl d ch = Inl NoCode"
  using assms by (auto simp: upgradeProxy.simps call_other_def read_impl_def)

lemma callAny_self [evm_simps]:
  "callAny E self self 0 d ch = factory_call E self self d ch"
  by (simp add: callAny.simps factory_exec.simps)

lemma auth_self [simp]: "auth self self ch"
  by (simp add: auth_def)

lemma multiCall_self_Cons:
  "multiCall E self (MCArgs self 0 d # cs) ch =
     (case factory_call E self self d ch of
        Inl r \<Rightarrow> Inl r
      | Inr (es, ch1) \<Rightarrow>
          (case multiCall E self cs ch1 of Inl r \<Rightarrow> Inl r | Inr (es', ch2) \<Rightarrow> Inr (es @ es', ch2)))"
  by (simp add: multiCall.simps callAny_self)

text \<open>
  The three calls the scripts send for an upgradeable contract, in order: create the logic
  contract, create the proxy, point the proxy at the address the logic contract was predicted to
  get. When the transaction succeeds, the initialiser ran in a state where the logic contract and
  the proxy exist and the proxy forwards to the logic contract.
\<close>

definition upgradeable_ready :: "evm \<Rightarrow> addr \<Rightarrow> bytecode \<Rightarrow> bytes32 \<Rightarrow> chain \<Rightarrow> chain \<Rightarrow> bool" where
  "upgradeable_ready E self c salt ch ch' =
     (let a = create_addr E self (ch_nonce ch self);
          p = getMetamorphicContractAddress E salt self
      in ch_code ch' = (ch_code ch)(a \<mapsto> LogicCode c, p \<mapsto> ProxyCode self)
         \<and> ch_code ch a = None \<and> ch_code ch p = None \<and> a \<noteq> p
         \<and> ch_storage ch' p IMPL_SLOT = ucast a
         \<and> ch_nonce ch' self = ch_nonce ch self + 2
         \<and> ch_fact ch' self = (ch_fact ch self)\<lparr>
             fs_implementation := fs_proxyTemplate (ch_fact ch self),
             fs_contracts := fs_contracts (ch_fact ch self) @ [salt]\<rparr>)"

lemma multiCall_deploy_upgradeable:
  assumes hash: "keccak E METAMORPHIC_CODE = METAMORPHIC_HASH"
    and run: "multiCall E self
       [MCArgs self 0 (DeployCreate c), MCArgs self 0 (DeployProxy salt),
        MCArgs self 0 (UpgradeProxy salt (create_addr E self (ch_nonce ch self)) d)] ch = Inr (es, ch')"
  shows "\<exists>es0 ch3. upgradeable_ready E self c salt ch ch3
    \<and> initializeContract E self (getMetamorphicContractAddress E salt self) d ch3 = Inr (es0, ch')
    \<and> es = DeployedRaw self (create_addr E self (ch_nonce ch self))
            # DeployedProxy self (getMetamorphicContractAddress E salt self) # es0"
proof -
  define a where "a = create_addr E self (ch_nonce ch self)"
  define p where "p = getMetamorphicContractAddress E salt self"
  have p_eq: "create2_addr E self salt (keccak E METAMORPHIC_CODE) = p"
    by (simp add: p_def getMetamorphicContractAddress_def hash)
  from run obtain es1 ch1 es2 ch2 es3 where
    r1: "deployCreate E self c ch = Inr (es1, ch1)" and
    r2: "deployProxy E self salt ch1 = Inr (es2, ch2)" and
    r3: "upgradeProxy E self salt a d ch2 = Inr (es3, ch')" and es: "es = es1 @ es2 @ es3"
    by (auto simp: multiCall_self_Cons multiCall.simps(1) factory_call.simps a_def split: sum.splits)
  from deployCreate_Inr [OF r1] have
    c1: "es1 = [DeployedRaw self a]" "ch1 = new_account a (LogicCode c) (bump_nonce self ch)"
    "fresh_account (bump_nonce self ch) a"
    by (simp_all add: Let_def a_def)
  note c2 = deployProxy_Inr [OF r2, unfolded p_eq]
  from c1(3) have a_self: "a \<noteq> self" by (rule fresh_not_self)
  from c2(2) have a_p: "p \<noteq> a" and p_none: "ch_code ch p = None"
    by (auto simp: c1(2) split: if_splits)
  have r3': "initializeContract E self p d (set_slot p (ucast a) ch2) = Inr (es3, ch')"
    using r3 upgradeProxy_own [of ch2 E salt self a d] c2 by (simp add: p_def)
  have "upgradeable_ready E self c salt ch (set_slot p (ucast a) ch2)"
    using c1(3) c2 a_self a_p p_none
    by (auto simp: upgradeable_ready_def Let_def a_def [symmetric] p_def [symmetric] c1(2)
        fresh_account_def fun_eq_iff)
  with r3' c1(1) c2(1) es show ?thesis
    by (auto simp: a_def p_def)
qed

text \<open>
  The last two of these calls on their own: a proxy is created and pointed at a logic contract that
  exists already.
\<close>

definition proxy_ready :: "evm \<Rightarrow> addr \<Rightarrow> bytes32 \<Rightarrow> addr \<Rightarrow> chain \<Rightarrow> chain \<Rightarrow> bool" where
  "proxy_ready E self salt a ch ch' =
     (let p = getMetamorphicContractAddress E salt self
      in ch_code ch p = None \<and> ch_code ch' = (ch_code ch)(p \<mapsto> ProxyCode self)
         \<and> ch_storage ch' p IMPL_SLOT = ucast a
         \<and> ch_nonce ch' self = ch_nonce ch self + 1
         \<and> ch_fact ch' self = (ch_fact ch self)\<lparr>
             fs_implementation := fs_proxyTemplate (ch_fact ch self),
             fs_contracts := fs_contracts (ch_fact ch self) @ [salt]\<rparr>)"

lemma multiCall_deploy_proxy:
  assumes hash: "keccak E METAMORPHIC_CODE = METAMORPHIC_HASH"
    and run: "multiCall E self [MCArgs self 0 (DeployProxy salt), MCArgs self 0 (UpgradeProxy salt a d)] ch
      = Inr (es, ch')"
  shows "\<exists>es0 ch3. proxy_ready E self salt a ch ch3
    \<and> initializeContract E self (getMetamorphicContractAddress E salt self) d ch3 = Inr (es0, ch')
    \<and> es = DeployedProxy self (getMetamorphicContractAddress E salt self) # es0"
proof -
  define p where "p = getMetamorphicContractAddress E salt self"
  have p_eq: "create2_addr E self salt (keccak E METAMORPHIC_CODE) = p"
    by (simp add: p_def getMetamorphicContractAddress_def hash)
  from run obtain es2 ch2 es3 where
    r2: "deployProxy E self salt ch = Inr (es2, ch2)" and
    r3: "upgradeProxy E self salt a d ch2 = Inr (es3, ch')" and es: "es = es2 @ es3"
    by (auto simp: multiCall_self_Cons multiCall.simps(1) factory_call.simps split: sum.splits)
  note c2 = deployProxy_Inr [OF r2, unfolded p_eq]
  have "initializeContract E self p d (set_slot p (ucast a) ch2) = Inr (es3, ch')"
    using r3 upgradeProxy_own [of ch2 E salt self a d] c2 by (simp add: p_def)
  moreover have "proxy_ready E self salt a ch (set_slot p (ucast a) ch2)"
    using c2 by (auto simp: proxy_ready_def Let_def p_def [symmetric])
  ultimately show ?thesis using c2(1) es by (auto simp: p_def)
qed

lemma initializeContract_NoData [simp]: "initializeContract E self c NoData ch = Inr ([], ch)"
  by (simp add: initializeContract.simps)

text \<open>A caller that is neither the owner nor the factory itself changes nothing.\<close>

lemma factory_exec_stranger:
  assumes "\<not> auth self sender ch" and "factory_exec E self sender val d ch = Inr (es, ch')"
  shows "es = [] \<and> ch' = ch"
  using assms by (cases d) (auto simp: evm_simps split: if_splits)

end
