(* ===== verification/Js_World.thy ===== *)
theory Js_World
  imports Evm_Chain
begin

text \<open>
  The world the scripts act on and the way they act on it. A script is a function from a world to a
  result (a value or a thrown error) and the world it leaves behind: what it did before it threw
  stays done. The world holds the file system, the chain, the log of the transactions sent and the
  confirmations waited for, and the console. Everything the scripts call but do not define
  (hardhat's artifacts and tasks, ethers, the TOML and JSON libraries, the provider) is a field of
  the record \<open>hre\<close>.
\<close>

named_theorems world_simps \<open>rewrite rules that run scripts\<close>

section \<open>Errors\<close>

text \<open>
  \<open>TypeErr\<close> is a JavaScript \<open>TypeError\<close>, \<open>Err\<close> an \<open>Error\<close> the sources throw, \<open>FsErr\<close> an error of \<open>fs\<close>,
  \<open>LibErr\<close> an error of a library and \<open>TxReverted\<close> the rejection of a transaction that would revert.
\<close>

datatype js_error =
    TypeErr string
  | Err string
  | FsErr string
  | LibErr string
  | TxReverted revert

fun js_error_text :: "js_error \<Rightarrow> string" where
  "js_error_text (TypeErr m) = ''TypeError: '' @ m"
| "js_error_text (Err m) = ''Error: '' @ m"
| "js_error_text (FsErr m) = ''Error: '' @ m"
| "js_error_text (LibErr m) = ''Error: '' @ m"
| "js_error_text (TxReverted r) = ''Error: transaction reverted''"

section \<open>The file system\<close>

text \<open>
  A path is the list of its non-empty components, with a leading \<open>/\<close> when it is absolute. Dot
  components are kept as they are written. The empty list is the working directory as the parent of
  relative paths; as a path of its own it is the empty string, which names no file.
\<close>

datatype node = Dir | File string

type_synonym path = "string list"

definition fs_path :: "string \<Rightarrow> path" where
  "fs_path s =
     (if js_startsWith s ''/'' then [''/''] else []) @ filter (\<lambda>c. c \<noteq> []) (js_split CHR ''/'' s)"

type_synonym file_system = "path \<Rightarrow> node option"

text \<open>The working directory exists, and everything that exists lies in a directory.\<close>

definition is_dir :: "file_system \<Rightarrow> path \<Rightarrow> bool" where
  "is_dir fs p = (p = [] \<or> fs p = Some Dir)"

definition wf_fs :: "file_system \<Rightarrow> bool" where
  "wf_fs fs = (\<forall>p. fs p \<noteq> None \<longrightarrow> p \<noteq> [] \<and> is_dir fs (butlast p))"

section \<open>The world\<close>

record gas_fees =
  maxPriorityFeePerGas :: nat
  maxFeePerGas :: nat

text \<open>What a transaction does, and what the log records of it.\<close>

datatype payload =
    CallTx addr cdata
  | CreateFactoryTx addr
  | CreateTx string "jsval list"
  | SendTx addr addr nat
  | CallValueTx addr nat cdata

datatype action =
    Sent payload "gas_fees option"
  | Waited "nat option"
  | Rpc string "jsval list"
  | Post string jsval
  | Spawn string "string list"
  | Kill nat

record world =
  w_fs :: file_system
  w_chain :: chain
  w_log :: "action list"
  w_console :: "string list"

type_synonym 'a js = "world \<Rightarrow> (js_error + 'a) \<times> world"

section \<open>Sequencing\<close>

definition ret :: "'a \<Rightarrow> 'a js" where
  "ret a w = (Inr a, w)"

definition throw :: "js_error \<Rightarrow> 'a js" where
  "throw e w = (Inl e, w)"

definition bnd :: "'a js \<Rightarrow> ('a \<Rightarrow> 'b js) \<Rightarrow> 'b js" where
  "bnd m f w = (case m w of (Inl e, w') \<Rightarrow> (Inl e, w') | (Inr a, w') \<Rightarrow> f a w')"

definition andThen :: "'a js \<Rightarrow> 'b js \<Rightarrow> 'b js" where
  "andThen m n = bnd m (\<lambda>_. n)"

text \<open>\<open>try { m } catch (e) { h(e) }\<close>\<close>

definition tryCatch :: "'a js \<Rightarrow> (js_error \<Rightarrow> 'a js) \<Rightarrow> 'a js" where
  "tryCatch m h w = (case m w of (Inl e, w') \<Rightarrow> h e w' | (Inr a, w') \<Rightarrow> (Inr a, w'))"

definition fromSum :: "js_error + 'a \<Rightarrow> 'a js" where
  "fromSum r w = (r, w)"

text \<open>A property read that throws on \<open>undefined\<close>.\<close>

definition orTypeError :: "string \<Rightarrow> 'a option \<Rightarrow> 'a js" where
  "orTypeError msg r = (case r of None \<Rightarrow> throw (TypeErr msg) | Some a \<Rightarrow> ret a)"

text \<open>
  \<open>o[k] = v\<close>: the object with the property set. Arrays show only their elements here.
\<close>

fun js_set :: "jsval \<Rightarrow> string \<Rightarrow> jsval \<Rightarrow> js_error + jsval" where
  "js_set (JObj ps) k v = Inr (JObj (obj_put k v ps))"
| "js_set (JArr vs) k v = Inr (JArr vs)"
| "js_set JFun k v = Inr JFun"
| "js_set _ k v = Inl (TypeErr ''Cannot set properties of undefined'')"

text \<open>Loops over arrays: without a result, with an accumulator.\<close>

fun forEach :: "'a list \<Rightarrow> ('a \<Rightarrow> unit js) \<Rightarrow> unit js" where
  "forEach [] f = ret ()"
| "forEach (x # xs) f = andThen (f x) (forEach xs f)"

fun foldJs :: "('b \<Rightarrow> 'a \<Rightarrow> 'b js) \<Rightarrow> 'b \<Rightarrow> 'a list \<Rightarrow> 'b js" where
  "foldJs f b [] = ret b"
| "foldJs f b (x # xs) = bnd (f b x) (\<lambda>b'. foldJs f b' xs)"

definition getW :: "(world \<Rightarrow> 'a) \<Rightarrow> 'a js" where
  "getW f w = (Inr (f w), w)"

definition modW :: "(world \<Rightarrow> world) \<Rightarrow> unit js" where
  "modW f w = (Inr (), f w)"

lemma ret_run [world_simps]: "ret a w = (Inr a, w)"
  by (simp add: ret_def)

lemma throw_run [world_simps]: "throw e w = (Inl e, w)"
  by (simp add: throw_def)

lemma fromSum_run [world_simps]: "fromSum r w = (r, w)"
  by (simp add: fromSum_def)

lemma getW_run [world_simps]: "getW f w = (Inr (f w), w)"
  by (simp add: getW_def)

lemma modW_run [world_simps]: "modW f w = (Inr (), f w)"
  by (simp add: modW_def)

lemma bnd_Inr [world_simps]: "m w = (Inr a, w') \<Longrightarrow> bnd m f w = f a w'"
  by (simp add: bnd_def)

lemma bnd_Inl [world_simps]: "m w = (Inl e, w') \<Longrightarrow> bnd m f w = (Inl e, w')"
  by (simp add: bnd_def)

lemma andThen_Inr [world_simps]: "m w = (Inr a, w') \<Longrightarrow> andThen m n w = n w'"
  by (simp add: andThen_def bnd_def)

lemma andThen_Inl [world_simps]: "m w = (Inl e, w') \<Longrightarrow> andThen m n w = (Inl e, w')"
  by (simp add: andThen_def bnd_def)

lemma orTypeError_run [world_simps]:
  "orTypeError msg (Some a) w = (Inr a, w)"
  "orTypeError msg None w = (Inl (TypeErr msg), w)"
  by (simp_all add: orTypeError_def world_simps)

lemma bnd_ret [simp]: "bnd (ret a) f = f a"
  by (simp add: bnd_def ret_def fun_eq_iff)

lemma bnd_throw [simp]: "bnd (throw e) f = throw e"
  by (simp add: bnd_def throw_def fun_eq_iff)

lemma bnd_assoc: "bnd (bnd m f) g = bnd m (\<lambda>a. bnd (f a) g)"
  by (auto simp: bnd_def fun_eq_iff split: prod.split sum.split)

lemma bnd_InrE:
  assumes "bnd m f w = (Inr b, w'')"
  obtains a w' where "m w = (Inr a, w')" and "f a w' = (Inr b, w'')"
  using assms by (auto simp: bnd_def split: prod.splits sum.splits)

lemma andThen_InrE:
  assumes "andThen m n w = (Inr b, w'')"
  obtains a w' where "m w = (Inr a, w')" and "n w' = (Inr b, w'')"
  using assms unfolding andThen_def by (rule bnd_InrE)

lemma fromSum_InrE: "fromSum r w = (Inr a, w') \<Longrightarrow> (r = Inr a \<Longrightarrow> w' = w \<Longrightarrow> P) \<Longrightarrow> P"
  by (simp add: fromSum_def)

lemma orTypeError_InrE:
  "orTypeError msg r w = (Inr a, w') \<Longrightarrow> (r = Some a \<Longrightarrow> w' = w \<Longrightarrow> P) \<Longrightarrow> P"
  by (auto simp: orTypeError_def world_simps split: option.splits)

lemma foldJs_append:
  "foldJs f b (xs @ ys) = bnd (foldJs f b xs) (\<lambda>b'. foldJs f b' ys)"
  by (induction xs arbitrary: b) (simp_all add: bnd_assoc)

section \<open>Node's file functions and the console\<close>

definition existsSync :: "string \<Rightarrow> bool js" where
  "existsSync p = getW (\<lambda>w. fs_path p \<noteq> [] \<and> w_fs w (fs_path p) \<noteq> None)"

definition readFileSync :: "string \<Rightarrow> string js" where
  "readFileSync p w =
     (if fs_path p = [] then (Inl (FsErr ''ENOENT''), w)
      else (case w_fs w (fs_path p) of
              None \<Rightarrow> (Inl (FsErr ''ENOENT''), w)
            | Some Dir \<Rightarrow> (Inl (FsErr ''EISDIR''), w)
            | Some (File s) \<Rightarrow> (Inr s, w)))"

definition writeFileSync :: "string \<Rightarrow> string \<Rightarrow> unit js" where
  "writeFileSync p s w =
     (if fs_path p = [] then (Inl (FsErr ''ENOENT''), w)
      else if is_dir (w_fs w) (fs_path p) then (Inl (FsErr ''EISDIR''), w)
      else if \<not> is_dir (w_fs w) (butlast (fs_path p)) then (Inl (FsErr ''ENOENT''), w)
      else (Inr (), w\<lparr>w_fs := (w_fs w)(fs_path p \<mapsto> File s)\<rparr>))"

definition mkdirSync :: "string \<Rightarrow> unit js" where
  "mkdirSync p w =
     (if fs_path p = [] then (Inl (FsErr ''ENOENT''), w)
      else if w_fs w (fs_path p) \<noteq> None then (Inl (FsErr ''EEXIST''), w)
      else if \<not> is_dir (w_fs w) (butlast (fs_path p)) then (Inl (FsErr ''ENOENT''), w)
      else (Inr (), w\<lparr>w_fs := (w_fs w)(fs_path p \<mapsto> Dir)\<rparr>))"

text \<open>\<open>fs.statSync(p).isFile()\<close>\<close>

definition statIsFile :: "string \<Rightarrow> bool js" where
  "statIsFile p w =
     (if fs_path p = [] then (Inl (FsErr ''ENOENT''), w)
      else (case w_fs w (fs_path p) of
              None \<Rightarrow> (Inl (FsErr ''ENOENT''), w)
            | Some n \<Rightarrow> (Inr (n \<noteq> Dir), w)))"

definition consoleLog :: "string \<Rightarrow> unit js" where
  "consoleLog s = modW (\<lambda>w. w\<lparr>w_console := w_console w @ [s]\<rparr>)"

section \<open>The runtime environment\<close>

text \<open>
  The compiler's output for one contract, and \<open>buildInfo.output.contracts\<close> as a function of the source
  path and the contract name.
\<close>

record abi_input =
  in_name :: string
  in_type :: string

record abi_item =
  ai_type :: string
  ai_name :: "string option"
  ai_inputs :: "abi_input list option"

record contract_output =
  co_abi :: "abi_item list"
  co_devdoc :: "string \<Rightarrow> string option"

type_synonym build_info = "string \<Rightarrow> (string \<Rightarrow> contract_output option) option"

text \<open>
  \<open>hre\<close> gathers what the scripts get from hardhat, ethers, the TOML and JSON libraries, the provider and
  the process environment:
  \<^item> \<open>deploy_data H c args\<close> is \<open>getContractFactory(c).getDeployTransaction(...args).data\<close>;
  \<^item> \<open>encode_call H c f args\<close> is \<open>getContractFactory(c).interface.encodeFunctionData(f, args)\<close>;
  \<^item> \<open>verify_task H a args\<close> is the error the task \<open>verify\<close> of the Etherscan plugin throws, if any;
  \<^item> \<open>gas_used\<close> and \<open>estimate_gas\<close> are the provider's figures for a transaction in a chain state;
  \<^item> \<open>json_stringify H n v\<close> is \<open>JSON.stringify(v, null, n)\<close>;
  \<^item> \<open>encode_iface H s f args\<close> is \<open>new Interface([s]).encodeFunctionData(f, args)\<close>;
  \<^item> \<open>call_static H ch a c f args\<close> is the result of the view function \<open>f\<close> of the contract \<open>c\<close> at \<open>a\<close>;
  \<^item> \<open>tx_fee\<close> is what the sender of a transaction pays for its gas;
  \<^item> \<open>rpc_error H m ps\<close> is the error the node answers a JSON-RPC request with, if any;
  \<^item> \<open>http_post H log url body\<close> is the answer (status, data) of a web service, which may depend on when
    it is asked, that is on what happened before;
  \<^item> \<open>mined_in H ch t\<close> is the number of blocks that are mined while a script sleeps for \<open>t\<close> milliseconds;
  \<^item> \<open>random_bits H log i\<close> are the 53 bits of \<open>Math.random()\<close>;
  \<^item> \<open>read_dir H fs p\<close> is \<open>fs.readdirSync\<close> of a folder, in the order of the operating system;
  \<^item> \<open>decode_log H sig a ts\<close> is \<open>new Interface([sig]).decodeEventLog\<close> of a log of \<open>a\<close> with the topics \<open>ts\<close>;
  \<^item> \<open>exec_error H cmd\<close> is the error a shell command ends with, if any;
  \<^item> \<open>inspect H v\<close> is the text \<open>console.log\<close> prints for a value;
  \<^item> \<open>addr_hex\<close>, \<open>bytes32_hex\<close> and \<open>cdata_hex\<close> are the textual forms of addresses and byte strings.
\<close>

record hre =
  hre_evm :: evm
  network_name :: string
  chain_id :: nat
  signers :: "addr list"
  silencer :: "string option"
  eth_gasPrice :: "chain \<Rightarrow> nat"
  eth_maxPriorityFeePerGas :: "chain \<Rightarrow> nat"
  gas_used :: "chain \<Rightarrow> payload \<Rightarrow> nat"
  estimate_gas :: "chain \<Rightarrow> payload \<Rightarrow> js_error + nat"
  allFullyQualifiedNames :: "string list"
  read_artifact :: "string \<Rightarrow> string option"
  build_info_of :: "string \<Rightarrow> build_info option"
  deploy_data :: "string \<Rightarrow> jsval list \<Rightarrow> js_error + bytecode option"
  encode_call :: "string \<Rightarrow> string \<Rightarrow> jsval list \<Rightarrow> js_error + cdata"
  formatBytes32String :: "string \<Rightarrow> js_error + bytes32"
  parseBytes32String :: "bytes32 \<Rightarrow> js_error + string"
  keccak256_hex :: "string \<Rightarrow> string"
  addr_hex :: "addr \<Rightarrow> string"
  bytes32_hex :: "bytes32 \<Rightarrow> string"
  cdata_hex :: "cdata \<Rightarrow> string"
  to_address :: "jsval \<Rightarrow> addr option"
  toml_parse :: "string \<Rightarrow> js_error + jsval"
  toml_stringify :: "jsval \<Rightarrow> js_error + string"
  json_parse :: "string \<Rightarrow> js_error + jsval"
  json_stringify :: "nat \<Rightarrow> jsval \<Rightarrow> string"
  event_topic :: "string \<Rightarrow> bytes32"
  bignumber_json :: "int \<Rightarrow> js_object"
  verify_task :: "addr \<Rightarrow> jsval list \<Rightarrow> js_error option"
  encode_iface :: "string \<Rightarrow> string \<Rightarrow> jsval list \<Rightarrow> js_error + cdata"
  call_static :: "chain \<Rightarrow> addr \<Rightarrow> string \<Rightarrow> string \<Rightarrow> jsval list \<Rightarrow> js_error + jsval"
  tx_fee :: "chain \<Rightarrow> payload \<Rightarrow> nat"
  rpc_error :: "string \<Rightarrow> jsval list \<Rightarrow> js_error option"
  http_post :: "action list \<Rightarrow> string \<Rightarrow> jsval \<Rightarrow> js_error + (nat \<times> jsval)"
  mined_in :: "chain \<Rightarrow> nat \<Rightarrow> nat"
  random_bits :: "action list \<Rightarrow> nat \<Rightarrow> nat"
  read_dir :: "file_system \<Rightarrow> path \<Rightarrow> string list"
  decode_log :: "string \<Rightarrow> addr \<Rightarrow> bytes32 list \<Rightarrow> js_error + jsval"
  inspect :: "jsval \<Rightarrow> string"
  exec_error :: "string \<Rightarrow> js_error option"

section \<open>Transactions\<close>

text \<open>A log of a receipt as ethers presents it, decoded by the factory's interface when it can be.\<close>

record receipt_event =
  ev_event :: "string option"
  ev_args :: "(string \<times> addr) list option"
  ev_address :: addr
  ev_topics :: "bytes32 list"

record receipt =
  rc_events :: "receipt_event list option"
  rc_gasUsed :: nat
  rc_status :: nat

text \<open>The events of \<open>AliceNetFactoryBase\<close> name their argument \<open>contractAddr\<close>.\<close>

fun receipt_event_of :: "hre \<Rightarrow> event \<Rightarrow> receipt_event" where
  "receipt_event_of H (DeployedRaw e a) =
     \<lparr>ev_event = Some ''DeployedRaw'', ev_args = Some [(''contractAddr'', a)], ev_address = e,
      ev_topics = [event_topic H ''DeployedRaw(address)'']\<rparr>"
| "receipt_event_of H (DeployedProxy e a) =
     \<lparr>ev_event = Some ''DeployedProxy'', ev_args = Some [(''contractAddr'', a)], ev_address = e,
      ev_topics = [event_topic H ''DeployedProxy(address)'']\<rparr>"
| "receipt_event_of H (OtherEvent e ts) =
     \<lparr>ev_event = None, ev_args = None, ev_address = e, ev_topics = ts\<rparr>"

text \<open>A transaction to an account: a factory, an account without code, or another contract.\<close>

definition tx_exec :: "evm \<Rightarrow> addr \<Rightarrow> addr \<Rightarrow> cdata \<Rightarrow> chain \<Rightarrow> call_result" where
  "tx_exec E sender target data ch =
     (case ch_code ch target of
        None \<Rightarrow> Inr ([], ch)
      | Some FactoryCode \<Rightarrow> factory_exec E target sender 0 data ch
      | Some _ \<Rightarrow> ext_call E ch sender target 0 data)"

text \<open>
  A call of a factory method by the first signer. Ethers estimates the gas before it sends, so a
  call that would revert is rejected and nothing is sent. The response carries the receipt that
  \<open>wait\<close> returns.
\<close>

definition logAction :: "action \<Rightarrow> unit js" where
  "logAction a = modW (\<lambda>w. w\<lparr>w_log := w_log w @ [a]\<rparr>)"

text \<open>\<open>provider.send\<close>, \<open>axios.post\<close> and a sleep, during which the network goes on.\<close>

definition rpcSend :: "hre \<Rightarrow> string \<Rightarrow> jsval list \<Rightarrow> unit js" where
  "rpcSend H method params =
     (case rpc_error H method params of
        Some e \<Rightarrow> throw e
      | None \<Rightarrow> logAction (Rpc method params))"

definition axiosPost :: "hre \<Rightarrow> string \<Rightarrow> jsval \<Rightarrow> (nat \<times> jsval) js" where
  "axiosPost H url body =
     bnd (getW w_log) (\<lambda>log.
     andThen (logAction (Post url body)) (fromSum (http_post H log url body)))"

definition delay :: "hre \<Rightarrow> nat \<Rightarrow> unit js" where
  "delay H milliseconds =
     bnd (getW w_chain) (\<lambda>ch.
       modW (\<lambda>w. w\<lparr>w_chain := ch\<lparr>ch_block := ch_block ch + mined_in H ch milliseconds\<rparr>\<rparr>))"

definition firstSigner :: "hre \<Rightarrow> addr js" where
  "firstSigner H = orTypeError ''Cannot read properties of undefined'' (js_nth (signers H) 0)"

definition sendFactoryTx :: "hre \<Rightarrow> addr \<Rightarrow> cdata \<Rightarrow> gas_fees option \<Rightarrow> receipt js" where
  "sendFactoryTx H factory data fees =
     bnd (firstSigner H) (\<lambda>sender.
     bnd (getW w_chain) (\<lambda>ch.
       (case tx_exec (hre_evm H) sender factory data (bump_nonce sender ch) of
          Inl r \<Rightarrow> throw (TxReverted r)
        | Inr (es, ch') \<Rightarrow>
            andThen (modW (\<lambda>w. w\<lparr>w_chain := ch'\<lparr>ch_block := ch_block ch' + 1\<rparr>\<rparr>))
            (andThen (logAction (Sent (CallTx factory data) fees))
            (ret \<lparr>rc_events = Some (map (receipt_event_of H) es),
                  rc_gasUsed = gas_used H ch (CallTx factory data), rc_status = 1\<rparr>)))))"

definition waitTx :: "receipt \<Rightarrow> nat option \<Rightarrow> receipt js" where
  "waitTx r n = andThen (logAction (Waited n)) (ret r)"

lemma tx_exec_factory [simp]:
  "ch_code ch target = Some FactoryCode \<Longrightarrow>
     tx_exec E sender target data ch = factory_exec E target sender 0 data ch"
  by (simp add: tx_exec_def)

section \<open>What scripts keep\<close>

text \<open>
  \<open>keeps R m\<close>: whatever \<open>m\<close> does, and whether or not it throws, the world it leaves is related to the
  one it started in. For a reflexive and transitive \<open>R\<close> it suffices to look at the single steps.
\<close>

definition keeps :: "(world \<Rightarrow> world \<Rightarrow> bool) \<Rightarrow> 'a js \<Rightarrow> bool" where
  "keeps R m = (\<forall>w. R w (snd (m w)))"

lemma keepsI: "(\<And>w. R w (snd (m w))) \<Longrightarrow> keeps R m"
  by (simp add: keeps_def)

lemma keepsD: "keeps R m \<Longrightarrow> m w = (r, w') \<Longrightarrow> R w w'"
  by (metis keeps_def snd_conv)

locale js_frame =
  fixes R :: "world \<Rightarrow> world \<Rightarrow> bool"
  assumes R_refl: "R w w"
    and R_trans: "R w1 w2 \<Longrightarrow> R w2 w3 \<Longrightarrow> R w1 w3"
begin

lemma keeps_ret: "keeps R (ret a)"
  by (simp add: keeps_def ret_def R_refl)

lemma keeps_throw: "keeps R (throw e)"
  by (simp add: keeps_def throw_def R_refl)

lemma keeps_getW: "keeps R (getW f)"
  by (simp add: keeps_def getW_def R_refl)

lemma keeps_fromSum: "keeps R (fromSum r)"
  by (simp add: keeps_def fromSum_def R_refl)

lemma keeps_orTypeError: "keeps R (orTypeError msg r)"
  by (cases r) (simp_all add: orTypeError_def keeps_ret keeps_throw)

lemma keeps_bnd:
  assumes "keeps R m" and "\<And>a. keeps R (f a)"
  shows "keeps R (bnd m f)"
proof (rule keepsI)
  fix w
  obtain r w' where m: "m w = (r, w')" by (cases "m w")
  then have "R w w'" by (rule keepsD [OF assms(1)])
  with m assms(2) show "R w (snd (bnd m f w))"
    by (cases r) (auto simp: bnd_def keeps_def intro: R_trans)
qed

lemma keeps_andThen: "keeps R m \<Longrightarrow> keeps R n \<Longrightarrow> keeps R (andThen m n)"
  unfolding andThen_def by (rule keeps_bnd)

lemma keeps_tryCatch:
  assumes "keeps R m" and "\<And>e. keeps R (h e)"
  shows "keeps R (tryCatch m h)"
proof (rule keepsI)
  fix w
  obtain r w' where m: "m w = (r, w')" by (cases "m w")
  then have "R w w'" by (rule keepsD [OF assms(1)])
  with m assms(2) show "R w (snd (tryCatch m h w))"
    by (cases r) (auto simp: tryCatch_def keeps_def intro: R_trans)
qed

lemma keeps_forEach: "(\<And>x. x \<in> set xs \<Longrightarrow> keeps R (f x)) \<Longrightarrow> keeps R (forEach xs f)"
  by (induction xs) (simp_all add: keeps_ret keeps_andThen)

lemma keeps_foldJs: "(\<And>b x. x \<in> set xs \<Longrightarrow> keeps R (f b x)) \<Longrightarrow> keeps R (foldJs f b xs)"
  by (induction xs arbitrary: b) (simp_all add: keeps_ret keeps_bnd)

lemma keeps_if: "keeps R m \<Longrightarrow> keeps R n \<Longrightarrow> keeps R (if b then m else n)"
  by simp

lemma keeps_readers:
  "keeps R (existsSync p)" "keeps R (readFileSync p)" "keeps R (statIsFile p)"
  by (auto simp: keeps_def existsSync_def getW_def readFileSync_def statIsFile_def R_refl
      split: option.split node.split)

lemmas keeps_basic = keeps_ret keeps_throw keeps_getW keeps_fromSum keeps_orTypeError keeps_bnd
  keeps_andThen keeps_tryCatch keeps_forEach keeps_foldJs keeps_if keeps_readers

end

text \<open>Scripts that do not touch the chain, the files, and the well-formedness of the files.\<close>

definition same_chain :: "world \<Rightarrow> world \<Rightarrow> bool" where
  "same_chain w w' = (w_chain w' = w_chain w \<and> w_log w' = w_log w)"

definition same_files :: "world \<Rightarrow> world \<Rightarrow> bool" where
  "same_files w w' = (w_fs w' = w_fs w)"

definition files_stay_wf :: "world \<Rightarrow> world \<Rightarrow> bool" where
  "files_stay_wf w w' = (wf_fs (w_fs w) \<longrightarrow> wf_fs (w_fs w'))"

definition log_grows :: "world \<Rightarrow> world \<Rightarrow> bool" where
  "log_grows w w' = prefix (w_log w) (w_log w')"

interpretation chain_kept: js_frame same_chain
  by unfold_locales (auto simp: same_chain_def)

interpretation files_kept: js_frame same_files
  by unfold_locales (auto simp: same_files_def)

interpretation files_wf: js_frame files_stay_wf
  by unfold_locales (auto simp: files_stay_wf_def)

interpretation log_kept: js_frame log_grows
  by unfold_locales (auto simp: log_grows_def)

lemma wf_fs_upd:
  assumes "wf_fs fs" and "p \<noteq> []" and "is_dir fs (butlast p)" and "n = Dir \<or> fs p \<noteq> Some Dir"
  shows "wf_fs (fs(p \<mapsto> n))"
proof -
  have "butlast p \<noteq> p" using assms(2) by (metis append_butlast_last_id append_self_conv not_Cons_self2)
  then show ?thesis
    using assms unfolding wf_fs_def is_dir_def by (auto split: if_splits)
qed

lemma writers_keep:
  "keeps same_chain (writeFileSync p s)" "keeps same_chain (mkdirSync p)"
  "keeps same_chain (consoleLog m)" "keeps same_files (consoleLog m)"
  "keeps log_grows (writeFileSync p s)" "keeps log_grows (mkdirSync p)"
  "keeps log_grows (consoleLog m)" "keeps files_stay_wf (consoleLog m)"
  by (auto simp: keeps_def same_chain_def same_files_def log_grows_def files_stay_wf_def
      writeFileSync_def mkdirSync_def consoleLog_def modW_def)

lemma writers_keep_wf:
  "keeps files_stay_wf (writeFileSync p s)" "keeps files_stay_wf (mkdirSync p)"
  by (auto simp: keeps_def files_stay_wf_def writeFileSync_def mkdirSync_def is_dir_def
      intro!: wf_fs_upd)

end
