(* ===== verification/Constants.thy ===== *)
theory Constants
  imports Js_World
begin

text \<open>The constants of \<^verbatim>\<open>scripts/lib/constants.ts\<close>.\<close>

abbreviation MULTICALL_GAS_LIMIT :: string where
  "MULTICALL_GAS_LIMIT \<equiv> ''10000000''"

abbreviation DEPLOYMENT_LIST_FPATH :: string where
  "DEPLOYMENT_LIST_FPATH \<equiv> ''/deploymentList''"

abbreviation DEPLOYMENT_ARGS_TEMPLATE_FPATH :: string where
  "DEPLOYMENT_ARGS_TEMPLATE_FPATH \<equiv> ''/deploymentArgsTemplate''"

abbreviation DEFAULT_CONFIG_OUTPUT_DIR :: string where
  "DEFAULT_CONFIG_OUTPUT_DIR \<equiv> ''../scripts/base-files''"

abbreviation BASE_CONFIG_PATH :: string where
  "BASE_CONFIG_PATH \<equiv> ''../scripts/base-files/baseConfig''"

abbreviation CONTRACT_ADDR :: string where
  "CONTRACT_ADDR \<equiv> ''contractAddr''"

abbreviation DEPLOY_ALL_CONTRACTS :: string where
  "DEPLOY_ALL_CONTRACTS \<equiv> ''deployAllContracts''"

abbreviation DEPLOY_CREATE :: string where
  "DEPLOY_CREATE \<equiv> ''deployCreate''"

abbreviation DEPLOY_CREATE2 :: string where
  "DEPLOY_CREATE2 \<equiv> ''deployCreate2''"

abbreviation DEPLOY_FACTORY :: string where
  "DEPLOY_FACTORY \<equiv> ''deployFactory''"

abbreviation DEPLOY_PROXY :: string where
  "DEPLOY_PROXY \<equiv> ''deployProxy''"

abbreviation DEPLOY_UPGRADEABLE_PROXY :: string where
  "DEPLOY_UPGRADEABLE_PROXY \<equiv> ''deployUpgradeableProxy''"

abbreviation DEPLOYED_PROXY :: string where
  "DEPLOYED_PROXY \<equiv> ''DeployedProxy''"

abbreviation DEPLOYED_RAW :: string where
  "DEPLOYED_RAW \<equiv> ''DeployedRaw''"

abbreviation DEPLOYED_TEMPLATE :: string where
  "DEPLOYED_TEMPLATE \<equiv> ''DeployedTemplate''"

abbreviation DEPLOYMENT_ARG_PATH :: string where
  "DEPLOYMENT_ARG_PATH \<equiv> ''../scripts/base-files/deploymentArgs''"

abbreviation DEPLOYMENT_LIST_PATH :: string where
  "DEPLOYMENT_LIST_PATH \<equiv> ''../scripts/base-files/deploymentList''"

abbreviation END_POINT :: string where
  "END_POINT \<equiv> ''MockEndPoint''"

abbreviation FACTORY_DEPLOYMENT :: string where
  "FACTORY_DEPLOYMENT \<equiv> ''factory''"

abbreviation FACTORY_STATE_PATH :: string where
  "FACTORY_STATE_PATH \<equiv> ''../scripts/generated/factoryState''"

abbreviation LOGIC_ADDR :: string where
  "LOGIC_ADDR \<equiv> ''LogicAddress''"

abbreviation ALICENET_FACTORY :: string where
  "ALICENET_FACTORY \<equiv> ''AliceNetFactory''"

abbreviation META_ADDR :: string where
  "META_ADDR \<equiv> ''MetaAddress''"

abbreviation MOCK :: string where
  "MOCK \<equiv> ''MockBaseContract''"

abbreviation MOCK_FACTORY :: string where
  "MOCK_FACTORY \<equiv> ''MockFactory''"

abbreviation MOCK_INITIALIZABLE :: string where
  "MOCK_INITIALIZABLE \<equiv> ''MockInitializable''"

abbreviation MULTI_CALL_DEPLOY_PROXY :: string where
  "MULTI_CALL_DEPLOY_PROXY \<equiv> ''multiCallDeployProxy''"

abbreviation MULTI_CALL_UPGRADE_PROXY :: string where
  "MULTI_CALL_UPGRADE_PROXY \<equiv> ''multiCallUpgradeProxy''"

abbreviation ONLY_PROXY :: string where
  "ONLY_PROXY \<equiv> ''onlyProxy''"

abbreviation PROXY :: string where
  "PROXY \<equiv> ''Proxy''"

abbreviation PROXY_ADDR :: string where
  "PROXY_ADDR \<equiv> ''ProxyAddress''"

abbreviation RECEIPT :: string where
  "RECEIPT \<equiv> ''receipt''"

abbreviation UPGRADE_DEPLOYED_PROXY :: string where
  "UPGRADE_DEPLOYED_PROXY \<equiv> ''upgradeDeployedProxy''"

abbreviation UPGRADE_PROXY :: string where
  "UPGRADE_PROXY \<equiv> ''upgradeProxy''"

abbreviation UPGRADEABLE_DEPLOYMENT :: string where
  "UPGRADEABLE_DEPLOYMENT \<equiv> ''deployUpgradeable''"

abbreviation UTILS :: string where
  "UTILS \<equiv> ''Utils''"

abbreviation INITIALIZER :: string where
  "INITIALIZER \<equiv> ''initialize''"

abbreviation HARDHAT_CHAIN_ID :: nat where
  "HARDHAT_CHAIN_ID \<equiv> 1337"

text \<open>\<open>env()\<close>, of the environment variable \<open>DEPLOYMENT_ENVIRONMENT\<close>.\<close>

definition env :: "string option \<Rightarrow> string" where
  "env deploymentEnvironment =
     (case deploymentEnvironment of None \<Rightarrow> ''dev'' | Some e \<Rightarrow> e)"

end
