(* ===== verification/Config_Util.thy ===== *)
theory Config_Util
  imports Constants
begin

text \<open>
  \<^verbatim>\<open>scripts/lib/deployment/deploymentConfigUtil.ts\<close>: reading the TOML files of a deployment, and what the
  callers rely on from the TOML library: parsing what was serialised gives the serialised value in
  the normal form \<open>toml_norm\<close>.
\<close>

section \<open>Reading\<close>

definition readTOML :: "hre \<Rightarrow> string \<Rightarrow> string option \<Rightarrow> jsval js" where
  "readTOML H defaultPath usrPath =
     (let path = (case usrPath of None \<Rightarrow> defaultPath | Some p \<Rightarrow> p)
      in bnd (existsSync path) (\<lambda>ex.
         if ex
         then bnd (readFileSync path) (\<lambda>rawData. fromSum (toml_parse H rawData))
         else ret (JObj [])))"

definition readDeploymentList :: "hre \<Rightarrow> string option \<Rightarrow> jsval js" where
  "readDeploymentList H usrPath = readTOML H DEPLOYMENT_LIST_PATH usrPath"

definition readDeploymentArgs :: "hre \<Rightarrow> string option \<Rightarrow> jsval js" where
  "readDeploymentArgs H usrPath = readTOML H DEPLOYMENT_ARG_PATH usrPath"

text \<open>The file a folder's factory state lives in.\<close>

definition factoryStatePath :: "string option \<Rightarrow> string" where
  "factoryStatePath usrPath =
     (case usrPath of None \<Rightarrow> FACTORY_STATE_PATH | Some p \<Rightarrow> js_strip_slashes p @ ''/factoryState'')"

definition readFactoryState :: "hre \<Rightarrow> string option \<Rightarrow> jsval js" where
  "readFactoryState H usrPath =
     (let path = factoryStatePath usrPath in readTOML H FACTORY_STATE_PATH (Some path))"

section \<open>The TOML library\<close>

text \<open>
  Serialising drops undefined properties, writes a \<open>BigNumber\<close> as its \<open>toJSON\<close> object and writes the
  plain values of a table before its sub-tables.
\<close>

fun toml_inline :: "jsval \<Rightarrow> bool" where
  "toml_inline (JObj ps) = (ps = [])"
| "toml_inline (JArr (JObj ps # vs)) = False"
| "toml_inline _ = True"

definition toml_order :: "js_object \<Rightarrow> js_object" where
  "toml_order ps =
     filter (\<lambda>p. toml_inline (snd p)) ps @ filter (\<lambda>p. \<not> toml_inline (snd p)) ps"

fun toml_norm :: "hre \<Rightarrow> jsval \<Rightarrow> jsval" where
  "toml_norm H (JBig n) = JObj (bignumber_json H n)"
| "toml_norm H (JArr vs) = JArr (map (toml_norm H) vs)"
| "toml_norm H (JObj ps) =
     JObj (toml_order (filter (\<lambda>p. snd p \<noteq> JUndef) (map (\<lambda>p. (fst p, toml_norm H (snd p))) ps)))"
| "toml_norm H v = v"

text \<open>
  Values TOML can express: no functions, integers in the safe range, no undefined array elements, and
  arrays whose elements have one TOML type.
\<close>

fun toml_type :: "jsval \<Rightarrow> string" where
  "toml_type JUndef = ''undefined''"
| "toml_type (JBool b) = ''boolean''"
| "toml_type (JNum n) = ''integer''"
| "toml_type (JStr s) = ''string''"
| "toml_type (JArr vs) = ''array''"
| "toml_type JFun = ''function''"
| "toml_type _ = ''table''"

fun toml_able :: "jsval \<Rightarrow> bool" where
  "toml_able JFun = False"
| "toml_able (JArr vs) =
     list_all (\<lambda>v. v \<noteq> JUndef \<and> toml_able v \<and> toml_type v = toml_type (hd vs)) vs"
| "toml_able (JNum n) = (\<bar>n\<bar> < 2 ^ 53)"
| "toml_able (JObj ps) = list_all (\<lambda>p. toml_able (snd p)) ps"
| "toml_able _ = True"

text \<open>
  What the library documents: serialising and parsing again gives the normal form, parsing gives
  tables, the object a \<open>BigNumber\<close> is written as is itself expressible, and comment lines are skipped.
\<close>

definition toml_library :: "hre \<Rightarrow> bool" where
  "toml_library H =
     ((\<forall>ps. wf_js (JObj ps) \<longrightarrow> toml_able (JObj ps) \<longrightarrow>
         (\<exists>s. toml_stringify H (JObj ps) = Inr s \<and> toml_parse H s = Inr (toml_norm H (JObj ps))))
      \<and> (\<forall>s v. toml_parse H s = Inr v \<longrightarrow> wf_js v \<and> toml_able v \<and> (\<exists>ps. v = JObj ps))
      \<and> (\<forall>n. toml_norm H (JObj (bignumber_json H n)) = JObj (bignumber_json H n)
              \<and> wf_js (JObj (bignumber_json H n)) \<and> toml_able (JObj (bignumber_json H n)))
      \<and> (\<forall>c s. CHR 0x0A \<notin> set c \<longrightarrow> toml_parse H (CHR ''#'' # c @ CHR 0x0A # s) = toml_parse H s))"

section \<open>Lemmas\<close>

lemma toml_norm_undef [simp]: "toml_norm H v = JUndef \<longleftrightarrow> v = JUndef"
  by (cases v) auto

lemma map_of_toml_order:
  assumes "distinct (map fst ps)"
  shows "map_of (toml_order ps) = map_of ps"
proof -
  have "distinct (map fst (toml_order ps))"
    using assms by (auto simp: toml_order_def distinct_map_filter dest: eq_key_imp_eq_value)
  moreover have "set (toml_order ps) = set ps"
    by (auto simp: toml_order_def)
  ultimately show ?thesis
    using assms by (simp add: map_of_inject_set)
qed

lemma map_of_drop_undef:
  "distinct (map fst ps) \<Longrightarrow>
     map_of (filter (\<lambda>p. snd p \<noteq> v) ps) k = (if map_of ps k = Some v then None else map_of ps k)"
  by (induction ps) (auto simp: map_of_eq_None_iff [symmetric] split: if_splits)

lemma toml_norm_obj:
  "toml_norm H (JObj ps) =
     JObj (toml_order (filter (\<lambda>p. snd p \<noteq> JUndef) (map (\<lambda>p. (fst p, toml_norm H (snd p))) ps)))"
  by simp

text \<open>Reads commute with the normal form.\<close>

lemma obj_get_toml_norm:
  assumes "distinct (map fst ps)" and "toml_norm H (JObj ps) = JObj qs"
  shows "obj_get qs k = toml_norm H (obj_get ps k)"
proof -
  let ?ps = "map (\<lambda>p. (fst p, toml_norm H (snd p))) ps"
  have d: "distinct (map fst ?ps)" using assms(1) by (simp add: comp_def)
  have m: "map_of ?ps k = map_option (toml_norm H) (map_of ps k)"
    by (induction ps) auto
  have "map_of qs k = map_of (filter (\<lambda>p. snd p \<noteq> JUndef) ?ps) k"
    using assms(2) d by (auto simp: map_of_toml_order distinct_map_filter)
  also have "\<dots> = (if map_of ?ps k = Some JUndef then None else map_of ?ps k)"
    by (rule map_of_drop_undef [OF d])
  finally show ?thesis
    by (auto simp: obj_get_def m split: option.splits if_splits)
qed

lemma toml_stringify_parse:
  assumes "toml_library H" and "wf_js (JObj ps)" and "toml_able (JObj ps)"
  obtains s where "toml_stringify H (JObj ps) = Inr s"
    and "toml_parse H s = Inr (toml_norm H (JObj ps))"
  using assms unfolding toml_library_def by blast

lemma toml_parse_wf:
  assumes "toml_library H" and "toml_parse H s = Inr v"
  obtains ps where "v = JObj ps" and "wf_js v" and "toml_able v"
  using assms unfolding toml_library_def by blast

lemma toml_comment:
  "toml_library H \<Longrightarrow> CHR 0x0A \<notin> set c \<Longrightarrow>
     toml_parse H (CHR ''#'' # c @ CHR 0x0A # s) = toml_parse H s"
  unfolding toml_library_def by blast

text \<open>The normal form is stable.\<close>

lemma toml_order_order [simp]: "toml_order (toml_order ps) = toml_order ps"
  by (simp add: toml_order_def)

lemma toml_order_filter: "filter P (toml_order ps) = toml_order (filter P ps)"
  by (simp add: toml_order_def) (metis (no_types, lifting) conj_commute filter_cong)

lemma mset_toml_order: "mset (toml_order ps) = mset ps"
  by (induction ps) (auto simp: toml_order_def)

lemma set_toml_order [simp]: "set (toml_order ps) = set ps"
  by (auto simp: toml_order_def)

lemma toml_norm_idem:
  assumes "toml_library H"
  shows "toml_norm H (toml_norm H v) = toml_norm H v"
  using assms
proof (induction H v rule: toml_norm.induct)
  case (1 H n)
  then have "toml_norm H (JObj (bignumber_json H n)) = JObj (bignumber_json H n)"
    unfolding toml_library_def by blast
  then show ?case by simp
next
  case (3 H ps)
  let ?f = "\<lambda>p. (fst p, toml_norm H (snd p))"
  let ?qs = "filter (\<lambda>p. snd p \<noteq> JUndef) (map ?f ps)"
  have "map ?f ?qs = ?qs"
    using 3 by (intro map_idI) auto
  moreover have "map ?f (toml_order ?qs) = toml_order ?qs"
    using 3 by (intro map_idI) auto
  moreover have "filter (\<lambda>p. snd p \<noteq> JUndef) (toml_order ?qs) = toml_order ?qs"
    by (rule filter_True) auto
  ultimately show ?case by simp
qed auto

end
