(* ===== verification/Sample_Toml.thy ===== *)
theory Sample_Toml
  imports Config_Util
begin

text \<open>
  A text format with the properties the scripts rely on from the TOML library, with its printer and
  its parser, to show that \<open>toml_library\<close> can hold. It stands in for TOML in the concrete instances
  only; the theorems are about every library that satisfies \<open>toml_library\<close>.
\<close>

section \<open>Printer and parser\<close>

fun enc_str :: "string \<Rightarrow> string" where
  "enc_str [] = '';''"
| "enc_str (c # cs) = CHR ''c'' # c # enc_str cs"

definition enc_int :: "int \<Rightarrow> string" where
  "enc_int i = (if i < 0 then CHR ''-'' else CHR ''+'') # js_show_nat (nat \<bar>i\<bar>) @ '';''"

fun enc :: "jsval \<Rightarrow> string" where
  "enc JUndef = ''u''"
| "enc (JBool b) = (if b then ''t'' else ''f'')"
| "enc (JNum n) = ''n'' @ enc_int n"
| "enc (JStr s) = ''s'' @ enc_str s"
| "enc (JBig n) = ''b'' @ enc_int n"
| "enc JFun = ''F''"
| "enc (JArr vs) = ''['' @ concat (map (\<lambda>v. CHR '','' # enc v) vs) @ '']''"
| "enc (JObj ps) = ''{'' @ concat (map (\<lambda>p. CHR '','' # enc_str (fst p) @ enc (snd p)) ps) @ ''}''"

fun dec_str :: "string \<Rightarrow> (string \<times> string) option" where
  "dec_str [] = None"
| "dec_str [c] = (if c = CHR '';'' then Some ([], []) else None)"
| "dec_str (c # x # r) =
     (if c = CHR '';'' then Some ([], x # r)
      else map_option (\<lambda>(s, t). (x # s, t)) (dec_str r))"

definition dec_int :: "string \<Rightarrow> int \<times> string" where
  "dec_int r =
     (let ds = takeWhile (\<lambda>c. c \<noteq> CHR '';'') (tl r);
          n = int (js_digits 10 0 ds)
      in (if hd r = CHR ''-'' then - n else n, drop (Suc (length ds)) (tl r)))"

fun dec :: "nat \<Rightarrow> string \<Rightarrow> (jsval \<times> string) option"
  and dec_arr :: "nat \<Rightarrow> string \<Rightarrow> (jsval list \<times> string) option"
  and dec_obj :: "nat \<Rightarrow> string \<Rightarrow> (js_object \<times> string) option" where
  "dec (Suc n) (c # r) =
     (if c = CHR ''u'' then Some (JUndef, r)
      else if c = CHR ''t'' then Some (JBool True, r)
      else if c = CHR ''f'' then Some (JBool False, r)
      else if c = CHR ''n'' then Some (case dec_int r of (i, t) \<Rightarrow> (JNum i, t))
      else if c = CHR ''b'' then Some (case dec_int r of (i, t) \<Rightarrow> (JBig i, t))
      else if c = CHR ''s'' then map_option (\<lambda>(s, t). (JStr s, t)) (dec_str r)
      else if c = CHR ''F'' then Some (JFun, r)
      else if c = CHR ''['' then map_option (\<lambda>(vs, t). (JArr vs, t)) (dec_arr n r)
      else if c = CHR ''{'' then map_option (\<lambda>(ps, t). (JObj ps, t)) (dec_obj n r)
      else None)"
| "dec _ _ = None"
| "dec_arr (Suc n) (c # r) =
     (if c = CHR '']'' then Some ([], r)
      else (case dec n r of
              None \<Rightarrow> None
            | Some (v, t) \<Rightarrow> map_option (\<lambda>(vs, t'). (v # vs, t')) (dec_arr n t)))"
| "dec_arr _ _ = None"
| "dec_obj (Suc n) (c # r) =
     (if c = CHR ''}'' then Some ([], r)
      else (case dec_str r of
              None \<Rightarrow> None
            | Some (k, t) \<Rightarrow>
                (case dec n t of
                   None \<Rightarrow> None
                 | Some (v, t') \<Rightarrow> map_option (\<lambda>(ps, t''). ((k, v) # ps, t'')) (dec_obj n t'))))"
| "dec_obj _ _ = None"

text \<open>Comment lines are skipped; only well-formed expressible tables are accepted.\<close>

fun skip_line :: "string \<Rightarrow> string" where
  "skip_line [] = []"
| "skip_line (c # cs) = (if c = CHR 0x0A then cs else skip_line cs)"

lemma length_skip_line: "length (skip_line s) \<le> length s"
  by (induction s) auto

function skip_comments :: "string \<Rightarrow> string" where
  "skip_comments s =
     (case s of [] \<Rightarrow> [] | c # cs \<Rightarrow> if c = CHR ''#'' then skip_comments (skip_line cs) else s)"
  by auto
termination
  by (relation "measure length") (auto simp: le_imp_less_Suc length_skip_line)

declare skip_comments.simps [simp del]

definition toml_accepts :: "jsval \<Rightarrow> bool" where
  "toml_accepts v = (wf_js v \<and> toml_able v \<and> (case v of JObj ps \<Rightarrow> True | _ \<Rightarrow> False))"

definition sample_toml_parse :: "string \<Rightarrow> js_error + jsval" where
  "sample_toml_parse s =
     (let t = skip_comments s in
      if t = [] then Inr (JObj [])
      else (case dec (length t) t of
              Some (v, []) \<Rightarrow> if toml_accepts v then Inr v else Inl (LibErr ''toml'')
            | _ \<Rightarrow> Inl (LibErr ''toml'')))"

definition sample_toml_stringify :: "(jsval \<Rightarrow> jsval) \<Rightarrow> jsval \<Rightarrow> js_error + string" where
  "sample_toml_stringify norm v = (if toml_accepts v then Inr (enc (norm v)) else Inl (LibErr ''toml''))"

section \<open>The laws\<close>

lemma dec_str_enc [simp]: "dec_str (enc_str s @ r) = Some (s, r)"
proof (induction s)
  case Nil
  then show ?case by (cases r) auto
qed auto

lemma dec_int_enc [simp]: "dec_int (enc_int i @ r) = (i, r)"
proof -
  have "CHR '';'' \<notin> set (js_show_nat n)" for n
    using js_show_nat_chars [of "CHR '';''" n] by (auto simp: js_digit_def)
  then have "takeWhile (\<lambda>c. c \<noteq> CHR '';'') (js_show_nat n @ CHR '';'' # r) = js_show_nat n" for n
    by (subst takeWhile_append2) auto
  then show ?thesis
    by (auto simp: dec_int_def enc_int_def Let_def js_digits_show_nat)
qed

lemma dec_arr_enc:
  assumes "\<And>v n r. v \<in> set vs \<Longrightarrow> length (enc v) \<le> n \<Longrightarrow> dec n (enc v @ r) = Some (v, r)"
    and "length (concat (map (\<lambda>v. CHR '','' # enc v) vs)) < n"
  shows "dec_arr n (concat (map (\<lambda>v. CHR '','' # enc v) vs) @ CHR '']'' # r) = Some (vs, r)"
  using assms
proof (induction vs arbitrary: n)
  case Nil
  then show ?case by (cases n) auto
next
  case (Cons v vs)
  then show ?case by (cases n) auto
qed

lemma dec_obj_enc:
  assumes "\<And>p n r. p \<in> set ps \<Longrightarrow> length (enc (snd p)) \<le> n \<Longrightarrow>
             dec n (enc (snd p) @ r) = Some (snd p, r)"
    and "length (concat (map (\<lambda>p. CHR '','' # enc_str (fst p) @ enc (snd p)) ps)) < n"
  shows "dec_obj n (concat (map (\<lambda>p. CHR '','' # enc_str (fst p) @ enc (snd p)) ps) @ CHR ''}'' # r)
         = Some (ps, r)"
  using assms
proof (induction ps arbitrary: n)
  case Nil
  then show ?case by (cases n) auto
next
  case (Cons p ps)
  then show ?case by (cases n) auto
qed

lemma dec_enc: "length (enc v) \<le> n \<Longrightarrow> dec n (enc v @ r) = Some (v, r)"
proof (induction v arbitrary: n r rule: enc.induct)
  case 1
  then show ?case by (cases n) auto
next
  case (2 b)
  then show ?case by (cases n) (auto split: if_splits)
next
  case (3 i m)
  then show ?case by (cases m) auto
next
  case (4 s m)
  then show ?case by (cases m) auto
next
  case (5 i m)
  then show ?case by (cases m) auto
next
  case 6
  then show ?case by (cases n) auto
next
  case (7 vs)
  then show ?case by (cases n) (auto simp: dec_arr_enc)
next
  case (8 ps)
  then show ?case by (cases n) (auto simp: dec_obj_enc)
qed

lemma skip_comments_comment:
  "CHR 0x0A \<notin> set c \<Longrightarrow> skip_comments (CHR ''#'' # c @ CHR 0x0A # s) = skip_comments s"
proof -
  assume "CHR 0x0A \<notin> set c"
  then have "skip_line (c @ CHR 0x0A # s) = s" by (induction c) auto
  then show ?thesis by (simp add: skip_comments.simps [of "CHR ''#'' # _"])
qed

lemma skip_comments_table: "skip_comments (enc (JObj ps)) = enc (JObj ps)"
  by (simp add: skip_comments.simps)

lemma toml_type_norm: "toml_type (toml_norm H v) = toml_type v"
  by (cases v) auto

lemma toml_accepts_norm:
  assumes b: "\<And>n. wf_js (JObj (bignumber_json H n)) \<and> toml_able (JObj (bignumber_json H n))"
    and "wf_js v" and "toml_able v"
  shows "wf_js (toml_norm H v) \<and> toml_able (toml_norm H v)"
  using assms
proof (induction H v rule: toml_norm.induct)
  case (1 H n)
  then show ?case by (simp add: list_all_iff)
next
  case (2 H vs)
  have IH: "wf_js (toml_norm H v) \<and> toml_able (toml_norm H v)" if "v \<in> set vs" for v
    using 2 that unfolding wf_js.simps toml_able.simps list_all_iff by blast
  have ty: "toml_type (toml_norm H v) = toml_type (hd (map (toml_norm H) vs))" if "v \<in> set vs" for v
  proof -
    from 2(4) that have "toml_type v = toml_type (hd vs)" unfolding toml_able.simps list_all_iff by blast
    moreover from that have "hd (map (toml_norm H) vs) = toml_norm H (hd vs)" by (cases vs) auto
    ultimately show ?thesis by (simp only: toml_type_norm)
  qed
  have "v \<noteq> JUndef" if "v \<in> set vs" for v
    using 2(4) that unfolding toml_able.simps list_all_iff by blast
  with IH ty show ?case
    unfolding toml_norm.simps wf_js.simps toml_able.simps list_all_iff set_map ball_simps
      toml_norm_undef by blast
next
  case (3 H ps)
  have "distinct (map fst (toml_order qs)) = distinct (map fst qs)" for qs :: js_object
    by (rule mset_eq_imp_distinct_iff) (simp add: mset_toml_order)
  moreover have "wf_js (toml_norm H (snd p)) \<and> toml_able (toml_norm H (snd p))" if "p \<in> set ps" for p
    using 3 that unfolding wf_js.simps toml_able.simps list_all_iff by blast
  ultimately show ?case
    using 3(3) by (auto simp: list_all_iff distinct_map_filter comp_def)
qed auto

end
