(* ===== verification/Sample_Env.thy ===== *)
theory Sample_Env
  imports Sample_Toml
begin

text \<open>
  A concrete runtime environment and a concrete world: a small network with one factory and three
  compiled contracts. The witnesses of the theorems are evaluated in it. The libraries are
  replaced by simple functions with the properties the theorems assume.
\<close>

section \<open>The chain\<close>

definition sample_owner :: addr where
  "sample_owner = 0xA11CE"

definition sample_factory :: addr where
  "sample_factory = 0xFAC"

definition sample_template :: addr where
  "sample_template = 0x7E3"

definition sample_evm :: evm where
  "sample_evm =
     \<lparr>create_addr = (\<lambda>a n. a + 0x1000000 * of_nat (n + 1)),
      create2_addr = (\<lambda>a salt h. a + ucast (drop_bit 96 salt)),
      keccak = (\<lambda>c. METAMORPHIC_HASH),
      ctor_ok = (\<lambda>ch a c. True),
      aToken_creation = (\<lambda>legacy. ''AToken''),
      ext_call = (\<lambda>ch src dst val d. Inr ([], ch)),
      ext_delegate = (\<lambda>ch self t d. Inr ([], ch)),
      ext_impl = (\<lambda>ch a. None)\<rparr>"

definition sample_chain :: chain where
  "sample_chain =
     \<lparr>ch_code = [sample_factory \<mapsto> FactoryCode, sample_template \<mapsto> ProxyTemplateCode],
      ch_nonce = (\<lambda>a. if a = sample_factory then 3 else if a = sample_template then 1 else 0),
      ch_storage = (\<lambda>a s. 0),
      ch_balance = (\<lambda>a. 0),
      ch_fact = (\<lambda>a. \<lparr>fs_owner = sample_owner, fs_contracts = [], fs_implementation = 0,
                   fs_registry = (\<lambda>s. None), fs_proxyTemplate = sample_template,
                   fs_aTokenAddress = 0xA70\<rparr>),
      ch_block = 7\<rparr>"

section \<open>The compiled contracts\<close>

definition sample_abi :: "string \<Rightarrow> string \<Rightarrow> string list \<Rightarrow> abi_item" where
  "sample_abi ty name inputs =
     \<lparr>ai_type = ty, ai_name = (if name = [] then None else Some name),
      ai_inputs = Some (map (\<lambda>n. \<lparr>in_name = n, in_type = ''uint256''\<rparr>) inputs)\<rparr>"

definition sample_doc :: "(string \<times> string) list \<Rightarrow> string \<Rightarrow> string option" where
  "sample_doc tags = map_of (map (\<lambda>(k, v). (''custom:'' @ k, v)) tags)"

text \<open>\<open>Foo\<close> is upgradeable with an initialiser, \<open>Bar\<close> is a bare proxy.\<close>

definition sample_contracts :: "(string \<times> contract_output) list" where
  "sample_contracts =
     [(''AliceNetFactory'',
        \<lparr>co_abi = [sample_abi ''constructor'' [] [''legacyToken_'']], co_devdoc = (\<lambda>k. None)\<rparr>),
      (''Foo'',
        \<lparr>co_abi = [sample_abi ''constructor'' [] [''size_''],
                  sample_abi ''function'' ''initialize'' [''rate_'', ''cap_'']],
         co_devdoc = sample_doc [(''salt'', ''Foo''), (''deploy-type'', ''deployUpgradeable'')]\<rparr>),
      (''Bar'',
        \<lparr>co_abi = [sample_abi ''function'' ''run'' []],
         co_devdoc = sample_doc [(''salt'', ''Bar''), (''deploy-type'', ''onlyProxy''),
           (''deploy-group'', ''g''), (''deploy-group-index'', ''1'')]\<rparr>)]"

definition sample_source :: string where
  "sample_source = ''contracts/All.sol''"

definition sample_fqn :: "string \<Rightarrow> string" where
  "sample_fqn name = sample_source @ '':'' @ name"

definition sample_build_info :: build_info where
  "sample_build_info p = (if p = sample_source then Some (map_of sample_contracts) else None)"

section \<open>The libraries\<close>

text \<open>A string of at most 31 characters, left-aligned in 32 bytes.\<close>

definition sample_bytes32 :: "string \<Rightarrow> js_error + bytes32" where
  "sample_bytes32 s =
     (if 31 < length s then Inl (LibErr ''bytes32 string must be less than 32 bytes'')
      else Inr (of_nat (foldl (\<lambda>n c. 256 * n + (of_char c :: nat)) 0 s) * 2 ^ (256 - 8 * length s)))"

definition sample_hre0 :: hre where
  "sample_hre0 =
     \<lparr>hre_evm = sample_evm, network_name = ''local'', chain_id = 1337,
      signers = [sample_owner, 0xB0B], silencer = None,
      eth_gasPrice = (\<lambda>ch. 1000000000), eth_maxPriorityFeePerGas = (\<lambda>ch. 0),
      gas_used = (\<lambda>ch p. 21000), estimate_gas = (\<lambda>ch p. Inr 50000),
      allFullyQualifiedNames = map (\<lambda>p. sample_fqn (fst p)) sample_contracts,
      read_artifact = (\<lambda>name. map_option (\<lambda>_. sample_source) (map_of sample_contracts name)),
      build_info_of = (\<lambda>q. if q \<in> set (map (\<lambda>p. sample_fqn (fst p)) sample_contracts)
                            then Some sample_build_info else None),
      deploy_data = (\<lambda>c args. Inr (Some (c @ js_join '','' (map js_to_string args)))),
      encode_call = (\<lambda>c f args. Inr (OtherCall c f [])),
      formatBytes32String = sample_bytes32,
      parseBytes32String = (\<lambda>b. Inr []),
      keccak256_hex = (\<lambda>s. s),
      addr_hex = (\<lambda>a. ''0x'' @ js_show_radix 16 (unat a)),
      bytes32_hex = (\<lambda>b. ''0x'' @ js_show_radix 16 (unat b)),
      cdata_hex = (\<lambda>d. if d = NoData then ''0x'' else ''0x01''),
      to_address = (\<lambda>v. case v of JStr s \<Rightarrow> Some 0x1E6 | _ \<Rightarrow> None),
      toml_parse = sample_toml_parse,
      toml_stringify = (\<lambda>v. Inl (LibErr [])),
      json_parse = (\<lambda>s. Inr (JObj [])), json_stringify = (\<lambda>n. enc),
      event_topic = (\<lambda>s. 0),
      bignumber_json = (\<lambda>n. [(''type'', JStr ''BigNumber''), (''hex'', JStr (js_show_int n))]),
      verify_task = (\<lambda>a args. None),
      encode_iface = (\<lambda>sig f args. Inr (OtherCall sig f [])),
      call_static = (\<lambda>ch a c f args. Inr (JBig 0)),
      tx_fee = (\<lambda>ch p. 21000),
      rpc_error = (\<lambda>m ps. None),
      http_post = (\<lambda>log url body.
        Inr (200, JObj [(''BlockHeader'', JObj [(''SigGroup'', JStr ''ab'')]), (''BlockHeight'', JNum 9)])),
      mined_in = (\<lambda>ch t. 1),
      random_bits = (\<lambda>log i. 2 ^ 52),
      read_dir = (\<lambda>fs p. []), decode_log = (\<lambda>sig a ts. Inr JUndef), inspect = js_to_string,
      exec_error = (\<lambda>cmd. None)\<rparr>"

definition sample_hre :: hre where
  "sample_hre = sample_hre0\<lparr>toml_stringify := sample_toml_stringify (toml_norm sample_hre0)\<rparr>"

text \<open>The files: the folders of the default paths, and an output folder \<open>out\<close>.\<close>

definition sample_files :: file_system where
  "sample_files =
     [[''..''] \<mapsto> Dir, [''..'', ''scripts''] \<mapsto> Dir, [''..'', ''scripts'', ''generated''] \<mapsto> Dir,
      [''..'', ''scripts'', ''base-files''] \<mapsto> Dir, [''out''] \<mapsto> Dir]"

definition sample_world :: world where
  "sample_world = \<lparr>w_fs = sample_files, w_chain = sample_chain, w_log = [], w_console = []\<rparr>"

text \<open>The same world after a first deployment recorded a factory in the folder \<open>out\<close>.\<close>

definition sample_state :: jsval where
  "sample_state = JObj [(''local'', JObj [(''defaultFactoryAddress'', JStr ''0xfac'')])]"

definition sample_world1 :: world where
  "sample_world1 = sample_world\<lparr>w_fs := sample_files([''out'', ''factoryState''] \<mapsto> File (enc sample_state))\<rparr>"

lemmas sample_addr_defs = sample_owner_def sample_factory_def sample_template_def

lemma sample_evm_simps:
  "create_addr sample_evm a n = a + 0x1000000 * of_nat (n + 1)"
  "create2_addr sample_evm a salt h = a + ucast (drop_bit 96 salt)"
  "keccak sample_evm c = METAMORPHIC_HASH"
  "ctor_ok sample_evm ch a c"
  "aToken_creation sample_evm a = ''AToken''"
  "ext_call sample_evm ch src dst val d = Inr ([], ch)"
  "ext_delegate sample_evm ch self t d = Inr ([], ch)"
  "ext_impl sample_evm ch a = None"
  by (simp_all add: sample_evm_def)

lemma sample_hre_simps:
  "hre_evm sample_hre = sample_evm" "network_name sample_hre = ''local''" "chain_id sample_hre = 1337"
  "signers sample_hre = [sample_owner, 0xB0B]" "silencer sample_hre = None"
  "eth_gasPrice sample_hre ch = 1000000000" "eth_maxPriorityFeePerGas sample_hre ch = 0"
  "gas_used sample_hre ch p = 21000" "estimate_gas sample_hre ch p = Inr 50000"
  "allFullyQualifiedNames sample_hre = map (\<lambda>p. sample_fqn (fst p)) sample_contracts"
  "read_artifact sample_hre n = map_option (\<lambda>_. sample_source) (map_of sample_contracts n)"
  "build_info_of sample_hre q = (if q \<in> set (map (\<lambda>p. sample_fqn (fst p)) sample_contracts)
                            then Some sample_build_info else None)"
  "deploy_data sample_hre c as = Inr (Some (c @ js_join '','' (map js_to_string as)))"
  "encode_call sample_hre c f as = Inr (OtherCall c f [])"
  "formatBytes32String sample_hre = sample_bytes32"
  "parseBytes32String sample_hre b = Inr []"
  "toml_parse sample_hre = sample_toml_parse"
  "to_address sample_hre (JStr s) = Some 0x1E6"
  "verify_task sample_hre a as = None"
  "encode_iface sample_hre sig f as = Inr (OtherCall sig f [])"
  "call_static sample_hre ch a c f as = Inr (JBig 0)"
  "tx_fee sample_hre ch p = 21000"
  "rpc_error sample_hre m ps = None"
  "http_post sample_hre log url body = Inr (200, JObj [(''BlockHeader'', JObj [(''SigGroup'', JStr ''ab'')]),
     (''BlockHeight'', JNum 9)])"
  "mined_in sample_hre ch t = 1"
  by (simp_all add: sample_hre_def sample_hre0_def)

lemma sample_chain_simps:
  "ch_code sample_chain = [sample_factory \<mapsto> FactoryCode, sample_template \<mapsto> ProxyTemplateCode]"
  "ch_nonce sample_chain a = (if a = sample_factory then 3 else if a = sample_template then 1 else 0)"
  "ch_storage sample_chain a s = 0"
  "ch_balance sample_chain a = 0"
  "fs_owner (ch_fact sample_chain a) = sample_owner"
  "fs_proxyTemplate (ch_fact sample_chain a) = sample_template"
  "fs_registry (ch_fact sample_chain a) s = None"
  "w_chain sample_world = sample_chain" "w_fs sample_world = sample_files" "w_log sample_world = []"
  "w_console sample_world = []" "w_chain sample_world1 = sample_chain"
  by (simp_all add: sample_chain_def sample_world_def sample_world1_def)

lemma sample_addr_neq [simp]:
  "sample_factory \<noteq> sample_template" "sample_template \<noteq> sample_factory"
  "sample_owner \<noteq> sample_factory" "sample_factory \<noteq> sample_owner"
  by (simp_all add: sample_addr_defs)

lemmas sample_defs = sample_hre_simps sample_evm_simps sample_chain_simps

section \<open>The laws hold\<close>

lemma toml_norm_cong:
  assumes "bignumber_json H = bignumber_json H'"
  shows "toml_norm H v = toml_norm H' v"
  using assms
proof (induction H v rule: toml_norm.induct)
  case (3 H ps)
  then have "map (\<lambda>p. (fst p, toml_norm H (snd p))) ps = map (\<lambda>p. (fst p, toml_norm H' (snd p))) ps"
    by (intro map_cong) auto
  then show ?case by (simp only: toml_norm.simps)
qed auto

lemma sample_bignumber:
  "wf_js (JObj (bignumber_json sample_hre0 n)) \<and> toml_able (JObj (bignumber_json sample_hre0 n))"
  by (simp add: sample_hre0_def)

lemma sample_toml_roundtrip:
  assumes "wf_js (JObj ps)" and "toml_able (JObj ps)"
  shows "sample_toml_parse (enc (toml_norm sample_hre0 (JObj ps))) = Inr (toml_norm sample_hre0 (JObj ps))"
proof -
  obtain qs where q: "toml_norm sample_hre0 (JObj ps) = JObj qs" by simp
  have a: "toml_accepts (JObj qs)"
    using toml_accepts_norm [OF sample_bignumber assms] unfolding q by (simp add: toml_accepts_def)
  have "dec (length (enc (JObj qs))) (enc (JObj qs)) = Some (JObj qs, [])"
    using dec_enc [of "JObj qs" "length (enc (JObj qs))" "[]"] by simp
  moreover have "enc (JObj qs) \<noteq> []" by simp
  ultimately show ?thesis
    using a unfolding sample_toml_parse_def Let_def skip_comments_table q
    by (simp del: enc.simps)
qed

lemma sample_toml_library: "toml_library sample_hre"
proof -
  have n: "toml_norm sample_hre v = toml_norm sample_hre0 v" for v
    by (rule toml_norm_cong) (simp add: sample_hre_def)
  have p: "toml_parse sample_hre = sample_toml_parse"
    by (simp add: sample_hre_def sample_hre0_def)
  have s: "toml_stringify sample_hre v =
      (if toml_accepts v then Inr (enc (toml_norm sample_hre0 v)) else Inl (LibErr ''toml''))" for v
    by (simp add: sample_hre_def sample_toml_stringify_def)
  have 1: "\<exists>s. toml_stringify sample_hre (JObj ps) = Inr s
      \<and> toml_parse sample_hre s = Inr (toml_norm sample_hre (JObj ps))"
    if "wf_js (JObj ps)" and "toml_able (JObj ps)" for ps
    using that sample_toml_roundtrip [OF that]
    unfolding p s n by (simp add: toml_accepts_def del: toml_norm.simps enc.simps)
  have 2: "wf_js v \<and> toml_able v \<and> (\<exists>ps. v = JObj ps)" if "toml_parse sample_hre s = Inr v" for s v
    using that unfolding p sample_toml_parse_def Let_def
    by (auto simp: toml_accepts_def split: if_splits option.splits list.splits jsval.splits)
  have 3: "toml_norm sample_hre (JObj (bignumber_json sample_hre n)) = JObj (bignumber_json sample_hre n)
      \<and> wf_js (JObj (bignumber_json sample_hre n)) \<and> toml_able (JObj (bignumber_json sample_hre n))" for n
    by (simp add: sample_hre_def sample_hre0_def toml_order_def)
  have 4: "toml_parse sample_hre (CHR ''#'' # c @ CHR 0x0A # s) = toml_parse sample_hre s"
    if "CHR 0x0A \<notin> set c" for c s
    unfolding p sample_toml_parse_def skip_comments_comment [OF that] ..
  show ?thesis
    unfolding toml_library_def using 1 2 3 4 by blast
qed

lemma sample_keccak: "keccak (hre_evm sample_hre) METAMORPHIC_CODE = METAMORPHIC_HASH"
  by (simp add: sample_hre_def sample_hre0_def sample_evm_def)

lemma sample_state_parse: "toml_parse sample_hre (enc sample_state) = Inr sample_state"
  using sample_toml_roundtrip [of "[(''local'', JObj [(''defaultFactoryAddress'', JStr ''0xfac'')])]"]
  by (simp add: sample_hre_def sample_hre0_def sample_state_def toml_order_def)

lemma sample_wf_fs: "wf_fs (w_fs sample_world)" "wf_fs (w_fs sample_world1)"
  by (auto simp: wf_fs_def is_dir_def sample_world_def sample_world1_def sample_files_def)

end
