(* ===== verification/Factory_State.thy ===== *)
theory Factory_State
  imports Sample_Env
begin

text \<open>
  \<^verbatim>\<open>scripts/lib/deployment/factoryStateUtil.ts\<close>: the factory state file, a TOML document that maps a network
  to its fields. The writers are shown to refine updates of a store of \<open>(network, field)\<close> properties;
  the readers of addresses at the end of the file are modelled with the path they really open.
\<close>

section \<open>Data\<close>

text \<open>\<open>BigNumberish\<close> as the sources use it: a \<open>BigNumber\<close>, or a number after \<open>toNumber()\<close>.\<close>

datatype BigNumberish = BigNum nat | PlainNum nat

fun BigNumberish_js :: "BigNumberish \<Rightarrow> jsval" where
  "BigNumberish_js (BigNum n) = JBig (int n)"
| "BigNumberish_js (PlainNum n) = JNum (int n)"

record FactoryData =
  fd_address :: addr
  fd_owner :: "addr option"
  fd_gas :: nat

record DeployCreateData =
  dc_name :: string
  dc_address :: addr
  dc_factoryAddress :: addr
  dc_gas :: nat
  dc_constructorArgs :: "jsval list option"
  dc_receipt :: "receipt option"

record MetaContractData =
  mc_metaAddress :: addr
  mc_salt :: bytes32
  mc_templateName :: string
  mc_templateAddress :: addr
  mc_factoryAddress :: addr
  mc_gas :: nat
  mc_initCallData :: string
  mc_receipt :: "receipt option"

record TemplateData =
  td_name :: string
  td_address :: addr
  td_factoryAddress :: addr
  td_gas :: nat
  td_receipt :: "receipt option"
  td_constructorArgs :: "string option"

record ProxyData =
  pd_proxyAddress :: addr
  pd_salt :: bytes32
  pd_logicName :: "string option"
  pd_logicAddress :: "addr option"
  pd_factoryAddress :: addr
  pd_gas :: BigNumberish
  pd_receipt :: "receipt option"
  pd_initCallData :: "cdata option"

text \<open>
  The objects as the object literals build them. A receipt never reaches the file, so its object
  form shows only that it is defined. \<open>ks\<close> is the order of the keys in the literal.
\<close>

definition js_opt :: "('a \<Rightarrow> jsval) \<Rightarrow> 'a option \<Rightarrow> jsval" where
  "js_opt f x = (case x of None \<Rightarrow> JUndef | Some a \<Rightarrow> f a)"

definition FactoryData_js :: "hre \<Rightarrow> FactoryData \<Rightarrow> js_object" where
  "FactoryData_js H d =
     [(''address'', JStr (addr_hex H (fd_address d))),
      (''owner'', js_opt (\<lambda>a. JStr (addr_hex H a)) (fd_owner d)),
      (''gas'', JBig (int (fd_gas d)))]"

definition DeployCreateData_js :: "hre \<Rightarrow> DeployCreateData \<Rightarrow> js_object" where
  "DeployCreateData_js H d =
     [(''name'', JStr (dc_name d)),
      (''address'', JStr (addr_hex H (dc_address d))),
      (''factoryAddress'', JStr (addr_hex H (dc_factoryAddress d))),
      (''gas'', JBig (int (dc_gas d))),
      (''constructorArgs'', js_opt JArr (dc_constructorArgs d))]
     @ (case dc_receipt d of None \<Rightarrow> [] | Some r \<Rightarrow> [(RECEIPT, JObj [])])"

definition MetaContractData_js :: "hre \<Rightarrow> MetaContractData \<Rightarrow> js_object" where
  "MetaContractData_js H d =
     [(''metaAddress'', JStr (addr_hex H (mc_metaAddress d))),
      (''salt'', JStr (bytes32_hex H (mc_salt d))),
      (''templateName'', JStr (mc_templateName d)),
      (''templateAddress'', JStr (addr_hex H (mc_templateAddress d))),
      (''factoryAddress'', JStr (addr_hex H (mc_factoryAddress d))),
      (''gas'', JBig (int (mc_gas d))),
      (''initCallData'', JStr (mc_initCallData d)),
      (RECEIPT, js_opt (\<lambda>r. JObj []) (mc_receipt d))]"

definition TemplateData_js :: "hre \<Rightarrow> TemplateData \<Rightarrow> js_object" where
  "TemplateData_js H d =
     [(''name'', JStr (td_name d)),
      (''address'', JStr (addr_hex H (td_address d))),
      (''factoryAddress'', JStr (addr_hex H (td_factoryAddress d))),
      (''gas'', JBig (int (td_gas d))),
      (RECEIPT, js_opt (\<lambda>r. JObj []) (td_receipt d)),
      (''constructorArgs'', js_opt JStr (td_constructorArgs d))]"

definition ProxyData_field :: "hre \<Rightarrow> ProxyData \<Rightarrow> string \<Rightarrow> jsval" where
  "ProxyData_field H d k =
     (if k = ''proxyAddress'' then JStr (addr_hex H (pd_proxyAddress d))
      else if k = ''salt'' then JStr (bytes32_hex H (pd_salt d))
      else if k = ''logicName'' then js_opt JStr (pd_logicName d)
      else if k = ''logicAddress'' then js_opt (\<lambda>a. JStr (addr_hex H a)) (pd_logicAddress d)
      else if k = ''factoryAddress'' then JStr (addr_hex H (pd_factoryAddress d))
      else if k = ''gas'' then BigNumberish_js (pd_gas d)
      else if k = RECEIPT then js_opt (\<lambda>r. JObj []) (pd_receipt d)
      else if k = ''initCallData'' then js_opt (\<lambda>c. JStr (cdata_hex H c)) (pd_initCallData d)
      else JUndef)"

definition ProxyData_js :: "hre \<Rightarrow> string list \<Rightarrow> ProxyData \<Rightarrow> js_object" where
  "ProxyData_js H ks d = map (\<lambda>k. (k, ProxyData_field H d k)) ks"

section \<open>Operations\<close>

text \<open>\<open>process.env.silencer === undefined || process.env.silencer === "false"\<close>\<close>

definition not_silenced :: "hre \<Rightarrow> bool" where
  "not_silenced H = (silencer H = None \<or> silencer H = Some ''false'')"

abbreviation propOf :: "jsval \<Rightarrow> string \<Rightarrow> jsval js" where
  "propOf v k \<equiv> orTypeError ''Cannot read properties of undefined'' (js_prop v k)"

definition getDefaultFactoryAddress :: "hre \<Rightarrow> string \<Rightarrow> string option \<Rightarrow> jsval js" where
  "getDefaultFactoryAddress H network usrPath =
     (let path = (case usrPath of None \<Rightarrow> FACTORY_STATE_PATH
                  | Some p \<Rightarrow> js_strip_slashes p @ ''/factoryState'')
      in bnd (readFactoryState H (Some path)) (\<lambda>config.
         bnd (propOf config network) (\<lambda>n. propOf n ''defaultFactoryAddress'')))"

definition writeFactoryState :: "hre \<Rightarrow> string \<Rightarrow> string \<Rightarrow> jsval \<Rightarrow> string option \<Rightarrow> unit js" where
  "writeFactoryState H network fieldName fieldData usrPath =
     (if not_silenced H then
        let filePath = (case usrPath of None \<Rightarrow> FACTORY_STATE_PATH
                        | Some p \<Rightarrow> js_strip_slashes p @ ''/factoryState'')
        in bnd (existsSync filePath) (\<lambda>ex.
           bnd (if ex then
                  bnd (readFactoryState H usrPath) (\<lambda>config.
                  bnd (propOf config network) (\<lambda>old.
                  bnd (fromSum (js_set (if old = JUndef then JObj [] else old) fieldName fieldData))
                    (\<lambda>new. fromSum (js_set config network new))))
                else ret (JObj [(network, JObj [(fieldName, fieldData)])])) (\<lambda>factoryStateConfig.
           bnd (fromSum (toml_stringify H factoryStateConfig)) (\<lambda>data.
           writeFileSync filePath data)))
      else ret ())"

definition updateDefaultFactoryData :: "hre \<Rightarrow> string \<Rightarrow> FactoryData \<Rightarrow> string option \<Rightarrow> unit js" where
  "updateDefaultFactoryData H network data usrPath =
     andThen (writeFactoryState H network ''defaultFactoryData'' (JObj (FactoryData_js H data)) usrPath)
       (writeFactoryState H network ''defaultFactoryAddress''
          (JStr (addr_hex H (fd_address data))) usrPath)"

text \<open>
  \<open>updateList\<close> appends \<open>data\<close> and clears its receipt. The array holds the very object \<open>data\<close>, so the
  receipt is cleared in the array too; the result is \<open>data\<close> as the caller sees it afterwards.
\<close>

definition clear_receipt :: "js_object \<Rightarrow> js_object" where
  "clear_receipt data =
     (if obj_get data RECEIPT \<noteq> JUndef then obj_put RECEIPT JUndef data else data)"

definition js_push :: "jsval \<Rightarrow> jsval \<Rightarrow> jsval js" where
  "js_push xs v = (case xs of JArr vs \<Rightarrow> ret (JArr (vs @ [v]))
                   | _ \<Rightarrow> throw (TypeErr ''output.push is not a function''))"

definition updateList ::
    "hre \<Rightarrow> string \<Rightarrow> string \<Rightarrow> js_object \<Rightarrow> string option \<Rightarrow> js_object js" where
  "updateList H network fieldName data usrPath =
     (if not_silenced H then
        bnd (readFactoryState H usrPath) (\<lambda>factoryStateConfig.
        bnd (propOf factoryStateConfig network) (\<lambda>n.
        bnd (propOf n fieldName) (\<lambda>old.
        bnd (js_push (if old = JUndef then JArr [] else old) (JObj (clear_receipt data))) (\<lambda>output.
        andThen (writeFactoryState H network fieldName output usrPath)
          (ret (clear_receipt data))))))
      else ret data)"

definition updateDeployCreateList ::
    "hre \<Rightarrow> string \<Rightarrow> DeployCreateData \<Rightarrow> string option \<Rightarrow> DeployCreateData js" where
  "updateDeployCreateList H network data usrPath =
     bnd (updateList H network ''rawDeployments'' (DeployCreateData_js H data) usrPath) (\<lambda>d.
       ret (if obj_get d RECEIPT = JUndef then data\<lparr>dc_receipt := None\<rparr> else data))"

definition updateTemplateList ::
    "hre \<Rightarrow> string \<Rightarrow> TemplateData \<Rightarrow> string option \<Rightarrow> TemplateData js" where
  "updateTemplateList H network data usrPath =
     bnd (updateList H network ''templates'' (TemplateData_js H data) usrPath) (\<lambda>d.
       ret (if obj_get d RECEIPT = JUndef then data\<lparr>td_receipt := None\<rparr> else data))"

definition updateProxyList ::
    "hre \<Rightarrow> string list \<Rightarrow> string \<Rightarrow> ProxyData \<Rightarrow> string option \<Rightarrow> ProxyData js" where
  "updateProxyList H ks network data usrPath =
     bnd (updateList H network ''proxies'' (ProxyData_js H ks data) usrPath) (\<lambda>d.
       ret (if obj_get d RECEIPT = JUndef then data\<lparr>pd_receipt := None\<rparr> else data))"

definition updateMetaList ::
    "hre \<Rightarrow> string \<Rightarrow> MetaContractData \<Rightarrow> string option \<Rightarrow> MetaContractData js" where
  "updateMetaList H network data usrPath =
     bnd (updateList H network ''staticContracts'' (MetaContractData_js H data) usrPath) (\<lambda>d.
       ret (if obj_get d RECEIPT = JUndef then data\<lparr>mc_receipt := None\<rparr> else data))"

text \<open>
  The elements a loop \<open>for (let i = 0; i < xs.length; i++)\<close> visits: those of an array, the characters
  of a string, and none for a value without a \<open>length\<close>.
\<close>

fun js_elements :: "jsval \<Rightarrow> jsval list option" where
  "js_elements JUndef = None"
| "js_elements (JArr vs) = Some vs"
| "js_elements (JStr s) = Some (map (\<lambda>c. JStr [c]) s)"
| "js_elements _ = Some []"

text \<open>The three searches: the first entry of the list whose name matches.\<close>

fun findEntry :: "string \<Rightarrow> string \<Rightarrow> string \<Rightarrow> jsval list \<Rightarrow> jsval js" where
  "findEntry nameKey name addrKey [] = ret JUndef"
| "findEntry nameKey name addrKey (v # vs) =
     bnd (propOf v nameKey) (\<lambda>n.
       if n = JStr name then propOf v addrKey else findEntry nameKey name addrKey vs)"

definition searchState :: "hre \<Rightarrow> string \<Rightarrow> string \<Rightarrow> string \<Rightarrow> string \<Rightarrow> string \<Rightarrow> jsval js" where
  "searchState H network listName nameKey name addrKey =
     bnd (readFactoryState H (Some FACTORY_STATE_PATH)) (\<lambda>config.
     bnd (propOf config network) (\<lambda>n.
     bnd (propOf n listName) (\<lambda>xs.
     bnd (orTypeError ''Cannot read properties of undefined'' (js_elements xs))
       (findEntry nameKey name addrKey))))"

definition getATokenMinterAddress :: "hre \<Rightarrow> string \<Rightarrow> jsval js" where
  "getATokenMinterAddress H network =
     searchState H network ''proxies'' ''logicName'' ''ATokenMinter'' ''proxyAddress''"

definition getBTokenAddress :: "hre \<Rightarrow> string \<Rightarrow> jsval js" where
  "getBTokenAddress H network =
     searchState H network ''staticContracts'' ''templateName'' ''BToken'' ''metaAddress''"

definition getATokenAddress :: "hre \<Rightarrow> string \<Rightarrow> jsval js" where
  "getATokenAddress H network =
     searchState H network ''staticContracts'' ''templateName'' ''AToken'' ''metaAddress''"

section \<open>The abstract state\<close>

text \<open>
  The state file as a store of properties \<open>(network, field)\<close>. \<open>abs_state\<close> is what a reader finds, in
  the normal form of the TOML library.
\<close>

fun obj_fields :: "jsval \<Rightarrow> js_object" where
  "obj_fields (JObj ps) = ps"
| "obj_fields _ = []"

fun state_get :: "jsval \<Rightarrow> string \<times> string \<Rightarrow> jsval" where
  "state_get cfg (n, f) = obj_get (obj_fields (obj_get (obj_fields cfg) n)) f"

fun state_put :: "string \<times> string \<Rightarrow> jsval \<Rightarrow> jsval \<Rightarrow> jsval" where
  "state_put (n, f) v cfg =
     JObj (obj_put n (JObj (obj_put f v (obj_fields (obj_get (obj_fields cfg) n)))) (obj_fields cfg))"

interpretation state_store: prop_store state_get state_put
  by unfold_locales (auto split: if_splits)

definition disk_state :: "hre \<Rightarrow> string option \<Rightarrow> world \<Rightarrow> jsval" where
  "disk_state H usrPath w =
     (case w_fs w (fs_path (factoryStatePath usrPath)) of
        Some (File s) \<Rightarrow> (case toml_parse H s of Inr v \<Rightarrow> v | Inl e \<Rightarrow> JUndef)
      | _ \<Rightarrow> JObj [])"

definition abs_state :: "hre \<Rightarrow> string option \<Rightarrow> world \<Rightarrow> string \<times> string \<Rightarrow> jsval" where
  "abs_state H usrPath w k = toml_norm H (state_get (disk_state H usrPath w) k)"

text \<open>The invariant of the file: absent, or a table of tables.\<close>

definition state_wf :: "jsval \<Rightarrow> bool" where
  "state_wf v = (wf_js v \<and> toml_able v
     \<and> (case v of JObj ps \<Rightarrow> list_all (\<lambda>p. case snd p of JObj qs \<Rightarrow> True | _ \<Rightarrow> False) ps | _ \<Rightarrow> False))"

definition state_file_ok :: "hre \<Rightarrow> string option \<Rightarrow> world \<Rightarrow> bool" where
  "state_file_ok H usrPath w =
     (case w_fs w (fs_path (factoryStatePath usrPath)) of
        None \<Rightarrow> True
      | Some Dir \<Rightarrow> False
      | Some (File s) \<Rightarrow> (case toml_parse H s of Inr v \<Rightarrow> state_wf v | Inl e \<Rightarrow> False))"

text \<open>The folder of the state file exists.\<close>

definition state_dir_ok :: "string option \<Rightarrow> world \<Rightarrow> bool" where
  "state_dir_ok usrPath w = is_dir (w_fs w) (butlast (fs_path (factoryStatePath usrPath)))"

subsection \<open>Lemmas\<close>

lemma js_split_snoc:
  assumes "c \<notin> set t"
  shows "js_split c (s @ c # t) = js_split c s @ [t]"
proof (induction s)
  case Nil
  then show ?case using assms by (simp add: js_split_no_sep)
next
  case (Cons x xs)
  then show ?case by (cases "js_split c xs") auto
qed

lemma fs_path_child:
  assumes "s \<noteq> []" and "CHR ''/'' \<notin> set t" and "t \<noteq> []"
  shows "fs_path (s @ CHR ''/'' # t) = fs_path s @ [t]"
proof -
  have "js_startsWith (s @ CHR ''/'' # t) ''/'' = js_startsWith s ''/''"
    using assms(1) by (cases s) (auto simp: js_startsWith_def)
  then show ?thesis
    using assms by (simp add: fs_path_def js_split_snoc)
qed

lemma factoryStatePath_not_Nil [simp]: "fs_path (factoryStatePath u) \<noteq> []"
proof (cases u)
  case (Some p)
  show ?thesis
  proof (cases "js_strip_slashes p = []")
    case False
    then show ?thesis
      using fs_path_child [of "js_strip_slashes p" "''factoryState''"] Some
      by (simp add: factoryStatePath_def)
  qed (simp add: Some factoryStatePath_def fs_path_def js_startsWith_def)
qed (simp add: factoryStatePath_def fs_path_def)

lemma state_wfE:
  assumes "state_wf v"
  obtains ps where "v = JObj ps" and "wf_js v" and "toml_able v"
    and "\<And>p. p \<in> set ps \<Longrightarrow> \<exists>qs. snd p = JObj qs"
proof -
  from assms obtain ps where "v = JObj ps" by (cases v) (auto simp: state_wf_def)
  moreover have "\<exists>qs. snd p = JObj qs" if "p \<in> set ps" for p
    using assms that calculation
    by (cases "snd p") (fastforce simp: state_wf_def list_all_iff)+
  ultimately show thesis using assms that by (auto simp: state_wf_def)
qed

lemma state_wf_empty [simp]: "state_wf (JObj [])"
  by (simp add: state_wf_def)

lemma state_wf_entry: "state_wf (JObj ps) \<Longrightarrow> obj_get ps n = JUndef \<or> (\<exists>qs. obj_get ps n = JObj qs)"
  by (erule state_wfE) (fastforce simp: obj_get_def dest!: map_of_SomeD split: option.split)

lemma toml_able_obj_put:
  "toml_able (JObj ps) \<Longrightarrow> toml_able v \<Longrightarrow> toml_able (JObj (obj_put k v ps))"
  by (simp add: list_all_obj_put)

lemma toml_able_obj_get: "toml_able (JObj ps) \<Longrightarrow> toml_able (obj_get ps k)"
  by (auto simp: obj_get_def list_all_iff dest!: map_of_SomeD split: option.split)

lemma wf_js_fields: "wf_js v \<Longrightarrow> wf_js (JObj (obj_fields v))"
  by (cases v) auto

lemma toml_able_fields: "toml_able v \<Longrightarrow> toml_able (JObj (obj_fields v))"
  by (cases v) auto

lemma state_wf_put:
  assumes "state_wf cfg" and "wf_js v" and "toml_able v"
  shows "state_wf (state_put (n, f) v cfg)"
proof -
  from assms(1) obtain ps where ps: "cfg = JObj ps" "wf_js cfg" "toml_able cfg"
    "\<And>p. p \<in> set ps \<Longrightarrow> \<exists>qs. snd p = JObj qs" by (rule state_wfE) blast
  let ?inner = "JObj (obj_put f v (obj_fields (obj_get ps n)))"
  have "wf_js ?inner"
    using ps assms by (intro wf_js_obj_put wf_js_fields wf_js_obj_get) auto
  moreover have "toml_able ?inner"
    using ps assms by (intro toml_able_obj_put toml_able_fields toml_able_obj_get) auto
  moreover have "list_all (\<lambda>p. case snd p of JObj qs \<Rightarrow> True | _ \<Rightarrow> False) (obj_put n ?inner ps)"
    using ps(4) by (intro list_all_obj_put) (fastforce simp: list_all_iff)+
  ultimately show ?thesis
    using ps wf_js_obj_put toml_able_obj_put
    by (auto simp: state_wf_def simp del: wf_js.simps toml_able.simps)
qed

lemma state_wf_norm:
  assumes "state_wf cfg" and "wf_js (toml_norm H cfg)" and "toml_able (toml_norm H cfg)"
  shows "state_wf (toml_norm H cfg)"
proof -
  from assms(1) obtain ps where ps: "cfg = JObj ps"
    "\<And>p. p \<in> set ps \<Longrightarrow> \<exists>qs. snd p = JObj qs" by (rule state_wfE) blast
  then have "list_all (\<lambda>p. case snd p of JObj qs \<Rightarrow> True | _ \<Rightarrow> False)
      (toml_order (filter (\<lambda>p. snd p \<noteq> JUndef) (map (\<lambda>p. (fst p, toml_norm H (snd p))) ps)))"
    by (fastforce simp: list_all_iff)
  with assms ps(1) show ?thesis
    by (simp add: state_wf_def del: wf_js.simps toml_able.simps)
qed

lemma state_get_norm:
  assumes "state_wf cfg"
  shows "state_get (toml_norm H cfg) k = toml_norm H (state_get cfg k)"
proof -
  obtain n f where k: "k = (n, f)" by (cases k)
  from assms obtain ps where ps: "cfg = JObj ps" "wf_js cfg" by (rule state_wfE) blast
  obtain qs where qs: "toml_norm H (JObj ps) = JObj qs" by simp
  have g: "obj_get qs n = toml_norm H (obj_get ps n)"
    using ps by (intro obj_get_toml_norm [OF _ qs]) simp
  from state_wf_entry [of ps n] assms ps(1)
  consider "obj_get ps n = JUndef" | rs where "obj_get ps n = JObj rs" by auto
  then show ?thesis
  proof cases
    case 1
    then show ?thesis using g k ps qs by (simp add: obj_get_def del: toml_norm.simps(3))
  next
    case (2 rs)
    obtain ts where ts: "toml_norm H (JObj rs) = JObj ts" by simp
    have "wf_js (JObj rs)" using wf_js_obj_get [of ps n] ps 2 by simp
    then have "obj_get ts f = toml_norm H (obj_get rs f)"
      by (intro obj_get_toml_norm [OF _ ts]) simp
    then show ?thesis using g k ps qs 2 ts by (simp del: toml_norm.simps(3))
  qed
qed

subsection \<open>Reading\<close>

lemma readFactoryState_run:
  assumes "state_file_ok H u w"
  shows "readFactoryState H u w = (Inr (disk_state H u w), w)"
  using assms
  by (auto simp: readFactoryState_def readTOML_def existsSync_def readFileSync_def state_file_ok_def
      disk_state_def bnd_def Let_def world_simps split: option.splits node.splits sum.splits)

lemma disk_state_wf: "state_file_ok H u w \<Longrightarrow> state_wf (disk_state H u w)"
  by (auto simp: state_file_ok_def disk_state_def split: option.splits node.splits sum.splits)

lemma disk_state_absent:
  "w_fs w (fs_path (factoryStatePath u)) = None \<Longrightarrow> disk_state H u w = JObj []"
  by (simp add: disk_state_def)

subsection \<open>Writing\<close>

text \<open>The object a writer serialises is the store with the property put.\<close>

lemma put_config:
  assumes "state_wf cfg"
  shows "bnd (propOf cfg n) (\<lambda>old.
           bnd (fromSum (js_set (if old = JUndef then JObj [] else old) f v))
             (\<lambda>new. fromSum (js_set cfg n new))) w = (Inr (state_put (n, f) v cfg), w)"
proof -
  from assms obtain ps where ps: "cfg = JObj ps" by (rule state_wfE)
  with state_wf_entry [of ps n] assms show ?thesis
    by (auto simp: world_simps)
qed

lemma writeFactoryState_run:
  assumes "toml_library H" and "not_silenced H" and ok: "state_file_ok H u w" and "state_dir_ok u w"
    and v: "wf_js v" "toml_able v"
  obtains s where
    "writeFactoryState H n f v u w =
       (Inr (), w\<lparr>w_fs := (w_fs w)(fs_path (factoryStatePath u) \<mapsto> File s)\<rparr>)"
    and "toml_parse H s = Inr (toml_norm H (state_put (n, f) v (disk_state H u w)))"
proof -
  let ?p = "fs_path (factoryStatePath u)" and ?cfg = "state_put (n, f) v (disk_state H u w)"
  have wf: "state_wf ?cfg" by (rule state_wf_put [OF disk_state_wf [OF ok] v])
  then obtain ps where ps: "?cfg = JObj ps" "wf_js ?cfg" "toml_able ?cfg" by (rule state_wfE) blast
  then obtain s where s: "toml_stringify H ?cfg = Inr s" "toml_parse H s = Inr (toml_norm H ?cfg)"
    using toml_stringify_parse [OF assms(1), of ps] by metis
  have path: "(case u of None \<Rightarrow> FACTORY_STATE_PATH
       | Some p \<Rightarrow> js_strip_slashes p @ ''/factoryState'') = factoryStatePath u"
    by (simp add: factoryStatePath_def)
  have wr: "writeFileSync (factoryStatePath u) s w = (Inr (), w\<lparr>w_fs := (w_fs w)(?p \<mapsto> File s)\<rparr>)"
    using assms(4) ok
    by (auto simp: writeFileSync_def state_dir_ok_def is_dir_def state_file_ok_def
        split: option.splits node.splits)
  have cfg: "(if w_fs w ?p \<noteq> None then
       bnd (readFactoryState H u) (\<lambda>config. bnd (propOf config n) (\<lambda>old.
         bnd (fromSum (js_set (if old = JUndef then JObj [] else old) f v))
           (\<lambda>new. fromSum (js_set config n new))))
     else ret (JObj [(n, JObj [(f, v)])])) w = (Inr ?cfg, w)"
    using readFactoryState_run [OF ok] put_config [OF disk_state_wf [OF ok]] disk_state_absent [of w u H]
    by (auto simp: bnd_def world_simps obj_get_def)
  have "writeFactoryState H n f v u w = (Inr (), w\<lparr>w_fs := (w_fs w)(?p \<mapsto> File s)\<rparr>)"
    unfolding writeFactoryState_def Let_def path
    using assms(2) cfg s(1) wr
    by (simp add: existsSync_def bnd_def world_simps)
  then show thesis using s(2) that by blast
qed

lemma writeFactoryState_refines:
  assumes "toml_library H" and "not_silenced H" and "state_file_ok H u w" and "state_dir_ok u w"
    and v: "wf_js v" "toml_able v"
  obtains w' where "writeFactoryState H n f v u w = (Inr (), w')"
    and "abs_state H u w' = (abs_state H u w)((n, f) := toml_norm H v)"
    and "state_file_ok H u w'" and "state_dir_ok u w'"
    and "w' = w\<lparr>w_fs := w_fs w'\<rparr>"
    and "\<And>q. q \<noteq> fs_path (factoryStatePath u) \<Longrightarrow> w_fs w' q = w_fs w q"
proof -
  let ?p = "fs_path (factoryStatePath u)" and ?cfg = "state_put (n, f) v (disk_state H u w)"
  from writeFactoryState_run [OF assms] obtain s where
    run: "writeFactoryState H n f v u w = (Inr (), w\<lparr>w_fs := (w_fs w)(?p \<mapsto> File s)\<rparr>)" (is "_ = (_, ?w)")
    and s: "toml_parse H s = Inr (toml_norm H ?cfg)" by metis
  have wf: "state_wf ?cfg" by (rule state_wf_put [OF disk_state_wf [OF assms(3)] v])
  have wf': "state_wf (toml_norm H ?cfg)"
    using toml_parse_wf [OF assms(1) s] state_wf_norm [OF wf] by metis
  have disk: "disk_state H u ?w = toml_norm H ?cfg" by (simp add: disk_state_def s)
  have "abs_state H u ?w = (abs_state H u w)((n, f) := toml_norm H v)"
  proof
    fix k
    show "abs_state H u ?w k = ((abs_state H u w)((n, f) := toml_norm H v)) k"
      unfolding abs_state_def disk state_get_norm [OF wf] toml_norm_idem [OF assms(1)]
        state_store.get_put_fun by simp
  qed
  moreover have "state_file_ok H u ?w" using wf' s by (simp add: state_file_ok_def)
  moreover have "butlast ?p \<noteq> ?p"
    by (metis append_butlast_last_id append_self_conv factoryStatePath_not_Nil not_Cons_self2)
  then have "state_dir_ok u ?w" using assms(4) by (auto simp: state_dir_ok_def is_dir_def)
  ultimately show thesis using run that by simp
qed

subsection \<open>Lists\<close>

definition list_elems :: "jsval \<Rightarrow> jsval list" where
  "list_elems v = (case v of JArr vs \<Rightarrow> vs | _ \<Rightarrow> [])"

text \<open>A field of the state that is absent or a list of tables, as \<open>updateList\<close> leaves it.\<close>

definition table_list :: "jsval \<Rightarrow> bool" where
  "table_list v = (v = JUndef \<or> (case v of JArr vs \<Rightarrow> list_all (\<lambda>x. toml_type x = ''table'') vs | _ \<Rightarrow> False))"

lemma toml_able_tables:
  assumes "\<And>x. x \<in> set vs \<Longrightarrow> toml_able x \<and> toml_type x = ''table''"
  shows "toml_able (JArr vs)"
proof -
  have "toml_type (hd vs) = ''table''" if "x \<in> set vs" for x
    using assms [of "hd vs"] that by (cases vs) auto
  then show ?thesis using assms unfolding toml_able.simps list_all_iff by force
qed

lemma push_table:
  assumes "table_list v" and "toml_able v" and "wf_js v" and "wf_js (JObj d)" and "toml_able (JObj d)"
  shows "wf_js (JArr (list_elems v @ [JObj d]))" and "toml_able (JArr (list_elems v @ [JObj d]))"
proof -
  have e: "toml_able x \<and> toml_type x = ''table''" if "x \<in> set (list_elems v)" for x
    using assms(1,2) that
    by (cases v) (auto simp: table_list_def list_elems_def list_all_iff simp del: One_nat_def)
  then show "toml_able (JArr (list_elems v @ [JObj d]))"
    using assms(5) by (intro toml_able_tables) (auto simp del: toml_able.simps)
  show "wf_js (JArr (list_elems v @ [JObj d]))"
    using assms(3,4) by (cases v) (auto simp: list_elems_def)
qed

lemma updateList_refines:
  assumes "toml_library H" and "not_silenced H" and ok: "state_file_ok H u w" and "state_dir_ok u w"
    and known: "obj_get (obj_fields (disk_state H u w)) n \<noteq> JUndef"
    and tl: "table_list (state_get (disk_state H u w) (n, f))"
    and d: "wf_js (JObj d)" "toml_able (JObj d)"
  obtains w' where "updateList H n f d u w = (Inr (clear_receipt d), w')"
    and "abs_state H u w' = (abs_state H u w)((n, f) :=
           JArr (list_elems (abs_state H u w (n, f)) @ [toml_norm H (JObj (clear_receipt d))]))"
    and "state_file_ok H u w'" and "state_dir_ok u w'"
    and "w' = w\<lparr>w_fs := w_fs w'\<rparr>"
proof -
  let ?old = "state_get (disk_state H u w) (n, f)"
  let ?d = "JObj (clear_receipt d)"
  let ?new = "JArr (list_elems ?old @ [?d])"
  have wf: "state_wf (disk_state H u w)" by (rule disk_state_wf [OF ok])
  then obtain ps where ps: "disk_state H u w = JObj ps" "wf_js (JObj ps)" "toml_able (JObj ps)"
    by (rule state_wfE) auto
  from state_wf_entry [of ps n] wf ps known obtain qs where qs: "obj_get ps n = JObj qs" by auto
  have old: "wf_js ?old" "toml_able ?old"
    using ps qs wf_js_obj_get [of ps n] toml_able_obj_get [of ps n]
      wf_js_obj_get [of qs f] toml_able_obj_get [of qs f] by auto
  have d': "wf_js ?d" "toml_able ?d"
    using d wf_js_obj_put [of d JUndef RECEIPT] toml_able_obj_put [of d JUndef RECEIPT]
    by (auto simp: clear_receipt_def simp del: wf_js.simps(2) toml_able.simps(3))
  note new = push_table [OF tl old(2,1) d']
  from writeFactoryState_refines [OF assms(1-4) new, where n = n and f = f] obtain w' where
    w: "writeFactoryState H n f ?new u w = (Inr (), w')"
      "abs_state H u w' = (abs_state H u w)((n, f) := toml_norm H ?new)"
      "state_file_ok H u w'" "state_dir_ok u w'" "w' = w\<lparr>w_fs := w_fs w'\<rparr>" by metis
  have push: "js_push (if ?old = JUndef then JArr [] else ?old) ?d w = (Inr ?new, w)"
    using tl by (auto simp: js_push_def table_list_def list_elems_def world_simps split: jsval.splits)
  have eq: "?old = obj_get qs f" by (simp add: ps qs)
  have "updateList H n f d u w = (Inr (clear_receipt d), w')"
    using assms(2) readFactoryState_run [OF ok] push [unfolded eq] w(1) [unfolded eq]
    by (cases "obj_get qs f = JUndef")
       (simp_all add: updateList_def ps qs bnd_def andThen_def world_simps)
  moreover have "toml_norm H ?new = JArr (list_elems (abs_state H u w (n, f)) @ [toml_norm H ?d])"
    using tl by (auto simp: abs_state_def table_list_def list_elems_def
        simp del: toml_norm.simps(3) split: jsval.splits)
  ultimately show thesis using w that by metis
qed

text \<open>Without an entry for the network the list update throws and nothing is written.\<close>

lemma updateList_unknown_network:
  assumes "not_silenced H" and ok: "state_file_ok H u w"
    and "obj_get (obj_fields (disk_state H u w)) n = JUndef"
  shows "updateList H n f d u w = (Inl (TypeErr ''Cannot read properties of undefined''), w)"
proof -
  obtain ps where ps: "disk_state H u w = JObj ps" using disk_state_wf [OF ok] by (rule state_wfE) 
  with assms show ?thesis
    using readFactoryState_run [OF ok] by (simp add: updateList_def bnd_def world_simps)
qed

text \<open>With the silencer on, the state is not touched.\<close>

lemma silenced_noop:
  assumes "\<not> not_silenced H"
  shows "writeFactoryState H n f v u w = (Inr (), w)" and "updateList H n f d u w = (Inr d, w)"
  using assms by (simp_all add: writeFactoryState_def updateList_def world_simps)

text \<open>A path below a plain file does not exist.\<close>

lemma wf_fs_below_file:
  assumes "wf_fs fs" and "\<not> is_dir fs p"
  shows "fs (p @ [c]) = None"
  using assms unfolding wf_fs_def by fastforce

section \<open>Properties\<close>

lemma wf_ProxyData_js:
  assumes "distinct ks" and "case pd_gas d of PlainNum n \<Rightarrow> n < 2 ^ 53 | BigNum n \<Rightarrow> True"
  shows "wf_js (JObj (ProxyData_js H ks d))" and "toml_able (JObj (ProxyData_js H ks d))"
  using assms
  by (auto simp: ProxyData_js_def comp_def list_all_iff ProxyData_field_def js_opt_def
      split: option.splits BigNumberish.splits)

text \<open>Recording a factory: two field writes in a row.\<close>

lemma updateDefaultFactoryData_run:
  assumes "toml_library H" and "not_silenced H" and "state_file_ok H u w" and "state_dir_ok u w"
  shows "\<exists>w'. updateDefaultFactoryData H n d u w = (Inr (), w')
    \<and> abs_state H u w' = (abs_state H u w)
        ((n, ''defaultFactoryData'') := toml_norm H (JObj (FactoryData_js H d)),
         (n, ''defaultFactoryAddress'') := JStr (addr_hex H (fd_address d)))
    \<and> state_file_ok H u w' \<and> w' = w\<lparr>w_fs := w_fs w'\<rparr>"
proof -
  have d: "wf_js (JObj (FactoryData_js H d))" "toml_able (JObj (FactoryData_js H d))"
    by (auto simp: FactoryData_js_def js_opt_def split: option.split)
  from writeFactoryState_refines [OF assms d, where n = n and f = "''defaultFactoryData''"]
  obtain w1 where w1: "writeFactoryState H n ''defaultFactoryData'' (JObj (FactoryData_js H d)) u w
      = (Inr (), w1)"
    "abs_state H u w1 = (abs_state H u w)
       ((n, ''defaultFactoryData'') := toml_norm H (JObj (FactoryData_js H d)))"
    "state_file_ok H u w1" "state_dir_ok u w1" "w1 = w\<lparr>w_fs := w_fs w1\<rparr>" by metis
  from writeFactoryState_refines [OF assms(1,2) w1(3,4), where n = n and f = "''defaultFactoryAddress''"
      and v = "JStr (addr_hex H (fd_address d))"]
  obtain w2 where w2: "writeFactoryState H n ''defaultFactoryAddress''
      (JStr (addr_hex H (fd_address d))) u w1 = (Inr (), w2)"
    "abs_state H u w2 = (abs_state H u w1)
       ((n, ''defaultFactoryAddress'') := toml_norm H (JStr (addr_hex H (fd_address d))))"
    "state_file_ok H u w2" "w2 = w1\<lparr>w_fs := w_fs w2\<rparr>" by auto
  have "updateDefaultFactoryData H n d u w = (Inr (), w2)"
    using w1(1) w2(1) by (simp add: updateDefaultFactoryData_def world_simps)
  moreover have "w2 = w\<lparr>w_fs := w_fs w2\<rparr>"
    using w1(5) w2(4) by (metis world.surjective world.update_convs(1))
  ultimately show ?thesis using w1(2) w2(2,3) by auto
qed

text \<open>
  C10. Recording a deployed factory. With an intact state file, \<open>updateDefaultFactoryData\<close> succeeds,
  and afterwards a reader finds the factory's data and its address under the network; every other
  network and field reads as before, the file stays intact and nothing but files changed.
\<close>

theorem updateDefaultFactoryData_records:
  assumes "toml_library H" and "not_silenced H" and "state_file_ok H u w" and "state_dir_ok u w"
  shows "\<exists>w'. updateDefaultFactoryData H n d u w = (Inr (), w')
    \<and> abs_state H u w' = (abs_state H u w)
        ((n, ''defaultFactoryData'') := toml_norm H (JObj (FactoryData_js H d)),
         (n, ''defaultFactoryAddress'') := JStr (addr_hex H (fd_address d)))
    \<and> state_file_ok H u w' \<and> w' = w\<lparr>w_fs := w_fs w'\<rparr>"
  by (rule updateDefaultFactoryData_run [OF assms])

theorem updateDefaultFactoryData_records_witness:
  "\<exists>w'. updateDefaultFactoryData sample_hre ''local''
       \<lparr>fd_address = 0xFAC, fd_owner = Some 0xA11CE, fd_gas = 5\<rparr> (Some ''out/'') sample_world = (Inr (), w')
     \<and> abs_state sample_hre (Some ''out/'') w' (''local'', ''defaultFactoryAddress'') = JStr ''0xfac''"
proof -
  have p: "fs_path (factoryStatePath (Some ''out/'')) = [''out'', ''factoryState'']"
    by code_simp
  have "state_file_ok sample_hre (Some ''out/'') sample_world" "state_dir_ok (Some ''out/'') sample_world"
    by (simp_all add: state_file_ok_def state_dir_ok_def p sample_world_def sample_files_def is_dir_def)
  moreover have "not_silenced sample_hre"
    by (simp add: not_silenced_def sample_defs)
  moreover have "addr_hex sample_hre 0xFAC = ''0xfac''"
    by (simp add: sample_hre_def sample_hre0_def) code_simp
  ultimately show ?thesis
    using updateDefaultFactoryData_records [OF sample_toml_library, of "Some ''out/''" sample_world
        "''local''" "\<lparr>fd_address = 0xFAC, fd_owner = Some 0xA11CE, fd_gas = 5\<rparr>"]
    by auto
qed

text \<open>Appending a proxy's entry.\<close>

lemma updateProxyList_run:
  assumes "toml_library H" and "not_silenced H" and "state_file_ok H u w" and "state_dir_ok u w"
    and "obj_get (obj_fields (disk_state H u w)) n \<noteq> JUndef"
    and "table_list (state_get (disk_state H u w) (n, ''proxies''))"
    and "distinct ks" and "case pd_gas d of PlainNum g \<Rightarrow> g < 2 ^ 53 | BigNum g \<Rightarrow> True"
  shows "\<exists>w'. updateProxyList H ks n d u w = (Inr (d\<lparr>pd_receipt := None\<rparr>), w')
    \<and> abs_state H u w' = (abs_state H u w)((n, ''proxies'') :=
        JArr (list_elems (abs_state H u w (n, ''proxies''))
              @ [toml_norm H (JObj (clear_receipt (ProxyData_js H ks d)))]))
    \<and> state_file_ok H u w' \<and> w' = w\<lparr>w_fs := w_fs w'\<rparr>"
proof -
  from updateList_refines [OF assms(1-6) wf_ProxyData_js [OF assms(7,8), of H]]
  obtain w' where w: "updateList H n ''proxies'' (ProxyData_js H ks d) u w
      = (Inr (clear_receipt (ProxyData_js H ks d)), w')"
    "abs_state H u w' = (abs_state H u w)((n, ''proxies'') :=
        JArr (list_elems (abs_state H u w (n, ''proxies''))
              @ [toml_norm H (JObj (clear_receipt (ProxyData_js H ks d)))]))"
    "state_file_ok H u w'" "w' = w\<lparr>w_fs := w_fs w'\<rparr>" by metis
  have "obj_get (clear_receipt (ProxyData_js H ks d)) RECEIPT = JUndef"
    by (simp add: clear_receipt_def)
  with w(1) have "updateProxyList H ks n d u w = (Inr (d\<lparr>pd_receipt := None\<rparr>), w')"
    by (simp add: updateProxyList_def world_simps)
  with w show ?thesis by blast
qed

lemma sample_state_ok:
  "state_file_ok sample_hre (Some ''out'') sample_world1" "state_dir_ok (Some ''out'') sample_world1"
  "disk_state sample_hre (Some ''out'') sample_world1 = sample_state" "not_silenced sample_hre"
proof -
  have p: "fs_path (factoryStatePath (Some ''out'')) = [''out'', ''factoryState'']"
    by code_simp
  have f: "w_fs sample_world1 [''out'', ''factoryState''] = Some (File (enc sample_state))"
    by (simp add: sample_world1_def)
  have "state_wf sample_state" by (simp add: state_wf_def sample_state_def)
  then show "state_file_ok sample_hre (Some ''out'') sample_world1"
    by (simp add: state_file_ok_def p f sample_state_parse)
  show "state_dir_ok (Some ''out'') sample_world1"
    by (simp add: state_dir_ok_def p sample_world1_def sample_world_def sample_files_def is_dir_def)
  show "disk_state sample_hre (Some ''out'') sample_world1 = sample_state"
    by (simp add: disk_state_def p f sample_state_parse)
  show "not_silenced sample_hre"
    by (simp add: not_silenced_def sample_defs)
qed

text \<open>
  Recording a proxy. When the network has an entry and its \<open>proxies\<close> field is absent or a list of
  tables, \<open>updateProxyList\<close> appends the proxy's data, without its receipt, at the end of the list; every
  other field reads as before, and the caller's object has lost its receipt.
\<close>

theorem updateProxyList_appends:
  assumes "toml_library H" and "not_silenced H" and "state_file_ok H u w" and "state_dir_ok u w"
    and "obj_get (obj_fields (disk_state H u w)) n \<noteq> JUndef"
    and "table_list (state_get (disk_state H u w) (n, ''proxies''))"
    and "distinct ks" and "case pd_gas d of PlainNum g \<Rightarrow> g < 2 ^ 53 | BigNum g \<Rightarrow> True"
  shows "\<exists>w'. updateProxyList H ks n d u w = (Inr (d\<lparr>pd_receipt := None\<rparr>), w')
    \<and> abs_state H u w' = (abs_state H u w)((n, ''proxies'') :=
        JArr (list_elems (abs_state H u w (n, ''proxies''))
              @ [toml_norm H (JObj (clear_receipt (ProxyData_js H ks d)))]))
    \<and> state_file_ok H u w' \<and> w' = w\<lparr>w_fs := w_fs w'\<rparr>"
  by (rule updateProxyList_run [OF assms])

theorem updateProxyList_appends_witness:
  "\<exists>w'. updateProxyList sample_hre [''salt'', ''receipt''] ''local''
       \<lparr>pd_proxyAddress = 1, pd_salt = 2, pd_logicName = None, pd_logicAddress = None,
        pd_factoryAddress = 0xFAC, pd_gas = BigNum 7,
        pd_receipt = Some \<lparr>rc_events = None, rc_gasUsed = 7, rc_status = 1\<rparr>, pd_initCallData = None\<rparr>
       (Some ''out'') sample_world1
     = (Inr \<lparr>pd_proxyAddress = 1, pd_salt = 2, pd_logicName = None, pd_logicAddress = None,
        pd_factoryAddress = 0xFAC, pd_gas = BigNum 7, pd_receipt = None, pd_initCallData = None\<rparr>, w')
     \<and> abs_state sample_hre (Some ''out'') w' (''local'', ''defaultFactoryAddress'') = JStr ''0xfac''"
proof -
  from updateProxyList_appends [OF sample_toml_library sample_state_ok(4,1,2), of "''local''"
      "[''salt'', ''receipt'']" "\<lparr>pd_proxyAddress = 1, pd_salt = 2, pd_logicName = None,
        pd_logicAddress = None, pd_factoryAddress = 0xFAC, pd_gas = BigNum 7,
        pd_receipt = Some \<lparr>rc_events = None, rc_gasUsed = 7, rc_status = 1\<rparr>, pd_initCallData = None\<rparr>"]
  show ?thesis
    by (auto simp: sample_state_ok sample_state_def obj_get_def table_list_def abs_state_def [of _ _ sample_world1])
qed

text \<open>
  The readers of the state that are given the path of the state file look below that file. In a
  file system where nothing lies below a plain file, \<open>getDefaultFactoryAddress\<close> throws a \<open>TypeError\<close>
  whatever the file records, unless \<open>factoryState\<close> is a folder.
\<close>

theorem getDefaultFactoryAddress_misses:
  assumes "wf_fs (w_fs w)" and "\<not> is_dir (w_fs w) (fs_path (factoryStatePath u))"
  shows "getDefaultFactoryAddress H n u w
         = (Inl (TypeErr ''Cannot read properties of undefined''), w)"
proof -
  have "last (factoryStatePath u) \<noteq> CHR ''/''" "factoryStatePath u \<noteq> []"
    by (auto simp: factoryStatePath_def split: option.split)
  then have "fs_path (factoryStatePath (Some (factoryStatePath u)))
      = fs_path (factoryStatePath u) @ [''factoryState'']"
    using fs_path_child [of "factoryStatePath u" "''factoryState''"]
    by (simp add: factoryStatePath_def [of "Some _"] js_strip_slashes_id)
  with wf_fs_below_file [OF assms] have
    "w_fs w (fs_path (factoryStatePath (Some (factoryStatePath u)))) = None" by simp
  then have "readFactoryState H (Some (factoryStatePath u)) w = (Inr (JObj []), w)"
    using readFactoryState_run [of H "Some (factoryStatePath u)" w]
    by (simp add: state_file_ok_def disk_state_def)
  moreover have "(case u of None \<Rightarrow> FACTORY_STATE_PATH
       | Some p \<Rightarrow> js_strip_slashes p @ ''/factoryState'') = factoryStatePath u"
    by (simp add: factoryStatePath_def)
  ultimately show ?thesis
    by (simp add: getDefaultFactoryAddress_def bnd_def world_simps obj_get_def)
qed

theorem getDefaultFactoryAddress_misses_witness:
  "getDefaultFactoryAddress sample_hre ''local'' (Some ''out'') sample_world1
     = (Inl (TypeErr ''Cannot read properties of undefined''), sample_world1)"
proof (rule getDefaultFactoryAddress_misses)
  show "wf_fs (w_fs sample_world1)" by (rule sample_wf_fs)
  have "fs_path (factoryStatePath (Some ''out'')) = [''out'', ''factoryState'']" by code_simp
  then show "\<not> is_dir (w_fs sample_world1) (fs_path (factoryStatePath (Some ''out'')))"
    by (simp add: is_dir_def sample_world1_def)
qed

end
