(* ===== verification/Task_Support.thy ===== *)
theory Task_Support
  imports Factory_State
begin

text \<open>
  The functions at the end of \<^verbatim>\<open>scripts/lib/alicenetFactoryTasks.ts\<close> that the deployment utilities and the
  tasks share, \<open>encodeMultiCallArgs\<close> of \<^verbatim>\<open>alicenetTasks.ts\<close>, and the task \<open>deployProxy\<close>, which the
  deployment utilities run.
\<close>

section \<open>Folders\<close>

definition checkUserDirPath :: "string option \<Rightarrow> unit js" where
  "checkUserDirPath path =
     (case path of
        None \<Rightarrow> ret ()
      | Some p \<Rightarrow>
          bnd (existsSync p) (\<lambda>ex.
          andThen
            (if \<not> ex
             then andThen (consoleLog (''Creating Folder at'' @ p @ '' since it didn't exist before!''))
                    (mkdirSync p)
             else ret ())
            (bnd (statIsFile p) (\<lambda>isFile.
               if isFile then throw (Err ''outputFolder path should be to a directory not a file'')
               else ret ()))))"

section \<open>Accounts, artifacts and salts\<close>

definition getAccounts :: "hre \<Rightarrow> addr list js" where
  "getAccounts H = ret (signers H)"

definition readArtifact :: "hre \<Rightarrow> string \<Rightarrow> string js" where
  "readArtifact H contractName =
     (case read_artifact H contractName of
        None \<Rightarrow> throw (LibErr ''HH700: Artifact not found'')
      | Some sourceName \<Rightarrow> ret sourceName)"

definition task_getFullyQualifiedName :: "hre \<Rightarrow> string \<Rightarrow> string js" where
  "task_getFullyQualifiedName H contractName =
     bnd (readArtifact H contractName) (\<lambda>path. ret (path @ '':'' @ contractName))"

definition task_extractPath :: "string \<Rightarrow> string" where
  "task_extractPath qualifiedName = hd (js_split CHR '':'' qualifiedName)"

text \<open>\<open>buildInfo.output.contracts[path][name]\<close>, a \<open>TypeError\<close> as soon as a property of it is read.\<close>

definition outputContract :: "build_info \<Rightarrow> string \<Rightarrow> string option \<Rightarrow> contract_output js" where
  "outputContract info path name =
     bnd (orTypeError ''Cannot read properties of undefined'' (info path)) (\<lambda>contracts.
     orTypeError ''Cannot read properties of undefined''
       (case name of None \<Rightarrow> None | Some n \<Rightarrow> contracts n))"

definition task_getSalt :: "hre \<Rightarrow> string \<Rightarrow> string option js" where
  "task_getSalt H contractName =
     bnd (task_getFullyQualifiedName H contractName) (\<lambda>qualifiedName.
       (case build_info_of H qualifiedName of
          Some info \<Rightarrow>
            bnd (outputContract info (task_extractPath qualifiedName) (Some contractName)) (\<lambda>out.
              ret (co_devdoc out ''custom:salt''))
        | None \<Rightarrow> andThen (consoleLog ''missing salt'') (ret (Some []))))"

text \<open>\<open>ethers.utils.formatBytes32String\<close>, which reads the length of its argument first.\<close>

definition formatSalt :: "hre \<Rightarrow> string option \<Rightarrow> bytes32 js" where
  "formatSalt H salt =
     bnd (orTypeError ''Cannot read properties of undefined'' salt) (\<lambda>s. fromSum (formatBytes32String H s))"

definition task_getBytes32Salt :: "hre \<Rightarrow> string \<Rightarrow> bytes32 js" where
  "task_getBytes32Salt H contractName = bnd (task_getSalt H contractName) (formatSalt H)"

definition getMetamorphicAddress :: "hre \<Rightarrow> addr \<Rightarrow> bytes32 \<Rightarrow> addr" where
  "getMetamorphicAddress H factoryAddress salt =
     (let initCode = METAMORPHIC_CODE
      in create2_addr (hre_evm H) factoryAddress salt (keccak (hre_evm H) initCode))"

section \<open>Events\<close>

fun findEventVar :: "string \<Rightarrow> string \<Rightarrow> receipt_event list \<Rightarrow> js_error + addr" where
  "findEventVar eventName varName [] = Inl (Err (''failed to find event: '' @ eventName))"
| "findEventVar eventName varName (e # es) =
     (if ev_event e = Some eventName then
        (case ev_args e of
           Some args \<Rightarrow>
             (case map_of args varName of
                Some result \<Rightarrow> Inr result
              | None \<Rightarrow> findEventVar eventName varName es)
         | None \<Rightarrow> Inl (Err (''failed to extract '' @ varName @ '' from event: '' @ eventName)))
      else findEventVar eventName varName es)"

definition getEventVar :: "receipt \<Rightarrow> string \<Rightarrow> string \<Rightarrow> js_error + addr" where
  "getEventVar receipt eventName varName =
     (case rc_events receipt of
        Some events \<Rightarrow> findEventVar eventName varName events
      | None \<Rightarrow> Inl (Err (''failed to find event: '' @ eventName)))"

section \<open>Output, fees and verification\<close>

definition showState :: "hre \<Rightarrow> string \<Rightarrow> unit js" where
  "showState H message = (if not_silenced H then consoleLog message else ret ())"

definition getGasPrices :: "hre \<Rightarrow> gas_fees js" where
  "getGasPrices H =
     bnd (getW w_chain) (\<lambda>ch.
       let blockBaseFee = eth_gasPrice H ch;
           minValue = 2000000000;
           tip = (if chain_id H = HARDHAT_CHAIN_ID then minValue else eth_maxPriorityFeePerGas H ch);
           tip' = tip * 125 div 100;
           tip'' = (if tip' < minValue then minValue else tip')
       in ret \<lparr>maxPriorityFeePerGas = tip'', maxFeePerGas = 2 * blockBaseFee + tip''\<rparr>)"

definition verifyContract :: "hre \<Rightarrow> addr \<Rightarrow> jsval list \<Rightarrow> unit js" where
  "verifyContract H deployedContractAddress constructorArgs =
     (case verify_task H deployedContractAddress constructorArgs of
        None \<Rightarrow> ret ()
      | Some error \<Rightarrow>
          andThen (consoleLog (''Failed to automatically verify ''
              @ addr_hex H deployedContractAddress @ '' please do it manually!''))
            (consoleLog (js_error_text error)))"

section \<open>Calls of the factory\<close>

definition encodeMultiCallArgs :: "addr \<Rightarrow> nat \<Rightarrow> cdata \<Rightarrow> mcArgs" where
  "encodeMultiCallArgs targetAddress val callData = MCArgs targetAddress val callData"

text \<open>
  \<open>taskArgs.initCallData === undefined ? [] : taskArgs.initCallData.replace(/\s+/g, "").split(",")\<close>
\<close>

definition initArgsOf :: "string option \<Rightarrow> string list" where
  "initArgsOf initCallData =
     (case initCallData of None \<Rightarrow> [] | Some s \<Rightarrow> js_split CHR '','' (js_strip_spaces s))"

text \<open>\<open>taskArgs.waitConfirmation === true ? 8 : undefined\<close>\<close>

definition waitBlocksOf :: "bool option \<Rightarrow> nat option" where
  "waitBlocksOf waitConfirmation = (if waitConfirmation = Some True then Some 8 else None)"

definition deployProxyTask :: "hre \<Rightarrow> bool option \<Rightarrow> bytes32 \<Rightarrow> addr \<Rightarrow> ProxyData js" where
  "deployProxyTask H waitConfirmation salt factoryAddress =
     (let waitBlocks = waitBlocksOf waitConfirmation in
      bnd (getGasPrices H) (\<lambda>fees.
      bnd (sendFactoryTx H factoryAddress (DeployProxy salt) (Some fees)) (\<lambda>txResponse.
      bnd (waitTx txResponse waitBlocks) (\<lambda>receipt.
      bnd (fromSum (getEventVar receipt DEPLOYED_PROXY CONTRACT_ADDR)) (\<lambda>proxyAddr.
      let proxyData = \<lparr>pd_proxyAddress = proxyAddr, pd_salt = salt, pd_logicName = None,
            pd_logicAddress = None, pd_factoryAddress = factoryAddress,
            pd_gas = BigNum (rc_gasUsed receipt), pd_receipt = Some receipt, pd_initCallData = None\<rparr>
      in bnd (fromSum (parseBytes32String H salt)) (\<lambda>saltName.
         andThen (showState H (''Deployed '' @ saltName @ '' proxy at ''
             @ addr_hex H (pd_proxyAddress proxyData) @ '', gasCost: ''
             @ js_show_nat (rc_gasUsed receipt)))
           (ret proxyData)))))))"

section \<open>Lemmas\<close>

lemma firstSigner_run: "signers H = o' # os \<Longrightarrow> firstSigner H w = (Inr o', w)"
  by (simp add: firstSigner_def js_nth_def world_simps)

text \<open>A sent transaction ran in the chain state with the sender's nonce advanced.\<close>

lemma sendFactoryTx_InrE:
  assumes "sendFactoryTx H f d fees w = (Inr r, w')"
  obtains sender es ch' where "signers H \<noteq> []" and "sender = hd (signers H)"
    and "tx_exec (hre_evm H) sender f d (bump_nonce sender (w_chain w)) = Inr (es, ch')"
    and "w' = w\<lparr>w_chain := ch'\<lparr>ch_block := ch_block ch' + 1\<rparr>, w_log := w_log w @ [Sent (CallTx f d) fees]\<rparr>"
    and "rc_events r = Some (map (receipt_event_of H) es)"
    and "rc_gasUsed r = gas_used H (w_chain w) (CallTx f d)" and "rc_status r = 1"
proof (cases "signers H")
  case Nil
  with assms show thesis by (simp add: sendFactoryTx_def firstSigner_def js_nth_def bnd_def world_simps)
next
  case (Cons o' os)
  with assms show thesis
    by (auto simp: sendFactoryTx_def firstSigner_run bnd_def andThen_def logAction_def world_simps
        intro!: that split: sum.splits)
qed

lemma sendFactoryTx_revert:
  assumes "signers H = o' # os"
    and "tx_exec (hre_evm H) o' f d (bump_nonce o' (w_chain w)) = Inl rv"
  shows "sendFactoryTx H f d fees w = (Inl (TxReverted rv), w)"
  using assms by (simp add: sendFactoryTx_def firstSigner_run bnd_def world_simps)

lemma waitTx_run [world_simps]: "waitTx r n w = (Inr r, w\<lparr>w_log := w_log w @ [Waited n]\<rparr>)"
  by (simp add: waitTx_def andThen_def bnd_def logAction_def world_simps)

lemma consoleLog_run [world_simps]:
  "consoleLog s w = (Inr (), w\<lparr>w_console := w_console w @ [s]\<rparr>)"
  by (simp add: consoleLog_def world_simps)

lemma showState_run [world_simps]:
  "showState H m w = (Inr (), if not_silenced H then w\<lparr>w_console := w_console w @ [m]\<rparr> else w)"
  by (simp add: showState_def world_simps)

lemma getGasPrices_run:
  obtains fees where "getGasPrices H w = (Inr fees, w)"
    and "2000000000 \<le> maxPriorityFeePerGas fees"
    and "maxFeePerGas fees = 2 * eth_gasPrice H (w_chain w) + maxPriorityFeePerGas fees"
  by (auto simp: getGasPrices_def bnd_def Let_def world_simps intro!: that)

text \<open>What the receipts of the factory's events say.\<close>

fun first_event :: "(event \<Rightarrow> addr option) \<Rightarrow> event list \<Rightarrow> addr option" where
  "first_event f [] = None"
| "first_event f (e # es) = (case f e of Some a \<Rightarrow> Some a | None \<Rightarrow> first_event f es)"

fun raw_addr :: "event \<Rightarrow> addr option" where
  "raw_addr (DeployedRaw e a) = Some a"
| "raw_addr _ = None"

fun proxy_addr :: "event \<Rightarrow> addr option" where
  "proxy_addr (DeployedProxy e a) = Some a"
| "proxy_addr _ = None"

lemma findEventVar_raw:
  "findEventVar DEPLOYED_RAW CONTRACT_ADDR (map (receipt_event_of H) es) =
     (case first_event raw_addr es of
        Some a \<Rightarrow> Inr a | None \<Rightarrow> Inl (Err ''failed to find event: DeployedRaw''))"
proof (induction es)
  case (Cons e es)
  then show ?case by (cases e) auto
qed simp

lemma findEventVar_proxy:
  "findEventVar DEPLOYED_PROXY CONTRACT_ADDR (map (receipt_event_of H) es) =
     (case first_event proxy_addr es of
        Some a \<Rightarrow> Inr a | None \<Rightarrow> Inl (Err ''failed to find event: DeployedProxy''))"
proof (induction es)
  case (Cons e es)
  then show ?case by (cases e) auto
qed simp

lemmas getEventVar_simps = getEventVar_def findEventVar_raw findEventVar_proxy

section \<open>Properties\<close>

text \<open>
  The fees of every deployment transaction: the tip is at least 2 gwei and at least 1.25 times the
  provider's suggestion rounded down, on the hardhat chain it is 2.5 gwei, and the fee cap covers
  twice the current gas price on top of the tip. Asking for them changes nothing.
\<close>

theorem getGasPrices_bounds:
  "\<exists>fees. getGasPrices H w = (Inr fees, w)
     \<and> 2000000000 \<le> maxPriorityFeePerGas fees
     \<and> maxFeePerGas fees = 2 * eth_gasPrice H (w_chain w) + maxPriorityFeePerGas fees
     \<and> (if chain_id H = 1337 then maxPriorityFeePerGas fees = 2500000000
        else maxPriorityFeePerGas fees
             = max 2000000000 (eth_maxPriorityFeePerGas H (w_chain w) * 5 div 4))"
proof -
  have "n * 125 div 100 = n * 5 div 4" for n :: nat
    using div_mult_mult2 [of 25 "n * 5" 4] by simp
  then show ?thesis
    by (auto simp: getGasPrices_def bnd_def Let_def world_simps max_def)
qed

text \<open>
  The output folder. When \<open>checkUserDirPath\<close> returns for a given path, the path is a folder, no
  existing file or folder has changed, the file system is still a tree and the chain is untouched;
  when the path names a plain file it throws.
\<close>

theorem checkUserDirPath_folder:
  assumes "wf_fs (w_fs w)" and "checkUserDirPath (Some p) w = (r, w')"
  shows "wf_fs (w_fs w') \<and> same_chain w w'
    \<and> (\<forall>q. w_fs w q \<noteq> None \<longrightarrow> w_fs w' q = w_fs w q)
    \<and> (r = Inr () \<longrightarrow> w_fs w' (fs_path p) = Some Dir)
    \<and> ((\<exists>s. w_fs w (fs_path p) = Some (File s)) \<longrightarrow>
         r = Inl (Err ''outputFolder path should be to a directory not a file''))"
proof -
  have "fs_path p \<noteq> []" if "w_fs w (fs_path p) = Some n" for n
    using assms(1) that unfolding wf_fs_def by force
  then show ?thesis
    using assms
    by (auto simp: checkUserDirPath_def existsSync_def statIsFile_def mkdirSync_def bnd_def andThen_def
        world_simps same_chain_def is_dir_def intro!: wf_fs_upd split: option.splits node.splits if_splits)
qed

theorem checkUserDirPath_folder_witness:
  "w_fs (snd (checkUserDirPath (Some ''new'') sample_world)) [''new''] = Some Dir"
proof -
  have p: "fs_path ''new'' = [''new'']" by code_simp
  have r: "checkUserDirPath (Some ''new'') sample_world
      = (Inr (), snd (checkUserDirPath (Some ''new'') sample_world))"
    by (simp add: checkUserDirPath_def existsSync_def statIsFile_def mkdirSync_def bnd_def andThen_def
        world_simps p is_dir_def sample_world_def sample_files_def)
  from checkUserDirPath_folder [OF sample_wf_fs(1) r] show ?thesis by (simp add: p)
qed

subsection \<open>The task \<open>deployProxy\<close>\<close>

lemma deployProxyTask_chain:
  assumes code: "ch_code (w_chain w) f = Some FactoryCode"
    and p: "p = getMetamorphicAddress H f salt"
    and run: "deployProxyTask H wc salt f w = (Inr d, w')"
  shows "pd_proxyAddress d = p \<and> pd_salt d = salt \<and> ch_code (w_chain w) p = None
      \<and> ch_code (w_chain w') = (ch_code (w_chain w))(p \<mapsto> ProxyCode f)
      \<and> ch_storage (w_chain w') p IMPL_SLOT = 0
      \<and> fs_contracts (ch_fact (w_chain w') f) = fs_contracts (ch_fact (w_chain w) f) @ [salt]
      \<and> (\<exists>fees. getGasPrices H w = (Inr fees, w)
           \<and> w_log w' = w_log w @ [Sent (CallTx f (DeployProxy salt)) (Some fees),
                Waited (if wc = Some True then Some 8 else None)])
      \<and> w_fs w' = w_fs w"
proof -
  from getGasPrices_run [of H w] obtain fees where g: "getGasPrices H w = (Inr fees, w)" by metis
  have p': "create2_addr (hre_evm H) f salt (keccak (hre_evm H) METAMORPHIC_CODE) = p"
    by (simp add: p getMetamorphicAddress_def)
  from run obtain r w1 where s: "sendFactoryTx H f (DeployProxy salt) (Some fees) w = (Inr r, w1)"
    unfolding deployProxyTask_def Let_def by (auto simp: g elim!: bnd_InrE)
  from s obtain es ch' where e: "factory_exec (hre_evm H) f (hd (signers H)) 0 (DeployProxy salt)
      (bump_nonce (hd (signers H)) (w_chain w)) = Inr (es, ch')"
    and w1: "w1 = w\<lparr>w_chain := ch'\<lparr>ch_block := ch_block ch' + 1\<rparr>,
      w_log := w_log w @ [Sent (CallTx f (DeployProxy salt)) (Some fees)]\<rparr>"
    and r: "rc_events r = Some (map (receipt_event_of H) es)"
    using code by (auto elim!: sendFactoryTx_InrE)
  from e have "deployProxy (hre_evm H) f salt (bump_nonce (hd (signers H)) (w_chain w)) = Inr (es, ch')"
    by (auto simp: evm_simps split: if_splits)
  note c = deployProxy_Inr [OF this, unfolded p']
  show ?thesis
    using run r w1 c g s
    by (auto simp: deployProxyTask_def Let_def bnd_def andThen_def world_simps getEventVar_simps
        waitBlocksOf_def split: sum.splits if_splits)
qed

lemma deployProxyTask_taken:
  assumes code: "ch_code (w_chain w) f = Some FactoryCode"
    and os: "signers H = fs_owner (ch_fact (w_chain w) f) # os"
    and "ch_code (w_chain w) (getMetamorphicAddress H f salt) \<noteq> None"
  shows "deployProxyTask H wc salt f w = (Inl (TxReverted CodeSizeZero), w)"
proof -
  from getGasPrices_run [of H w] obtain fees where g: "getGasPrices H w = (Inr fees, w)" by metis
  have "deployProxy (hre_evm H) f salt (bump_nonce (fs_owner (ch_fact (w_chain w) f)) (w_chain w))
      = Inl CodeSizeZero"
    using assms(3) by (auto simp: deployProxy_def Let_def getMetamorphicAddress_def fresh_account_def)
  then show ?thesis
    using sendFactoryTx_revert [OF os, of f "DeployProxy salt" w] code
    by (simp add: deployProxyTask_def Let_def g world_simps evm_simps auth_def)
qed

lemma sample_deployProxy:
  "\<exists>d w'. deployProxyTask sample_hre wc (0x426172 * 2 ^ 232) sample_factory sample_world = (Inr d, w')"
proof -
  let ?salt = "0x426172 * 2 ^ 232 :: bytes32"
  have p: "sample_factory + ucast (drop_bit 96 ?salt) = (0x4261720000000000000000000000000000000FAC :: addr)"
    by (simp add: drop_bit_eq_div sample_addr_defs)
  show ?thesis
    by (simp add: deployProxyTask_def Let_def bnd_def andThen_def world_simps getGasPrices_def
        sendFactoryTx_def firstSigner_def js_nth_def logAction_def tx_exec_def evm_simps auth_def
        deployProxy_def fresh_account_def getEventVar_simps sample_defs p)
       (simp add: sample_addr_defs)
qed

text \<open>
  The task \<open>deployProxy\<close>. When it returns, the reported address is the metamorphic address of the
  salt, it held no code before and is now a proxy of the factory that points nowhere yet, the factory
  lists the salt, exactly one transaction was sent, with the fees of \<open>getGasPrices\<close>, then the
  confirmations were awaited, and no file changed. A salt whose address already has code is rejected
  before anything is sent.
\<close>

theorem deployProxyTask_creates:
  assumes "ch_code (w_chain w) f = Some FactoryCode"
    and "p = getMetamorphicAddress H f salt"
  shows "(\<forall>d w'. deployProxyTask H wc salt f w = (Inr d, w') \<longrightarrow>
      pd_proxyAddress d = p \<and> pd_salt d = salt \<and> ch_code (w_chain w) p = None
      \<and> ch_code (w_chain w') = (ch_code (w_chain w))(p \<mapsto> ProxyCode f)
      \<and> ch_storage (w_chain w') p IMPL_SLOT = 0
      \<and> fs_contracts (ch_fact (w_chain w') f) = fs_contracts (ch_fact (w_chain w) f) @ [salt]
      \<and> (\<exists>fees. getGasPrices H w = (Inr fees, w)
           \<and> w_log w' = w_log w @ [Sent (CallTx f (DeployProxy salt)) (Some fees),
                Waited (if wc = Some True then Some 8 else None)])
      \<and> w_fs w' = w_fs w)
    \<and> (\<forall>os. signers H = fs_owner (ch_fact (w_chain w) f) # os \<longrightarrow> ch_code (w_chain w) p \<noteq> None \<longrightarrow>
         deployProxyTask H wc salt f w = (Inl (TxReverted CodeSizeZero), w))"
  by (rule conjI; intro allI impI)
     (erule deployProxyTask_chain [OF assms], erule deployProxyTask_taken [OF assms(1)], simp add: assms(2))

theorem deployProxyTask_creates_witness:
  "\<exists>d w'. deployProxyTask sample_hre (Some True) (0x426172 * 2 ^ 232) sample_factory sample_world
       = (Inr d, w')
     \<and> ch_code (w_chain w') (0x4261720000000000000000000000000000000FAC) = Some (ProxyCode sample_factory)"
proof -
  let ?salt = "0x426172 * 2 ^ 232 :: bytes32"
  have c: "ch_code (w_chain sample_world) sample_factory = Some FactoryCode"
    by (simp add: sample_defs)
  obtain d w' where
    "deployProxyTask sample_hre (Some True) ?salt sample_factory sample_world = (Inr d, w')"
    using sample_deployProxy by blast
  moreover have "getMetamorphicAddress sample_hre sample_factory ?salt
      = 0x4261720000000000000000000000000000000FAC"
    by (simp add: getMetamorphicAddress_def sample_defs sample_addr_defs drop_bit_eq_div)
  ultimately show ?thesis
    using deployProxyTask_creates [OF c refl, where H = sample_hre and salt = ?salt
        and wc = "Some True"] by (intro exI [of _ d] exI [of _ w']) auto
qed

end
