(* ===== verification/Deployment_Util.thy ===== *)
theory Deployment_Util
  imports Task_Support
begin

text \<open>
  \<^verbatim>\<open>scripts/lib/deployment/deploymentUtil.ts\<close>: what the deployment of a contract is computed from (its
  artifact, its NatSpec tags, the argument template) and the calls an upgradeable deployment consists
  of. The main results: the initialiser's arguments survive their trip through a comma separated
  string, and the logic address that \<open>getDeployUpgradeableMultiCallArgs\<close> predicts is the address the
  factory creates the logic contract at.
\<close>

section \<open>Data\<close>

record DeployProxyMCArgs =
  dp_contractName :: string
  dp_logicAddress :: addr
  dp_waitConfirmation :: "bool option"
  dp_factoryAddress :: addr
  dp_initCallData :: "string option"
  dp_outputFolder :: "string option"

record DeployArgs =
  da_contractName :: string
  da_factoryAddress :: addr
  da_waitConfirmation :: "bool option"
  da_initCallData :: "string option"
  da_constructorArgs :: "jsval list option"
  da_outputFolder :: "string option"
  da_verify :: "bool option"

text \<open>\<open>deployGroupIndex\<close> is the result of \<open>parseInt\<close>, \<open>None\<close> for \<open>NaN\<close>.\<close>

record ContractDescriptor =
  cd_name :: string
  cd_fullyQualifiedName :: string
  cd_deployGroup :: "string option"
  cd_deployGroupIndex :: "int option"
  cd_deployType :: "string option"
  cd_constructorArgs :: "jsval list"
  cd_initializerArgs :: "jsval list"

section \<open>Artifacts\<close>

definition extractPath :: "string \<Rightarrow> string" where
  "extractPath fullName = hd (js_split CHR '':'' fullName)"

definition extractName :: "string \<Rightarrow> string option" where
  "extractName fullName = js_nth (js_split CHR '':'' fullName) 1"

definition getFullyQualifiedName :: "hre \<Rightarrow> string \<Rightarrow> string js" where
  "getFullyQualifiedName H contractName =
     bnd (readArtifact H contractName) (\<lambda>path. ret (path @ '':'' @ contractName))"

fun findContract :: "string \<Rightarrow> string list \<Rightarrow> string option" where
  "findContract name [] = None"
| "findContract name (p # ps) =
     (if js_nth (js_split CHR '':'' p) 1 = Some name then Some p else findContract name ps)"

definition getContract :: "hre \<Rightarrow> string \<Rightarrow> string option js" where
  "getContract H name = ret (findContract name (allFullyQualifiedNames H))"

definition getAllContracts :: "hre \<Rightarrow> string list js" where
  "getAllContracts H = ret (allFullyQualifiedNames H)"

text \<open>\<open>buildInfo.output.contracts[path][name]\<close> where \<open>buildInfo\<close> may be undefined.\<close>

definition contractOutput :: "hre \<Rightarrow> string \<Rightarrow> contract_output js" where
  "contractOutput H fullName =
     bnd (orTypeError ''Cannot read properties of undefined'' (build_info_of H fullName)) (\<lambda>buildInfo.
       outputContract buildInfo (extractPath fullName) (extractName fullName))"

definition isInitializable :: "hre \<Rightarrow> string \<Rightarrow> bool js" where
  "isInitializable H fullyQualifiedName =
     bnd (contractOutput H fullyQualifiedName) (\<lambda>out.
       ret (list_ex (\<lambda>method. ai_name method = Some INITIALIZER) (co_abi out)))"

fun constructorInputs :: "abi_item list \<Rightarrow> bool js" where
  "constructorInputs [] = ret False"
| "constructorInputs (method # methods) =
     (if ai_type method = ''constructor''
      then bnd (orTypeError ''Cannot read properties of undefined'' (ai_inputs method))
             (\<lambda>inputs. ret (0 < length inputs))
      else constructorInputs methods)"

definition hasConstructorArgs :: "hre \<Rightarrow> string \<Rightarrow> bool js" where
  "hasConstructorArgs H fullName =
     bnd (contractOutput H fullName) (\<lambda>out. constructorInputs (co_abi out))"

definition getCustomNSTag :: "hre \<Rightarrow> string \<Rightarrow> string \<Rightarrow> string option js" where
  "getCustomNSTag H fullName tagName =
     (case build_info_of H fullName of
        Some buildInfo \<Rightarrow>
          bnd (outputContract buildInfo (extractPath fullName) (extractName fullName)) (\<lambda>info.
            ret (co_devdoc info (''custom:'' @ tagName)))
      | None \<Rightarrow> throw (Err (''Failed to get natspec tag '' @ tagName)))"

definition getSalt :: "hre \<Rightarrow> string \<Rightarrow> string option js" where
  "getSalt H fullName = getCustomNSTag H fullName ''salt''"

definition getBytes32Salt :: "hre \<Rightarrow> string \<Rightarrow> bytes32 js" where
  "getBytes32Salt H contractName =
     bnd (getFullyQualifiedName H contractName) (\<lambda>fullName.
     bnd (getSalt H fullName) (\<lambda>salt. formatSalt H salt))"

definition getDeployType :: "hre \<Rightarrow> string \<Rightarrow> string option js" where
  "getDeployType H fullName = getCustomNSTag H fullName ''deploy-type''"

definition getDeployGroup :: "hre \<Rightarrow> string \<Rightarrow> string option js" where
  "getDeployGroup H fullName = getCustomNSTag H fullName ''deploy-group''"

definition getDeployGroupIndex :: "hre \<Rightarrow> string \<Rightarrow> string option js" where
  "getDeployGroupIndex H fullName = getCustomNSTag H fullName ''deploy-group-index''"

text \<open>\<open>parseInt(undefined, 10)\<close> reads the text \<open>undefined\<close>, which is \<open>NaN\<close>.\<close>

definition getContractDescriptor ::
    "hre \<Rightarrow> string \<Rightarrow> jsval list \<Rightarrow> jsval list \<Rightarrow> ContractDescriptor js" where
  "getContractDescriptor H contractName constructorArgs initializerArgs =
     bnd (getFullyQualifiedName H contractName) (\<lambda>fullyQualifiedName.
     bnd (getFullyQualifiedName H contractName) (\<lambda>fqn.
     bnd (getDeployGroup H fullyQualifiedName) (\<lambda>grp.
     bnd (getDeployGroupIndex H fullyQualifiedName) (\<lambda>idx.
     bnd (getDeployType H fullyQualifiedName) (\<lambda>ty.
       ret \<lparr>cd_name = contractName, cd_fullyQualifiedName = fqn, cd_deployGroup = grp,
            cd_deployGroupIndex = js_parseInt 10 (case idx of None \<Rightarrow> ''undefined'' | Some s \<Rightarrow> s),
            cd_deployType = ty, cd_constructorArgs = constructorArgs,
            cd_initializerArgs = initializerArgs\<rparr>)))))"

section \<open>Deployment arguments\<close>

text \<open>\<open>Object.keys(v)[0]\<close> and the property it names.\<close>

fun firstArg :: "jsval \<Rightarrow> jsval js" where
  "firstArg JUndef = throw (TypeErr ''Cannot convert undefined or null to object'')"
| "firstArg (JObj ps) = ret (case js_keys ps of [] \<Rightarrow> JUndef | k # ks \<Rightarrow> obj_get ps k)"
| "firstArg (JStr (c # cs)) = ret (JStr [c])"
| "firstArg (JArr (v # vs)) = ret v"
| "firstArg _ = ret JUndef"

definition extractArgs :: "jsval \<Rightarrow> jsval list js" where
  "extractArgs input =
     bnd (orTypeError ''Cannot read properties of undefined'' (js_elements input)) (\<lambda>xs.
       foldJs (\<lambda>output v. bnd (firstArg v) (\<lambda>a. ret (output @ [a]))) [] xs)"

definition deploymentArgsTemplatePath :: "string option \<Rightarrow> string" where
  "deploymentArgsTemplatePath configDirPath =
     (case configDirPath of
        None \<Rightarrow> DEFAULT_CONFIG_OUTPUT_DIR @ ''/deploymentArgsTemplate''
      | Some p \<Rightarrow> p @ ''/deploymentArgsTemplate'')"

definition getDeploymentConstructorArgs :: "hre \<Rightarrow> string \<Rightarrow> string option \<Rightarrow> jsval list js" where
  "getDeploymentConstructorArgs H fullName configDirPath =
     (let path = deploymentArgsTemplatePath configDirPath in
      bnd (readDeploymentArgs H (Some path)) (\<lambda>deploymentConfig.
        if deploymentConfig \<noteq> JUndef then
          bnd (orTypeError ''Cannot read properties of undefined''
                 (js_prop_constructor deploymentConfig)) (\<lambda>constructor.
            if constructor \<noteq> JUndef then
              bnd (propOf constructor fullName) (\<lambda>args.
                if args \<noteq> JUndef then extractArgs args else ret [])
            else ret [])
        else ret []))"

definition getDeploymentInitializerArgs ::
    "hre \<Rightarrow> string \<Rightarrow> string option \<Rightarrow> jsval list option js" where
  "getDeploymentInitializerArgs H fullName configDirPath =
     (let path = deploymentArgsTemplatePath configDirPath in
      bnd (readDeploymentArgs H (Some path)) (\<lambda>deploymentConfig.
        if deploymentConfig \<noteq> JUndef then
          bnd (propOf deploymentConfig ''initializer'') (\<lambda>initializer.
            if initializer \<noteq> JUndef then
              bnd (propOf initializer fullName) (\<lambda>args.
                if args \<noteq> JUndef then bnd (extractArgs args) (\<lambda>xs. ret (Some xs)) else ret None)
            else ret None)
        else ret None))"

text \<open>\<open>args.toString()\<close>\<close>

definition getEncodedInitCallData :: "jsval list option \<Rightarrow> string option" where
  "getEncodedInitCallData args = map_option (\<lambda>as. js_to_string (JArr as)) args"

definition getDeployUpgradeableProxyArgs ::
    "hre \<Rightarrow> string \<Rightarrow> addr \<Rightarrow> bool option \<Rightarrow> string option \<Rightarrow> string option \<Rightarrow> bool option
     \<Rightarrow> DeployArgs js" where
  "getDeployUpgradeableProxyArgs H fullyQualifiedName factoryAddress waitConfirmation inputFolder
     outputFolder verify =
     bnd (isInitializable H fullyQualifiedName) (\<lambda>initAble.
     bnd (if initAble
          then bnd (getDeploymentInitializerArgs H fullyQualifiedName inputFolder)
                 (\<lambda>initializerArgs. ret (getEncodedInitCallData initializerArgs))
          else ret None) (\<lambda>initCallData.
     bnd (hasConstructorArgs H fullyQualifiedName) (\<lambda>hasConArgs.
     bnd (if hasConArgs
          then bnd (getDeploymentConstructorArgs H fullyQualifiedName inputFolder) (\<lambda>as. ret (Some as))
          else ret None) (\<lambda>constructorArgs.
     bnd (orTypeError ''Cannot read properties of undefined'' (extractName fullyQualifiedName)) (\<lambda>name.
       ret \<lparr>da_contractName = name, da_factoryAddress = factoryAddress,
            da_waitConfirmation = waitConfirmation, da_initCallData = initCallData,
            da_constructorArgs = constructorArgs, da_outputFolder = outputFolder,
            da_verify = verify\<rparr>)))))"

text \<open>\<open>getDeployMetaArgs\<close> has the same body with its parameters in another order.\<close>

definition getDeployMetaArgs ::
    "hre \<Rightarrow> string \<Rightarrow> bool \<Rightarrow> addr \<Rightarrow> string option \<Rightarrow> string option \<Rightarrow> bool option \<Rightarrow> DeployArgs js" where
  "getDeployMetaArgs H fullyQualifiedName waitConfirmation factoryAddress inputFolder outputFolder
     verify =
     bnd (isInitializable H fullyQualifiedName) (\<lambda>initAble.
     bnd (if initAble
          then bnd (getDeploymentInitializerArgs H fullyQualifiedName inputFolder)
                 (\<lambda>initializerArgs. ret (getEncodedInitCallData initializerArgs))
          else ret None) (\<lambda>initCallData.
     bnd (hasConstructorArgs H fullyQualifiedName) (\<lambda>hasConArgs.
     bnd (if hasConArgs
          then bnd (getDeploymentConstructorArgs H fullyQualifiedName inputFolder) (\<lambda>as. ret (Some as))
          else ret None) (\<lambda>constructorArgs.
     bnd (orTypeError ''Cannot read properties of undefined'' (extractName fullyQualifiedName)) (\<lambda>name.
       ret \<lparr>da_contractName = name, da_factoryAddress = factoryAddress,
            da_waitConfirmation = Some waitConfirmation, da_initCallData = initCallData,
            da_constructorArgs = constructorArgs, da_outputFolder = outputFolder,
            da_verify = verify\<rparr>)))))"

definition getFactoryDeploymentArgs :: "hre \<Rightarrow> string option \<Rightarrow> jsval list option js" where
  "getFactoryDeploymentArgs H inputFolder =
     bnd (getFullyQualifiedName H ''AliceNetFactory'') (\<lambda>fullyQualifiedName.
     bnd (hasConstructorArgs H fullyQualifiedName) (\<lambda>hasConArgs.
       if hasConArgs
       then bnd (getDeploymentConstructorArgs H fullyQualifiedName inputFolder) (\<lambda>as. ret (Some as))
       else ret None))"

section \<open>The calls of an upgradeable deployment\<close>

text \<open>\<open>encodeFunctionData(DEPLOY_CREATE, [data])\<close>, which rejects an undefined argument.\<close>

definition encodeDeployCreate :: "bytecode option \<Rightarrow> cdata js" where
  "encodeDeployCreate data =
     (case data of None \<Rightarrow> throw (LibErr ''invalid arrayify value'') | Some c \<Rightarrow> ret (DeployCreate c))"

definition getDeployUpgradeableMultiCallArgs ::
    "hre \<Rightarrow> ContractDescriptor \<Rightarrow> addr \<Rightarrow> cdata option \<Rightarrow> mcArgs list js" where
  "getDeployUpgradeableMultiCallArgs H contractDescriptor factoryAddr inputedInitCallData =
     bnd (fromSum (deploy_data H (cd_name contractDescriptor) (cd_constructorArgs contractDescriptor)))
       (\<lambda>deployTxReq.
     let initCallData = (case inputedInitCallData of None \<Rightarrow> NoData | Some d \<Rightarrow> d) in
     bnd (if 0 < length (cd_initializerArgs contractDescriptor)
          then fromSum (encode_call H (cd_name contractDescriptor) INITIALIZER
                 (cd_initializerArgs contractDescriptor))
          else ret initCallData) (\<lambda>initCallData.
     bnd (getBytes32Salt H (cd_name contractDescriptor)) (\<lambda>salt.
     bnd (getW (\<lambda>w. ch_nonce (w_chain w) factoryAddr)) (\<lambda>nonce.
     let logicAddress = create_addr (hre_evm H) factoryAddr nonce in
     bnd (encodeDeployCreate deployTxReq) (\<lambda>deployCreateCallData.
     let deployProxyCallData = DeployProxy salt;
         upgradeProxyCallData = UpgradeProxy salt logicAddress initCallData;
         deployCreate = encodeMultiCallArgs factoryAddr 0 deployCreateCallData;
         deployProxy = encodeMultiCallArgs factoryAddr 0 deployProxyCallData;
         upgradeProxy = encodeMultiCallArgs factoryAddr 0 upgradeProxyCallData
     in ret [deployCreate, deployProxy, upgradeProxy])))))"

text \<open>A descriptor read from the JSON file, as the deployment loop uses it.\<close>

fun js_string :: "jsval \<Rightarrow> string option" where
  "js_string (JStr s) = Some s"
| "js_string _ = None"

fun js_list :: "jsval \<Rightarrow> jsval list option" where
  "js_list (JArr vs) = Some vs"
| "js_list _ = None"

definition descriptorOf :: "jsval \<Rightarrow> ContractDescriptor js" where
  "descriptorOf contract =
     bnd (propOf contract ''name'') (\<lambda>name.
     bnd (propOf contract ''fullyQualifiedName'') (\<lambda>fqn.
     bnd (propOf contract ''deployType'') (\<lambda>ty.
     bnd (propOf contract ''constructorArgs'') (\<lambda>cargs.
     bnd (propOf contract ''initializerArgs'') (\<lambda>iargs.
     bnd (orTypeError ''invalid contract name'' (js_string name)) (\<lambda>n.
     bnd (orTypeError ''constructorArgs is not iterable'' (js_list cargs)) (\<lambda>cs.
     bnd (orTypeError ''Cannot read properties of undefined'' (js_list iargs)) (\<lambda>is.
       ret \<lparr>cd_name = n, cd_fullyQualifiedName = (case js_string fqn of None \<Rightarrow> [] | Some q \<Rightarrow> q),
            cd_deployGroup = None, cd_deployGroupIndex = None, cd_deployType = js_string ty,
            cd_constructorArgs = cs, cd_initializerArgs = is\<rparr>))))))))"

definition deployMulticallStep :: "hre \<Rightarrow> addr \<Rightarrow> jsval \<Rightarrow> unit js" where
  "deployMulticallStep H factoryAddr contract =
     bnd (propOf contract ''deployType'') (\<lambda>deployType.
       if deployType = JStr UPGRADEABLE_DEPLOYMENT then
         bnd (descriptorOf contract) (\<lambda>descriptor.
         bnd (getDeployUpgradeableMultiCallArgs H descriptor factoryAddr None) (\<lambda>multiCallArgsArray.
         bnd (sendFactoryTx H factoryAddr (MultiCall multiCallArgsArray) None) (\<lambda>txResponse.
         bnd (waitTx txResponse None) (\<lambda>receipt.
         bnd (fromSum (getEventVar receipt DEPLOYED_PROXY CONTRACT_ADDR)) (\<lambda>address.
           consoleLog (cd_name descriptor @ '' deployed at: '' @ addr_hex H address))))))
       else if deployType = JStr ONLY_PROXY then
         bnd (propOf contract ''fullyQualifiedName'') (\<lambda>fqn.
         bnd (orTypeError ''fullName.split is not a function'' (js_string fqn)) (\<lambda>fullName.
         bnd (orTypeError ''HH700: Artifact not found'' (extractName fullName)) (\<lambda>name.
         bnd (getBytes32Salt H name) (\<lambda>salt.
         bnd (deployProxyTask H (Some False) salt factoryAddr) (\<lambda>proxyData. ret ())))))
       else ret ())"

text \<open>
  The inner \<open>multiCallArgsArray\<close> hides the outer one, which is returned empty; \<open>txCount\<close> and the folders
  are not used.
\<close>

definition deployContractsMulticall ::
    "hre \<Rightarrow> jsval list \<Rightarrow> addr \<Rightarrow> nat \<Rightarrow> string option \<Rightarrow> string option \<Rightarrow> mcArgs list js" where
  "deployContractsMulticall H contracts factoryAddr txCount inputFolder outputFolder =
     andThen (forEach contracts (deployMulticallStep H factoryAddr)) (ret [])"

section \<open>Lemmas\<close>

text \<open>Reading artifacts changes nothing.\<close>

lemma readArtifact_state: "readArtifact H c w = (r, w') \<Longrightarrow> w' = w"
  by (auto simp: readArtifact_def world_simps split: option.splits)

lemma getFullyQualifiedName_InrE:
  assumes "getFullyQualifiedName H c w = (Inr q, w')"
  shows "w' = w \<and> (\<exists>p. read_artifact H c = Some p \<and> q = p @ '':'' @ c)"
  using assms
  by (auto simp: getFullyQualifiedName_def readArtifact_def bnd_def world_simps split: option.splits)

lemma getCustomNSTag_InrE: "getCustomNSTag H q t w = (Inr v, w') \<Longrightarrow> w' = w"
  by (auto simp: getCustomNSTag_def outputContract_def orTypeError_def bnd_def world_simps
      split: option.splits)

lemma getBytes32Salt_InrE: "getBytes32Salt H c w = (Inr s, w') \<Longrightarrow> w' = w"
  by (auto simp: getBytes32Salt_def getSalt_def formatSalt_def elim!: bnd_InrE orTypeError_InrE
      fromSum_InrE dest!: getFullyQualifiedName_InrE getCustomNSTag_InrE)

text \<open>The shape of the calls.\<close>

lemma getDeployUpgradeableMultiCallArgs_InrE:
  assumes "getDeployUpgradeableMultiCallArgs H cd f init w = (Inr args, w')"
  obtains c salt d where "w' = w"
    and "deploy_data H (cd_name cd) (cd_constructorArgs cd) = Inr (Some c)"
    and "getBytes32Salt H (cd_name cd) w = (Inr salt, w)"
    and "if cd_initializerArgs cd = [] then d = (case init of None \<Rightarrow> NoData | Some i \<Rightarrow> i)
         else encode_call H (cd_name cd) INITIALIZER (cd_initializerArgs cd) = Inr d"
    and "args = [MCArgs f 0 (DeployCreate c), MCArgs f 0 (DeployProxy salt),
           MCArgs f 0 (UpgradeProxy salt (create_addr (hre_evm H) f (ch_nonce (w_chain w) f)) d)]"
proof -
  from assms obtain data where data: "deploy_data H (cd_name cd) (cd_constructorArgs cd) = Inr data"
    by (cases "deploy_data H (cd_name cd) (cd_constructorArgs cd)")
       (auto simp: getDeployUpgradeableMultiCallArgs_def bnd_def world_simps)
  define di where "di = (if cd_initializerArgs cd = []
      then Inr (case init of None \<Rightarrow> NoData | Some i \<Rightarrow> i)
      else encode_call H (cd_name cd) INITIALIZER (cd_initializerArgs cd))"
  have m: "(if cd_initializerArgs cd \<noteq> []
      then fromSum (encode_call H (cd_name cd) INITIALIZER (cd_initializerArgs cd))
      else ret (case init of None \<Rightarrow> NoData | Some i \<Rightarrow> i)) w = (di, w)"
    by (simp add: di_def world_simps)
  from assms obtain d where d: "di = Inr d"
    by (cases di) (auto simp: getDeployUpgradeableMultiCallArgs_def bnd_def m data world_simps Let_def)
  from assms obtain salt w1 where salt: "getBytes32Salt H (cd_name cd) w = (Inr salt, w1)"
    by (auto simp: getDeployUpgradeableMultiCallArgs_def bnd_def m data d world_simps Let_def
        split: prod.splits sum.splits)
  then have "w1 = w" by (rule getBytes32Salt_InrE)
  with assms salt data m d show thesis
    by (cases data)
       (auto simp: getDeployUpgradeableMultiCallArgs_def bnd_def world_simps Let_def di_def
         encodeMultiCallArgs_def encodeDeployCreate_def intro!: that split: if_splits)
qed

text \<open>
  What a successful upgradeable deployment leaves behind: the logic contract and the proxy were
  created, the proxy points at the logic contract, and then the initialiser ran.
\<close>

definition deployed_upgradeable ::
    "hre \<Rightarrow> addr \<Rightarrow> bytecode \<Rightarrow> bytes32 \<Rightarrow> cdata \<Rightarrow> chain \<Rightarrow> chain \<Rightarrow> bool" where
  "deployed_upgradeable H f c salt d ch ch' =
     (\<exists>ch3 ch4 es0. upgradeable_ready (hre_evm H) f c salt (bump_nonce (hd (signers H)) ch) ch3
        \<and> initializeContract (hre_evm H) f (getMetamorphicContractAddress (hre_evm H) salt f) d ch3
            = Inr (es0, ch4)
        \<and> ch' = ch4\<lparr>ch_block := ch_block ch4 + 1\<rparr>)"

lemma deployed_upgradeable_NoData:
  assumes "deployed_upgradeable H f c salt NoData ch ch'" and "hd (signers H) \<noteq> f"
  defines "a \<equiv> create_addr (hre_evm H) f (ch_nonce ch f)"
    and "p \<equiv> getMetamorphicContractAddress (hre_evm H) salt f"
  shows "ch_code ch' = (ch_code ch)(a \<mapsto> LogicCode c, p \<mapsto> ProxyCode f)"
    and "ch_code ch a = None" and "ch_code ch p = None" and "a \<noteq> p"
    and "getImplementationAddress (ch_storage ch' p IMPL_SLOT) = a"
  using assms by (auto simp: deployed_upgradeable_def upgradeable_ready_def Let_def initializeContract.simps)

lemma sendDeployUpgradeable:
  assumes hash: "keccak (hre_evm H) METAMORPHIC_CODE = METAMORPHIC_HASH"
    and code: "ch_code (w_chain w) f = Some FactoryCode" and eoa: "hd (signers H) \<noteq> f"
    and args: "args = [MCArgs f 0 (DeployCreate c), MCArgs f 0 (DeployProxy salt),
           MCArgs f 0 (UpgradeProxy salt (create_addr (hre_evm H) f (ch_nonce (w_chain w) f)) d)]"
    and run: "sendFactoryTx H f (MultiCall args) fees w = (Inr r, w')"
  shows "deployed_upgradeable H f c salt d (w_chain w) (w_chain w')
    \<and> w_fs w' = w_fs w \<and> w_log w' = w_log w @ [Sent (CallTx f (MultiCall args)) fees]
    \<and> getEventVar r DEPLOYED_RAW CONTRACT_ADDR
        = Inr (create_addr (hre_evm H) f (ch_nonce (w_chain w) f))
    \<and> getEventVar r DEPLOYED_PROXY CONTRACT_ADDR = Inr (getMetamorphicAddress H f salt)"
proof -
  let ?E = "hre_evm H" and ?ch = "bump_nonce (hd (signers H)) (w_chain w)"
  from run obtain es ch' where
    e: "factory_exec ?E f (hd (signers H)) 0 (MultiCall args) ?ch = Inr (es, ch')"
    and w': "w' = w\<lparr>w_chain := ch'\<lparr>ch_block := ch_block ch' + 1\<rparr>,
      w_log := w_log w @ [Sent (CallTx f (MultiCall args)) fees]\<rparr>"
    and r: "rc_events r = Some (map (receipt_event_of H) es)"
    using code by (auto elim!: sendFactoryTx_InrE)
  have n: "ch_nonce ?ch f = ch_nonce (w_chain w) f" using eoa by simp
  from e have "multiCall ?E f args ?ch = Inr (es, ch')"
    by (auto simp: factory_exec.simps factory_call.simps split: if_splits)
  from multiCall_deploy_upgradeable [OF hash this [unfolded args, folded n]]
  obtain es0 ch3 where m: "upgradeable_ready ?E f c salt ?ch ch3"
    "initializeContract ?E f (getMetamorphicContractAddress ?E salt f) d ch3 = Inr (es0, ch')"
    "es = DeployedRaw f (create_addr ?E f (ch_nonce ?ch f))
            # DeployedProxy f (getMetamorphicContractAddress ?E salt f) # es0" by blast
  have "deployed_upgradeable H f c salt d (w_chain w) (w_chain w')"
    using m(1,2) w' by (auto simp: deployed_upgradeable_def)
  moreover have "getMetamorphicAddress H f salt = getMetamorphicContractAddress ?E salt f"
    by (simp add: getMetamorphicAddress_def getMetamorphicContractAddress_def hash)
  ultimately show ?thesis
    using m(3) w' r eoa by (simp add: getEventVar_simps)
qed

section \<open>Properties\<close>

text \<open>
  C1. The calls of an upgradeable deployment. \<open>getDeployUpgradeableMultiCallArgs\<close> predicts the address of
  the logic contract from the factory's nonce before anything is sent. When the multicall it builds
  is sent next and succeeds, that address is the one the factory created the logic contract at: it
  held no code before, the proxy at the metamorphic address of the contract's salt is new and points
  at it, the initialiser ran in that state, and the receipt's events give both addresses.
\<close>

theorem upgradeable_multicall_prediction:
  assumes "keccak (hre_evm H) METAMORPHIC_CODE = METAMORPHIC_HASH"
    and "ch_code (w_chain w) f = Some FactoryCode" and "hd (signers H) \<noteq> f"
    and "getDeployUpgradeableMultiCallArgs H cd f init w = (Inr args, w1)"
    and "sendFactoryTx H f (MultiCall args) fees w1 = (Inr r, w')"
  shows "\<exists>c salt d. deploy_data H (cd_name cd) (cd_constructorArgs cd) = Inr (Some c)
    \<and> getBytes32Salt H (cd_name cd) w = (Inr salt, w)
    \<and> deployed_upgradeable H f c salt d (w_chain w) (w_chain w')
    \<and> (cd_initializerArgs cd = [] \<longrightarrow> d = (case init of None \<Rightarrow> NoData | Some i \<Rightarrow> i))
    \<and> (cd_initializerArgs cd \<noteq> [] \<longrightarrow>
         encode_call H (cd_name cd) INITIALIZER (cd_initializerArgs cd) = Inr d)
    \<and> getEventVar r DEPLOYED_RAW CONTRACT_ADDR
        = Inr (create_addr (hre_evm H) f (ch_nonce (w_chain w) f))
    \<and> getEventVar r DEPLOYED_PROXY CONTRACT_ADDR = Inr (getMetamorphicAddress H f salt)
    \<and> w_fs w' = w_fs w"
proof -
  from assms(4) obtain c salt d where "w1 = w"
    and c: "deploy_data H (cd_name cd) (cd_constructorArgs cd) = Inr (Some c)"
    and s: "getBytes32Salt H (cd_name cd) w = (Inr salt, w)"
    and d: "if cd_initializerArgs cd = [] then d = (case init of None \<Rightarrow> NoData | Some i \<Rightarrow> i)
         else encode_call H (cd_name cd) INITIALIZER (cd_initializerArgs cd) = Inr d"
    and a: "args = [MCArgs f 0 (DeployCreate c), MCArgs f 0 (DeployProxy salt),
           MCArgs f 0 (UpgradeProxy salt (create_addr (hre_evm H) f (ch_nonce (w_chain w) f)) d)]"
    by (rule getDeployUpgradeableMultiCallArgs_InrE)
  with sendDeployUpgradeable [OF assms(1-3) a] assms(5) show ?thesis
    using c s d by (intro exI [of _ c] exI [of _ salt] exI [of _ d]) (auto split: if_splits)
qed

definition sample_Foo :: ContractDescriptor where
  "sample_Foo = \<lparr>cd_name = ''Foo'', cd_fullyQualifiedName = sample_fqn ''Foo'', cd_deployGroup = None,
     cd_deployGroupIndex = None, cd_deployType = Some UPGRADEABLE_DEPLOYMENT,
     cd_constructorArgs = [JStr ''5''], cd_initializerArgs = [JStr ''1'', JStr ''2'']\<rparr>"

lemma sample_bytes32_Foo: "sample_bytes32 ''Foo'' = Inr (0x466F6F * 2 ^ 232)"
  by (simp add: sample_bytes32_def)

lemma sample_Foo_salt: "getBytes32Salt sample_hre ''Foo'' w = (Inr (0x466F6F * 2 ^ 232), w)"
  by (simp add: getBytes32Salt_def getFullyQualifiedName_def readArtifact_def getSalt_def getCustomNSTag_def
      formatSalt_def outputContract_def extractPath_def extractName_def js_nth_def bnd_def world_simps
      sample_defs sample_contracts_def sample_source_def sample_fqn_def sample_build_info_def sample_doc_def
      sample_bytes32_Foo)

definition sample_Foo_mc :: "mcArgs list" where
  "sample_Foo_mc =
     [MCArgs sample_factory 0 (DeployCreate ''Foo5''),
      MCArgs sample_factory 0 (DeployProxy (0x466F6F * 2 ^ 232)),
      MCArgs sample_factory 0 (UpgradeProxy (0x466F6F * 2 ^ 232) 0x4000FAC
        (OtherCall ''Foo'' ''initialize'' []))]"

lemma sample_Foo_calls:
  assumes "cd_name cd = ''Foo''" and "cd_constructorArgs cd = [JStr ''5'']"
    and "cd_initializerArgs cd = [JStr ''1'', JStr ''2'']" and "w_chain w = sample_chain"
  shows "getDeployUpgradeableMultiCallArgs sample_hre cd sample_factory init w = (Inr sample_Foo_mc, w)"
  using assms
  by (simp add: getDeployUpgradeableMultiCallArgs_def sample_Foo_salt sample_Foo_mc_def bnd_def world_simps
      Let_def encodeDeployCreate_def encodeMultiCallArgs_def sample_defs sample_addr_defs)

lemma sample_Foo_exec:
  "\<exists>r. tx_exec sample_evm sample_owner sample_factory (MultiCall sample_Foo_mc)
     (bump_nonce sample_owner sample_chain) = Inr r"
proof -
  let ?salt = "0x466F6F * 2 ^ 232 :: bytes32"
  have p: "sample_factory + ucast (drop_bit 96 ?salt) = (0x466F6F0000000000000000000000000000000FAC :: addr)"
    by (simp add: drop_bit_eq_div sample_addr_defs)
  show ?thesis
    unfolding sample_Foo_mc_def
    by (simp add: sample_defs factory_exec.simps factory_call.simps multiCall_self_Cons multiCall.simps(1)
        auth_def deployCreate_def deployProxy_def Let_def fresh_account_def upgradeProxy_own
        getMetamorphicContractAddress_def initializeContract.simps callAny.simps call_other_def p)
       (simp add: sample_addr_defs)
qed

lemma sample_Foo_sent:
  assumes "w_chain w = sample_chain"
  shows "\<exists>r w'. sendFactoryTx sample_hre sample_factory (MultiCall sample_Foo_mc) fees w = (Inr r, w')"
  using assms sample_Foo_exec
  by (auto simp: sendFactoryTx_def firstSigner_def js_nth_def bnd_def andThen_def logAction_def world_simps
      sample_hre_simps)

theorem upgradeable_multicall_prediction_witness:
  "\<exists>args r w'.
     getDeployUpgradeableMultiCallArgs sample_hre sample_Foo sample_factory None sample_world
       = (Inr args, sample_world)
     \<and> sendFactoryTx sample_hre sample_factory (MultiCall args) None sample_world = (Inr r, w')
     \<and> getEventVar r DEPLOYED_RAW CONTRACT_ADDR = Inr 0x4000FAC
     \<and> deployed_upgradeable sample_hre sample_factory ''Foo5'' (0x466F6F * 2 ^ 232)
         (OtherCall ''Foo'' ''initialize'' []) sample_chain (w_chain w')"
proof -
  have w: "w_chain sample_world = sample_chain" by (simp add: sample_defs)
  have a: "getDeployUpgradeableMultiCallArgs sample_hre sample_Foo sample_factory None sample_world
      = (Inr sample_Foo_mc, sample_world)"
    by (rule sample_Foo_calls) (simp_all add: sample_Foo_def w)
  from sample_Foo_sent [OF w] obtain r w' where
    s: "sendFactoryTx sample_hre sample_factory (MultiCall sample_Foo_mc) None sample_world = (Inr r, w')"
    by blast
  have "ch_code (w_chain sample_world) sample_factory = Some FactoryCode"
    "hd (signers sample_hre) \<noteq> sample_factory"
    by (simp_all add: sample_defs)
  from upgradeable_multicall_prediction [OF sample_keccak this a s]
  have "getEventVar r DEPLOYED_RAW CONTRACT_ADDR = Inr 0x4000FAC
     \<and> deployed_upgradeable sample_hre sample_factory ''Foo5'' (0x466F6F * 2 ^ 232)
         (OtherCall ''Foo'' ''initialize'' []) sample_chain (w_chain w')"
    by (auto simp: sample_Foo_salt sample_Foo_def sample_defs sample_addr_defs)
  with a s show ?thesis by blast
qed

text \<open>
  Arguments of an initialiser travel from the argument file to the deployment tasks as one comma
  separated string. Strings without commas and white space arrive as they were; white space around
  them is dropped; but an empty list arrives as one empty argument.
\<close>

theorem initCallData_roundtrip:
  "(xs \<noteq> [] \<longrightarrow> (\<forall>x \<in> set xs. CHR '','' \<notin> set x) \<longrightarrow>
      initArgsOf (getEncodedInitCallData (Some (map JStr xs))) = map js_strip_spaces xs)
   \<and> initArgsOf (getEncodedInitCallData None) = []
   \<and> initArgsOf (getEncodedInitCallData (Some [])) = [[]]"
proof (intro conjI impI)
  assume "xs \<noteq> []" and "\<forall>x \<in> set xs. CHR '','' \<notin> set x"
  moreover have "js_strip_spaces '','' = '',''"
    by (simp add: js_strip_spaces_def js_space_def)
  moreover have "map (js_to_string \<circ> JStr) xs = xs" by (simp add: comp_def)
  ultimately show "initArgsOf (getEncodedInitCallData (Some (map JStr xs))) = map js_strip_spaces xs"
    by (simp add: initArgsOf_def getEncodedInitCallData_def js_strip_spaces_join)
       (subst js_split_join, auto simp: js_strip_spaces_def)
qed (simp_all add: initArgsOf_def getEncodedInitCallData_def js_strip_spaces_def)

theorem initCallData_roundtrip_witness:
  "initArgsOf (getEncodedInitCallData (Some (map JStr [''12'', ''0xab'']))) = [''12'', ''0xab'']"
  using initCallData_roundtrip [of "[''12'', ''0xab'']"]
  by (simp add: js_strip_spaces_def js_space_def)

subsection \<open>Deployment from a descriptor file\<close>

text \<open>The transactions of a log, and the transaction a descriptor's type asks for.\<close>

fun sent :: "action list \<Rightarrow> payload list" where
  "sent [] = []"
| "sent (Sent p fees # as) = p # sent as"
| "sent (a # as) = sent as"

lemma sent_append [simp]: "sent (xs @ ys) = sent xs @ sent ys"
  by (induction xs rule: sent.induct) auto

definition is_deployed :: "jsval \<Rightarrow> bool" where
  "is_deployed contract =
     (js_prop contract ''deployType'' \<in> {Some (JStr UPGRADEABLE_DEPLOYMENT), Some (JStr ONLY_PROXY)})"

definition deployment_tx :: "addr \<Rightarrow> jsval \<Rightarrow> payload \<Rightarrow> bool" where
  "deployment_tx f contract p =
     (if js_prop contract ''deployType'' = Some (JStr UPGRADEABLE_DEPLOYMENT)
      then \<exists>c salt a d. p = CallTx f (MultiCall [MCArgs f 0 (DeployCreate c),
             MCArgs f 0 (DeployProxy salt), MCArgs f 0 (UpgradeProxy salt a d)])
      else \<exists>salt. p = CallTx f (DeployProxy salt))"

lemma deployProxyTask_log:
  assumes "deployProxyTask H wc salt f w = (Inr d, w')"
  shows "sent (w_log w') = sent (w_log w) @ [CallTx f (DeployProxy salt)] \<and> w_fs w' = w_fs w"
proof -
  from getGasPrices_run [of H w] obtain fees where g: "getGasPrices H w = (Inr fees, w)" by metis
  from assms obtain r w1 where s: "sendFactoryTx H f (DeployProxy salt) (Some fees) w = (Inr r, w1)"
    unfolding deployProxyTask_def Let_def by (auto simp: g elim!: bnd_InrE)
  then have "w_log w1 = w_log w @ [Sent (CallTx f (DeployProxy salt)) (Some fees)]" "w_fs w1 = w_fs w"
    by (auto elim!: sendFactoryTx_InrE)
  with assms g s show ?thesis
    by (auto simp: deployProxyTask_def Let_def bnd_def andThen_def world_simps split: sum.splits if_splits)
qed

lemma descriptorOf_state: "descriptorOf c w = (Inr d, w') \<Longrightarrow> w' = w"
  by (auto simp: descriptorOf_def world_simps elim!: bnd_InrE orTypeError_InrE)

lemma deployMulticallStep_log:
  assumes "deployMulticallStep H f c w = (Inr (), w')"
  shows "w_fs w' = w_fs w \<and> (if is_deployed c
    then \<exists>p. sent (w_log w') = sent (w_log w) @ [p] \<and> deployment_tx f c p else w' = w)"
proof -
  from assms obtain ty where ty: "js_prop c ''deployType'' = Some ty"
    by (auto simp: deployMulticallStep_def elim!: bnd_InrE orTypeError_InrE)
  consider "ty = JStr UPGRADEABLE_DEPLOYMENT" | "ty = JStr ONLY_PROXY"
    | "ty \<noteq> JStr UPGRADEABLE_DEPLOYMENT" "ty \<noteq> JStr ONLY_PROXY" by blast
  then show ?thesis
  proof cases
    case 1
    from assms obtain d args r w1 where "getDeployUpgradeableMultiCallArgs H d f None w = (Inr args, w1)"
      and "sendFactoryTx H f (MultiCall args) None w1 = (Inr r, w')
        \<or> (\<exists>w2. sendFactoryTx H f (MultiCall args) None w1 = (Inr r, w2)
             \<and> sent (w_log w') = sent (w_log w2) \<and> w_fs w' = w_fs w2)"
      by (auto simp: deployMulticallStep_def ty 1 world_simps elim!: bnd_InrE fromSum_InrE
          dest!: descriptorOf_state) blast
    then show ?thesis
      using ty 1
      by (auto simp: is_deployed_def deployment_tx_def elim!: getDeployUpgradeableMultiCallArgs_InrE
          sendFactoryTx_InrE)
  next
    case 2
    with assms ty show ?thesis
      by (auto simp: deployMulticallStep_def world_simps is_deployed_def deployment_tx_def
          elim!: bnd_InrE fromSum_InrE orTypeError_InrE dest!: getBytes32Salt_InrE deployProxyTask_log)
  next
    case 3
    with assms ty show ?thesis
      by (auto simp: deployMulticallStep_def bnd_def world_simps is_deployed_def)
  qed
qed

lemma deployMulticall_log:
  assumes "forEach cs (deployMulticallStep H f) w = (Inr (), w')"
  shows "w_fs w' = w_fs w \<and> (\<exists>ps. sent (w_log w') = sent (w_log w) @ ps
    \<and> list_all2 (deployment_tx f) (filter is_deployed cs) ps)"
  using assms
proof (induction cs arbitrary: w)
  case (Cons c cs)
  then obtain w1 where s: "deployMulticallStep H f c w = (Inr (), w1)"
    and r: "forEach cs (deployMulticallStep H f) w1 = (Inr (), w')"
    by (auto elim!: andThen_InrE)
  from Cons.IH [OF r] obtain ps where "sent (w_log w') = sent (w_log w1) @ ps" "w_fs w' = w_fs w1"
    "list_all2 (deployment_tx f) (filter is_deployed cs) ps" by blast
  with deployMulticallStep_log [OF s] show ?case
    by (cases "is_deployed c") auto
qed (simp add: world_simps)

text \<open>
  C33. \<open>deployContractsMulticall\<close>. When it returns, it has sent exactly one transaction for every
  descriptor whose type is \<open>deployUpgradeable\<close> (the three calls of an upgradeable deployment in one
  multicall) or \<open>onlyProxy\<close>, in the order of the descriptors, and nothing for the others; it has written
  no file, and its result is the empty array whatever it deployed.
\<close>

theorem deployContractsMulticall_transactions:
  assumes "deployContractsMulticall H cs f n i o' w = (Inr res, w')"
  shows "res = [] \<and> w_fs w' = w_fs w \<and> (\<exists>ps. sent (w_log w') = sent (w_log w) @ ps
    \<and> list_all2 (deployment_tx f) (filter is_deployed cs) ps)"
proof -
  from assms obtain w1 where "forEach cs (deployMulticallStep H f) w = (Inr (), w1)"
    and "res = []" "w' = w1"
    by (auto simp: deployContractsMulticall_def world_simps elim!: andThen_InrE)
  with deployMulticall_log show ?thesis by blast
qed

lemma sample_bytes32_Bar: "sample_bytes32 ''Bar'' = Inr (0x426172 * 2 ^ 232)"
  by (simp add: sample_bytes32_def)

lemma sample_Bar_salt: "getBytes32Salt sample_hre ''Bar'' w = (Inr (0x426172 * 2 ^ 232), w)"
  by (simp add: getBytes32Salt_def getFullyQualifiedName_def readArtifact_def getSalt_def getCustomNSTag_def
      formatSalt_def outputContract_def extractPath_def extractName_def js_nth_def bnd_def world_simps
      sample_defs sample_contracts_def sample_source_def sample_fqn_def sample_build_info_def sample_doc_def
      sample_bytes32_Bar)

theorem deployContractsMulticall_transactions_witness:
  "\<exists>w' p. deployContractsMulticall sample_hre
      [JObj [(''deployType'', JStr ''onlyProxy''), (''fullyQualifiedName'', JStr (sample_fqn ''Bar''))],
       JObj [(''deployType'', JStr ''none'')]] sample_factory 3 None None sample_world = (Inr [], w')
     \<and> sent (w_log w') = [p]"
proof -
  let ?cs = "[JObj [(''deployType'', JStr ''onlyProxy''), (''fullyQualifiedName'', JStr (sample_fqn ''Bar''))],
       JObj [(''deployType'', JStr ''none'')]]"
  obtain d w' where "deployProxyTask sample_hre (Some False) (0x426172 * 2 ^ 232) sample_factory
      sample_world = (Inr d, w')" using sample_deployProxy by blast
  moreover have "extractName (sample_fqn ''Bar'') = Some ''Bar''"
    by (simp add: extractName_def sample_fqn_def sample_source_def js_nth_def)
  ultimately have r: "deployContractsMulticall sample_hre ?cs sample_factory 3 None None sample_world
      = (Inr [], w')"
    by (simp add: deployContractsMulticall_def deployMulticallStep_def bnd_def andThen_def world_simps
        sample_Bar_salt obj_get_def)
  from deployContractsMulticall_transactions [OF r] show ?thesis
    by (auto simp: r is_deployed_def obj_get_def list_all2_Cons1 sample_defs)
qed

end
