(* ===== verification/Deploy_Args.thy ===== *)
theory Deploy_Args
  imports Deployment_Util
begin

text \<open>
  \<^verbatim>\<open>scripts/lib/deployment/deployArgUtil.ts\<close>: the template of constructor and initialiser arguments, generated
  from the ABIs of the contracts, and its round trip through the template file.
\<close>

section \<open>ABI\<close>

definition getContractABI :: "hre \<Rightarrow> string \<Rightarrow> abi_item list js" where
  "getContractABI H fullName =
     (case build_info_of H fullName of
        Some buildInfo \<Rightarrow>
          bnd (outputContract buildInfo (extractPath fullName) (extractName fullName)) (\<lambda>out.
            ret (co_abi out))
      | None \<Rightarrow> throw (Err (''failed to fetch '' @ fullName @ '' abi'')))"

definition getBuildInfo :: "hre \<Rightarrow> string \<Rightarrow> build_info option js" where
  "getBuildInfo H fullName = ret (build_info_of H fullName)"

definition methodTarget :: "string \<Rightarrow> abi_item \<Rightarrow> string option" where
  "methodTarget methodName method =
     (if methodName = ''constructor'' then Some (ai_type method) else ai_name method)"

definition methodInputs :: "abi_item \<Rightarrow> abi_input list js" where
  "methodInputs method = orTypeError ''method.inputs is not iterable'' (ai_inputs method)"

fun parseArgsLoop :: "string \<Rightarrow> jsval list \<Rightarrow> abi_item list \<Rightarrow> jsval list js" where
  "parseArgsLoop methodName args [] = ret args"
| "parseArgsLoop methodName args (method # methods) =
     (if methodTarget methodName method = Some methodName
      then bnd (methodInputs method) (\<lambda>inputs.
             parseArgsLoop methodName
               (args @ map (\<lambda>input. JObj [(in_name input, JStr ''UNDEFINED'')]) inputs) methods)
      else parseArgsLoop methodName args methods)"

definition parseArgsArray :: "hre \<Rightarrow> string \<Rightarrow> string \<Rightarrow> jsval list js" where
  "parseArgsArray H fullName methodName =
     bnd (getContractABI H fullName) (\<lambda>methods. parseArgsLoop methodName [] methods)"

definition getConstructorArgsABI :: "hre \<Rightarrow> string \<Rightarrow> jsval list js" where
  "getConstructorArgsABI H fullName = parseArgsArray H fullName ''constructor''"

definition getInitializerArgsABI :: "hre \<Rightarrow> string \<Rightarrow> jsval list js" where
  "getInitializerArgsABI H fullName = parseArgsArray H fullName ''initialize''"

text \<open>The comparison with \<open>"constructor"\<close>, not with \<open>methodName\<close>, is the source's.\<close>

fun argCountLoop :: "string \<Rightarrow> abi_item list \<Rightarrow> nat js" where
  "argCountLoop methodName [] = ret 0"
| "argCountLoop methodName (method # methods) =
     (if methodTarget methodName method = Some ''constructor''
      then bnd (orTypeError ''Cannot read properties of undefined'' (ai_inputs method))
             (\<lambda>inputs. ret (length inputs))
      else argCountLoop methodName methods)"

definition getMethodArgCount :: "hre \<Rightarrow> string \<Rightarrow> string \<Rightarrow> nat js" where
  "getMethodArgCount H fullName methodName =
     bnd (getContractABI H fullName) (argCountLoop methodName)"

fun initializerCountLoop :: "abi_item list \<Rightarrow> nat js" where
  "initializerCountLoop [] = ret 0"
| "initializerCountLoop (method # methods) =
     (if ai_name method = Some ''initialize''
      then bnd (orTypeError ''Cannot read properties of undefined'' (ai_inputs method))
             (\<lambda>inputs. ret (length inputs))
      else initializerCountLoop methods)"

definition getInitializerArgCount :: "hre \<Rightarrow> string \<Rightarrow> nat js" where
  "getInitializerArgCount H fullName = bnd (getContractABI H fullName) initializerCountLoop"

section \<open>The template\<close>

record DeploymentArgs =
  dpa_constructor :: js_object
  dpa_initializer :: js_object

definition DeploymentArgs_js :: "DeploymentArgs \<Rightarrow> jsval" where
  "DeploymentArgs_js d =
     JObj [(''constructor'', JObj (dpa_constructor d)), (''initializer'', JObj (dpa_initializer d))]"

definition writeDeploymentArgs :: "hre \<Rightarrow> DeploymentArgs \<Rightarrow> string option \<Rightarrow> unit js" where
  "writeDeploymentArgs H deploymentArgs configDirPath =
     (let path = (case configDirPath of
                    None \<Rightarrow> DEPLOYMENT_ARG_PATH @ DEPLOYMENT_ARGS_TEMPLATE_FPATH
                  | Some p \<Rightarrow> p @ DEPLOYMENT_ARGS_TEMPLATE_FPATH)
      in bnd (fromSum (toml_stringify H (DeploymentArgs_js deploymentArgs))) (\<lambda>data.
         writeFileSync path data))"

definition templateStep :: "hre \<Rightarrow> DeploymentArgs \<Rightarrow> string \<Rightarrow> DeploymentArgs js" where
  "templateStep H deploymentArgs contract =
     bnd (getConstructorArgsABI H contract) (\<lambda>cArgs.
     bnd (getInitializerArgsABI H contract) (\<lambda>iArgs.
     let d1 = (if length cArgs \<noteq> 0
               then deploymentArgs\<lparr>dpa_constructor :=
                      obj_put contract (JArr cArgs) (dpa_constructor deploymentArgs)\<rparr>
               else deploymentArgs);
         d2 = (if length iArgs \<noteq> 0
               then d1\<lparr>dpa_initializer := obj_put contract (JArr iArgs) (dpa_initializer d1)\<rparr>
               else d1)
     in ret d2))"

definition generateDeployArgTemplate :: "hre \<Rightarrow> string list \<Rightarrow> DeploymentArgs js" where
  "generateDeployArgTemplate H list =
     foldJs (templateStep H) \<lparr>dpa_constructor = [], dpa_initializer = []\<rparr> list"

section \<open>Lemmas\<close>

text \<open>The arguments an ABI gives a method: one placeholder for every input of every match.\<close>

definition placeholders :: "string list \<Rightarrow> jsval list" where
  "placeholders names = map (\<lambda>n. JObj [(n, JStr ''UNDEFINED'')]) names"

definition method_inputs :: "string \<Rightarrow> abi_item list \<Rightarrow> string list" where
  "method_inputs methodName methods =
     concat (map (\<lambda>m. map in_name (case ai_inputs m of None \<Rightarrow> [] | Some is \<Rightarrow> is))
       (filter (\<lambda>m. methodTarget methodName m = Some methodName) methods))"

lemma parseArgsLoop_InrD:
  "parseArgsLoop n as ms w = (Inr r, w') \<Longrightarrow> w' = w \<and> r = as @ placeholders (method_inputs n ms)"
  by (induction n as ms rule: parseArgsLoop.induct)
     (auto simp: world_simps placeholders_def method_inputs_def methodInputs_def comp_def
       elim!: bnd_InrE orTypeError_InrE split: if_splits)

definition contract_abi :: "hre \<Rightarrow> string \<Rightarrow> abi_item list" where
  "contract_abi H c =
     (case build_info_of H c of None \<Rightarrow> []
      | Some b \<Rightarrow> (case b (extractPath c) of None \<Rightarrow> []
          | Some cs \<Rightarrow> (case extractName c of None \<Rightarrow> []
              | Some n \<Rightarrow> (case cs n of None \<Rightarrow> [] | Some out \<Rightarrow> co_abi out))))"

lemma getContractABI_InrD: "getContractABI H c w = (Inr ms, w') \<Longrightarrow> w' = w \<and> ms = contract_abi H c"
  by (auto simp: getContractABI_def outputContract_def contract_abi_def orTypeError_def bnd_def world_simps
      split: option.splits)

definition arg_names :: "hre \<Rightarrow> string \<Rightarrow> string \<Rightarrow> string list" where
  "arg_names H c methodName = method_inputs methodName (contract_abi H c)"

lemma parseArgsArray_InrD:
  "parseArgsArray H c n w = (Inr r, w') \<Longrightarrow> w' = w \<and> r = placeholders (arg_names H c n)"
  by (auto simp: parseArgsArray_def arg_names_def elim!: bnd_InrE
      dest!: getContractABI_InrD parseArgsLoop_InrD)

lemmas args_InrD = parseArgsArray_InrD
  [where n = "''constructor''", folded getConstructorArgsABI_def]
  parseArgsArray_InrD [where n = "''initialize''", folded getInitializerArgsABI_def]

text \<open>What the fields of a template hold after a list of contracts.\<close>

definition template_field :: "hre \<Rightarrow> string \<Rightarrow> string list \<Rightarrow> string \<Rightarrow> jsval" where
  "template_field H m cs c =
     (if c \<in> set cs \<and> arg_names H c m \<noteq> [] then JArr (placeholders (arg_names H c m)) else JUndef)"

definition template_ok :: "hre \<Rightarrow> string list \<Rightarrow> DeploymentArgs \<Rightarrow> bool" where
  "template_ok H cs d =
     (wf_js (DeploymentArgs_js d) \<and> toml_able (DeploymentArgs_js d)
      \<and> (\<forall>c. obj_get (dpa_constructor d) c = template_field H ''constructor'' cs c)
      \<and> (\<forall>c. obj_get (dpa_initializer d) c = template_field H ''initialize'' cs c))"

lemma placeholders_ok [simp]:
  "wf_js (JArr (placeholders ns))" "toml_able (JArr (placeholders ns))"
proof -
  show "toml_able (JArr (placeholders ns))"
    by (rule toml_able_tables) (auto simp: placeholders_def)
qed (auto simp: placeholders_def list_all_iff)

lemma placeholders_empty [simp]: "placeholders ns = [] \<longleftrightarrow> ns = []"
  by (simp add: placeholders_def)

lemma templateStep_ok:
  assumes "template_ok H cs d" and "templateStep H d c w = (Inr d', w')"
  shows "w' = w \<and> template_ok H (cs @ [c]) d'"
proof -
  let ?C = "arg_names H c ''constructor''" and ?I = "arg_names H c ''initialize''"
  from assms(2) have w: "w' = w" and d': "d' =
      d\<lparr>dpa_constructor := (if ?C \<noteq> [] then obj_put c (JArr (placeholders ?C)) (dpa_constructor d)
                          else dpa_constructor d),
        dpa_initializer := (if ?I \<noteq> [] then obj_put c (JArr (placeholders ?I)) (dpa_initializer d)
                          else dpa_initializer d)\<rparr>"
    by (auto simp: templateStep_def Let_def world_simps elim!: bnd_InrE dest!: args_InrD)
  have wf: "wf_js (JObj (dpa_constructor d))" "toml_able (JObj (dpa_constructor d))"
    "wf_js (JObj (dpa_initializer d))" "toml_able (JObj (dpa_initializer d))"
    using assms(1) by (auto simp: template_ok_def DeploymentArgs_js_def)
  then have "wf_js (JObj (dpa_constructor d'))" "toml_able (JObj (dpa_constructor d'))"
    "wf_js (JObj (dpa_initializer d'))" "toml_able (JObj (dpa_initializer d'))"
    unfolding d' by (auto intro!: wf_js_obj_put toml_able_obj_put
        simp del: wf_js.simps toml_able.simps)
  then have "wf_js (DeploymentArgs_js d')" "toml_able (DeploymentArgs_js d')"
    by (auto simp: DeploymentArgs_js_def)
  with assms(1) w show ?thesis
    by (auto simp: template_ok_def template_field_def d')
qed

lemma template_fold_ok:
  "template_ok H cs d \<Longrightarrow> foldJs (templateStep H) d ds w = (Inr d', w') \<Longrightarrow>
     w' = w \<and> template_ok H (cs @ ds) d'"
proof (induction ds arbitrary: cs d w)
  case (Cons c ds)
  then obtain d1 w1 where "templateStep H d c w = (Inr d1, w1)"
    and "foldJs (templateStep H) d1 ds w1 = (Inr d', w')"
    by (auto elim!: bnd_InrE)
  with templateStep_ok [OF Cons.prems(1)] Cons.IH [of "cs @ [c]" d1 w] show ?case by auto
qed (simp add: world_simps)

lemma generateDeployArgTemplate_ok:
  "generateDeployArgTemplate H cs w = (Inr d, w') \<Longrightarrow> w' = w \<and> template_ok H cs d"
  using template_fold_ok [of H "[]" "\<lparr>dpa_constructor = [], dpa_initializer = []\<rparr>" cs w d w']
  by (simp add: generateDeployArgTemplate_def template_ok_def template_field_def DeploymentArgs_js_def
      obj_get_def)

text \<open>Reading a file right after it was written.\<close>

lemma readTOML_written:
  assumes "writeFileSync p s w = (Inr (), w')" and "toml_parse H s = Inr v"
  shows "readTOML H d (Some p) w' = (Inr v, w')"
  using assms
  by (auto simp: writeFileSync_def readTOML_def existsSync_def readFileSync_def bnd_def world_simps
      split: if_splits)

lemma DeploymentArgs_norm:
  obtains ps where "toml_norm H (DeploymentArgs_js d) = JObj ps"
    and "map_of ps ''constructor'' = Some (toml_norm H (JObj (dpa_constructor d)))"
    and "map_of ps ''initializer'' = Some (toml_norm H (JObj (dpa_initializer d)))"
proof -
  let ?ps = "[(''constructor'', toml_norm H (JObj (dpa_constructor d))),
              (''initializer'', toml_norm H (JObj (dpa_initializer d)))]"
  have "toml_norm H (DeploymentArgs_js d) = JObj (toml_order ?ps)"
    by (simp add: DeploymentArgs_js_def)
  moreover have "map_of (toml_order ?ps) = map_of ?ps"
    by (rule map_of_toml_order) simp
  ultimately show thesis using that by simp
qed

lemma norm_placeholders: "toml_norm H (JArr (placeholders ns)) = JArr (placeholders ns)"
  by (simp add: placeholders_def toml_order_def comp_def)

lemma foldJs_push_map:
  assumes "\<And>v. v \<in> set vs \<Longrightarrow> f v w = (Inr (g v), w)"
  shows "foldJs (\<lambda>out v. bnd (f v) (\<lambda>a. ret (out @ [a]))) acc vs w = (Inr (acc @ map g vs), w)"
  using assms by (induction vs arbitrary: acc) (auto simp: bnd_def world_simps)

lemma extractArgs_placeholders:
  "extractArgs (JArr (placeholders ns)) w = (Inr (replicate (length ns) (JStr ''UNDEFINED'')), w)"
proof -
  have k: "js_keys [(n, v)] = [n]" for n and v :: jsval by (simp add: js_keys_def)
  have "foldJs (\<lambda>out v. bnd (firstArg v) (\<lambda>a. ret (out @ [a]))) [] (placeholders ns) w
      = (Inr ([] @ map (\<lambda>v. JStr ''UNDEFINED'') (placeholders ns)), w)"
    by (rule foldJs_push_map) (auto simp: placeholders_def k obj_get_def world_simps)
  then show ?thesis
    by (simp add: extractArgs_def bnd_def world_simps placeholders_def map_replicate_const comp_def)
qed

lemma template_field_read:
  assumes "template_ok H cs d" and "toml_norm H (JObj (f d)) = JObj qs"
    and "f = dpa_constructor \<and> m = ''constructor'' \<or> f = dpa_initializer \<and> m = ''initialize''"
  shows "obj_get qs c = template_field H m cs c"
proof -
  have "distinct (map fst (f d))"
    using assms(1,3) by (auto simp: template_ok_def DeploymentArgs_js_def)
  from obj_get_toml_norm [OF this assms(2)] have "obj_get qs c = toml_norm H (obj_get (f d) c)" .
  moreover have "obj_get (f d) c = template_field H m cs c"
    using assms(1,3) by (auto simp: template_ok_def)
  ultimately show ?thesis by (auto simp: template_field_def norm_placeholders simp del: toml_norm.simps(2))
qed

section \<open>Properties\<close>

text \<open>
  C18. The argument template. After \<open>generateDeployArgTemplate\<close> and \<open>writeDeploymentArgs\<close> to a folder, the
  readers of the deployment find in that folder, for every contract of the list, one placeholder for
  each constructor input and each initialiser input its ABI declares, and nothing for a contract
  without them: \<open>[]\<close> for the constructor and \<open>undefined\<close> for the initialiser.
\<close>

theorem template_roundtrip:
  assumes "toml_library H"
    and "generateDeployArgTemplate H cs w0 = (Inr d, w)"
    and "writeDeploymentArgs H d (Some dir) w = (Inr (), w')"
    and "c \<in> set cs"
  shows "getDeploymentConstructorArgs H c (Some dir) w'
      = (Inr (replicate (length (arg_names H c ''constructor'')) (JStr ''UNDEFINED'')), w')
    \<and> getDeploymentInitializerArgs H c (Some dir) w'
      = (Inr (if arg_names H c ''initialize'' = [] then None
              else Some (replicate (length (arg_names H c ''initialize'')) (JStr ''UNDEFINED''))), w')"
proof -
  have ok: "template_ok H cs d" using generateDeployArgTemplate_ok assms(2) by blast
  let ?v = "toml_norm H (DeploymentArgs_js d)" and ?p = "dir @ ''/deploymentArgsTemplate''"
  have "\<exists>s. toml_stringify H (DeploymentArgs_js d) = Inr s \<and> toml_parse H s = Inr ?v"
    using assms(1) ok unfolding toml_library_def template_ok_def DeploymentArgs_js_def by blast
  then obtain s where s: "toml_stringify H (DeploymentArgs_js d) = Inr s" "toml_parse H s = Inr ?v"
    by blast
  then have "writeFileSync ?p s w = (Inr (), w')"
    using assms(3) by (simp add: writeDeploymentArgs_def bnd_def world_simps)
  from readTOML_written [OF this s(2)]
  have r: "readDeploymentArgs H (Some ?p) w' = (Inr ?v, w')" by (simp add: readDeploymentArgs_def)
  obtain ps where ps: "?v = JObj ps"
    "map_of ps ''constructor'' = Some (toml_norm H (JObj (dpa_constructor d)))"
    "map_of ps ''initializer'' = Some (toml_norm H (JObj (dpa_initializer d)))"
    by (rule DeploymentArgs_norm)
  obtain qs rs where q: "toml_norm H (JObj (dpa_constructor d)) = JObj qs"
    "toml_norm H (JObj (dpa_initializer d)) = JObj rs" by simp
  have "obj_get qs c = template_field H ''constructor'' cs c"
    "obj_get rs c = template_field H ''initialize'' cs c"
    using template_field_read [where f = dpa_constructor, OF ok q(1)]
      template_field_read [where f = dpa_initializer, OF ok q(2)] by auto
  with r ps q assms(4) show ?thesis
    by (simp add: getDeploymentConstructorArgs_def getDeploymentInitializerArgs_def Let_def
        deploymentArgsTemplatePath_def bnd_def world_simps obj_get_def [of ps] template_field_def
        extractArgs_placeholders del: toml_norm.simps)
qed

lemma sample_Foo_abi:
  "getContractABI sample_hre (sample_fqn ''Foo'') w =
     (Inr [sample_abi ''constructor'' [] [''size_''],
           sample_abi ''function'' ''initialize'' [''rate_'', ''cap_'']], w)"
  by (simp add: getContractABI_def outputContract_def extractPath_def extractName_def js_nth_def bnd_def
      world_simps sample_defs sample_contracts_def sample_source_def sample_fqn_def sample_build_info_def)

lemma sample_Foo_template:
  "generateDeployArgTemplate sample_hre [sample_fqn ''Foo''] w =
     (Inr \<lparr>dpa_constructor = [(sample_fqn ''Foo'', JArr (placeholders [''size_'']))],
          dpa_initializer = [(sample_fqn ''Foo'', JArr (placeholders [''rate_'', ''cap_'']))]\<rparr>, w)"
  by (simp add: generateDeployArgTemplate_def templateStep_def getConstructorArgsABI_def
      getInitializerArgsABI_def parseArgsArray_def sample_Foo_abi bnd_def world_simps Let_def sample_abi_def
      methodTarget_def methodInputs_def placeholders_def)

theorem template_roundtrip_witness:
  "\<exists>d w'. generateDeployArgTemplate sample_hre [sample_fqn ''Foo''] sample_world = (Inr d, sample_world)
     \<and> writeDeploymentArgs sample_hre d (Some ''out'') sample_world = (Inr (), w')
     \<and> getDeploymentInitializerArgs sample_hre (sample_fqn ''Foo'') (Some ''out'') w'
         = (Inr (Some [JStr ''UNDEFINED'', JStr ''UNDEFINED'']), w')"
proof -
  let ?d = "\<lparr>dpa_constructor = [(sample_fqn ''Foo'', JArr (placeholders [''size_'']))],
          dpa_initializer = [(sample_fqn ''Foo'', JArr (placeholders [''rate_'', ''cap_'']))]\<rparr>"
  have "wf_js (DeploymentArgs_js ?d)" "toml_able (DeploymentArgs_js ?d)"
    using generateDeployArgTemplate_ok [OF sample_Foo_template, of sample_world]
    by (simp_all add: template_ok_def del: wf_js.simps toml_able.simps)
  then obtain s where "toml_stringify sample_hre (DeploymentArgs_js ?d) = Inr s"
    unfolding DeploymentArgs_js_def by (rule toml_stringify_parse [OF sample_toml_library])
  moreover have "fs_path ''out/deploymentArgsTemplate'' = [''out'', ''deploymentArgsTemplate'']"
    by code_simp
  ultimately have "\<exists>w'. writeDeploymentArgs sample_hre ?d (Some ''out'') sample_world = (Inr (), w')"
    by (simp add: writeDeploymentArgs_def bnd_def world_simps writeFileSync_def is_dir_def sample_defs
        sample_files_def)
  then obtain w' where w: "writeDeploymentArgs sample_hre ?d (Some ''out'') sample_world = (Inr (), w')"
    by blast
  have n: "arg_names sample_hre (sample_fqn ''Foo'') ''initialize'' = [''rate_'', ''cap_'']"
    using getContractABI_InrD [OF sample_Foo_abi, THEN conjunct2, symmetric]
    by (simp add: arg_names_def method_inputs_def methodTarget_def sample_abi_def)
  from template_roundtrip [OF sample_toml_library sample_Foo_template w, of "sample_fqn ''Foo''"]
  have "getDeploymentInitializerArgs sample_hre (sample_fqn ''Foo'') (Some ''out'') w'
      = (Inr (Some [JStr ''UNDEFINED'', JStr ''UNDEFINED'']), w')"
    by (simp add: n numeral_2_eq_2)
  with w sample_Foo_template show ?thesis by blast
qed

text \<open>
  \<open>getMethodArgCount\<close> compares with the word \<open>constructor\<close> instead of the method it was asked for.
  For the constructor it counts the inputs of the first constructor of the ABI; for any other method
  name of an ABI whose functions are not called \<open>constructor\<close> it answers 0, whatever the method
  takes.
\<close>

theorem getMethodArgCount_other:
  assumes "getContractABI H c w = (Inr ms, w)" and "m \<noteq> ''constructor''"
    and "\<forall>x \<in> set ms. ai_name x \<noteq> Some ''constructor''"
  shows "getMethodArgCount H c m w = (Inr 0, w)"
proof -
  have "argCountLoop m ms w = (Inr 0, w)"
    using assms(2,3) by (induction ms) (auto simp: methodTarget_def world_simps)
  with assms(1) show ?thesis by (simp add: getMethodArgCount_def bnd_def)
qed

theorem getMethodArgCount_other_witness:
  "getMethodArgCount sample_hre (sample_fqn ''Foo'') ''initialize'' sample_world = (Inr 0, sample_world)
   \<and> getInitializerArgCount sample_hre (sample_fqn ''Foo'') sample_world = (Inr 2, sample_world)"
proof
  show "getMethodArgCount sample_hre (sample_fqn ''Foo'') ''initialize'' sample_world = (Inr 0, sample_world)"
    by (rule getMethodArgCount_other [OF sample_Foo_abi]) (simp_all add: sample_abi_def)
  show "getInitializerArgCount sample_hre (sample_fqn ''Foo'') sample_world = (Inr 2, sample_world)"
    by (simp add: getInitializerArgCount_def sample_Foo_abi bnd_def sample_abi_def world_simps)
qed

end
