(* ===== verification/Deployment_List.thy ===== *)
theory Deployment_List
  imports Deploy_Args
begin

text \<open>
  \<^verbatim>\<open>scripts/lib/deployment/deploymentListUtil.ts\<close>: the list of the contracts to deploy, grouped by their
  NatSpec tags and sorted within the groups, and the file it is kept in.
\<close>

section \<open>Data\<close>

text \<open>\<open>index\<close> is \<open>None\<close> for \<open>NaN\<close>. No group is called like a property of \<open>Object.prototype\<close>.\<close>

record ContractDeploymentInfo =
  cdi_contract :: string
  cdi_index :: "int option"

type_synonym DeploymentList = "(string \<times> ContractDeploymentInfo list) list"

section \<open>Operations\<close>

definition deploymentListPath :: "string option \<Rightarrow> string" where
  "deploymentListPath configDirPath =
     (case configDirPath of
        None \<Rightarrow> DEFAULT_CONFIG_OUTPUT_DIR @ DEPLOYMENT_LIST_FPATH
      | Some p \<Rightarrow> p @ DEPLOYMENT_LIST_FPATH)"

definition getDeploymentList :: "hre \<Rightarrow> string option \<Rightarrow> jsval js" where
  "getDeploymentList H configDirPath =
     (let path = deploymentListPath configDirPath in
      bnd (readDeploymentList H (Some path)) (\<lambda>config.
      bnd (propOf config ''deploymentList'') (\<lambda>deploymentList.
        if deploymentList = JUndef
        then throw (Err (''failed to fetch deployment list at path '' @ path))
        else ret deploymentList)))"

definition transformDeploymentList :: "DeploymentList \<Rightarrow> string list" where
  "transformDeploymentList deploymentlist =
     concat (map (\<lambda>group. case map_of deploymentlist group of
                            None \<Rightarrow> []
                          | Some items \<Rightarrow> map cdi_contract items)
       (js_keys deploymentlist))"

text \<open>The group and the index of a contract; \<open>parseInt\<close> does not throw.\<close>

definition groupOf :: "hre \<Rightarrow> string \<Rightarrow> (string \<times> int option) js" where
  "groupOf H contract =
     bnd (getDeployGroup H contract) (\<lambda>group.
       (case group of
          Some g \<Rightarrow>
            bnd (getDeployGroupIndex H contract) (\<lambda>indexString.
              (case indexString of
                 None \<Rightarrow> throw (Err
                   ''If deploy-group-index is specified a deploy-group-index also should be!'')
               | Some s \<Rightarrow> ret (g, js_parseInt_auto s)))
        | None \<Rightarrow> ret (''general'', Some (- 1))))"

definition pushGroup :: "string \<Rightarrow> ContractDeploymentInfo \<Rightarrow> DeploymentList \<Rightarrow> DeploymentList" where
  "pushGroup g info dl =
     obj_put g ((case map_of dl g of None \<Rightarrow> [] | Some items \<Rightarrow> items) @ [info]) dl"

definition sortedListStep :: "hre \<Rightarrow> DeploymentList \<Rightarrow> string \<Rightarrow> DeploymentList js" where
  "sortedListStep H deploymentList contract =
     bnd (getDeployType H contract) (\<lambda>deployType.
     bnd (groupOf H contract) (\<lambda>(group, index).
       if deployType \<noteq> None
       then ret (pushGroup group \<lparr>cdi_contract = contract, cdi_index = index\<rparr> deploymentList)
       else ret deploymentList))"

text \<open>\<open>contractA.index - contractB.index\<close>, where \<open>NaN\<close> counts as 0.\<close>

definition compareIndex :: "ContractDeploymentInfo \<Rightarrow> ContractDeploymentInfo \<Rightarrow> int" where
  "compareIndex contractA contractB =
     (case (cdi_index contractA, cdi_index contractB) of
        (Some i, Some j) \<Rightarrow> i - j
      | _ \<Rightarrow> 0)"

definition getSortedDeployList :: "hre \<Rightarrow> string list \<Rightarrow> DeploymentList js" where
  "getSortedDeployList H contracts =
     bnd (foldJs (sortedListStep H) [] contracts) (\<lambda>deploymentList.
       ret (map (\<lambda>(key, items).
              (key, if key \<noteq> ''general'' then js_sort compareIndex items else items)) deploymentList))"

definition LIST_WARNING :: string where
  "LIST_WARNING = ''# WARNING: THIS IS AN AUTOGENERATED FILE ANY CHANGES WILL BE LOST REFERENCE DOCUMENTATION FOR MORE INFORMATION''"

definition writeDeploymentList :: "hre \<Rightarrow> string list \<Rightarrow> string option \<Rightarrow> unit js" where
  "writeDeploymentList H list configDirPath =
     (let path = deploymentListPath configDirPath in
      bnd (readDeploymentList H (Some path)) (\<lambda>config.
      bnd (propOf config ''deploymentList'') (\<lambda>old.
      bnd (fromSum (js_set config ''deploymentList'' (if old = JUndef then JArr [] else old))) (\<lambda>config.
      bnd (fromSum (js_set config ''deploymentList'' (JArr (map JStr list)))) (\<lambda>config.
      bnd (fromSum (toml_stringify H config)) (\<lambda>data.
      andThen (writeFileSync path data)
        (bnd (readFileSync path) (\<lambda>text.
         let output = LIST_WARNING # js_split CHR 0x0A text
         in writeFileSync path (js_join [CHR 0x0A] output)))))))))"

section \<open>Lemmas\<close>

text \<open>The tags of a contract as values; reading them changes nothing.\<close>

definition nstag :: "hre \<Rightarrow> string \<Rightarrow> string \<Rightarrow> js_error + string option" where
  "nstag H c t = fst (getCustomNSTag H c t undefined)"

lemma getCustomNSTag_run: "getCustomNSTag H c t w = (nstag H c t, w)"
  by (auto simp: nstag_def getCustomNSTag_def outputContract_def orTypeError_def bnd_def world_simps
      split: option.splits)

text \<open>The group and the index a contract is filed under.\<close>

definition info_of :: "hre \<Rightarrow> string \<Rightarrow> string \<times> ContractDeploymentInfo" where
  "info_of H c =
     (case nstag H c ''deploy-group'' of
        Inr (Some g) \<Rightarrow>
          (g, \<lparr>cdi_contract = c,
               cdi_index = (case nstag H c ''deploy-group-index'' of
                              Inr (Some s) \<Rightarrow> js_parseInt_auto s | _ \<Rightarrow> None)\<rparr>)
      | _ \<Rightarrow> (''general'', \<lparr>cdi_contract = c, cdi_index = Some (- 1)\<rparr>))"

definition deployable :: "hre \<Rightarrow> string \<Rightarrow> bool" where
  "deployable H c = (case nstag H c ''deploy-type'' of Inr (Some ty) \<Rightarrow> True | _ \<Rightarrow> False)"

lemma sortedListStep_InrD:
  assumes "sortedListStep H dl c w = (Inr dl', w')"
  shows "w' = w \<and> dl' = (if deployable H c then pushGroup (fst (info_of H c)) (snd (info_of H c)) dl else dl)"
  using assms
  by (auto simp: sortedListStep_def groupOf_def getDeployType_def getDeployGroup_def
      getDeployGroupIndex_def getCustomNSTag_run bnd_def world_simps info_of_def deployable_def
      split: sum.splits option.splits if_splits)

text \<open>The entries of a group: those of its contracts, in the order of the input.\<close>

definition group_items :: "hre \<Rightarrow> string list \<Rightarrow> string \<Rightarrow> ContractDeploymentInfo list" where
  "group_items H cs g =
     map (\<lambda>c. snd (info_of H c)) (filter (\<lambda>c. deployable H c \<and> fst (info_of H c) = g) cs)"

definition groups_ok :: "hre \<Rightarrow> string list \<Rightarrow> DeploymentList \<Rightarrow> bool" where
  "groups_ok H cs dl =
     (distinct (map fst dl)
      \<and> (\<forall>g. map_of dl g = (if group_items H cs g = [] then None else Some (group_items H cs g))))"

lemma groups_ok_step:
  assumes "groups_ok H cs dl"
  shows "groups_ok H (cs @ [c])
    (if deployable H c then pushGroup (fst (info_of H c)) (snd (info_of H c)) dl else dl)"
  using assms
  by (auto simp: groups_ok_def group_items_def pushGroup_def map_of_obj_put distinct_obj_put)

lemma groups_ok_fold:
  "groups_ok H cs dl \<Longrightarrow> foldJs (sortedListStep H) dl ds w = (Inr dl', w') \<Longrightarrow>
     w' = w \<and> groups_ok H (cs @ ds) dl'"
proof (induction ds arbitrary: cs dl w)
  case (Cons c ds)
  then obtain dl1 w1 where "sortedListStep H dl c w = (Inr dl1, w1)"
    and "foldJs (sortedListStep H) dl1 ds w1 = (Inr dl', w')" by (auto elim!: bnd_InrE)
  with sortedListStep_InrD groups_ok_step [OF Cons.prems(1), of c] Cons.IH [of "cs @ [c]" dl1 w]
  show ?case by fastforce
qed (simp add: world_simps)

lemma map_of_map_items:
  "map_of (map (\<lambda>(k, v). (k, f k v)) dl) g = map_option (f g) (map_of dl g)"
  by (induction dl) auto

text \<open>What the sorted list says of a group.\<close>

definition sorted_items :: "hre \<Rightarrow> string list \<Rightarrow> string \<Rightarrow> ContractDeploymentInfo list" where
  "sorted_items H cs g =
     (if g = ''general'' then group_items H cs g else js_sort compareIndex (group_items H cs g))"

lemma getSortedDeployList_InrD:
  assumes "getSortedDeployList H cs w = (Inr dl, w')"
  shows "w' = w" and "distinct (map fst dl)"
    and "map_of dl g = (if group_items H cs g = [] then None else Some (sorted_items H cs g))"
proof -
  from assms obtain dl0 w1 where f: "foldJs (sortedListStep H) [] cs w = (Inr dl0, w1)"
    and dl: "dl = map (\<lambda>(key, items).
        (key, if key \<noteq> ''general'' then js_sort compareIndex items else items)) dl0" "w' = w1"
    by (auto simp: getSortedDeployList_def world_simps elim!: bnd_InrE)
  have "groups_ok H [] []" by (simp add: groups_ok_def group_items_def)
  from groups_ok_fold [OF this f] have ok: "w1 = w" "groups_ok H cs dl0" by auto
  then show "w' = w" "distinct (map fst dl)"
    by (auto simp: dl groups_ok_def case_prod_beta comp_def)
  show "map_of dl g = (if group_items H cs g = [] then None else Some (sorted_items H cs g))"
    using ok(2) unfolding dl(1) map_of_map_items
    by (simp add: groups_ok_def sorted_items_def)
qed

subsection \<open>Groups partition the contracts\<close>

lemma mset_js_keys: "mset (js_keys ps) = mset (map fst ps)"
  by (simp add: js_keys_def)

lemma mset_concat_single:
  assumes "distinct ks"
  shows "mset (concat (map (\<lambda>g. (if g = k then [c] else []) @ h g) ks))
         = (if k \<in> set ks then {#c#} else {#}) + mset (concat (map h ks))"
  using assms by (induction ks) auto

lemma mset_concat_groups:
  assumes "distinct ks" and "\<forall>c \<in> set cs. G c \<in> set ks"
  shows "mset (concat (map (\<lambda>g. filter (\<lambda>c. G c = g) cs) ks)) = mset cs"
  using assms(2)
proof (induction cs)
  case Nil
  then show ?case by (induction ks) auto
next
  case (Cons c cs)
  have "(\<lambda>g. filter (\<lambda>x. G x = g) (c # cs)) =
      (\<lambda>g. (if g = G c then [c] else []) @ filter (\<lambda>x. G x = g) cs)" by auto
  then have "mset (concat (map (\<lambda>g. filter (\<lambda>x. G x = g) (c # cs)) ks)) =
      (if G c \<in> set ks then {#c#} else {#}) + mset (concat (map (\<lambda>g. filter (\<lambda>x. G x = g) cs) ks))"
    by (simp only: mset_concat_single [OF assms(1)])
  with Cons show ?case by simp
qed

lemma mset_concat_cong:
  "(\<And>k. k \<in> set ks \<Longrightarrow> mset (f k) = mset (g k)) \<Longrightarrow> mset (concat (map f ks)) = mset (concat (map g ks))"
  by (induction ks) auto

lemma contract_info_of [simp]: "cdi_contract (snd (info_of H c)) = c"
  by (auto simp: info_of_def split: sum.splits option.splits)

lemma mset_sorted_items:
  "mset (map cdi_contract (sorted_items H cs g)) =
     mset (filter (\<lambda>c. fst (info_of H c) = g) (filter (deployable H) cs))"
proof -
  have "mset (map cdi_contract (sorted_items H cs g)) = mset (map cdi_contract (group_items H cs g))"
    by (simp add: sorted_items_def mset_js_sort)
  also have "map cdi_contract (group_items H cs g) =
      filter (\<lambda>c. fst (info_of H c) = g) (filter (deployable H) cs)"
    by (simp add: group_items_def comp_def conj_commute)
  finally show ?thesis .
qed

subsection \<open>The file\<close>

lemma LIST_WARNING_comment:
  obtains c where "LIST_WARNING = CHR ''#'' # c" and "CHR 0x0A \<notin> set c"
  by (simp add: LIST_WARNING_def that)

lemma toml_able_strings: "toml_able (JArr (map JStr xs))"
  by (cases xs) (auto simp: list_all_iff)

section \<open>Properties\<close>

text \<open>
  C11. Grouping and sorting. When \<open>getSortedDeployList\<close> returns, every group that has a deployable
  contract is listed, once, and no other; the group \<open>general\<close> keeps the order of the input; a group
  whose indices are all numbers is sorted by index, contracts of equal index in the order of the
  input; and whatever the indices are, no contract is lost or repeated.
\<close>

theorem getSortedDeployList_sorted:
  assumes "getSortedDeployList H cs w = (Inr dl, w')"
  shows "w' = w \<and> distinct (map fst dl)
    \<and> (\<forall>g items. map_of dl g = Some items \<longrightarrow>
         (if g = ''general'' then items = group_items H cs g
          else mset items = mset (group_items H cs g)
             \<and> ((\<forall>x \<in> set (group_items H cs g). cdi_index x \<noteq> None) \<longrightarrow>
                  items = sort_key (the \<circ> cdi_index) (group_items H cs g))))
    \<and> mset (transformDeploymentList dl) = mset (filter (deployable H) cs)"
proof -
  note dl = getSortedDeployList_InrD [OF assms]
  have sort: "js_sort compareIndex xs = sort_key (the \<circ> cdi_index) xs"
    if "\<forall>x \<in> set xs. cdi_index x \<noteq> None" for xs
    using that by (intro js_sort_key) (auto simp: compareIndex_def split: option.split)
  have keys: "g \<in> set (js_keys dl) \<longleftrightarrow> group_items H cs g \<noteq> []" for g
    using dl(3) [of g] by (auto simp: set_js_keys dom_map_of_conv_image_fst [symmetric] split: if_splits)
  have "mset (transformDeploymentList dl) = mset (concat (map
      (\<lambda>g. filter (\<lambda>c. fst (info_of H c) = g) (filter (deployable H) cs)) (js_keys dl)))"
    unfolding transformDeploymentList_def
    by (rule mset_concat_cong) (use dl(3) keys mset_sorted_items in \<open>auto simp: filter_filter\<close>)
  also have "\<dots> = mset (filter (deployable H) cs)"
  proof (rule mset_concat_groups)
    show "distinct (js_keys dl)"
      using dl(2) mset_eq_imp_distinct_iff [OF mset_js_keys, of dl] by simp
    show "\<forall>c \<in> set (filter (deployable H) cs). fst (info_of H c) \<in> set (js_keys dl)"
      by (auto simp: keys group_items_def filter_empty_conv)
  qed
  finally show ?thesis
    using dl by (auto simp: sorted_items_def mset_js_sort sort split: if_splits)
qed

lemma sample_tags:
  "getCustomNSTag sample_hre (sample_fqn ''Foo'') ''deploy-type'' w = (Inr (Some ''deployUpgradeable''), w)"
  "getCustomNSTag sample_hre (sample_fqn ''Foo'') ''deploy-group'' w = (Inr None, w)"
  "getCustomNSTag sample_hre (sample_fqn ''Bar'') ''deploy-type'' w = (Inr (Some ''onlyProxy''), w)"
  "getCustomNSTag sample_hre (sample_fqn ''Bar'') ''deploy-group'' w = (Inr (Some ''g''), w)"
  "getCustomNSTag sample_hre (sample_fqn ''Bar'') ''deploy-group-index'' w = (Inr (Some ''1''), w)"
  by (simp_all add: getCustomNSTag_def outputContract_def extractPath_def extractName_def js_nth_def
      bnd_def world_simps sample_defs sample_contracts_def sample_source_def sample_fqn_def
      sample_build_info_def sample_doc_def)

lemma sample_sorted_list:
  "getSortedDeployList sample_hre [sample_fqn ''Bar'', sample_fqn ''Foo''] w =
     (Inr [(''g'', [\<lparr>cdi_contract = sample_fqn ''Bar'', cdi_index = js_parseInt_auto ''1''\<rparr>]),
           (''general'', [\<lparr>cdi_contract = sample_fqn ''Foo'', cdi_index = Some (- 1)\<rparr>])], w)"
  by (simp add: getSortedDeployList_def sortedListStep_def groupOf_def getDeployType_def getDeployGroup_def
      getDeployGroupIndex_def sample_tags bnd_def world_simps pushGroup_def)

theorem getSortedDeployList_sorted_witness:
  "mset (transformDeploymentList
      [(''g'', [\<lparr>cdi_contract = sample_fqn ''Bar'', cdi_index = js_parseInt_auto ''1''\<rparr>]),
       (''general'', [\<lparr>cdi_contract = sample_fqn ''Foo'', cdi_index = Some (- 1)\<rparr>])])
   = {#sample_fqn ''Bar'', sample_fqn ''Foo''#}"
proof -
  have "deployable sample_hre (sample_fqn ''Bar'')" "deployable sample_hre (sample_fqn ''Foo'')"
    by (simp_all add: deployable_def nstag_def sample_tags)
  with getSortedDeployList_sorted [OF sample_sorted_list, of sample_world] show ?thesis by simp
qed

text \<open>
  C19. The list file. What \<open>writeDeploymentList\<close> wrote, \<open>getDeploymentList\<close> with the same folder reads back:
  the warning line it puts on top of the file is a comment, and the other fields of an existing file
  are not in the way.
\<close>

theorem deploymentList_roundtrip:
  assumes "toml_library H" and "writeDeploymentList H xs dir w = (Inr (), w')"
  shows "getDeploymentList H dir w' = (Inr (JArr (map JStr xs)), w')"
proof -
  let ?p = "deploymentListPath dir" and ?l = "JArr (map JStr xs)"
  from assms(2) obtain cfg where r: "readDeploymentList H (Some ?p) w = (Inr cfg, w)"
    by (auto simp: writeDeploymentList_def Let_def readDeploymentList_def readTOML_def existsSync_def
        readFileSync_def world_simps elim!: bnd_InrE split: option.splits node.splits if_splits)
  then have "cfg = JObj [] \<or> (\<exists>s. toml_parse H s = Inr cfg)"
    by (auto simp: readDeploymentList_def readTOML_def existsSync_def Let_def world_simps
        elim!: bnd_InrE fromSum_InrE split: if_splits)
  then have "\<exists>ps. cfg = JObj ps \<and> wf_js cfg \<and> toml_able cfg"
  proof
    assume "\<exists>s. toml_parse H s = Inr cfg"
    then show ?thesis by (blast elim: toml_parse_wf [OF assms(1)])
  qed simp
  then obtain ps where ps: "cfg = JObj ps" "wf_js (JObj ps)" "toml_able (JObj ps)" by blast
  let ?qs = "obj_put ''deploymentList'' ?l (obj_put ''deploymentList''
      (if obj_get ps ''deploymentList'' = JUndef then JArr [] else obj_get ps ''deploymentList'') ps)"
  have "wf_js ?l" "wf_js (JArr [])" "toml_able (JArr [])" by (simp_all add: list_all_iff)
  then have "wf_js (JObj ?qs)" "toml_able (JObj ?qs)"
    using ps wf_js_obj_get [of ps] toml_able_obj_get [of ps] toml_able_strings [of xs]
    by (auto intro!: wf_js_obj_put toml_able_obj_put simp del: wf_js.simps toml_able.simps)
  then obtain s where s: "toml_stringify H (JObj ?qs) = Inr s"
    "toml_parse H s = Inr (toml_norm H (JObj ?qs))"
    by (rule toml_stringify_parse [OF assms(1)])
  obtain rs where rs: "toml_norm H (JObj ?qs) = JObj rs" by simp
  have "obj_get rs ''deploymentList'' = toml_norm H ?l"
    using obj_get_toml_norm [OF _ rs, of "''deploymentList''"] \<open>wf_js (JObj ?qs)\<close> by simp
  then have l: "obj_get rs ''deploymentList'' = ?l" by (simp add: comp_def)
  obtain c where c: "LIST_WARNING = CHR ''#'' # c" "CHR 0x0A \<notin> set c" by (rule LIST_WARNING_comment)
  have "js_join [CHR 0x0A] (LIST_WARNING # js_split CHR 0x0A s) = CHR ''#'' # c @ CHR 0x0A # s"
    by (simp add: js_join_Cons js_join_split c)
  then have "\<exists>w1. writeFileSync ?p (CHR ''#'' # c @ CHR 0x0A # s) w1 = (Inr (), w')"
    using assms(2) r ps s(1)
    by (auto simp: writeDeploymentList_def Let_def bnd_def andThen_def world_simps readFileSync_def
        writeFileSync_def split: if_splits)
  then obtain w1 where "writeFileSync ?p (CHR ''#'' # c @ CHR 0x0A # s) w1 = (Inr (), w')" by blast
  from readTOML_written [OF this] have "readDeploymentList H (Some ?p) w' = (Inr (JObj rs), w')"
    using toml_comment [OF assms(1) c(2), of s] s(2) rs by (simp add: readDeploymentList_def)
  then show ?thesis by (simp add: getDeploymentList_def Let_def bnd_def world_simps l)
qed

theorem deploymentList_roundtrip_witness:
  "\<exists>w'. writeDeploymentList sample_hre [''a:A'', ''b:B''] (Some ''out'') sample_world = (Inr (), w')
     \<and> getDeploymentList sample_hre (Some ''out'') w' = (Inr (JArr [JStr ''a:A'', JStr ''b:B'']), w')"
proof -
  have "wf_js (JObj [(''deploymentList'', JArr [JStr ''a:A'', JStr ''b:B''])])"
    "toml_able (JObj [(''deploymentList'', JArr [JStr ''a:A'', JStr ''b:B''])])" by simp_all
  then obtain s where "toml_stringify sample_hre
      (JObj [(''deploymentList'', JArr [JStr ''a:A'', JStr ''b:B''])]) = Inr s"
    by (rule toml_stringify_parse [OF sample_toml_library])
  moreover have "fs_path ''out/deploymentList'' = [''out'', ''deploymentList'']"
    by code_simp
  ultimately have "\<exists>w'. writeDeploymentList sample_hre [''a:A'', ''b:B''] (Some ''out'') sample_world
      = (Inr (), w')"
    by (simp add: writeDeploymentList_def readDeploymentList_def readTOML_def deploymentListPath_def
        Let_def bnd_def andThen_def world_simps existsSync_def readFileSync_def writeFileSync_def is_dir_def
        sample_defs sample_files_def obj_get_def)
  then show ?thesis
    using deploymentList_roundtrip [OF sample_toml_library, of "[''a:A'', ''b:B'']" "Some ''out''"]
    by fastforce
qed

end
