(* ===== verification/Factory_Tasks.thy ===== *)
theory Factory_Tasks
  imports Deployment_List
begin

text \<open>
  The hardhat tasks of \<^verbatim>\<open>scripts/lib/alicenetFactoryTasks.ts\<close>. A task is a function of its arguments;
  \<open>hre.run(name, args)\<close> is a call of that function, with the flags that the caller leaves out set to
  \<open>false\<close> and the optional parameters it leaves out \<open>undefined\<close>. Addresses are passed as addresses, and
  written to the state file in their textual form.
\<close>

section \<open>Small tasks\<close>

definition getNetworkTask :: "hre \<Rightarrow> string js" where
  "getNetworkTask H =
     (let network = network_name H in andThen (showState H network) (ret network))"

definition getBytes32SaltTask :: "hre \<Rightarrow> string \<Rightarrow> unit js" where
  "getBytes32SaltTask H contractName =
     bnd (task_getBytes32Salt H contractName) (\<lambda>salt. showState H (bytes32_hex H salt))"

section \<open>Deploying the factory\<close>

text \<open>\<open>provider.estimateGas\<close> and \<open>ContractFactory.deploy\<close> for \<open>AliceNetFactory\<close>.\<close>

definition estimateGas :: "hre \<Rightarrow> payload \<Rightarrow> nat js" where
  "estimateGas H tx = bnd (getW w_chain) (\<lambda>ch. fromSum (estimate_gas H ch tx))"

definition deployFactoryTx :: "hre \<Rightarrow> addr \<Rightarrow> gas_fees option \<Rightarrow> addr js" where
  "deployFactoryTx H legacyToken fees =
     bnd (firstSigner H) (\<lambda>sender.
     bnd (getW w_chain) (\<lambda>ch.
       (case create_factory (hre_evm H) sender legacyToken ch of
          Inl r \<Rightarrow> throw (TxReverted r)
        | Inr (self, ch') \<Rightarrow>
            andThen (modW (\<lambda>w. w\<lparr>w_chain := ch'\<lparr>ch_block := ch_block ch' + 1\<rparr>\<rparr>))
            (andThen (logAction (Sent (CreateFactoryTx legacyToken) fees))
            (ret self)))))"

definition deployFactoryTask :: "hre \<Rightarrow> bool option \<Rightarrow> bool option \<Rightarrow> string option \<Rightarrow> FactoryData js" where
  "deployFactoryTask H waitConfirmation verify outputFolder =
     (let waitBlocks = waitBlocksOf waitConfirmation in
      andThen (checkUserDirPath outputFolder)
      (bnd (getFactoryDeploymentArgs H None) (\<lambda>args.
       let constructorArgs = (case args of None \<Rightarrow> [] | Some as \<Rightarrow> as) in
       bnd (getAccounts H) (\<lambda>accounts.
       let arg0 = (case js_nth constructorArgs 0 of None \<Rightarrow> JUndef | Some v \<Rightarrow> v) in
       (case to_address H arg0 of
          None \<Rightarrow> throw (LibErr ''invalid address'')
        | Some legacyToken \<Rightarrow>
            bnd (estimateGas H (CreateFactoryTx legacyToken)) (\<lambda>gasCost.
            bnd (getGasPrices H) (\<lambda>fees.
            bnd (deployFactoryTx H legacyToken (Some fees)) (\<lambda>factoryAddress.
            andThen (logAction (Waited waitBlocks))
            (let factoryData = \<lparr>fd_address = factoryAddress, fd_owner = js_nth accounts 0, fd_gas = gasCost\<rparr> in
             andThen (if verify = Some True then verifyContract H factoryAddress constructorArgs else ret ())
             (andThen (updateDefaultFactoryData H (network_name H) factoryData outputFolder)
             (andThen (showState H (''Deployed: '' @ ALICENET_FACTORY @ '', at address: ''
                  @ addr_hex H factoryAddress @ '', with '' @ js_show_nat gasCost @ '' gas''))
               (ret factoryData))))))))))))"

text \<open>\<open>deployFactory\<close> of \<^verbatim>\<open>deploymentUtil.ts\<close>\<close>

definition deployFactory :: "hre \<Rightarrow> string option \<Rightarrow> FactoryData js" where
  "deployFactory H usrPath = deployFactoryTask H (Some False) (Some False) usrPath"

section \<open>Generating the configuration files\<close>

definition qualifyNames :: "hre \<Rightarrow> string list \<Rightarrow> string list js" where
  "qualifyNames H nameList =
     foldJs (\<lambda>contracts name.
       bnd (readArtifact H name) (\<lambda>sourceName.
       let fullName = sourceName @ '':'' @ name in
       bnd (getDeployType H fullName) (\<lambda>_. ret (contracts @ [fullName])))) [] nameList"

definition listAndTemplate :: "hre \<Rightarrow> string list \<Rightarrow> (string list \<times> DeploymentArgs) js" where
  "listAndTemplate H contracts =
     bnd (getSortedDeployList H contracts) (\<lambda>deploymentList.
     let list = transformDeploymentList deploymentList in
     bnd (generateDeployArgTemplate H list) (\<lambda>deploymentArgs. ret (list, deploymentArgs)))"

definition generateDeploymentConfigsTask ::
    "hre \<Rightarrow> bool \<Rightarrow> bool \<Rightarrow> string option \<Rightarrow> string list option \<Rightarrow> unit js" where
  "generateDeploymentConfigsTask H listOnly argsOnly outputFolder contractNames =
     andThen (checkUserDirPath outputFolder)
     (let path = (case outputFolder of None \<Rightarrow> DEFAULT_CONFIG_OUTPUT_DIR | Some p \<Rightarrow> p) in
      bnd (if outputFolder = None \<and> contractNames = None then
             bnd (getAllContracts H) (listAndTemplate H)
           else if outputFolder \<noteq> None \<and> contractNames \<noteq> None then
             bnd (qualifyNames H (the contractNames)) (listAndTemplate H)
           else if outputFolder \<noteq> None \<and> contractNames = None then
             bnd (getAllContracts H) (listAndTemplate H)
           else throw (Err ''you must specify a path to store your custom deploy config files''))
        (\<lambda>(list, deploymentArgs).
           andThen
             (if \<not> argsOnly
              then writeDeploymentList H (filter (\<lambda>name. \<not> js_includes name ''AliceNetFactory'') list)
                     (Some path)
              else ret ())
             (if \<not> listOnly
              then andThen (writeDeploymentArgs H deploymentArgs (Some path))
                     (consoleLog (''YOU MUST REPLACE THE UNDEFINED VALUES IN '' @ path
                        @ ''/deploymentArgsTemplate''))
              else ret ())))"

section \<open>Deploying contracts through the factory\<close>

text \<open>\<open>gasUsed.toNumber()\<close>, and \<open>BigNumber.from\<close> of what the data records.\<close>

definition toNumber :: "nat \<Rightarrow> BigNumberish js" where
  "toNumber n = (if n < 2 ^ 53 then ret (PlainNum n) else throw (LibErr ''overflow''))"

fun bigFrom :: "BigNumberish \<Rightarrow> nat js" where
  "bigFrom (BigNum n) = ret n"
| "bigFrom (PlainNum n) = (if n < 2 ^ 53 - 1 then ret n else throw (LibErr ''overflow''))"

text \<open>The calldata of the initialiser, or \<open>0x\<close> for a contract without one.\<close>

definition initCallDataOf :: "hre \<Rightarrow> string \<Rightarrow> string list \<Rightarrow> cdata js" where
  "initCallDataOf H contractName initArgs =
     bnd (task_getFullyQualifiedName H contractName) (\<lambda>fullname.
     bnd (isInitializable H fullname) (\<lambda>isInitable.
       if isInitable then fromSum (encode_call H contractName INITIALIZER (map JStr initArgs))
       else ret NoData))"

definition raiseBlockGasLimit :: "hre \<Rightarrow> string \<Rightarrow> unit js" where
  "raiseBlockGasLimit H limit =
     (if network_name H = ''hardhat'' then rpcSend H ''evm_setBlockGasLimit'' [JStr limit] else ret ())"

text \<open>\<open>factory.estimateGas.f(...)\<close>: rejected when the call would revert.\<close>

definition estimateFactoryCall :: "hre \<Rightarrow> addr \<Rightarrow> cdata \<Rightarrow> nat js" where
  "estimateFactoryCall H factory data =
     bnd (firstSigner H) (\<lambda>sender.
     bnd (getW w_chain) (\<lambda>ch.
       (case tx_exec (hre_evm H) sender factory data (bump_nonce sender ch) of
          Inl r \<Rightarrow> throw (TxReverted r)
        | Inr _ \<Rightarrow> fromSum (estimate_gas H ch (CallTx factory data)))))"

definition deployCreateTask ::
    "hre \<Rightarrow> bool option \<Rightarrow> string \<Rightarrow> addr \<Rightarrow> string option \<Rightarrow> jsval list option \<Rightarrow> DeployCreateData js" where
  "deployCreateTask H waitConfirmation contractName factoryAddress outputFolder constructorArgs =
     (let waitBlocks = waitBlocksOf waitConfirmation;
          args = (case constructorArgs of None \<Rightarrow> [] | Some as \<Rightarrow> as) in
      bnd (fromSum (deploy_data H contractName args)) (\<lambda>deployTx.
      andThen (raiseBlockGasLimit H ''0x3000000000000000'')
      (case deployTx of
         Some data \<Rightarrow>
           bnd (getGasPrices H) (\<lambda>fees.
           bnd (sendFactoryTx H factoryAddress (DeployCreate data) (Some fees)) (\<lambda>txResponse.
           bnd (waitTx txResponse waitBlocks) (\<lambda>receipt.
           bnd (fromSum (getEventVar receipt DEPLOYED_RAW CONTRACT_ADDR)) (\<lambda>address.
           let deployCreateData = \<lparr>dc_name = contractName, dc_address = address,
                 dc_factoryAddress = factoryAddress, dc_gas = rc_gasUsed receipt,
                 dc_constructorArgs = constructorArgs, dc_receipt = None\<rparr> in
           bnd (updateDeployCreateList H (network_name H) deployCreateData outputFolder) (\<lambda>d.
           andThen (showState H (''[DEBUG ONLY, DONT USE THIS ADDRESS IN THE SIDE CHAIN, USE THE PROXY INSTEAD!] Deployed logic for ''
               @ contractName @ '' contract at: '' @ addr_hex H address @ '', gas: ''
               @ js_show_nat (rc_gasUsed receipt)))
             (ret (d\<lparr>dc_receipt := Some receipt\<rparr>)))))))
       | None \<Rightarrow> throw (Err (''failed to get deployment bytecode for '' @ contractName)))))"

text \<open>The key orders of the object literals that are written to the state file.\<close>

definition multiCallProxyKeys :: "string list" where
  "multiCallProxyKeys =
     [''factoryAddress'', ''logicName'', ''logicAddress'', ''salt'', ''proxyAddress'', ''gas'', RECEIPT,
      ''initCallData'']"

definition upgradeProxyKeys :: "string list" where
  "upgradeProxyKeys =
     [''proxyAddress'', ''salt'', ''logicName'', ''logicAddress'', ''factoryAddress'', ''gas'', RECEIPT,
      ''initCallData'']"

text \<open>\<open>taskArgs.salt === undefined ? await getBytes32Salt(...) : formatBytes32String(taskArgs.salt)\<close>\<close>

definition saltOrDefault :: "hre \<Rightarrow> string option \<Rightarrow> string \<Rightarrow> bytes32 js" where
  "saltOrDefault H salt contractName =
     (case salt of
        None \<Rightarrow> task_getBytes32Salt H contractName
      | Some s \<Rightarrow> fromSum (formatBytes32String H s))"

definition multiCallDeployProxyTask :: "hre \<Rightarrow> DeployProxyMCArgs \<Rightarrow> string option \<Rightarrow> ProxyData js" where
  "multiCallDeployProxyTask H taskArgs saltArg =
     (let waitBlocks = waitBlocksOf (dp_waitConfirmation taskArgs);
          factoryAddress = dp_factoryAddress taskArgs in
      bnd (initCallDataOf H (dp_contractName taskArgs) (initArgsOf (dp_initCallData taskArgs)))
        (\<lambda>initCallData.
      bnd (saltOrDefault H saltArg (dp_contractName taskArgs)) (\<lambda>salt.
      let deployProxyCallData = DeployProxy salt;
          upgradeProxyCallData = UpgradeProxy salt (dp_logicAddress taskArgs) initCallData;
          deployProxy = encodeMultiCallArgs factoryAddress 0 deployProxyCallData;
          upgradeProxy = encodeMultiCallArgs factoryAddress 0 upgradeProxyCallData;
          multiCallArgs = [deployProxy, upgradeProxy] in
      bnd (getGasPrices H) (\<lambda>fees.
      bnd (sendFactoryTx H factoryAddress (MultiCall multiCallArgs) (Some fees)) (\<lambda>txResponse.
      bnd (waitTx txResponse waitBlocks) (\<lambda>receipt.
      bnd (fromSum (getEventVar receipt DEPLOYED_PROXY CONTRACT_ADDR)) (\<lambda>proxyAddress.
      bnd (toNumber (rc_gasUsed receipt)) (\<lambda>gas.
        updateProxyList H multiCallProxyKeys (network_name H)
          \<lparr>pd_proxyAddress = proxyAddress, pd_salt = salt,
           pd_logicName = Some (dp_contractName taskArgs),
           pd_logicAddress = Some (dp_logicAddress taskArgs), pd_factoryAddress = factoryAddress,
           pd_gas = gas, pd_receipt = Some receipt, pd_initCallData = Some initCallData\<rparr>
          (dp_outputFolder taskArgs)))))))))"

definition deployUpgradeableProxyTask ::
    "hre \<Rightarrow> bool option \<Rightarrow> string \<Rightarrow> addr \<Rightarrow> string option \<Rightarrow> string option \<Rightarrow> jsval list option
     \<Rightarrow> ProxyData js" where
  "deployUpgradeableProxyTask H waitConfirmation contractName factoryAddress initCallData outputFolder
     constructorArgs =
     bnd (deployCreateTask H (Some False) contractName factoryAddress outputFolder constructorArgs)
       (\<lambda>deployCreateData.
     let cumulativeGas = 0 + dc_gas deployCreateData;
         mcCallArgs = \<lparr>dp_contractName = contractName, dp_logicAddress = dc_address deployCreateData,
           dp_waitConfirmation = waitConfirmation, dp_factoryAddress = factoryAddress,
           dp_initCallData = initCallData, dp_outputFolder = outputFolder\<rparr> in
     bnd (multiCallDeployProxyTask H mcCallArgs None) (\<lambda>proxyData.
     bnd (bigFrom (pd_gas proxyData)) (\<lambda>gas.
     let cumulativeGas = cumulativeGas + gas;
         proxyData = proxyData\<lparr>pd_gas := BigNum cumulativeGas\<rparr> in
     andThen (showState H (''Deployed '' @ contractName @ '' with proxy at ''
         @ addr_hex H (pd_proxyAddress proxyData) @ '', gasCost: '' @ js_show_nat cumulativeGas))
       (ret proxyData))))"

text \<open>\<open>BigNumber.from(MULTICALL_GAS_LIMIT)\<close>\<close>

definition multiCallGasLimit :: nat where
  "multiCallGasLimit = js_digits 10 0 MULTICALL_GAS_LIMIT"

definition fullMultiCallDeployProxyTask :: "hre \<Rightarrow> DeployArgs \<Rightarrow> ProxyData js" where
  "fullMultiCallDeployProxyTask H taskArgs =
     (let waitBlocks = waitBlocksOf (da_waitConfirmation taskArgs);
          network = network_name H;
          contractName = da_contractName taskArgs;
          factoryAddress = da_factoryAddress taskArgs;
          initArgs = initArgsOf (da_initCallData taskArgs) in
      bnd (initCallDataOf H contractName initArgs) (\<lambda>initCallData.
      bnd (task_getBytes32Salt H contractName) (\<lambda>salt.
      let constructorArgs = (case da_constructorArgs taskArgs of None \<Rightarrow> [] | Some as \<Rightarrow> as) in
      andThen (raiseBlockGasLimit H ''0x3000000000000000'')
      (bnd (getContractDescriptor H contractName constructorArgs (map JStr initArgs))
        (\<lambda>contractDescriptor.
      bnd (getDeployUpgradeableMultiCallArgs H contractDescriptor factoryAddress (Some initCallData))
        (\<lambda>multiCallArgs.
      bnd (estimateFactoryCall H factoryAddress (MultiCall multiCallArgs)) (\<lambda>estimatedMultiCallGas.
        if estimatedMultiCallGas < multiCallGasLimit then
          bnd (getGasPrices H) (\<lambda>fees.
          bnd (sendFactoryTx H factoryAddress (MultiCall multiCallArgs) (Some fees)) (\<lambda>txResponse.
          bnd (waitTx txResponse waitBlocks) (\<lambda>receipt.
          bnd (fromSum (getEventVar receipt DEPLOYED_RAW CONTRACT_ADDR)) (\<lambda>deployedLogicAddress.
          andThen (if da_verify taskArgs = Some True
                   then verifyContract H deployedLogicAddress constructorArgs else ret ())
          (bnd (fromSum (getEventVar receipt DEPLOYED_PROXY CONTRACT_ADDR)) (\<lambda>proxyAddress.
           let proxyData = \<lparr>pd_proxyAddress = proxyAddress, pd_salt = salt,
                 pd_logicName = Some contractName, pd_logicAddress = Some deployedLogicAddress,
                 pd_factoryAddress = factoryAddress, pd_gas = BigNum (rc_gasUsed receipt),
                 pd_receipt = Some receipt, pd_initCallData = Some initCallData\<rparr> in
           andThen (showState H (''Deployed '' @ contractName @ '' with proxy at ''
               @ addr_hex H proxyAddress @ '', gasCost: '' @ js_show_nat (rc_gasUsed receipt)))
             (updateProxyList H multiCallProxyKeys network proxyData (da_outputFolder taskArgs))))))))
        else
          deployUpgradeableProxyTask H (Some False) contractName factoryAddress
            (da_initCallData taskArgs) (da_outputFolder taskArgs) (da_constructorArgs taskArgs))))))))"

definition upgradeDeployedProxyTask ::
    "hre \<Rightarrow> bool option \<Rightarrow> string \<Rightarrow> addr \<Rightarrow> addr \<Rightarrow> string option \<Rightarrow> string option \<Rightarrow> ProxyData js" where
  "upgradeDeployedProxyTask H waitConfirmation contractName logicAddress factoryAddress initCallDataArg
     outputFolder =
     (let waitBlocks = waitBlocksOf waitConfirmation; network = network_name H in
      bnd (task_getBytes32Salt H contractName) (\<lambda>Salt.
      bnd (initCallDataOf H contractName (initArgsOf initCallDataArg)) (\<lambda>initCallData.
      bnd (getGasPrices H) (\<lambda>fees.
      bnd (sendFactoryTx H factoryAddress (UpgradeProxy Salt logicAddress initCallData) (Some fees))
        (\<lambda>txResponse.
      bnd (waitTx txResponse waitBlocks) (\<lambda>receipt.
      bnd (toNumber (rc_gasUsed receipt)) (\<lambda>gas.
      let proxyData = \<lparr>pd_proxyAddress = getMetamorphicAddress H factoryAddress Salt, pd_salt = Salt,
            pd_logicName = Some contractName, pd_logicAddress = Some logicAddress,
            pd_factoryAddress = factoryAddress, pd_gas = gas, pd_receipt = Some receipt,
            pd_initCallData = Some initCallData\<rparr> in
      andThen (showState H (''Updated logic with upgradeDeployedProxy for the'' @ [CHR 0x0A] @ ''      ''
          @ contractName @ [CHR 0x0A] @ ''      contract at'' @ [CHR 0x0A] @ ''      ''
          @ addr_hex H (pd_proxyAddress proxyData) @ [CHR 0x0A] @ ''      gas:'' @ [CHR 0x0A] @ ''      ''
          @ js_show_nat (rc_gasUsed receipt)))
        (updateProxyList H upgradeProxyKeys network proxyData outputFolder))))))))"

text \<open>\<open>...taskArgs.constructorArgs\<close> throws when the argument is left out.\<close>

definition multiCallUpgradeProxyTask ::
    "hre \<Rightarrow> bool option \<Rightarrow> string \<Rightarrow> addr \<Rightarrow> string option \<Rightarrow> string option \<Rightarrow> jsval list option
     \<Rightarrow> ProxyData js" where
  "multiCallUpgradeProxyTask H waitConfirmation contractName factoryAddress initCallDataArg saltArg
     constructorArgs =
     (let waitBlocks = waitBlocksOf waitConfirmation in
      bnd (initCallDataOf H contractName (initArgsOf initCallDataArg)) (\<lambda>initCallData.
      bnd (orTypeError ''constructorArgs is not iterable'' constructorArgs) (\<lambda>args.
      bnd (fromSum (deploy_data H contractName args)) (\<lambda>deployTx.
      bnd (encodeDeployCreate deployTx) (\<lambda>deployCreateCallData.
      bnd (saltOrDefault H saltArg contractName) (\<lambda>salt.
      bnd (getW (\<lambda>w. ch_nonce (w_chain w) factoryAddress)) (\<lambda>txCount.
      let implAddress = create_addr (hre_evm H) factoryAddress txCount;
          upgradeProxyCallData = UpgradeProxy salt implAddress initCallData;
          proxyAddress = getMetamorphicAddress H factoryAddress salt in
      bnd (getW (\<lambda>w. read_impl (hre_evm H) proxyAddress (w_chain w))) (\<lambda>impl.
      (case impl of
         None \<Rightarrow> throw (LibErr ''call revert exception'')
       | Some oldImpl \<Rightarrow>
           let deployCreate = encodeMultiCallArgs factoryAddress 0 deployCreateCallData;
               upgradeProxy = encodeMultiCallArgs factoryAddress 0 upgradeProxyCallData in
           bnd (getGasPrices H) (\<lambda>fees.
           bnd (sendFactoryTx H factoryAddress (MultiCall [deployCreate, upgradeProxy]) (Some fees))
             (\<lambda>txResponse.
           bnd (waitTx txResponse waitBlocks) (\<lambda>receipt.
           andThen (showState H (''Updating logic for the '' @ contractName @ '' proxy at ''
               @ addr_hex H proxyAddress @ '' from '' @ addr_hex H oldImpl @ '' to ''
               @ addr_hex H implAddress @ '', gasCost: '' @ js_show_nat (rc_gasUsed receipt)))
           (bnd (toNumber (rc_gasUsed receipt)) (\<lambda>gas.
              ret \<lparr>pd_proxyAddress = proxyAddress, pd_salt = salt, pd_logicName = Some contractName,
                   pd_logicAddress = None, pd_factoryAddress = factoryAddress, pd_gas = gas,
                   pd_receipt = Some receipt, pd_initCallData = Some initCallData\<rparr>))))))))))))))"

section \<open>Deploying everything\<close>

definition deployContractsStep ::
    "hre \<Rightarrow> addr \<Rightarrow> bool option \<Rightarrow> bool option \<Rightarrow> string option \<Rightarrow> string option \<Rightarrow> nat \<Rightarrow> jsval \<Rightarrow> nat js" where
  "deployContractsStep H factoryAddress waitConfirmation verify inputFolder outputFolder cumulativeGasUsed
     contract =
     bnd (orTypeError ''fullName.split is not a function'' (js_string contract)) (\<lambda>fullyQualifiedName.
     bnd (getDeployType H fullyQualifiedName) (\<lambda>deployType.
       if deployType = Some UPGRADEABLE_DEPLOYMENT then
         bnd (getDeployUpgradeableProxyArgs H fullyQualifiedName factoryAddress waitConfirmation
                inputFolder outputFolder verify) (\<lambda>deployArgs.
         bnd (fullMultiCallDeployProxyTask H deployArgs) (\<lambda>proxyData.
         bnd (bigFrom (pd_gas proxyData)) (\<lambda>gas. ret (cumulativeGasUsed + gas))))
       else if deployType = Some ONLY_PROXY then
         bnd (orTypeError ''HH700: Artifact not found'' (extractName fullyQualifiedName)) (\<lambda>name.
         bnd (task_getBytes32Salt H name) (\<lambda>salt.
         bnd (deployProxyTask H waitConfirmation salt factoryAddress) (\<lambda>proxyData.
         bnd (bigFrom (pd_gas proxyData)) (\<lambda>gas. ret (cumulativeGasUsed + gas)))))
       else ret cumulativeGasUsed))"

definition deployContractsTask ::
    "hre \<Rightarrow> bool \<Rightarrow> bool \<Rightarrow> addr option \<Rightarrow> string option \<Rightarrow> string option \<Rightarrow> unit js" where
  "deployContractsTask H waitConfirmation verify factoryAddressArg inputFolder outputFolder =
     andThen (checkUserDirPath outputFolder)
     (bnd (case factoryAddressArg of
             None \<Rightarrow>
               bnd (deployFactoryTask H (Some False) (Some verify) outputFolder) (\<lambda>factoryData.
                 ret (fd_address factoryData, 0 + fd_gas factoryData))
           | Some a \<Rightarrow> ret (a, 0)) (\<lambda>(factoryAddress, cumulativeGasUsed).
      bnd (getDeploymentList H inputFolder) (\<lambda>list.
      bnd (orTypeError ''Cannot read properties of undefined'' (js_elements list)) (\<lambda>contracts.
      bnd (foldJs (deployContractsStep H factoryAddress (Some waitConfirmation) (Some verify) inputFolder
             outputFolder) cumulativeGasUsed contracts) (\<lambda>cumulativeGasUsed.
        consoleLog (''total gas used: '' @ js_show_nat cumulativeGasUsed))))))"

section \<open>The descriptor file\<close>

text \<open>\<open>tomlArgs.forEach((o) => out.push(JSON.stringify(o).split('"')[3]))\<close>\<close>

definition descriptorArgs :: "hre \<Rightarrow> jsval \<Rightarrow> jsval list js" where
  "descriptorArgs H tomlArgs =
     (if tomlArgs = JUndef then ret []
      else bnd (orTypeError ''forEach is not a function'' (js_list tomlArgs)) (\<lambda>objects.
        ret (map (\<lambda>jsonObject.
               (case js_nth (js_split CHR 0x22 (json_stringify H 0 jsonObject)) 3 of
                  None \<Rightarrow> JUndef | Some s \<Rightarrow> JStr s)) objects)))"

text \<open>\<open>x !== undefined && x ? x : d\<close>\<close>

definition nonEmptyOr :: "string option \<Rightarrow> string \<Rightarrow> jsval" where
  "nonEmptyOr x d = JStr (case x of None \<Rightarrow> d | Some s \<Rightarrow> if s = [] then d else s)"

definition descriptorStep :: "hre \<Rightarrow> jsval \<Rightarrow> jsval list \<Rightarrow> jsval \<Rightarrow> jsval list js" where
  "descriptorStep H tomlFile descriptors item =
     bnd (orTypeError ''contract.split is not a function'' (js_string item)) (\<lambda>contract.
     let contractName = js_nth (js_split CHR '':'' contract) 1 in
     bnd (orTypeError ''Cannot read properties of undefined'' (js_prop_constructor tomlFile)) (\<lambda>constructors.
     bnd (propOf constructors contract) (\<lambda>tomlConstructorArgs.
     bnd (descriptorArgs H tomlConstructorArgs) (\<lambda>constructorArgs.
     bnd (propOf tomlFile ''initializer'') (\<lambda>initializers.
     bnd (propOf initializers contract) (\<lambda>tomlInitializerArgs.
     bnd (descriptorArgs H tomlInitializerArgs) (\<lambda>initializerArgs.
     bnd (getDeployType H contract) (\<lambda>deployType.
     bnd (getDeployGroup H contract) (\<lambda>deployGroup.
     bnd (getDeployGroupIndex H contract) (\<lambda>deployGroupIndex.
       (case deployType of
          None \<Rightarrow> ret descriptors
        | Some ty \<Rightarrow>
            ret (descriptors @ [JObj
              [(''name'', js_opt JStr contractName),
               (''fullyQualifiedName'', JStr contract),
               (''deployGroup'', nonEmptyOr deployGroup ''general''),
               (''deployGroupIndex'', nonEmptyOr deployGroupIndex ''0''),
               (''deployType'', JStr ty),
               (''constructorArgs'', JArr constructorArgs),
               (''initializerArgs'', JArr initializerArgs)]]))))))))))))"

text \<open>\<open>taskArgs.inputFolder\<close> is no parameter of the task, so the list is always the default one.\<close>

definition generateContractsDescriptorTask :: "hre \<Rightarrow> string option \<Rightarrow> unit js" where
  "generateContractsDescriptorTask H outputFolder =
     andThen (checkUserDirPath outputFolder)
     (let configDirPath = (case outputFolder of None \<Rightarrow> DEFAULT_CONFIG_OUTPUT_DIR | Some p \<Rightarrow> p);
          path = configDirPath @ DEPLOYMENT_LIST_FPATH @ ''.json'';
          deploymentArgsPath = configDirPath @ DEPLOYMENT_ARGS_TEMPLATE_FPATH in
      bnd (getDeploymentList H None) (\<lambda>list.
      bnd (readFileSync deploymentArgsPath) (\<lambda>deploymentArgsFile.
      bnd (fromSum (toml_parse H deploymentArgsFile)) (\<lambda>tomlFile.
      bnd (orTypeError ''Cannot read properties of undefined'' (js_elements list)) (\<lambda>contracts.
      bnd (foldJs (descriptorStep H tomlFile) [] contracts) (\<lambda>descriptors.
        writeFileSync path (json_stringify H 4 (JObj [(''contracts'', JArr descriptors)]))))))))"

definition deployContractsFromDescriptorTask ::
    "hre \<Rightarrow> addr option \<Rightarrow> string option \<Rightarrow> string option \<Rightarrow> unit js" where
  "deployContractsFromDescriptorTask H factoryAddressArg inputFolder outputFolder =
     andThen (checkUserDirPath outputFolder)
     (let configDirPath = (case outputFolder of None \<Rightarrow> DEFAULT_CONFIG_OUTPUT_DIR | Some p \<Rightarrow> p);
          path = configDirPath @ DEPLOYMENT_LIST_FPATH @ ''.json'' in
      bnd (existsSync path) (\<lambda>ex.
      if \<not> ex then throw (Err (''Could not find '' @ DEFAULT_CONFIG_OUTPUT_DIR @ DEPLOYMENT_LIST_FPATH
          @ ''.json file. It must be generated first with generateContractsDescriptor task''))
      else
        bnd (readFileSync path) (\<lambda>rawdata.
        bnd (fromSum (json_parse H rawdata)) (\<lambda>json.
        andThen (raiseBlockGasLimit H ''0x9000000000000000'')
        (bnd (case factoryAddressArg of
                None \<Rightarrow>
                  bnd (deployFactoryTask H (Some False) (Some False) outputFolder) (\<lambda>factoryData.
                    ret (fd_address factoryData, 0 + fd_gas factoryData))
              | Some a \<Rightarrow> ret (a, 0)) (\<lambda>(factoryAddress, cumulativeGasUsed).
         bnd (getW (\<lambda>w. ch_nonce (w_chain w) factoryAddress)) (\<lambda>txCount.
         bnd (propOf json ''contracts'') (\<lambda>list.
         bnd (orTypeError ''Cannot read properties of undefined'' (js_elements list)) (\<lambda>contracts.
         andThen (deployContractsMulticall H contracts factoryAddress txCount inputFolder outputFolder)
           (consoleLog (''total gas used: '' @ js_show_nat cumulativeGasUsed)))))))))))"

end
