(* ===== verification/Task_Frames.thy ===== *)
theory Task_Frames
  imports Factory_Tasks
begin

text \<open>
  What a script does not change, whatever it does and whether or not it throws, proved once for every
  reflexive and transitive relation between worlds. \<open>js_frame\<close> is enough for the scripts that only read;
  \<open>console_frame\<close>, \<open>writer_frame\<close>, \<open>effect_frame\<close> and \<open>file_frame\<close> add the effects that a relation
  tolerates. The instances: readers change nothing, the file system stays a tree, the log only
  grows, and with the output silenced the deployment tasks write no file.
\<close>

section \<open>Scripts that only read\<close>

context js_frame
begin

lemma keeps_option:
  "keeps R m \<Longrightarrow> (\<And>a. keeps R (f a)) \<Longrightarrow> keeps R (case x of None \<Rightarrow> m | Some a \<Rightarrow> f a)"
  by (cases x) auto

lemma keeps_sum:
  "(\<And>a. keeps R (f a)) \<Longrightarrow> (\<And>b. keeps R (g b)) \<Longrightarrow> keeps R (case x of Inl a \<Rightarrow> f a | Inr b \<Rightarrow> g b)"
  by (cases x) auto

lemma keeps_prod: "(\<And>a b. keeps R (f a b)) \<Longrightarrow> keeps R (case x of (a, b) \<Rightarrow> f a b)"
  by (cases x) auto

lemma keeps_jsval_list:
  "(\<And>vs. keeps R (f vs)) \<Longrightarrow> keeps R m \<Longrightarrow> keeps R (case x of JArr vs \<Rightarrow> f vs | _ \<Rightarrow> m)"
  by (cases x) auto

lemmas keeps_rules = keeps_basic keeps_option keeps_sum keeps_prod keeps_jsval_list

lemma keeps_provider:
  "keeps R (firstSigner H)" "keeps R (getGasPrices H)" "keeps R (estimateGas H tx)"
  "keeps R (toNumber n)" "keeps R (encodeDeployCreate b)" "keeps R (js_push xs v)"
  unfolding firstSigner_def getGasPrices_def estimateGas_def toNumber_def encodeDeployCreate_def js_push_def
    Let_def
  by (intro keeps_rules)+

lemma keeps_bigFrom: "keeps R (bigFrom g)"
  by (cases g) (auto intro!: keeps_rules)

lemma keeps_estimateFactoryCall: "keeps R (estimateFactoryCall H f d)"
  unfolding estimateFactoryCall_def by (intro keeps_rules keeps_provider)

lemma keeps_readTOML: "keeps R (readTOML H d u)"
  unfolding readTOML_def Let_def by (intro keeps_rules)

lemma keeps_configs:
  "keeps R (readDeploymentArgs H u)" "keeps R (readDeploymentList H u)" "keeps R (readFactoryState H u)"
  "keeps R (getDeploymentList H u)"
  unfolding getDeploymentList_def readDeploymentArgs_def readDeploymentList_def readFactoryState_def Let_def
  by (intro keeps_rules keeps_readTOML)+

lemma keeps_artifacts:
  "keeps R (readArtifact H c)" "keeps R (outputContract b p n)" "keeps R (formatSalt H s)"
  "keeps R (getAccounts H)" "keeps R (task_getFullyQualifiedName H c)"
  unfolding readArtifact_def outputContract_def formatSalt_def getAccounts_def
    task_getFullyQualifiedName_def by (intro keeps_rules)+

lemma keeps_tags:
  "keeps R (getCustomNSTag H c t)" "keeps R (getDeployType H c)" "keeps R (getDeployGroup H c)"
  "keeps R (getDeployGroupIndex H c)" "keeps R (getFullyQualifiedName H c)" "keeps R (getBytes32Salt H c)"
  "keeps R (getContractDescriptor H c as is)"
  unfolding getContractDescriptor_def getBytes32Salt_def getSalt_def getDeployType_def getDeployGroup_def
    getDeployGroupIndex_def getFullyQualifiedName_def getCustomNSTag_def
  by (intro keeps_rules keeps_artifacts)+

lemma keeps_constructorInputs: "keeps R (constructorInputs ms)"
  by (induction ms) (auto intro!: keeps_rules)

lemma keeps_abi:
  "keeps R (isInitializable H c)" "keeps R (hasConstructorArgs H c)" "keeps R (initCallDataOf H c as)"
  unfolding isInitializable_def hasConstructorArgs_def contractOutput_def initCallDataOf_def
  by (intro keeps_rules keeps_artifacts keeps_constructorInputs)+

lemma keeps_extractArgs: "keeps R (extractArgs v)"
proof -
  have "keeps R (firstArg x)" for x
    by (cases x rule: firstArg.cases) (auto intro!: keeps_rules)
  then show ?thesis unfolding extractArgs_def by (intro keeps_rules)
qed

lemma keeps_deploymentArgs:
  "keeps R (getDeploymentConstructorArgs H c u)" "keeps R (getDeploymentInitializerArgs H c u)"
  unfolding getDeploymentConstructorArgs_def getDeploymentInitializerArgs_def Let_def
  by (intro keeps_rules keeps_configs keeps_extractArgs)+

lemma keeps_deployArgs:
  "keeps R (getDeployUpgradeableProxyArgs H c f wc i o' v)" "keeps R (getFactoryDeploymentArgs H i)"
  "keeps R (getDeployUpgradeableMultiCallArgs H cd f init)"
  unfolding getDeployUpgradeableProxyArgs_def getFactoryDeploymentArgs_def
    getDeployUpgradeableMultiCallArgs_def Let_def
  by (intro keeps_rules keeps_abi keeps_deploymentArgs keeps_tags keeps_provider)+

lemma keeps_templates:
  "keeps R (generateDeployArgTemplate H cs)" "keeps R (getSortedDeployList H cs)"
  "keeps R (listAndTemplate H cs)" "keeps R (qualifyNames H cs)"
proof -
  have "keeps R (parseArgsLoop n as ms)" for n as ms
    by (induction n as ms rule: parseArgsLoop.induct)
       (auto simp: methodInputs_def intro!: keeps_rules)
  then show g: "keeps R (generateDeployArgTemplate H cs)" for cs
    unfolding generateDeployArgTemplate_def templateStep_def getConstructorArgsABI_def
      getInitializerArgsABI_def parseArgsArray_def getContractABI_def Let_def
    by (intro keeps_rules keeps_artifacts)
  show s: "keeps R (getSortedDeployList H cs)" for cs
    unfolding getSortedDeployList_def sortedListStep_def groupOf_def
    by (intro keeps_rules keeps_tags)
  show "keeps R (listAndTemplate H cs)" "keeps R (qualifyNames H cs)"
    unfolding listAndTemplate_def qualifyNames_def Let_def
    by (intro keeps_rules keeps_artifacts keeps_tags g s)+
qed

lemma keeps_descriptors: "keeps R (descriptorOf c)" "keeps R (descriptorStep H t ds x)"
  unfolding descriptorOf_def descriptorStep_def descriptorArgs_def Let_def
  by (intro keeps_rules keeps_tags)+

text \<open>Keeping \<open>writeFactoryState\<close> in a folder is enough for the updates of the state file of that folder.\<close>

lemma keeps_updates:
  assumes w: "\<And>n f v. keeps R (writeFactoryState H n f v u)"
  shows "keeps R (updateList H n f d u)" "keeps R (updateProxyList H ks n pd u)"
    "keeps R (updateDeployCreateList H n dc u)" "keeps R (updateDefaultFactoryData H n fd u)"
proof -
  show l: "keeps R (updateList H n f d u)" for n f d
    unfolding updateList_def by (intro keeps_rules keeps_configs keeps_provider w)
  show "keeps R (updateProxyList H ks n pd u)" "keeps R (updateDeployCreateList H n dc u)"
    unfolding updateProxyList_def updateDeployCreateList_def by (intro keeps_rules l)+
  show "keeps R (updateDefaultFactoryData H n fd u)"
    unfolding updateDefaultFactoryData_def by (intro keeps_rules w)
qed

lemmas keeps_readers_all = keeps_rules keeps_provider keeps_bigFrom keeps_estimateFactoryCall keeps_configs
  keeps_artifacts keeps_tags keeps_abi keeps_deployArgs keeps_templates keeps_descriptors

end

section \<open>Relations the console does not break\<close>

locale console_frame = js_frame +
  assumes eff_console: "keeps R (consoleLog m)"
begin

lemma keeps_showState: "keeps R (showState H m)"
  unfolding showState_def by (intro keeps_rules eff_console)

lemma keeps_verifyContract: "keeps R (verifyContract H a args)"
  unfolding verifyContract_def by (intro keeps_rules eff_console)

lemma keeps_salts: "keeps R (task_getBytes32Salt H c)" "keeps R (saltOrDefault H s c)"
  unfolding saltOrDefault_def task_getBytes32Salt_def task_getSalt_def
  by (intro keeps_rules keeps_artifacts eff_console)+

lemmas keeps_console_rules = keeps_readers_all eff_console keeps_showState keeps_verifyContract keeps_salts

end

section \<open>Relations the writing of files does not break\<close>

locale writer_frame = console_frame +
  assumes eff_write: "keeps R (writeFileSync p s)"
    and eff_mkdir: "keeps R (mkdirSync p)"
begin

lemma keeps_writeFactoryState: "keeps R (writeFactoryState H n f v u)"
  unfolding writeFactoryState_def Let_def by (intro keeps_rules keeps_configs eff_write)

lemma keeps_checkUserDirPath: "keeps R (checkUserDirPath p)"
  unfolding checkUserDirPath_def by (intro keeps_rules eff_console eff_mkdir)

lemma keeps_writers: "keeps R (writeDeploymentArgs H d u)" "keeps R (writeDeploymentList H xs u)"
  unfolding writeDeploymentArgs_def writeDeploymentList_def Let_def
  by (intro keeps_rules keeps_configs eff_write)+

lemma keeps_generateDeploymentConfigsTask: "keeps R (generateDeploymentConfigsTask H l a o' ns)"
  unfolding generateDeploymentConfigsTask_def getAllContracts_def Let_def
  by (intro keeps_console_rules keeps_checkUserDirPath keeps_writers)

lemma keeps_generateContractsDescriptorTask: "keeps R (generateContractsDescriptorTask H o')"
  unfolding generateContractsDescriptorTask_def Let_def
  by (intro keeps_console_rules keeps_checkUserDirPath eff_write)

lemmas keeps_state_updates = keeps_updates [OF keeps_writeFactoryState]

end

section \<open>Relations the chain does not break\<close>

locale effect_frame = console_frame +
  assumes eff_log: "keeps R (logAction a)"
    and eff_chain: "keeps R (modW (\<lambda>w. w\<lparr>w_chain := ch\<rparr>))"
begin

lemma keeps_transactions:
  "keeps R (sendFactoryTx H f d fees)" "keeps R (deployFactoryTx H legacy fees)" "keeps R (waitTx r n)"
  "keeps R (raiseBlockGasLimit H l)" "keeps R (rpcSend H m ps)" "keeps R (axiosPost H url body)"
  "keeps R (delay H t)"
  unfolding sendFactoryTx_def deployFactoryTx_def waitTx_def raiseBlockGasLimit_def rpcSend_def axiosPost_def
    delay_def
  by (intro keeps_rules keeps_provider eff_log eff_chain)+

lemmas keeps_task_rules = keeps_console_rules eff_log keeps_transactions

lemma keeps_deployProxyTask: "keeps R (deployProxyTask H wc salt f)"
  unfolding deployProxyTask_def Let_def by (intro keeps_task_rules)

lemma keeps_deployContractsMulticall: "keeps R (deployContractsMulticall H cs f n i o')"
  unfolding deployContractsMulticall_def deployMulticallStep_def
  by (intro keeps_task_rules keeps_deployProxyTask)

lemma keeps_multiCallUpgradeProxyTask: "keeps R (multiCallUpgradeProxyTask H wc c f i s as)"
  unfolding multiCallUpgradeProxyTask_def Let_def by (intro keeps_task_rules)

lemma keeps_deploy_tasks:
  assumes w: "\<And>n f v. keeps R (writeFactoryState H n f v u)"
  shows "keeps R (deployCreateTask H wc c fa u as)"
    and "dp_outputFolder ma = u \<Longrightarrow> keeps R (multiCallDeployProxyTask H ma s)"
    and "keeps R (deployUpgradeableProxyTask H wc c fa i u as)"
    and "da_outputFolder da = u \<Longrightarrow> keeps R (fullMultiCallDeployProxyTask H da)"
    and "keeps R (upgradeDeployedProxyTask H wc c la fa i u)"
proof -
  show c: "keeps R (deployCreateTask H wc c fa u as)" for wc c fa as
    unfolding deployCreateTask_def Let_def by (intro keeps_task_rules keeps_updates [OF w])
  show m: "keeps R (multiCallDeployProxyTask H ma s)" if "dp_outputFolder ma = u" for ma s
    unfolding multiCallDeployProxyTask_def Let_def that by (intro keeps_task_rules keeps_updates [OF w])
  show d: "keeps R (deployUpgradeableProxyTask H wc c fa i u as)" for wc c fa i as
    unfolding deployUpgradeableProxyTask_def Let_def by (intro keeps_task_rules c m) simp
  show "keeps R (fullMultiCallDeployProxyTask H da)" if "da_outputFolder da = u"
    unfolding fullMultiCallDeployProxyTask_def Let_def that
    by (intro keeps_task_rules keeps_updates [OF w] d)
  show "keeps R (upgradeDeployedProxyTask H wc c la fa i u)"
    unfolding upgradeDeployedProxyTask_def Let_def by (intro keeps_task_rules keeps_updates [OF w])
qed

lemmas keeps_deploy_tasks_all = keeps_deploy_tasks(1,3,5) keeps_deploy_tasks(2,4) [OF _ refl]

end

section \<open>Relations no effect breaks\<close>

locale file_frame = effect_frame + writer_frame
begin

lemma keeps_deployFactoryTask: "keeps R (deployFactoryTask H wc v o')"
  unfolding deployFactoryTask_def Let_def
  by (intro keeps_task_rules keeps_checkUserDirPath keeps_state_updates)

lemma keeps_deployContractsTask: "keeps R (deployContractsTask H wc v fa i o')"
  unfolding deployContractsTask_def deployContractsStep_def
  by (intro keeps_task_rules keeps_checkUserDirPath keeps_deployFactoryTask keeps_deployProxyTask
      keeps_deploy_tasks_all keeps_writeFactoryState)

lemma keeps_deployContractsFromDescriptorTask: "keeps R (deployContractsFromDescriptorTask H fa i o')"
  unfolding deployContractsFromDescriptorTask_def Let_def
  by (intro keeps_task_rules keeps_checkUserDirPath keeps_deployFactoryTask keeps_deployContractsMulticall)

lemmas keeps_all_tasks = keeps_deployFactoryTask keeps_generateDeploymentConfigsTask
  keeps_deployContractsTask keeps_generateContractsDescriptorTask keeps_deployContractsFromDescriptorTask
  keeps_deploy_tasks_all [OF keeps_writeFactoryState]

end

section \<open>Instances\<close>

text \<open>Nothing changes; only the console does; the chain, the log and the transactions do not.\<close>

definition unchanged :: "world \<Rightarrow> world \<Rightarrow> bool" where
  "unchanged w w' = (w' = w)"

definition quiet :: "world \<Rightarrow> world \<Rightarrow> bool" where
  "quiet w w' = (w_chain w' = w_chain w \<and> w_log w' = w_log w \<and> w_fs w' = w_fs w)"

interpretation reads: js_frame unchanged
  by unfold_locales (auto simp: unchanged_def)

interpretation quiet_steps: console_frame quiet
  by unfold_locales (auto simp: quiet_def keeps_def consoleLog_def modW_def)

interpretation chain_writes: writer_frame same_chain
  by unfold_locales (auto simp: writers_keep)

interpretation silent_files: effect_frame same_files
  by unfold_locales (auto simp: keeps_def same_files_def consoleLog_def logAction_def modW_def)

interpretation tree_files: file_frame files_stay_wf
  by (unfold_locales, auto simp: writers_keep writers_keep_wf)
     (auto simp: keeps_def files_stay_wf_def logAction_def modW_def)

interpretation growing_log: file_frame log_grows
  by (unfold_locales, auto simp: writers_keep)
     (auto simp: keeps_def log_grows_def logAction_def modW_def)

lemma reads_state: "keeps unchanged m \<Longrightarrow> m w = (r, w') \<Longrightarrow> w' = w"
  by (auto dest: keepsD simp: unchanged_def)

section \<open>Properties\<close>


text \<open>
  C27. With the environment variable \<open>silencer\<close> set, the deployment tasks change no file: they act on the
  chain and leave the factory state as it is.
\<close>

theorem silenced_tasks_write_nothing:
  assumes "silencer H = Some v" and "v \<noteq> ''false''"
  shows "keeps same_files (fullMultiCallDeployProxyTask H da)
    \<and> keeps same_files (deployUpgradeableProxyTask H wc c f i out as)
    \<and> keeps same_files (deployCreateTask H wc c f out as)
    \<and> keeps same_files (multiCallDeployProxyTask H ma s)
    \<and> keeps same_files (upgradeDeployedProxyTask H wc c la f i out)
    \<and> keeps same_files (deployProxyTask H wc salt f)
    \<and> keeps same_files (multiCallUpgradeProxyTask H wc c f i s as)
    \<and> keeps same_files (deployContractsMulticall H cs f n i out)"
proof -
  have "\<not> not_silenced H" using assms by (simp add: not_silenced_def)
  then have "keeps same_files (writeFactoryState H n f v u)" for n f v u
    by (simp add: keeps_def silenced_noop same_files_def)
  then show ?thesis
    by (intro conjI silent_files.keeps_deploy_tasks_all silent_files.keeps_deployProxyTask
        silent_files.keeps_multiCallUpgradeProxyTask silent_files.keeps_deployContractsMulticall)
qed

theorem silenced_tasks_write_nothing_witness:
  "keeps same_files (deployCreateTask (sample_hre\<lparr>silencer := Some ''true''\<rparr>) None ''Foo'' sample_factory
     (Some ''out'') None)"
  using silenced_tasks_write_nothing [of "sample_hre\<lparr>silencer := Some ''true''\<rparr>" "''true''"] by simp

end
