(* ===== verification/Alicenet_Factory.thy ===== *)
theory Alicenet_Factory
  imports Task_Frames
begin

text \<open>
  \<^verbatim>\<open>scripts/lib/alicenetFactory.ts\<close>: the library functions that deploy and upgrade a contract behind a proxy
  in separate transactions. The prefix \<open>af_\<close> keeps apart the functions that share their name with others.
\<close>

definition defaultFactoryName :: string where
  "defaultFactoryName = ''AliceNetFactory''"

definition DeployedRawEvent :: string where
  "DeployedRawEvent = ''DeployedRaw''"

definition contractAddrVar :: string where
  "contractAddrVar = ''contractAddr''"

definition DeployedProxyEvent :: string where
  "DeployedProxyEvent = ''DeployedProxy''"

fun findArtifact :: "string \<Rightarrow> string list \<Rightarrow> string option" where
  "findArtifact contractName [] = None"
| "findArtifact contractName (artifactPath # artifactPaths) =
     (if js_nth (js_split CHR '':'' artifactPath) 1 = Some contractName then Some artifactPath
      else findArtifact contractName artifactPaths)"

definition af_getFullyQualifiedName :: "hre \<Rightarrow> string \<Rightarrow> string option" where
  "af_getFullyQualifiedName H contractName = findArtifact contractName (allFullyQualifiedNames H)"

definition af_extractPath :: "string \<Rightarrow> string" where
  "af_extractPath qualifiedName = hd (js_split CHR '':'' qualifiedName)"

definition af_getDeployUpgradeableMultiCallArgs :: "addr \<Rightarrow> bytes32 \<Rightarrow> addr \<Rightarrow> cdata option \<Rightarrow> mcArgs list" where
  "af_getDeployUpgradeableMultiCallArgs factoryAddress Salt logicAddress initCallData =
     (let deployProxy = DeployProxy Salt;
          upgradeProxy = (case initCallData of
             Some d \<Rightarrow> UpgradeProxy Salt logicAddress d
           | None \<Rightarrow> UpgradeProxy Salt logicAddress NoData)
      in [encodeMultiCallArgs factoryAddress 0 deployProxy, encodeMultiCallArgs factoryAddress 0 upgradeProxy])"

text \<open>\<open>artifacts.getBuildInfo(undefined)\<close> throws a \<open>TypeError\<close>.\<close>

definition af_getSalt :: "hre \<Rightarrow> string \<Rightarrow> bytes32 option js" where
  "af_getSalt H contractName =
     bnd (orTypeError ''Cannot read properties of undefined'' (af_getFullyQualifiedName H contractName))
       (\<lambda>qualifiedName.
       (case build_info_of H qualifiedName of
          Some buildInfo \<Rightarrow>
            bnd (outputContract buildInfo (af_extractPath qualifiedName) (Some contractName)) (\<lambda>contractOutput.
              (case co_devdoc contractOutput ''custom:salt'' of
                 None \<Rightarrow> ret None
               | Some salt \<Rightarrow>
                   if salt = [] then ret None
                   else bnd (fromSum (formatBytes32String H salt)) (\<lambda>b. ret (Some b))))
        | None \<Rightarrow> throw (Err ''Missing custom:salt'')))"

text \<open>The loop of \<open>getEventVar\<close>, over the index of the event.\<close>

function af_eventLoop :: "string \<Rightarrow> string \<Rightarrow> receipt_event list \<Rightarrow> nat \<Rightarrow> js_error + addr" where
  "af_eventLoop eventName varName events i =
     (if i < length events then
        (if ev_event (events ! i) = Some eventName then
           (case ev_args (events ! i) of
              Some args \<Rightarrow>
                (case map_of args varName of
                   Some result \<Rightarrow> Inr result
                 | None \<Rightarrow> af_eventLoop eventName varName events (i + 1))
            | None \<Rightarrow> Inl (Err (''failed to extract '' @ varName @ '' from event: '' @ eventName)))
         else af_eventLoop eventName varName events (i + 1))
      else Inl (Err (''failed to find event: '' @ eventName)))"
  by pat_completeness auto
termination by (relation "measure (\<lambda>(_, _, events, i). length events - i)") auto

declare af_eventLoop.simps [simp del]

definition af_getEventVar :: "receipt \<Rightarrow> string \<Rightarrow> string \<Rightarrow> js_error + addr" where
  "af_getEventVar receipt eventName varName =
     (case rc_events receipt of
        Some events \<Rightarrow> af_eventLoop eventName varName events 0
      | None \<Rightarrow> Inl (Err (''failed to find event: '' @ eventName)))"

record af_result =
  af_logicAddress :: addr
  af_proxyAddress :: "addr option"
  af_proxySalt :: "bytes32 option"

definition deployUpgradeable :: "hre \<Rightarrow> string \<Rightarrow> addr \<Rightarrow> jsval list \<Rightarrow> af_result js" where
  "deployUpgradeable H contractName factoryAddress constructorArgs =
     bnd (fromSum (deploy_data H contractName constructorArgs)) (\<lambda>deployBytecode.
       (case deployBytecode of
          Some bytecode \<Rightarrow>
            bnd (sendFactoryTx H factoryAddress (DeployCreate bytecode) None) (\<lambda>txResponse.
            bnd (waitTx txResponse None) (\<lambda>receipt.
            bnd (af_getSalt H contractName) (\<lambda>proxySalt.
            bnd (fromSum (af_getEventVar receipt DEPLOYED_RAW CONTRACT_ADDR)) (\<lambda>logicAddress.
            let res = \<lparr>af_logicAddress = logicAddress, af_proxyAddress = None, af_proxySalt = proxySalt\<rparr> in
            (case proxySalt of
               Some salt \<Rightarrow>
                 let multiCallArgs = af_getDeployUpgradeableMultiCallArgs factoryAddress salt
                       (af_logicAddress res) None in
                 bnd (sendFactoryTx H factoryAddress (MultiCall multiCallArgs) None) (\<lambda>txResponse.
                 bnd (waitTx txResponse None) (\<lambda>receipt.
                 bnd (fromSum (af_getEventVar receipt DeployedProxyEvent contractAddrVar)) (\<lambda>proxyAddress.
                   ret (res\<lparr>af_proxyAddress := Some proxyAddress\<rparr>))))
             | None \<Rightarrow>
                 andThen (consoleLog (contractName @ '' contract missing salt'')) (ret res))))))
        | None \<Rightarrow> throw (Err (''failed to get contract bytecode for '' @ contractName))))"

definition af_upgradeProxy :: "hre \<Rightarrow> string \<Rightarrow> addr \<Rightarrow> jsval list option \<Rightarrow> af_result js" where
  "af_upgradeProxy H contractName factoryAddress constructorArgs =
     bnd (fromSum (case constructorArgs of
            Some args \<Rightarrow> deploy_data H contractName args
          | None \<Rightarrow> deploy_data H contractName [])) (\<lambda>deployBCode.
     bnd (encodeDeployCreate deployBCode) (\<lambda>deployCreateCallData.
     bnd (sendFactoryTx H factoryAddress deployCreateCallData None) (\<lambda>txResponse.
     bnd (waitTx txResponse None) (\<lambda>receipt.
     bnd (fromSum (af_getEventVar receipt DeployedRawEvent contractAddrVar)) (\<lambda>logicAddress.
     bnd (af_getSalt H contractName) (\<lambda>proxySalt.
       (case proxySalt of
          None \<Rightarrow> throw (LibErr ''invalid arrayify value'')
        | Some salt \<Rightarrow>
            andThen (sendFactoryTx H factoryAddress (UpgradeProxy salt logicAddress NoData) None)
              (ret \<lparr>af_logicAddress = logicAddress, af_proxyAddress = None, af_proxySalt = proxySalt\<rparr>))))))))"

section \<open>Lemmas\<close>

text \<open>The two copies of \<open>getEventVar\<close> are the same function.\<close>

lemma af_eventLoop_drop:
  "i \<le> length events \<Longrightarrow> af_eventLoop e v events i = findEventVar e v (drop i events)"
proof (induction "length events - i" arbitrary: i)
  case 0
  then show ?case by (subst af_eventLoop.simps) simp
next
  case (Suc n)
  then have i: "i < length events" and "n = length events - (i + 1)" by simp_all
  with Suc have ih: "af_eventLoop e v events (i + 1) = findEventVar e v (drop (i + 1) events)" by simp
  from i have "drop i events = events ! i # drop (i + 1) events" by (simp add: Cons_nth_drop_Suc)
  with i ih show ?case by (subst af_eventLoop.simps) (auto split: option.splits)
qed

end
