(* ===== verification/Factory_Correctness.thy ===== *)
theory Factory_Correctness
  imports Task_Frames
begin

text \<open>
  What the deployment tasks achieve on the chain and record in the factory state when they return, and
  what they do when they fail.
\<close>

section \<open>Lemmas\<close>

text \<open>The two ways the sources look up the salt of a contract agree.\<close>

definition plain_name :: "hre \<Rightarrow> string \<Rightarrow> bool" where
  "plain_name H c =
     (CHR '':'' \<notin> set c
      \<and> (case read_artifact H c of None \<Rightarrow> True | Some p \<Rightarrow> CHR '':'' \<notin> set p))"

lemma plain_extract:
  assumes "plain_name H c" and "read_artifact H c = Some p"
  shows "extractPath (p @ '':'' @ c) = p" and "extractName (p @ '':'' @ c) = Some c"
    and "task_extractPath (p @ '':'' @ c) = p"
proof -
  have "js_split CHR '':'' (p @ '':'' @ c) = [p, c]"
    using assms js_split_append [of "CHR '':''" p c] by (simp add: plain_name_def js_split_no_sep)
  then show "extractPath (p @ '':'' @ c) = p" "extractName (p @ '':'' @ c) = Some c"
    "task_extractPath (p @ '':'' @ c) = p"
    by (simp_all add: extractPath_def extractName_def task_extractPath_def js_nth_def del: append.simps)
qed

lemma salts_agree:
  assumes "plain_name H c"
    and "task_getBytes32Salt H c w = (Inr s, w1)" and "getBytes32Salt H c w2 = (Inr s', w3)"
  shows "s' = s"
proof -
  obtain p where p: "read_artifact H c = Some p"
    using assms(3) by (cases "read_artifact H c")
      (auto simp: getBytes32Salt_def getFullyQualifiedName_def readArtifact_def bnd_def world_simps)
  note ex = plain_extract [OF assms(1) p]
  obtain b where b: "build_info_of H (p @ '':'' @ c) = Some b"
    using assms(3) p by (cases "build_info_of H (p @ '':'' @ c)")
      (auto simp: getBytes32Salt_def getFullyQualifiedName_def readArtifact_def getSalt_def getCustomNSTag_def
        bnd_def world_simps)
  show ?thesis
    using assms(2,3) p b ex
    by (auto simp: task_getBytes32Salt_def task_getSalt_def task_getFullyQualifiedName_def getBytes32Salt_def
        getFullyQualifiedName_def readArtifact_def getSalt_def getCustomNSTag_def outputContract_def
        formatSalt_def orTypeError_def bnd_def world_simps split: option.splits sum.splits)
qed

lemma raiseBlockGasLimit_InrD:
  assumes "raiseBlockGasLimit H l w = (Inr u, w1)"
  shows "w_chain w1 = w_chain w" and "w_fs w1 = w_fs w" and "sent (w_log w1) = sent (w_log w)"
  using assms by (auto simp: raiseBlockGasLimit_def rpcSend_def logAction_def world_simps
      split: if_splits option.splits)

lemma getContractDescriptor_InrD:
  assumes "getContractDescriptor H c as is w = (Inr cd, w')"
  shows "w' = w \<and> cd_name cd = c \<and> cd_constructorArgs cd = as \<and> cd_initializerArgs cd = is"
proof
  show "w' = w" by (rule reads_state [OF reads.keeps_tags(7) assms])
  show "cd_name cd = c \<and> cd_constructorArgs cd = as \<and> cd_initializerArgs cd = is"
    using assms by (auto simp: getContractDescriptor_def world_simps elim!: bnd_InrE)
qed

lemma estimateFactoryCall_InrD:
  assumes "estimateFactoryCall H f d w = (Inr g, w')"
  shows "w' = w \<and> estimate_gas H (w_chain w) (CallTx f d) = Inr g"
  using assms by (auto simp: estimateFactoryCall_def firstSigner_def orTypeError_def bnd_def world_simps
      split: option.splits sum.splits)

lemma verify_run:
  obtains w1 where "(if b then verifyContract H a as else ret ()) w = (Inr (), w1)" and "quiet w w1"
proof -
  have "quiet w (snd ((if b then verifyContract H a as else ret ()) w))"
    using quiet_steps.keeps_verifyContract [of H a as] quiet_steps.keeps_ret [of "()"]
    by (auto simp: keeps_def)
  moreover have "fst ((if b then verifyContract H a as else ret ()) w) = Inr ()"
    by (auto simp: verifyContract_def andThen_def bnd_def world_simps split: option.split)
  ultimately show thesis using that by (metis prod.collapse)
qed

lemma showState_quiet: "quiet w (snd (showState H m w))"
  by (auto simp: quiet_def world_simps)

text \<open>The state update at the end of a task: the chain and the log stay as they are.\<close>

lemma updateProxyList_InrD:
  assumes "updateProxyList H ks n pd u w = (Inr pd', w')"
  shows "w_chain w' = w_chain w \<and> w_log w' = w_log w
    \<and> (\<exists>r. pd' = pd\<lparr>pd_receipt := r\<rparr>)"
proof -
  have "same_chain w w'"
    by (rule keepsD [OF chain_writes.keeps_state_updates(2) assms])
  moreover have "pd' = pd\<lparr>pd_receipt := None\<rparr> \<or> pd' = pd\<lparr>pd_receipt := pd_receipt pd\<rparr>"
    using assms by (auto simp: updateProxyList_def world_simps elim!: bnd_InrE)
  ultimately show ?thesis by (auto simp only: same_chain_def)
qed

section \<open>The task \<open>fullMultiCallDeployProxy\<close>\<close>

text \<open>The part of the task that sends the one transaction, and the part before it.\<close>

definition sendUpgradeable :: "hre \<Rightarrow> DeployArgs \<Rightarrow> cdata \<Rightarrow> bytes32 \<Rightarrow> mcArgs list \<Rightarrow> ProxyData js" where
  "sendUpgradeable H da initCallData salt multiCallArgs =
     bnd (getGasPrices H) (\<lambda>fees.
     bnd (sendFactoryTx H (da_factoryAddress da) (MultiCall multiCallArgs) (Some fees)) (\<lambda>txResponse.
     bnd (waitTx txResponse (waitBlocksOf (da_waitConfirmation da))) (\<lambda>receipt.
     bnd (fromSum (getEventVar receipt DEPLOYED_RAW CONTRACT_ADDR)) (\<lambda>deployedLogicAddress.
     andThen (if da_verify da = Some True then verifyContract H deployedLogicAddress
         (case da_constructorArgs da of None \<Rightarrow> [] | Some as \<Rightarrow> as) else ret ())
     (bnd (fromSum (getEventVar receipt DEPLOYED_PROXY CONTRACT_ADDR)) (\<lambda>proxyAddress.
      andThen (showState H (''Deployed '' @ da_contractName da @ '' with proxy at ''
          @ addr_hex H proxyAddress @ '', gasCost: '' @ js_show_nat (rc_gasUsed receipt)))
        (updateProxyList H multiCallProxyKeys (network_name H)
          \<lparr>pd_proxyAddress = proxyAddress, pd_salt = salt, pd_logicName = Some (da_contractName da),
           pd_logicAddress = Some deployedLogicAddress, pd_factoryAddress = da_factoryAddress da,
           pd_gas = BigNum (rc_gasUsed receipt), pd_receipt = Some receipt,
           pd_initCallData = Some initCallData\<rparr> (da_outputFolder da))))))))"

lemma sendUpgradeable_InrE:
  assumes run: "sendUpgradeable H da d0 salt args w = (Inr pd, w')"
  obtains fees r w3 logic proxy w5 where
    "sendFactoryTx H (da_factoryAddress da) (MultiCall args) (Some fees) w = (Inr r, w3)"
    and "getEventVar r DEPLOYED_RAW CONTRACT_ADDR = Inr logic"
    and "getEventVar r DEPLOYED_PROXY CONTRACT_ADDR = Inr proxy"
    and "w_chain w5 = w_chain w3" "w_fs w5 = w_fs w3" "sent (w_log w5) = sent (w_log w3)"
    and "updateProxyList H multiCallProxyKeys (network_name H)
          \<lparr>pd_proxyAddress = proxy, pd_salt = salt, pd_logicName = Some (da_contractName da),
           pd_logicAddress = Some logic, pd_factoryAddress = da_factoryAddress da,
           pd_gas = BigNum (rc_gasUsed r), pd_receipt = Some r,
           pd_initCallData = Some d0\<rparr> (da_outputFolder da) w5 = (Inr pd, w')"
proof -
  note unf = sendUpgradeable_def
  from getGasPrices_run [of H w] obtain fees where fees: "getGasPrices H w = (Inr fees, w)" by metis
  from run obtain r w3 where r: "sendFactoryTx H (da_factoryAddress da) (MultiCall args) (Some fees) w = (Inr r, w3)"
    unfolding unf by (auto simp: fees world_simps elim!: bnd_InrE)
  from run obtain logic where logic: "getEventVar r DEPLOYED_RAW CONTRACT_ADDR = Inr logic"
    unfolding unf by (auto simp: fees r world_simps elim!: bnd_InrE fromSum_InrE)
  let ?w4 = "w3\<lparr>w_log := w_log w3 @ [Waited (waitBlocksOf (da_waitConfirmation da))]\<rparr>"
  from verify_run obtain w4 where v: "(if da_verify da = Some True then verifyContract H logic
      (case da_constructorArgs da of None \<Rightarrow> [] | Some as \<Rightarrow> as) else ret ()) ?w4 = (Inr (), w4)" "quiet ?w4 w4" .
  from run obtain proxy where proxy: "getEventVar r DEPLOYED_PROXY CONTRACT_ADDR = Inr proxy"
    unfolding unf by (auto simp: fees r logic v(1) world_simps elim!: bnd_InrE fromSum_InrE)
  let ?m = "''Deployed '' @ da_contractName da @ '' with proxy at '' @ addr_hex H proxy @ '', gasCost: ''
      @ js_show_nat (rc_gasUsed r)"
  from run have u: "updateProxyList H multiCallProxyKeys (network_name H)
          \<lparr>pd_proxyAddress = proxy, pd_salt = salt, pd_logicName = Some (da_contractName da),
           pd_logicAddress = Some logic, pd_factoryAddress = da_factoryAddress da,
           pd_gas = BigNum (rc_gasUsed r), pd_receipt = Some r,
           pd_initCallData = Some d0\<rparr> (da_outputFolder da) (snd (showState H ?m w4)) = (Inr pd, w')"
    unfolding unf by (simp add: fees r logic v(1) proxy world_simps)
  have y: "w_chain (snd (showState H ?m w4)) = w_chain w3" "w_fs (snd (showState H ?m w4)) = w_fs w3"
    "sent (w_log (snd (showState H ?m w4))) = sent (w_log w3)"
    using v(2) showState_quiet [of w4 H ?m] by (simp_all add: quiet_def)
  show thesis by (rule that [OF r logic proxy y u])
qed

lemma fullMultiCall_prefix:
  assumes run: "fullMultiCallDeployProxyTask H da w = (Inr pd, w')"
  defines "f \<equiv> da_factoryAddress da" and "c \<equiv> da_contractName da"
    and "cargs \<equiv> (case da_constructorArgs da of None \<Rightarrow> [] | Some as \<Rightarrow> as)"
    and "iargs \<equiv> initArgsOf (da_initCallData da)"
  obtains d0 salt w1 w2 cd args g where
    "initCallDataOf H c iargs w = (Inr d0, w)"
    and "task_getBytes32Salt H c w = (Inr salt, w1)" and "quiet w w1"
    and "w_chain w2 = w_chain w" "w_fs w2 = w_fs w" "sent (w_log w2) = sent (w_log w)"
    and "cd_name cd = c" "cd_constructorArgs cd = cargs" "cd_initializerArgs cd = map JStr iargs"
    and "getDeployUpgradeableMultiCallArgs H cd f (Some d0) w2 = (Inr args, w2)"
    and "estimate_gas H (w_chain w) (CallTx f (MultiCall args)) = Inr g"
    and "(if g < 10000000 then sendUpgradeable H da d0 salt args
          else deployUpgradeableProxyTask H (Some False) c f (da_initCallData da) (da_outputFolder da)
                 (da_constructorArgs da)) w2 = (Inr pd, w')"
proof -
  have lim: "multiCallGasLimit = 10000000"
    by (simp add: multiCallGasLimit_def js_digit_def)
  note unf = fullMultiCallDeployProxyTask_def Let_def c_def [symmetric] f_def [symmetric]
    iargs_def [symmetric] cargs_def [symmetric]
  from run obtain d0 w01 where i: "initCallDataOf H c iargs w = (Inr d0, w01)"
    unfolding unf by (elim bnd_InrE)
  then have "w01 = w" by (rule reads_state [OF reads.keeps_abi(3)])
  note i = i [unfolded this]
  from run obtain salt w1 where s: "task_getBytes32Salt H c w = (Inr salt, w1)"
    unfolding unf by (auto simp: i elim!: bnd_InrE)
  then have q: "quiet w w1" by (rule keepsD [OF quiet_steps.keeps_salts(1)])
  from run obtain w2 where l1: "raiseBlockGasLimit H ''0x3000000000000000'' w1 = (Inr (), w2)"
    unfolding unf by (auto simp: i s elim!: bnd_InrE andThen_InrE)
  note l = l1 raiseBlockGasLimit_InrD [OF l1]
  from run obtain cd w31 where cd: "getContractDescriptor H c cargs (map JStr iargs) w2 = (Inr cd, w31)"
    unfolding unf by (auto simp: i s l(1) world_simps elim!: bnd_InrE)
  note cd' = getContractDescriptor_InrD [OF cd]
  from run obtain args w32 where a: "getDeployUpgradeableMultiCallArgs H cd f (Some d0) w2 = (Inr args, w32)"
    unfolding unf by (auto simp: i s l(1) cd cd' world_simps elim!: bnd_InrE)
  then have "w32 = w2" by (rule reads_state [OF reads.keeps_deployArgs(3)])
  note a = a [unfolded this]
  from run obtain g w33 where g: "estimateFactoryCall H f (MultiCall args) w2 = (Inr g, w33)"
    unfolding unf by (auto simp: i s l(1) cd cd' a world_simps elim!: bnd_InrE)
  have x: "w_chain w2 = w_chain w" "w_fs w2 = w_fs w" "sent (w_log w2) = sent (w_log w)"
    using l(2-4) q by (simp_all only: quiet_def)
  have g': "w33 = w2" "estimate_gas H (w_chain w) (CallTx f (MultiCall args)) = Inr g"
    using estimateFactoryCall_InrD [OF g] x(1) by simp_all
  have z: "cd_name cd = c" "cd_constructorArgs cd = cargs" "cd_initializerArgs cd = map JStr iargs"
    using cd' by simp_all
  have rest: "(if g < 10000000 then sendUpgradeable H da d0 salt args
          else deployUpgradeableProxyTask H (Some False) c f (da_initCallData da) (da_outputFolder da)
                 (da_constructorArgs da)) w2 = (Inr pd, w')"
    using run unfolding unf sendUpgradeable_def lim
    by (simp add: i s l(1) cd cd' a g g'(1) world_simps split del: if_split)
  show thesis by (rule that [OF i s q x z a g'(2) rest])
qed

lemma fullMultiCall_steps:
  assumes run: "fullMultiCallDeployProxyTask H da w = (Inr pd, w')"
    and cheap: "\<forall>tx g. estimate_gas H (w_chain w) tx = Inr g \<longrightarrow> g < 10000000"
  defines "f \<equiv> da_factoryAddress da" and "c \<equiv> da_contractName da"
    and "cargs \<equiv> (case da_constructorArgs da of None \<Rightarrow> [] | Some as \<Rightarrow> as)"
    and "iargs \<equiv> initArgsOf (da_initCallData da)"
  obtains d0 salt w1 w2 cd args fees r w3 logic proxy w5 where
    "initCallDataOf H c iargs w = (Inr d0, w)"
    and "task_getBytes32Salt H c w = (Inr salt, w1)" and "quiet w w1"
    and "w_chain w2 = w_chain w" "w_fs w2 = w_fs w" "sent (w_log w2) = sent (w_log w)"
    and "cd_name cd = c" "cd_constructorArgs cd = cargs" "cd_initializerArgs cd = map JStr iargs"
    and "getDeployUpgradeableMultiCallArgs H cd f (Some d0) w2 = (Inr args, w2)"
    and "sendFactoryTx H f (MultiCall args) (Some fees) w2 = (Inr r, w3)"
    and "getEventVar r DEPLOYED_RAW CONTRACT_ADDR = Inr logic"
    and "getEventVar r DEPLOYED_PROXY CONTRACT_ADDR = Inr proxy"
    and "w_chain w5 = w_chain w3" "w_fs w5 = w_fs w3" "sent (w_log w5) = sent (w_log w3)"
    and "updateProxyList H multiCallProxyKeys (network_name H)
          \<lparr>pd_proxyAddress = proxy, pd_salt = salt, pd_logicName = Some c, pd_logicAddress = Some logic,
           pd_factoryAddress = f, pd_gas = BigNum (rc_gasUsed r), pd_receipt = Some r,
           pd_initCallData = Some d0\<rparr> (da_outputFolder da) w5 = (Inr pd, w')"
  using run
proof (rule fullMultiCall_prefix [where da = da, folded f_def c_def cargs_def iargs_def])
  fix d0 salt w1 w2 cd args g
  assume p: "initCallDataOf H c iargs w = (Inr d0, w)" "task_getBytes32Salt H c w = (Inr salt, w1)" "quiet w w1"
    "w_chain w2 = w_chain w" "w_fs w2 = w_fs w" "sent (w_log w2) = sent (w_log w)"
    "cd_name cd = c" "cd_constructorArgs cd = cargs" "cd_initializerArgs cd = map JStr iargs"
    "getDeployUpgradeableMultiCallArgs H cd f (Some d0) w2 = (Inr args, w2)"
    and g: "estimate_gas H (w_chain w) (CallTx f (MultiCall args)) = Inr g"
    and rest: "(if g < 10000000 then sendUpgradeable H da d0 salt args
        else deployUpgradeableProxyTask H (Some False) c f (da_initCallData da) (da_outputFolder da)
               (da_constructorArgs da)) w2 = (Inr pd, w')"
  from g cheap rest have "sendUpgradeable H da d0 salt args w2 = (Inr pd, w')" by auto
  then show thesis
    by (rule sendUpgradeable_InrE [where da = da, folded f_def c_def]) (rule that [OF p])
qed

text \<open>The entry a proxy leaves in the state file is the data the task returns.\<close>

lemma ProxyData_field_receipt:
  "ProxyData_field H pd RECEIPT = js_opt (\<lambda>r. JObj []) (pd_receipt pd)"
  "k \<noteq> RECEIPT \<Longrightarrow> ProxyData_field H (pd\<lparr>pd_receipt := r\<rparr>) k = ProxyData_field H pd k"
  by (simp_all add: ProxyData_field_def)

lemma obj_put_map:
  assumes "k \<in> set ks" and "distinct ks" and "g k = v" and "\<And>j. j \<noteq> k \<Longrightarrow> g j = h j"
  shows "obj_put k v (map (\<lambda>j. (j, h j)) ks) = map (\<lambda>j. (j, g j)) ks"
  using assms(1,2) by (induction ks) (auto simp: assms(3), (metis assms(4))+)

lemma obj_get_map: "obj_get (map (\<lambda>j. (j, h j)) ks) k = (if k \<in> set ks then h k else JUndef)"
  by (induction ks) (auto simp: obj_get_def)

lemma clear_receipt_ProxyData:
  assumes "distinct ks"
  shows "clear_receipt (ProxyData_js H ks pd) = ProxyData_js H ks (pd\<lparr>pd_receipt := None\<rparr>)"
proof (cases "RECEIPT \<in> set ks \<and> pd_receipt pd \<noteq> None")
  case True
  then show ?thesis
    using assms
    by (auto simp: clear_receipt_def ProxyData_js_def obj_get_map ProxyData_field_receipt js_opt_def
        intro!: obj_put_map)
next
  case False
  moreover have "pd_receipt pd = None \<Longrightarrow> pd\<lparr>pd_receipt := None\<rparr> = pd"
    by (cases pd) simp
  ultimately have "\<forall>k\<in>set ks. ProxyData_field H (pd\<lparr>pd_receipt := None\<rparr>) k = ProxyData_field H pd k"
    by (metis ProxyData_field_receipt(2))
  then show ?thesis
    using False
    by (auto simp: clear_receipt_def ProxyData_js_def obj_get_map ProxyData_field_receipt js_opt_def)
qed

text \<open>What the state holds depends on its file, and where it can be written on the folder of the file.\<close>

definition same_state_file :: "string option \<Rightarrow> world \<Rightarrow> world \<Rightarrow> bool" where
  "same_state_file u w1 w2 =
     (w_fs w1 (fs_path (factoryStatePath u)) = w_fs w2 (fs_path (factoryStatePath u))
      \<and> w_fs w1 (butlast (fs_path (factoryStatePath u))) = w_fs w2 (butlast (fs_path (factoryStatePath u))))"

lemma state_cong:
  assumes "same_state_file u w1 w2"
  shows "state_file_ok H u w1 = state_file_ok H u w2" and "state_dir_ok u w1 = state_dir_ok u w2"
    and "disk_state H u w1 = disk_state H u w2" and "abs_state H u w1 = abs_state H u w2"
proof -
  show "state_file_ok H u w1 = state_file_ok H u w2" "state_dir_ok u w1 = state_dir_ok u w2"
    and d: "disk_state H u w1 = disk_state H u w2"
    using assms by (simp_all add: same_state_file_def state_file_ok_def state_dir_ok_def disk_state_def is_dir_def)
  show "abs_state H u w1 = abs_state H u w2" by (rule ext) (simp add: abs_state_def d)
qed

lemma same_state_fileI: "w_fs w1 = w_fs w2 \<Longrightarrow> same_state_file u w1 w2"
  by (simp add: same_state_file_def)

text \<open>The contract \<open>Foo\<close> of the sample network is deployed.\<close>

definition sample_deploy :: DeployArgs where
  "sample_deploy = \<lparr>da_contractName = ''Foo'', da_factoryAddress = sample_factory,
     da_waitConfirmation = Some True, da_initCallData = Some ''1, 2'', da_constructorArgs = Some [JStr ''5''],
     da_outputFolder = Some ''out'', da_verify = None\<rparr>"

lemma sample_Foo_artifact:
  "read_artifact sample_hre ''Foo'' = Some sample_source"
  "build_info_of sample_hre (sample_source @ '':'' @ ''Foo'') = Some sample_build_info"
  "build_info_of sample_hre (sample_source @ '':Foo'') = Some sample_build_info"
  by (simp_all add: sample_defs sample_contracts_def sample_fqn_def)

lemma sample_Foo_steps:
  "initArgsOf (Some ''1, 2'') = [''1'', ''2'']"
  "initCallDataOf sample_hre ''Foo'' [''1'', ''2''] w = (Inr (OtherCall ''Foo'' ''initialize'' []), w)"
  "task_getBytes32Salt sample_hre ''Foo'' w = (Inr (0x466F6F * 2 ^ 232), w)"
  "raiseBlockGasLimit sample_hre l w = (Inr (), w)"
  "\<exists>cd. getContractDescriptor sample_hre ''Foo'' as is w = (Inr cd, w)"
proof -
  show "initArgsOf (Some ''1, 2'') = [''1'', ''2'']" by code_simp
  have out: "sample_build_info sample_source = Some (map_of sample_contracts)"
    by (simp add: sample_build_info_def)
  have src: "extractPath (sample_source @ '':Foo'') = sample_source"
    "extractName (sample_source @ '':Foo'') = Some ''Foo''" "task_extractPath (sample_source @ '':Foo'') = sample_source"
    by code_simp+
  show "initCallDataOf sample_hre ''Foo'' [''1'', ''2''] w = (Inr (OtherCall ''Foo'' ''initialize'' []), w)"
    by (simp add: initCallDataOf_def task_getFullyQualifiedName_def readArtifact_def sample_Foo_artifact
        isInitializable_def contractOutput_def outputContract_def out src bnd_def world_simps
        sample_contracts_def sample_abi_def sample_hre_simps(14))
  show "task_getBytes32Salt sample_hre ''Foo'' w = (Inr (0x466F6F * 2 ^ 232), w)"
    by (simp add: task_getBytes32Salt_def task_getSalt_def task_getFullyQualifiedName_def readArtifact_def
        sample_Foo_artifact outputContract_def formatSalt_def out src bnd_def world_simps
        sample_contracts_def sample_doc_def sample_hre_simps(15) sample_bytes32_Foo)
  show "raiseBlockGasLimit sample_hre l w = (Inr (), w)"
    by (simp add: raiseBlockGasLimit_def sample_hre_simps world_simps)
  show "\<exists>cd. getContractDescriptor sample_hre ''Foo'' as is w = (Inr cd, w)"
    by (simp add: getContractDescriptor_def getFullyQualifiedName_def readArtifact_def sample_Foo_artifact
        getDeployGroup_def getDeployGroupIndex_def getDeployType_def getCustomNSTag_def outputContract_def
        out src bnd_def world_simps sample_contracts_def)
qed

lemma sample_estimate:
  assumes "w_chain w = sample_chain"
  shows "estimateFactoryCall sample_hre sample_factory (MultiCall sample_Foo_mc) w = (Inr 50000, w)"
  using assms sample_Foo_exec
  by (auto simp: estimateFactoryCall_def firstSigner_def js_nth_def bnd_def world_simps sample_hre_simps)

lemma sample_updateProxyList:
  assumes "same_state_file (Some ''out'') w sample_world1" and "pd_gas pd = BigNum g"
  shows "\<exists>w'. updateProxyList sample_hre multiCallProxyKeys ''local'' pd (Some ''out'') w
    = (Inr (pd\<lparr>pd_receipt := None\<rparr>), w')"
proof -
  note c = state_cong [OF assms(1)]
  show ?thesis
    using updateProxyList_run [OF sample_toml_library sample_state_ok(4),
        of "Some ''out''" w "''local''" multiCallProxyKeys pd]
    by (auto simp: c sample_state_ok assms(2) sample_state_def obj_get_def
        table_list_def multiCallProxyKeys_def)
qed

lemma sample_deploy_runs:
  assumes ch: "w_chain w = sample_chain" and st: "same_state_file (Some ''out'') w sample_world1"
    and da: "da_contractName da = ''Foo''" "da_factoryAddress da = sample_factory" "da_outputFolder da = Some ''out''"
      "da_constructorArgs da = Some [JStr ''5'']" "initArgsOf (da_initCallData da) = [''1'', ''2'']"
      "da_verify da \<noteq> Some True"
  shows "\<exists>pd w'. fullMultiCallDeployProxyTask sample_hre da w = (Inr pd, w')"
proof -
  obtain cd where cd: "getContractDescriptor sample_hre ''Foo'' [JStr ''5''] [JStr ''1'', JStr ''2''] w
      = (Inr cd, w)"
    using sample_Foo_steps(5) by blast
  have a: "getDeployUpgradeableMultiCallArgs sample_hre cd sample_factory d w = (Inr sample_Foo_mc, w)" for d
    using getContractDescriptor_InrD [OF cd] ch by (intro sample_Foo_calls) simp_all
  from getGasPrices_run [of sample_hre w] obtain fees where fees: "getGasPrices sample_hre w = (Inr fees, w)"
    by metis
  from sample_Foo_sent [OF ch, of "Some fees"] obtain r w1 where
    s: "sendFactoryTx sample_hre sample_factory (MultiCall sample_Foo_mc) (Some fees) w = (Inr r, w1)" by blast
  have code: "ch_code (w_chain w) sample_factory = Some FactoryCode" "hd (signers sample_hre) \<noteq> sample_factory"
    by (simp_all add: ch sample_defs)
  have mc: "sample_Foo_mc = [MCArgs sample_factory 0 (DeployCreate ''Foo5''),
      MCArgs sample_factory 0 (DeployProxy (0x466F6F * 2 ^ 232)),
      MCArgs sample_factory 0 (UpgradeProxy (0x466F6F * 2 ^ 232) (create_addr (hre_evm sample_hre) sample_factory
        (ch_nonce (w_chain w) sample_factory)) (OtherCall ''Foo'' ''initialize'' []))]"
    by (simp add: sample_Foo_mc_def ch sample_defs sample_addr_defs)
  from sendDeployUpgradeable [OF sample_keccak code mc s] obtain logic proxy where
    fs: "w_fs w1 = w_fs w" and ev: "getEventVar r DEPLOYED_RAW CONTRACT_ADDR = Inr logic"
      "getEventVar r DEPLOYED_PROXY CONTRACT_ADDR = Inr proxy" by blast
  have lim: "50000 < multiCallGasLimit" by (simp add: multiCallGasLimit_def js_digit_def)
  let ?m = "''Deployed '' @ ''Foo'' @ '' with proxy at '' @ addr_hex sample_hre proxy @ '', gasCost: ''
      @ js_show_nat (rc_gasUsed r)"
  have run: "fullMultiCallDeployProxyTask sample_hre da w
      = updateProxyList sample_hre multiCallProxyKeys ''local''
          \<lparr>pd_proxyAddress = proxy, pd_salt = 0x466F6F * 2 ^ 232, pd_logicName = Some ''Foo'',
           pd_logicAddress = Some logic, pd_factoryAddress = sample_factory,
           pd_gas = BigNum (rc_gasUsed r), pd_receipt = Some r,
           pd_initCallData = Some (OtherCall ''Foo'' ''initialize'' [])\<rparr> (Some ''out'')
          (snd (showState sample_hre ?m (w1\<lparr>w_log := w_log w1 @ [Waited (waitBlocksOf (da_waitConfirmation da))]\<rparr>)))"
    unfolding fullMultiCallDeployProxyTask_def Let_def
    by (simp add: da sample_Foo_steps(2-4) cd a ch sample_estimate lim fees s ev sample_hre_simps(2) world_simps)
  have "w_fs (snd (showState sample_hre ?m (w1\<lparr>w_log := w_log w1 @ [Waited (waitBlocksOf (da_waitConfirmation da))]\<rparr>))) = w_fs w"
    using showState_quiet [of "w1\<lparr>w_log := w_log w1 @ [Waited (waitBlocksOf (da_waitConfirmation da))]\<rparr>" sample_hre ?m] fs
    by (simp add: quiet_def)
  with st have "same_state_file (Some ''out'') (snd (showState sample_hre ?m
      (w1\<lparr>w_log := w_log w1 @ [Waited (waitBlocksOf (da_waitConfirmation da))]\<rparr>))) sample_world1"
    by (simp add: same_state_file_def)
  from sample_updateProxyList [OF this] show ?thesis unfolding run by (metis ProxyData.select_convs(6))
qed

section \<open>Properties\<close>





end
