(* ===== verification/Factory_Steps.thy ===== *)
theory Factory_Steps
  imports Task_Frames
begin

text \<open>
  What a single transaction to the factory achieves when it succeeds: the creation of a logic contract, the
  creation of a proxy that is pointed at a logic contract, the upgrade of a proxy.
\<close>

lemma sendDeployCreate:
  assumes code: "ch_code (w_chain w) f = Some FactoryCode" and eoa: "hd (signers H) \<noteq> f"
    and run: "sendFactoryTx H f (DeployCreate c) fees w = (Inr r, w')"
    and a: "a = create_addr (hre_evm H) f (ch_nonce (w_chain w) f)"
  shows "getEventVar r DEPLOYED_RAW CONTRACT_ADDR = Inr a"
    and "ch_code (w_chain w) a = None" and "a \<noteq> f"
    and "ch_code (w_chain w') = (ch_code (w_chain w))(a \<mapsto> LogicCode c)"
    and "ch_storage (w_chain w') = (ch_storage (w_chain w))(a := (\<lambda>_. 0))"
    and "ch_nonce (w_chain w') f = ch_nonce (w_chain w) f + 1"
    and "ch_fact (w_chain w') = ch_fact (w_chain w)"
    and "w_fs w' = w_fs w" and "w_log w' = w_log w @ [Sent (CallTx f (DeployCreate c)) fees]"
proof -
  let ?ch = "bump_nonce (hd (signers H)) (w_chain w)"
  from run obtain es ch' where
    e: "factory_exec (hre_evm H) f (hd (signers H)) 0 (DeployCreate c) ?ch = Inr (es, ch')"
    and w': "w' = w\<lparr>w_chain := ch'\<lparr>ch_block := ch_block ch' + 1\<rparr>,
      w_log := w_log w @ [Sent (CallTx f (DeployCreate c)) fees]\<rparr>"
    and r: "rc_events r = Some (map (receipt_event_of H) es)"
    using code by (auto elim!: sendFactoryTx_InrE)
  have n: "ch_nonce ?ch f = ch_nonce (w_chain w) f" using eoa by simp
  from e have dc: "deployCreate (hre_evm H) f c ?ch = Inr (es, ch')"
    by (auto simp: evm_simps split: if_splits)
  have a': "create_addr (hre_evm H) f (ch_nonce ?ch f) = a" by (simp only: n a)
  note d = deployCreate_Inr [OF dc, unfolded Let_def a']
  have es: "es = [DeployedRaw f a]" and ch': "ch' = new_account a (LogicCode c) (bump_nonce f ?ch)"
    and fr: "fresh_account (bump_nonce f ?ch) a"
    using d by blast+
  from fr show "ch_code (w_chain w) a = None" by (simp add: fresh_account_def)
  from fr show af: "a \<noteq> f" by (rule fresh_not_self)
  show "getEventVar r DEPLOYED_RAW CONTRACT_ADDR = Inr a"
    using r es by (simp add: getEventVar_simps)
  show "ch_code (w_chain w') = (ch_code (w_chain w))(a \<mapsto> LogicCode c)"
    "ch_storage (w_chain w') = (ch_storage (w_chain w))(a := (\<lambda>_. 0))"
    "ch_nonce (w_chain w') f = ch_nonce (w_chain w) f + 1" "ch_fact (w_chain w') = ch_fact (w_chain w)"
    "w_fs w' = w_fs w" "w_log w' = w_log w @ [Sent (CallTx f (DeployCreate c)) fees]"
    using w' ch' af eoa by simp_all
qed

text \<open>The two calls that create a proxy and point it at \<open>a\<close>.\<close>

definition proxied :: "hre \<Rightarrow> addr \<Rightarrow> bytes32 \<Rightarrow> addr \<Rightarrow> cdata \<Rightarrow> chain \<Rightarrow> chain \<Rightarrow> bool" where
  "proxied H f salt a d ch ch' =
     (\<exists>ch1 ch3 es0 ch4. ch_code ch1 = ch_code ch \<and> ch_storage ch1 = ch_storage ch \<and> ch_fact ch1 = ch_fact ch
       \<and> proxy_ready (hre_evm H) f salt a ch1 ch3
       \<and> initializeContract (hre_evm H) f (getMetamorphicContractAddress (hre_evm H) salt f) d ch3 = Inr (es0, ch4)
       \<and> ch' = ch4\<lparr>ch_block := ch_block ch4 + 1\<rparr>)"

lemma proxied_NoData:
  assumes "proxied H f salt a NoData ch ch'" and "p = getMetamorphicContractAddress (hre_evm H) salt f"
  shows "ch_code ch p = None \<and> ch_code ch' = (ch_code ch)(p \<mapsto> ProxyCode f)
    \<and> ch_storage ch' p IMPL_SLOT = ucast a"
  using assms by (auto simp: proxied_def proxy_ready_def Let_def)

lemma sendDeployProxy:
  assumes hash: "keccak (hre_evm H) METAMORPHIC_CODE = METAMORPHIC_HASH"
    and code: "ch_code (w_chain w) f = Some FactoryCode"
    and run: "sendFactoryTx H f (MultiCall [MCArgs f 0 (DeployProxy salt), MCArgs f 0 (UpgradeProxy salt a d)])
      fees w = (Inr r, w')"
  shows "proxied H f salt a d (w_chain w) (w_chain w')"
    and "getEventVar r DEPLOYED_PROXY CONTRACT_ADDR = Inr (getMetamorphicAddress H f salt)"
    and "w_fs w' = w_fs w"
    and "w_log w' = w_log w @ [Sent (CallTx f (MultiCall [MCArgs f 0 (DeployProxy salt),
           MCArgs f 0 (UpgradeProxy salt a d)])) fees]"
proof -
  let ?cs = "[MCArgs f 0 (DeployProxy salt), MCArgs f 0 (UpgradeProxy salt a d)]"
  let ?ch = "bump_nonce (hd (signers H)) (w_chain w)"
  from run obtain es ch' where
    e: "factory_exec (hre_evm H) f (hd (signers H)) 0 (MultiCall ?cs) ?ch = Inr (es, ch')"
    and w': "w' = w\<lparr>w_chain := ch'\<lparr>ch_block := ch_block ch' + 1\<rparr>,
      w_log := w_log w @ [Sent (CallTx f (MultiCall ?cs)) fees]\<rparr>"
    and r: "rc_events r = Some (map (receipt_event_of H) es)"
    using code by (auto elim!: sendFactoryTx_InrE)
  from e have "multiCall (hre_evm H) f ?cs ?ch = Inr (es, ch')"
    by (auto simp: factory_exec.simps factory_call.simps split: if_splits)
  from multiCall_deploy_proxy [OF hash this] obtain es0 ch3 where
    p: "proxy_ready (hre_evm H) f salt a ?ch ch3"
      "initializeContract (hre_evm H) f (getMetamorphicContractAddress (hre_evm H) salt f) d ch3 = Inr (es0, ch')"
    and es: "es = DeployedProxy f (getMetamorphicContractAddress (hre_evm H) salt f) # es0" by blast
  show "proxied H f salt a d (w_chain w) (w_chain w')"
    unfolding proxied_def using p w'
    by (intro exI [of _ ?ch] exI [of _ ch3] exI [of _ es0] exI [of _ ch']) simp
  show "getEventVar r DEPLOYED_PROXY CONTRACT_ADDR = Inr (getMetamorphicAddress H f salt)"
    using r es hash by (simp add: getEventVar_simps getMetamorphicAddress_def getMetamorphicContractAddress_def)
  show "w_fs w' = w_fs w" "w_log w' = w_log w @ [Sent (CallTx f (MultiCall ?cs)) fees]"
    using w' by simp_all
qed

text \<open>Upgrading a proxy of the factory: pointed at the new logic contract, then initialised.\<close>

lemma sendUpgradeProxy:
  assumes code: "ch_code (w_chain w) f = Some FactoryCode"
    and p: "p = getMetamorphicContractAddress (hre_evm H) salt f"
    and proxy: "ch_code (w_chain w) p = Some (ProxyCode f)"
    and run: "sendFactoryTx H f (UpgradeProxy salt a d) fees w = (Inr r, w')"
  shows "\<not> proxy_locked (ch_storage (w_chain w) p IMPL_SLOT)"
    and "\<exists>es ch4. initializeContract (hre_evm H) f p d
           (set_slot p (ucast a) (bump_nonce (hd (signers H)) (w_chain w))) = Inr (es, ch4)
         \<and> w_chain w' = ch4\<lparr>ch_block := ch_block ch4 + 1\<rparr>"
    and "w_fs w' = w_fs w" and "w_log w' = w_log w @ [Sent (CallTx f (UpgradeProxy salt a d)) fees]"
proof -
  let ?ch = "bump_nonce (hd (signers H)) (w_chain w)"
  from run obtain es ch' where
    e: "factory_exec (hre_evm H) f (hd (signers H)) 0 (UpgradeProxy salt a d) ?ch = Inr (es, ch')"
    and w': "w' = w\<lparr>w_chain := ch'\<lparr>ch_block := ch_block ch' + 1\<rparr>,
      w_log := w_log w @ [Sent (CallTx f (UpgradeProxy salt a d)) fees]\<rparr>"
    using code by (auto elim!: sendFactoryTx_InrE)
  from e have u: "upgradeProxy (hre_evm H) f salt a d ?ch = Inr (es, ch')"
    by (auto simp: evm_simps split: if_splits)
  have pr: "ch_code ?ch (getMetamorphicContractAddress (hre_evm H) salt f) = Some (ProxyCode f)"
    using proxy by (simp add: p)
  show l: "\<not> proxy_locked (ch_storage (w_chain w) p IMPL_SLOT)"
    using u upgradeProxy_locked [OF pr, of a d] by (auto simp: p)
  with u have "initializeContract (hre_evm H) f p d (set_slot p (ucast a) ?ch) = Inr (es, ch')"
    using upgradeProxy_own [OF pr, of a d] by (simp add: p)
  then show "\<exists>es ch4. initializeContract (hre_evm H) f p d (set_slot p (ucast a) ?ch) = Inr (es, ch4)
      \<and> w_chain w' = ch4\<lparr>ch_block := ch_block ch4 + 1\<rparr>"
    using w' by auto
  show "w_fs w' = w_fs w" "w_log w' = w_log w @ [Sent (CallTx f (UpgradeProxy salt a d)) fees]"
    using w' by simp_all
qed

text \<open>A new logic contract is created and a proxy is pointed at it, in one transaction.\<close>

lemma sendCreateUpgrade:
  assumes code: "ch_code (w_chain w) f = Some FactoryCode" and eoa: "hd (signers H) \<noteq> f"
    and p: "p = getMetamorphicContractAddress (hre_evm H) salt f"
    and proxy: "ch_code (w_chain w) p = Some (ProxyCode f)"
    and a: "a = create_addr (hre_evm H) f (ch_nonce (w_chain w) f)"
    and run: "sendFactoryTx H f (MultiCall [MCArgs f 0 (DeployCreate c), MCArgs f 0 (UpgradeProxy salt a d)])
      fees w = (Inr r, w')"
  shows "\<not> proxy_locked (ch_storage (w_chain w) p IMPL_SLOT)" and "ch_code (w_chain w) a = None"
    and "\<exists>es ch4. initializeContract (hre_evm H) f p d (set_slot p (ucast a)
           (new_account a (LogicCode c) (bump_nonce f (bump_nonce (hd (signers H)) (w_chain w))))) = Inr (es, ch4)
         \<and> w_chain w' = ch4\<lparr>ch_block := ch_block ch4 + 1\<rparr>"
    and "w_fs w' = w_fs w" and "w_log w' = w_log w @ [Sent (CallTx f (MultiCall
           [MCArgs f 0 (DeployCreate c), MCArgs f 0 (UpgradeProxy salt a d)])) fees]"
proof -
  let ?cs = "[MCArgs f 0 (DeployCreate c), MCArgs f 0 (UpgradeProxy salt a d)]"
  let ?ch = "bump_nonce (hd (signers H)) (w_chain w)"
  from run obtain es ch' where
    e: "factory_exec (hre_evm H) f (hd (signers H)) 0 (MultiCall ?cs) ?ch = Inr (es, ch')"
    and w': "w' = w\<lparr>w_chain := ch'\<lparr>ch_block := ch_block ch' + 1\<rparr>,
      w_log := w_log w @ [Sent (CallTx f (MultiCall ?cs)) fees]\<rparr>"
    using code by (auto elim!: sendFactoryTx_InrE)
  have n: "ch_nonce ?ch f = ch_nonce (w_chain w) f" using eoa by simp
  from e have "multiCall (hre_evm H) f ?cs ?ch = Inr (es, ch')"
    by (auto simp: factory_exec.simps factory_call.simps split: if_splits)
  then obtain es1 ch1 es2 where dc: "deployCreate (hre_evm H) f c ?ch = Inr (es1, ch1)"
    and u: "upgradeProxy (hre_evm H) f salt a d ch1 = Inr (es2, ch')"
    by (auto simp: multiCall_self_Cons multiCall.simps(1) factory_call.simps split: sum.splits)
  have a': "create_addr (hre_evm H) f (ch_nonce ?ch f) = a" by (simp only: n a)
  note dc' = deployCreate_Inr [OF dc, unfolded Let_def a']
  then have ch1: "ch1 = new_account a (LogicCode c) (bump_nonce f ?ch)"
    and fr: "fresh_account (bump_nonce f ?ch) a" by blast+
  from fr show none: "ch_code (w_chain w) a = None" by (simp add: fresh_account_def)
  have pr: "ch_code ch1 (getMetamorphicContractAddress (hre_evm H) salt f) = Some (ProxyCode f)"
    "ch_storage ch1 p = ch_storage (w_chain w) p"
    using proxy none by (auto simp: ch1 p)
  show l: "\<not> proxy_locked (ch_storage (w_chain w) p IMPL_SLOT)"
    using u upgradeProxy_locked [OF pr(1), of a d] pr(2) by (auto simp: p)
  with u have "initializeContract (hre_evm H) f p d (set_slot p (ucast a) ch1) = Inr (es2, ch')"
    using upgradeProxy_own [OF pr(1), of a d] pr(2) by (simp add: p)
  then show "\<exists>es ch4. initializeContract (hre_evm H) f p d (set_slot p (ucast a)
           (new_account a (LogicCode c) (bump_nonce f ?ch))) = Inr (es, ch4)
      \<and> w_chain w' = ch4\<lparr>ch_block := ch_block ch4 + 1\<rparr>"
    using w' unfolding ch1 by auto
  show "w_fs w' = w_fs w" "w_log w' = w_log w @ [Sent (CallTx f (MultiCall ?cs)) fees]"
    using w' by simp_all
qed

text \<open>A locked proxy, and an address without a proxy, cannot be upgraded.\<close>

lemma sendUpgradeProxy_rejected:
  assumes code: "ch_code (w_chain w) f = Some FactoryCode"
    and signer: "signers H = fs_owner (ch_fact (w_chain w) f) # os"
    and p: "p = getMetamorphicContractAddress (hre_evm H) salt f"
    and e: "(ch_code (w_chain w) p = None \<and> e = NoCode)
      \<or> (ch_code (w_chain w) p = Some (ProxyCode f) \<and> proxy_locked (ch_storage (w_chain w) p IMPL_SLOT)
         \<and> e = Imploc)"
  shows "sendFactoryTx H f (UpgradeProxy salt a d) fees w = (Inl (TxReverted e), w)"
proof (rule sendFactoryTx_revert [OF signer])
  let ?ch = "bump_nonce (fs_owner (ch_fact (w_chain w) f)) (w_chain w)"
  have "upgradeProxy (hre_evm H) f salt a d ?ch = Inl e"
    using e upgradeProxy_no_code [of ?ch "hre_evm H" salt f a d]
      upgradeProxy_locked [of ?ch "hre_evm H" salt f a d] by (auto simp: p)
  then show "tx_exec (hre_evm H) (fs_owner (ch_fact (w_chain w) f)) f (UpgradeProxy salt a d) ?ch = Inl e"
    using code by (simp add: evm_simps auth_def)
qed

end
