(* ===== verification/Upgrade_Correctness.thy ===== *)
theory Upgrade_Correctness
  imports Factory_Correctness Factory_Steps
begin

text \<open>
  The deployment tasks that take more than one transaction, and the tasks that upgrade a proxy.
\<close>

section \<open>The single steps\<close>

lemma updateDeployCreateList_InrD:
  assumes "updateDeployCreateList H n dc u w = (Inr dc', w')"
  shows "w_chain w' = w_chain w \<and> w_log w' = w_log w
    \<and> dc_address dc' = dc_address dc \<and> dc_gas dc' = dc_gas dc"
proof -
  have "same_chain w w'"
    by (rule keepsD [OF chain_writes.keeps_state_updates(3) assms])
  moreover have "dc' = dc\<lparr>dc_receipt := None\<rparr> \<or> dc' = dc"
    using assms by (auto simp: updateDeployCreateList_def world_simps elim!: bnd_InrE)
  ultimately show ?thesis by (auto simp: same_chain_def)
qed

lemma deployCreateTask_InrE:
  assumes run: "deployCreateTask H wc c f out cargs w = (Inr dc, w')"
  obtains b w1 fees r w2 where
    "deploy_data H c (case cargs of None \<Rightarrow> [] | Some as \<Rightarrow> as) = Inr (Some b)"
    and "w_chain w1 = w_chain w" "sent (w_log w1) = sent (w_log w)"
    and "sendFactoryTx H f (DeployCreate b) (Some fees) w1 = (Inr r, w2)"
    and "getEventVar r DEPLOYED_RAW CONTRACT_ADDR = Inr (dc_address dc)" and "dc_gas dc = rc_gasUsed r"
    and "w_chain w' = w_chain w2" "sent (w_log w') = sent (w_log w2)"
proof -
  from run obtain data where d: "deploy_data H c (case cargs of None \<Rightarrow> [] | Some as \<Rightarrow> as) = Inr data"
    unfolding deployCreateTask_def Let_def by (auto elim!: bnd_InrE fromSum_InrE)
  note unf = deployCreateTask_def Let_def
  from run obtain w1 where l: "raiseBlockGasLimit H ''0x3000000000000000'' w = (Inr (), w1)"
    unfolding unf by (auto simp: d world_simps elim!: bnd_InrE andThen_InrE)
  note l' = raiseBlockGasLimit_InrD [OF l]
  from run obtain b where b: "data = Some b"
    unfolding unf by (cases data) (auto simp: d l world_simps)
  from getGasPrices_run [of H w1] obtain fees where fees: "getGasPrices H w1 = (Inr fees, w1)" by metis
  from run obtain r w2 where s: "sendFactoryTx H f (DeployCreate b) (Some fees) w1 = (Inr r, w2)"
    unfolding unf by (auto simp: d l b fees world_simps elim!: bnd_InrE)
  from run obtain a where a: "getEventVar r DEPLOYED_RAW CONTRACT_ADDR = Inr a"
    unfolding unf by (auto simp: d l b fees s world_simps elim!: bnd_InrE fromSum_InrE)
  let ?d = "\<lparr>dc_name = c, dc_address = a, dc_factoryAddress = f, dc_gas = rc_gasUsed r,
    dc_constructorArgs = cargs, dc_receipt = None\<rparr>"
  from run obtain dc' w4 where u: "updateDeployCreateList H (network_name H) ?d out
      (w2\<lparr>w_log := w_log w2 @ [Waited (waitBlocksOf wc)]\<rparr>) = (Inr dc', w4)"
    and dc: "dc = dc'\<lparr>dc_receipt := Some r\<rparr>" and w': "quiet w4 w'"
    unfolding unf using showState_quiet
    by (auto simp: d l b fees s a world_simps elim!: bnd_InrE)
  show thesis
    using updateDeployCreateList_InrD [OF u] w' that [OF d [unfolded b] l'(1,3) s] a
    by (simp add: dc quiet_def)
qed

lemma multiCallDeployProxyTask_InrE:
  assumes run: "multiCallDeployProxyTask H ma None w = (Inr pd, w')"
  obtains d salt w1 fees r w2 proxy where
    "initCallDataOf H (dp_contractName ma) (initArgsOf (dp_initCallData ma)) w = (Inr d, w)"
    and "task_getBytes32Salt H (dp_contractName ma) w = (Inr salt, w1)"
    and "w_chain w1 = w_chain w" "w_log w1 = w_log w"
    and "sendFactoryTx H (dp_factoryAddress ma) (MultiCall
           [MCArgs (dp_factoryAddress ma) 0 (DeployProxy salt),
            MCArgs (dp_factoryAddress ma) 0 (UpgradeProxy salt (dp_logicAddress ma) d)]) (Some fees) w1
         = (Inr r, w2)"
    and "getEventVar r DEPLOYED_PROXY CONTRACT_ADDR = Inr proxy" and "rc_gasUsed r < 2 ^ 53"
    and "pd_proxyAddress pd = proxy" "pd_salt pd = salt" "pd_logicAddress pd = Some (dp_logicAddress ma)"
        "pd_gas pd = PlainNum (rc_gasUsed r)"
    and "w_chain w' = w_chain w2" "sent (w_log w') = sent (w_log w2)"
proof -
  note unf = multiCallDeployProxyTask_def Let_def saltOrDefault_def option.case encodeMultiCallArgs_def
  from run obtain d w0 where i: "initCallDataOf H (dp_contractName ma) (initArgsOf (dp_initCallData ma)) w
      = (Inr d, w0)"
    unfolding unf by (elim bnd_InrE)
  then have "w0 = w" by (rule reads_state [OF reads.keeps_abi(3)])
  note i = i [unfolded this]
  from run obtain salt w1 where s: "task_getBytes32Salt H (dp_contractName ma) w = (Inr salt, w1)"
    unfolding unf by (auto simp: i world_simps elim!: bnd_InrE)
  then have q: "quiet w w1" by (rule keepsD [OF quiet_steps.keeps_salts(1)])
  from getGasPrices_run [of H w1] obtain fees where fees: "getGasPrices H w1 = (Inr fees, w1)" by metis
  let ?mc = "MultiCall [MCArgs (dp_factoryAddress ma) 0 (DeployProxy salt),
            MCArgs (dp_factoryAddress ma) 0 (UpgradeProxy salt (dp_logicAddress ma) d)]"
  from run obtain r w2 where t: "sendFactoryTx H (dp_factoryAddress ma) ?mc (Some fees) w1 = (Inr r, w2)"
    unfolding unf by (auto simp: i s fees world_simps elim!: bnd_InrE)
  from run obtain proxy where p: "getEventVar r DEPLOYED_PROXY CONTRACT_ADDR = Inr proxy"
    unfolding unf by (auto simp: i s fees t world_simps elim!: bnd_InrE fromSum_InrE)
  have g: "rc_gasUsed r < 2 ^ 53"
    using run unfolding unf toNumber_def
    by (auto simp: i s fees t p world_simps split: if_splits)
  let ?pd = "\<lparr>pd_proxyAddress = proxy, pd_salt = salt, pd_logicName = Some (dp_contractName ma),
    pd_logicAddress = Some (dp_logicAddress ma), pd_factoryAddress = dp_factoryAddress ma,
    pd_gas = PlainNum (rc_gasUsed r), pd_receipt = Some r, pd_initCallData = Some d\<rparr>"
  from run g have u: "updateProxyList H multiCallProxyKeys (network_name H) ?pd (dp_outputFolder ma)
      (w2\<lparr>w_log := w_log w2 @ [Waited (waitBlocksOf (dp_waitConfirmation ma))]\<rparr>) = (Inr pd, w')"
    unfolding unf toNumber_def by (simp add: i s fees t p world_simps)
  from updateProxyList_InrD [OF u] obtain rc where pd: "pd = ?pd\<lparr>pd_receipt := rc\<rparr>"
    and w': "w_chain w' = w_chain w2" "sent (w_log w') = sent (w_log w2)" by auto
  have q': "w_chain w1 = w_chain w" "w_log w1 = w_log w" using q by (simp_all add: quiet_def)
  have f: "pd_proxyAddress pd = proxy" "pd_salt pd = salt" "pd_logicAddress pd = Some (dp_logicAddress ma)"
    "pd_gas pd = PlainNum (rc_gasUsed r)" by (simp_all add: pd)
  show thesis by (rule that [OF i s q' t p g f w'])
qed

lemma metamorphic_addresses_agree:
  "keccak (hre_evm H) METAMORPHIC_CODE = METAMORPHIC_HASH \<Longrightarrow>
     getMetamorphicAddress H f salt = getMetamorphicContractAddress (hre_evm H) salt f"
  by (simp add: getMetamorphicAddress_def getMetamorphicContractAddress_def)

text \<open>The two transactions of \<open>deployUpgradeableProxy\<close>.\<close>

abbreviation proxy_calls :: "addr \<Rightarrow> bytes32 \<Rightarrow> addr \<Rightarrow> cdata \<Rightarrow> payload" where
  "proxy_calls f salt a d \<equiv>
     CallTx f (MultiCall [MCArgs f 0 (DeployProxy salt), MCArgs f 0 (UpgradeProxy salt a d)])"

lemma deployUpgradeableProxyTask_InrE:
  assumes hash: "keccak (hre_evm H) METAMORPHIC_CODE = METAMORPHIC_HASH"
    and code: "ch_code (w_chain w) f = Some FactoryCode" and eoa: "hd (signers H) \<noteq> f"
    and a: "a = create_addr (hre_evm H) f (ch_nonce (w_chain w) f)"
    and run: "deployUpgradeableProxyTask H wc c f i out cargs w = (Inr pd, w')"
  obtains b salt d ch1 w1 w2 where
    "deploy_data H c (case cargs of None \<Rightarrow> [] | Some as \<Rightarrow> as) = Inr (Some b)"
    and "task_getBytes32Salt H c w1 = (Inr salt, w2)" and "initCallDataOf H c (initArgsOf i) w1 = (Inr d, w1)"
    and "ch_code (w_chain w) a = None" and "a \<noteq> f" and "ch_code ch1 = (ch_code (w_chain w))(a \<mapsto> LogicCode b)"
    and "proxied H f salt a d ch1 (w_chain w')"
    and "pd_logicAddress pd = Some a" "pd_salt pd = salt" "pd_proxyAddress pd = getMetamorphicAddress H f salt"
    and "sent (w_log w') = sent (w_log w) @ [CallTx f (DeployCreate b), proxy_calls f salt a d]"
    and "pd_gas pd = BigNum (gas_used H (w_chain w) (CallTx f (DeployCreate b))
          + gas_used H ch1 (proxy_calls f salt a d))"
proof -
  note unf = deployUpgradeableProxyTask_def Let_def
  from run obtain dc w1 where dc: "deployCreateTask H (Some False) c f out cargs w = (Inr dc, w1)"
    unfolding unf by (elim bnd_InrE)
  let ?ma = "\<lparr>dp_contractName = c, dp_logicAddress = dc_address dc, dp_waitConfirmation = wc,
    dp_factoryAddress = f, dp_initCallData = i, dp_outputFolder = out\<rparr>"
  from run obtain pd0 w2 where mc: "multiCallDeployProxyTask H ?ma None w1 = (Inr pd0, w2)"
    unfolding unf by (auto simp: dc world_simps elim!: bnd_InrE)
  from dc obtain b w3 fees r w4 where
    b: "deploy_data H c (case cargs of None \<Rightarrow> [] | Some as \<Rightarrow> as) = Inr (Some b)"
    and w3: "w_chain w3 = w_chain w" "sent (w_log w3) = sent (w_log w)"
    and t1: "sendFactoryTx H f (DeployCreate b) (Some fees) w3 = (Inr r, w4)"
    and r: "getEventVar r DEPLOYED_RAW CONTRACT_ADDR = Inr (dc_address dc)" "dc_gas dc = rc_gasUsed r"
    and w1: "w_chain w1 = w_chain w4" "sent (w_log w1) = sent (w_log w4)"
    by (rule deployCreateTask_InrE)
  note s1 = sendDeployCreate [OF code [folded w3(1)] eoa t1 a [folded w3(1)]]
  have la: "dc_address dc = a" using s1(1) r(1) by simp
  have g1: "rc_gasUsed r = gas_used H (w_chain w) (CallTx f (DeployCreate b))"
    using t1 w3(1) by (auto elim: sendFactoryTx_InrE)
  from mc obtain d salt w5 fees' r' w6 where
    i: "initCallDataOf H c (initArgsOf i) w1 = (Inr d, w1)" and st: "task_getBytes32Salt H c w1 = (Inr salt, w5)"
    and w5: "w_chain w5 = w_chain w1" "w_log w5 = w_log w1"
    and t2: "sendFactoryTx H f (MultiCall [MCArgs f 0 (DeployProxy salt), MCArgs f 0 (UpgradeProxy salt a d)])
      (Some fees') w5 = (Inr r', w6)"
    and r': "getEventVar r' DEPLOYED_PROXY CONTRACT_ADDR = Inr (pd_proxyAddress pd0)"
    and pd0: "pd_salt pd0 = salt" "pd_logicAddress pd0 = Some a" "pd_gas pd0 = PlainNum (rc_gasUsed r')"
    and w2: "w_chain w2 = w_chain w6" "sent (w_log w2) = sent (w_log w6)"
    by (rule multiCallDeployProxyTask_InrE) (simp add: la)
  have code5: "ch_code (w_chain w5) f = Some FactoryCode"
    using s1(3,4) code w5(1) w1(1) w3(1) by simp
  note s2 = sendDeployProxy [OF hash code5 t2]
  have g2: "rc_gasUsed r' = gas_used H (w_chain w5) (CallTx f (MultiCall
      [MCArgs f 0 (DeployProxy salt), MCArgs f 0 (UpgradeProxy salt a d)]))"
    using t2 by (auto elim: sendFactoryTx_InrE)
  from run have "pd = pd0\<lparr>pd_gas := BigNum (dc_gas dc + rc_gasUsed r')\<rparr> \<and> quiet w2 w'"
    unfolding unf
    by (auto simp: dc mc pd0(3) quiet_def world_simps split: if_splits elim!: bnd_InrE)
  then show thesis
    using s1(2-4,9) s2 w1 w2 w3 w5 r(2) r' pd0 g1 g2 by (intro that [OF b st i]) (simp_all add: quiet_def)
qed

lemma upgradeDeployedProxyTask_InrE:
  assumes run: "upgradeDeployedProxyTask H wc c la f i out w = (Inr pd, w')"
  obtains salt w1 d fees r w2 where
    "task_getBytes32Salt H c w = (Inr salt, w1)" and "quiet w w1"
    and "initCallDataOf H c (initArgsOf i) w1 = (Inr d, w1)"
    and "sendFactoryTx H f (UpgradeProxy salt la d) (Some fees) w1 = (Inr r, w2)"
    and "pd_proxyAddress pd = getMetamorphicAddress H f salt" "pd_salt pd = salt" "pd_logicAddress pd = Some la"
    and "w_chain w' = w_chain w2" "sent (w_log w') = sent (w_log w2)"
proof -
  note unf = upgradeDeployedProxyTask_def Let_def
  from run obtain salt w1 where s: "task_getBytes32Salt H c w = (Inr salt, w1)"
    unfolding unf by (elim bnd_InrE)
  then have q: "quiet w w1" by (rule keepsD [OF quiet_steps.keeps_salts(1)])
  from run obtain d w0 where i: "initCallDataOf H c (initArgsOf i) w1 = (Inr d, w0)"
    unfolding unf by (auto simp: s world_simps elim!: bnd_InrE)
  then have "w0 = w1" by (rule reads_state [OF reads.keeps_abi(3)])
  note i = i [unfolded this]
  from getGasPrices_run [of H w1] obtain fees where fees: "getGasPrices H w1 = (Inr fees, w1)" by metis
  from run obtain r w2 where t: "sendFactoryTx H f (UpgradeProxy salt la d) (Some fees) w1 = (Inr r, w2)"
    unfolding unf by (auto simp: s i fees world_simps elim!: bnd_InrE)
  from run obtain m g where u: "updateProxyList H upgradeProxyKeys (network_name H)
      \<lparr>pd_proxyAddress = getMetamorphicAddress H f salt, pd_salt = salt, pd_logicName = Some c,
       pd_logicAddress = Some la, pd_factoryAddress = f, pd_gas = g, pd_receipt = Some r,
       pd_initCallData = Some d\<rparr> out (snd (showState H m (w2\<lparr>w_log := w_log w2 @ [Waited (waitBlocksOf wc)]\<rparr>)))
      = (Inr pd, w')"
    unfolding unf toNumber_def by (auto simp: s i fees t world_simps split: if_splits)
  from updateProxyList_InrD [OF u] showState_quiet [of "w2\<lparr>w_log := w_log w2 @ [Waited (waitBlocksOf wc)]\<rparr>" H m]
  show thesis by (intro that [OF s q i t]) (auto simp: quiet_def)
qed

section \<open>Sample runs\<close>

text \<open>With the output silenced, a run of the sample network touches no file.\<close>

definition Foo_salt :: bytes32 where
  "Foo_salt = 0x466F6F * 2 ^ 232"

definition sample_quiet :: hre where
  "sample_quiet = sample_hre\<lparr>silencer := Some ''true''\<rparr>"

lemma sample_quiet_simps:
  "hre_evm sample_quiet = sample_evm" "signers sample_quiet = [sample_owner, 0xB0B]"
  "\<not> not_silenced sample_quiet" "gas_used sample_quiet ch p = 21000"
  "deploy_data sample_quiet c as = Inr (Some (c @ js_join '','' (map js_to_string as)))"
  by (simp_all add: sample_quiet_def sample_defs not_silenced_def)

lemma receipt_event_quiet: "receipt_event_of sample_quiet e = receipt_event_of sample_hre e"
  by (cases e) (simp_all add: sample_quiet_def)

lemma sample_quiet_steps:
  "initCallDataOf sample_quiet ''Foo'' [''1'', ''2''] w = (Inr (OtherCall ''Foo'' ''initialize'' []), w)"
  "task_getBytes32Salt sample_quiet ''Foo'' w = (Inr Foo_salt, w)"
  "raiseBlockGasLimit sample_quiet l w = (Inr (), w)"
proof -
  have "initCallDataOf sample_quiet = initCallDataOf sample_hre"
    "task_getBytes32Salt sample_quiet = task_getBytes32Salt sample_hre"
    "raiseBlockGasLimit sample_quiet = raiseBlockGasLimit sample_hre"
    by (simp_all add: sample_quiet_def fun_eq_iff initCallDataOf_def task_getFullyQualifiedName_def
        readArtifact_def isInitializable_def contractOutput_def task_getBytes32Salt_def task_getSalt_def
        formatSalt_def [abs_def] raiseBlockGasLimit_def rpcSend_def cong: if_cong option.case_cong)
  then show "initCallDataOf sample_quiet ''Foo'' [''1'', ''2''] w = (Inr (OtherCall ''Foo'' ''initialize'' []), w)"
    "task_getBytes32Salt sample_quiet ''Foo'' w = (Inr Foo_salt, w)"
    "raiseBlockGasLimit sample_quiet l w = (Inr (), w)"
    by (simp_all only: sample_Foo_steps Foo_salt_def)
qed

lemma sample_quiet_send:
  assumes "tx_exec sample_evm sample_owner f d (bump_nonce sample_owner (w_chain w)) = Inr (es, ch')"
  shows "sendFactoryTx sample_quiet f d fees w
    = (Inr \<lparr>rc_events = Some (map (receipt_event_of sample_hre) es), rc_gasUsed = 21000, rc_status = 1\<rparr>,
       w\<lparr>w_chain := ch'\<lparr>ch_block := ch_block ch' + 1\<rparr>, w_log := w_log w @ [Sent (CallTx f d) fees]\<rparr>)"
  using assms
  by (simp add: sendFactoryTx_def firstSigner_def js_nth_def bnd_def andThen_def logAction_def world_simps
      sample_quiet_simps receipt_event_quiet)

text \<open>The chain after the logic contract of \<open>Foo\<close> was created.\<close>

definition sample_chain1 :: chain where
  "sample_chain1 = (new_account 0x4000FAC (LogicCode ''Foo5'') (bump_nonce sample_factory
     (bump_nonce sample_owner sample_chain)))\<lparr>ch_block := 8\<rparr>"

lemma sample_create:
  "tx_exec sample_evm sample_owner sample_factory (DeployCreate ''Foo5'') (bump_nonce sample_owner sample_chain)
   = Inr ([DeployedRaw sample_factory 0x4000FAC], new_account 0x4000FAC (LogicCode ''Foo5'')
       (bump_nonce sample_factory (bump_nonce sample_owner sample_chain)))"
proof -
  have "create_addr sample_evm sample_factory (ch_nonce (bump_nonce sample_owner sample_chain) sample_factory)
      = 0x4000FAC"
    by (simp add: sample_defs) (simp add: sample_addr_defs)
  moreover have "fresh_account (bump_nonce sample_factory (bump_nonce sample_owner sample_chain)) 0x4000FAC"
    by (simp add: fresh_account_def sample_defs) (simp add: sample_addr_defs)
  ultimately show ?thesis
    by (simp add: sample_chain_simps factory_exec.simps factory_call.simps auth_def deployCreate_def Let_def
        sample_evm_simps(4))
qed

lemma sample_chain1_simps:
  "ch_code sample_chain1 = [sample_factory \<mapsto> FactoryCode, sample_template \<mapsto> ProxyTemplateCode,
     0x4000FAC \<mapsto> LogicCode ''Foo5'']"
  "ch_nonce sample_chain1 a = (if a = 0x4000FAC then 1 else if a = sample_factory then 4
     else if a = sample_owner then 1 else if a = sample_template then 1 else 0)"
  "ch_fact sample_chain1 = ch_fact sample_chain"
  by (auto simp: sample_chain1_def sample_chain_simps sample_addr_defs)

definition sample_proxy_mc :: "cdata \<Rightarrow> mcArgs list" where
  "sample_proxy_mc d =
     [MCArgs sample_factory 0 (DeployProxy Foo_salt),
      MCArgs sample_factory 0 (UpgradeProxy Foo_salt 0x4000FAC d)]"

lemma sample_new_addresses [simp]:
  "sample_factory \<noteq> 0x4000FAC" "sample_owner \<noteq> 0x4000FAC" "sample_template \<noteq> 0x4000FAC"
  "sample_factory \<noteq> 0x466F6F0000000000000000000000000000000FAC"
  "sample_owner \<noteq> 0x466F6F0000000000000000000000000000000FAC"
  "sample_template \<noteq> 0x466F6F0000000000000000000000000000000FAC"
  "0x4000FAC \<noteq> sample_factory" "0x4000FAC \<noteq> sample_owner" "0x4000FAC \<noteq> sample_template"
  "0x466F6F0000000000000000000000000000000FAC \<noteq> sample_factory"
  "0x466F6F0000000000000000000000000000000FAC \<noteq> sample_owner"
  "0x466F6F0000000000000000000000000000000FAC \<noteq> sample_template"
  by (simp_all add: sample_addr_defs)

lemma sample_proxy_addr:
  "create2_addr sample_evm sample_factory
     Foo_salt h
   = 0x466F6F0000000000000000000000000000000FAC"
  by (simp add: sample_evm_simps Foo_salt_def drop_bit_eq_div sample_addr_defs)

lemma sample_proxy_exec:
  assumes "d = NoData \<or> d = OtherCall c g []"
  shows "\<exists>es ch'. tx_exec sample_evm sample_owner sample_factory (MultiCall (sample_proxy_mc d))
     (bump_nonce sample_owner sample_chain1)
   = Inr (DeployedProxy sample_factory 0x466F6F0000000000000000000000000000000FAC # es, ch')"
  using assms unfolding sample_proxy_mc_def
  by (elim disjE)
     (simp_all add: sample_chain1_simps sample_chain_simps sample_proxy_addr factory_exec.simps
      factory_call.simps multiCall_self_Cons multiCall.simps(1) auth_def deployProxy_def Let_def
      fresh_account_def upgradeProxy_own getMetamorphicContractAddress_def initializeContract.simps
      callAny.simps call_other_def sample_evm_simps(6))

lemma sample_deployUpgradeableProxy:
  "\<exists>pd w'. deployUpgradeableProxyTask sample_quiet None ''Foo'' sample_factory (Some ''1, 2'') None
     (Some [JStr ''5'']) sample_world = (Inr pd, w')"
proof -
  have "\<forall>w. \<exists>fees. getGasPrices sample_quiet w = (Inr fees, w)" by (metis getGasPrices_run)
  then obtain fees where fees: "getGasPrices sample_quiet w = (Inr (fees w), w)" for w by metis
  obtain es ch' where e: "tx_exec sample_evm sample_owner sample_factory
      (MultiCall (sample_proxy_mc (OtherCall ''Foo'' ''initialize'' []))) (bump_nonce sample_owner sample_chain1)
    = Inr (DeployedProxy sample_factory 0x466F6F0000000000000000000000000000000FAC # es, ch')"
    using sample_proxy_exec by blast
  have ch1: "(new_account 0x4000FAC (LogicCode ''Foo5'') (bump_nonce sample_factory
      (bump_nonce sample_owner sample_chain)))\<lparr>ch_block := Suc (ch_block (new_account 0x4000FAC
      (LogicCode ''Foo5'') (bump_nonce sample_factory (bump_nonce sample_owner sample_chain))))\<rparr> = sample_chain1"
    by (simp add: sample_chain1_def new_account_def bump_nonce_def sample_chain_def)
  note send1 = sample_quiet_send [of sample_factory "DeployCreate ''Foo5''" sample_world, unfolded sample_chain_simps(8),
      OF sample_create]
  have "\<exists>dc w1. deployCreateTask sample_quiet (Some False) ''Foo'' sample_factory None (Some [JStr ''5'']) sample_world
      = (Inr dc, w1) \<and> dc_address dc = 0x4000FAC \<and> w_chain w1 = sample_chain1"
    by (simp add: deployCreateTask_def Let_def sample_quiet_simps sample_quiet_steps fees send1 getEventVar_simps
        updateDeployCreateList_def silenced_noop ch1 world_simps)
  then obtain dc w1 where c: "deployCreateTask sample_quiet (Some False) ''Foo'' sample_factory None
      (Some [JStr ''5'']) sample_world = (Inr dc, w1)" "dc_address dc = 0x4000FAC" "w_chain w1 = sample_chain1"
    by blast
  note send2 = sample_quiet_send [of sample_factory _ w1, unfolded c(3), OF e, unfolded sample_proxy_mc_def]
  show ?thesis
    by (simp add: deployUpgradeableProxyTask_def multiCallDeployProxyTask_def Let_def c sample_Foo_steps(1)
        sample_quiet_simps sample_quiet_steps saltOrDefault_def encodeMultiCallArgs_def fees send2
        getEventVar_simps toNumber_def updateProxyList_def silenced_noop world_simps)
qed

section \<open>Properties\<close>




text \<open>The sample network with a proxy for \<open>Foo\<close>.\<close>

definition sample_world2 :: world where
  "sample_world2 = sample_world\<lparr>w_chain := sample_chain\<lparr>ch_code := (ch_code sample_chain)
     (0x466F6F0000000000000000000000000000000FAC \<mapsto> ProxyCode sample_factory)\<rparr>\<rparr>"

lemma sample_meta: "getMetamorphicAddress sample_quiet sample_factory Foo_salt = 0x466F6F0000000000000000000000000000000FAC"
  by (simp add: getMetamorphicAddress_def sample_quiet_simps sample_proxy_addr)

lemma sample_world2_simps:
  "ch_code (w_chain sample_world2) = [sample_factory \<mapsto> FactoryCode, sample_template \<mapsto> ProxyTemplateCode,
     0x466F6F0000000000000000000000000000000FAC \<mapsto> ProxyCode sample_factory]"
  "ch_storage (w_chain sample_world2) a s = 0" "ch_fact (w_chain sample_world2) = ch_fact sample_chain"
  "ch_nonce (w_chain sample_world2) = ch_nonce sample_chain"
  by (simp_all add: sample_world2_def sample_chain_simps)

lemma sample_upgrade_exec:
  "\<exists>r. tx_exec sample_evm sample_owner sample_factory (UpgradeProxy Foo_salt 0x99 (OtherCall ''Foo'' ''initialize'' []))
     (bump_nonce sample_owner (w_chain sample_world2)) = Inr r"
  by (simp add: sample_world2_simps sample_chain_simps sample_proxy_addr factory_exec.simps factory_call.simps
      auth_def upgradeProxy_own getMetamorphicContractAddress_def initializeContract.simps callAny.simps
      call_other_def sample_evm_simps(6))

lemma sample_upgradeDeployedProxy:
  "\<exists>pd w'. upgradeDeployedProxyTask sample_quiet None ''Foo'' 0x99 sample_factory (Some ''1, 2'') None sample_world2
     = (Inr pd, w')"
proof -
  from getGasPrices_run [of sample_quiet sample_world2] obtain fees where
    fees: "getGasPrices sample_quiet sample_world2 = (Inr fees, sample_world2)" by metis
  from sample_upgrade_exec obtain es ch' where "tx_exec sample_evm sample_owner sample_factory
      (UpgradeProxy Foo_salt 0x99 (OtherCall ''Foo'' ''initialize'' []))
      (bump_nonce sample_owner (w_chain sample_world2)) = Inr (es, ch')" by force
  note s = sample_quiet_send [OF this]
  show ?thesis
    by (simp add: upgradeDeployedProxyTask_def Let_def sample_quiet_steps sample_Foo_steps(1) fees s toNumber_def
        updateProxyList_def silenced_noop sample_quiet_simps world_simps)
qed




end
