(* ===== verification/Library_Correctness.thy ===== *)
theory Library_Correctness
  imports Alicenet_Factory Upgrade_Correctness
begin

text \<open>
  The deployment of the factory itself, the upgrade in one transaction, and the library functions of
  \<^verbatim>\<open>scripts/lib/alicenetFactory.ts\<close>.
\<close>

section \<open>A new factory\<close>

lemma create_factory_ready:
  assumes "create_factory E s legacy ch = Inr (f, ch')"
  shows "f = create_addr E s (ch_nonce ch s)" and "ch_code ch f = None"
    and "ch_code ch' f = Some FactoryCode" and "fs_owner (ch_fact ch' f) = s"
    and "ch_code ch' (fs_proxyTemplate (ch_fact ch' f)) = Some ProxyTemplateCode"
    and "lookup E f ATOKEN_SALT ch' = fs_aTokenAddress (ch_fact ch' f)"
    and "ch_code ch' (fs_aTokenAddress (ch_fact ch' f)) = Some (LogicCode (aToken_creation E legacy))"
  using assms
  by (auto simp: create_factory_def factory_constructor_def Let_def fresh_account_def set_fact_def lookup_def
      new_account_def split: if_splits sum.splits)

lemma deployFactoryTx_InrE:
  assumes "deployFactoryTx H legacy fees w = (Inr f, w')"
  obtains ch' where "create_factory (hre_evm H) (hd (signers H)) legacy (w_chain w) = Inr (f, ch')"
    and "w' = w\<lparr>w_chain := ch'\<lparr>ch_block := ch_block ch' + 1\<rparr>, w_log := w_log w @ [Sent (CreateFactoryTx legacy) fees]\<rparr>"
    and "signers H \<noteq> []"
proof (cases "signers H")
  case Nil
  with assms show thesis by (simp add: deployFactoryTx_def firstSigner_def js_nth_def bnd_def world_simps)
next
  case (Cons s os)
  with assms show thesis
    by (auto simp: deployFactoryTx_def firstSigner_run [OF Cons] logAction_def world_simps andThen_def bnd_def
        split: sum.splits intro!: that)
qed

lemma deployFactoryTask_InrE:
  assumes run: "deployFactoryTask H wc v out w = (Inr fd, w')"
  obtains legacy fees w1 f w2 where "w_chain w1 = w_chain w" and "w_log w1 = w_log w"
    and "deployFactoryTx H legacy (Some fees) w1 = (Inr f, w2)"
    and "fd_address fd = f" and "fd_owner fd = js_nth (signers H) 0"
    and "w_chain w' = w_chain w2" and "sent (w_log w') = sent (w_log w2)"
proof -
  note unf = deployFactoryTask_def Let_def getAccounts_def
  from run obtain w1 where c: "checkUserDirPath out w = (Inr (), w1)"
    unfolding unf by (elim andThen_InrE) simp
  have w1: "same_chain w w1" by (rule keepsD [OF chain_writes.keeps_checkUserDirPath c])
  from run obtain as w1' where g: "getFactoryDeploymentArgs H None w1 = (Inr as, w1')"
    unfolding unf by (auto simp: c world_simps elim!: bnd_InrE)
  then have "w1' = w1" by (rule reads_state [OF reads.keeps_deployArgs(2)])
  note g = g [unfolded this]
  let ?arg = "case js_nth (case as of None \<Rightarrow> [] | Some as \<Rightarrow> as) 0 of None \<Rightarrow> JUndef | Some v \<Rightarrow> v"
  from run obtain legacy where l: "to_address H ?arg = Some legacy"
    unfolding unf by (cases "to_address H ?arg") (auto simp: c g world_simps)
  from run obtain gas where e: "estimateGas H (CreateFactoryTx legacy) w1 = (Inr gas, w1)"
    unfolding unf by (auto simp: c g l estimateGas_def world_simps elim!: bnd_InrE fromSum_InrE)
  from getGasPrices_run [of H w1] obtain fees where fees: "getGasPrices H w1 = (Inr fees, w1)" by metis
  from run obtain f w2 where t: "deployFactoryTx H legacy (Some fees) w1 = (Inr f, w2)"
    unfolding unf by (auto simp: c g l e fees world_simps elim!: bnd_InrE)
  let ?fd = "\<lparr>fd_address = f, fd_owner = js_nth (signers H) 0, fd_gas = gas\<rparr>"
  let ?w3 = "w2\<lparr>w_log := w_log w2 @ [Waited (waitBlocksOf wc)]\<rparr>"
  from run have k: "andThen (if v = Some True then verifyContract H f (case as of None \<Rightarrow> [] | Some as \<Rightarrow> as) else ret ())
     (andThen (updateDefaultFactoryData H (network_name H) ?fd out)
     (andThen (showState H (''Deployed: '' @ ALICENET_FACTORY @ '', at address: '' @ addr_hex H f @ '', with ''
        @ js_show_nat gas @ '' gas'')) (ret ?fd))) ?w3 = (Inr fd, w')"
    unfolding unf by (simp add: c g l e fees t logAction_def world_simps)
  have "keeps same_chain (andThen (if v = Some True then verifyContract H f (case as of None \<Rightarrow> [] | Some as \<Rightarrow> as) else ret ())
     (andThen (updateDefaultFactoryData H (network_name H) ?fd out)
     (andThen (showState H (''Deployed: '' @ ALICENET_FACTORY @ '', at address: '' @ addr_hex H f @ '', with ''
        @ js_show_nat gas @ '' gas'')) (ret ?fd))))"
    by (intro chain_writes.keeps_console_rules chain_writes.keeps_state_updates)
  from keepsD [OF this k] have "w_chain w' = w_chain w2" "sent (w_log w') = sent (w_log w2)"
    by (simp_all add: same_chain_def)
  moreover from k have "fd = ?fd" by (auto simp: world_simps elim!: andThen_InrE)
  ultimately show thesis using w1 that [OF _ _ t] by (simp add: same_chain_def)
qed

lemma deployFactoryTask_sends:
  assumes "deployFactoryTask H wc v out w = (Inr fd, w')"
  shows "\<exists>legacy. sent (w_log w') = sent (w_log w) @ [CreateFactoryTx legacy]"
  by (rule deployFactoryTask_InrE [OF assms], erule deployFactoryTx_InrE) (auto intro: exI)

lemma deployFactoryTask_ready:
  assumes "deployFactoryTask H wc v out w = (Inr fd, w')"
  shows "fd_address fd = create_addr (hre_evm H) (hd (signers H)) (ch_nonce (w_chain w) (hd (signers H)))"
    and "ch_code (w_chain w') (fd_address fd) = Some FactoryCode"
  by (rule deployFactoryTask_InrE [OF assms], erule deployFactoryTx_InrE, simp add: create_factory_ready)+

text \<open>
  C14. The task \<open>deployFactory\<close> creates a factory that is ready for use. When it returns, one creation transaction
  was sent; the reported address had no code and now holds a factory, which the first account owns,
  which is also the reported owner; the factory's proxy template is in place and its lookup finds the
  new AToken contract.
\<close>

theorem deployFactory_deploys:
  assumes run: "deployFactoryTask H wc v out w = (Inr fd, w')"
  shows "\<exists>legacy ch. fd_address fd = create_addr (hre_evm H) (hd (signers H)) (ch_nonce (w_chain w) (hd (signers H)))
    \<and> fd_owner fd = Some (hd (signers H)) \<and> ch_code (w_chain w) (fd_address fd) = None
    \<and> w_chain w' = ch\<lparr>ch_block := ch_block ch + 1\<rparr> \<and> ch_code ch (fd_address fd) = Some FactoryCode
    \<and> fs_owner (ch_fact ch (fd_address fd)) = hd (signers H)
    \<and> ch_code ch (fs_proxyTemplate (ch_fact ch (fd_address fd))) = Some ProxyTemplateCode
    \<and> ch_code ch (lookup (hre_evm H) (fd_address fd) ATOKEN_SALT ch)
        = Some (LogicCode (aToken_creation (hre_evm H) legacy))
    \<and> sent (w_log w') = sent (w_log w) @ [CreateFactoryTx legacy]"
proof -
  from run obtain legacy fees w1 f w2 where w1: "w_chain w1 = w_chain w" "w_log w1 = w_log w"
    and t: "deployFactoryTx H legacy (Some fees) w1 = (Inr f, w2)"
    and fd: "fd_address fd = f" "fd_owner fd = js_nth (signers H) 0"
    and w': "w_chain w' = w_chain w2" "sent (w_log w') = sent (w_log w2)"
    by (rule deployFactoryTask_InrE)
  from t obtain ch where c: "create_factory (hre_evm H) (hd (signers H)) legacy (w_chain w1) = Inr (f, ch)"
    and w2: "w2 = w1\<lparr>w_chain := ch\<lparr>ch_block := ch_block ch + 1\<rparr>,
      w_log := w_log w1 @ [Sent (CreateFactoryTx legacy) (Some fees)]\<rparr>" and s: "signers H \<noteq> []"
    by (rule deployFactoryTx_InrE)
  have "js_nth (signers H) 0 = Some (hd (signers H))" using s by (simp add: js_nth_def hd_conv_nth)
  then show ?thesis
    using create_factory_ready [OF c] fd w1 w' w2 by (intro exI [of _ legacy] exI [of _ ch]) simp
qed

text \<open>A network on which the factory's constructor needs no configured argument.\<close>

definition sample_first :: hre where
  "sample_first = sample_quiet\<lparr>to_address := \<lambda>v. Some 0x1E6, read_artifact := \<lambda>n. Some ''F.sol'',
     build_info_of := \<lambda>q. Some (\<lambda>p. Some (\<lambda>n. Some \<lparr>co_abi = [], co_devdoc = (\<lambda>k. None)\<rparr>))\<rparr>"

lemma create_factory_fresh:
  assumes "create_addr E s (ch_nonce ch s) = f" and "create_addr E f (Suc 0) = t"
    and "create2_addr E f ATOKEN_SALT (keccak E (aToken_creation E legacy)) = k"
    and "distinct [s, f, t, k]" and "\<And>x. x \<in> {f, t, k} \<Longrightarrow> ch_code ch x = None \<and> ch_nonce ch x = 0"
    and "\<And>ch'. ctor_ok E ch' k (aToken_creation E legacy)"
  shows "\<exists>ch'. create_factory E s legacy ch = Inr (f, ch')"
  using assms(4-6)
  by (auto simp: create_factory_def factory_constructor_def Let_def assms(1-3) fresh_account_def new_account_def)

lemma sample_create_factory:
  "\<exists>ch. create_factory sample_evm sample_owner 0x1E6 sample_chain = Inr (0x10A11CE, ch)"
proof (rule create_factory_fresh)
  show "create_addr sample_evm sample_owner (ch_nonce sample_chain sample_owner) = 0x10A11CE"
    by (simp add: sample_evm_simps sample_chain_simps sample_addr_defs)
  show "create_addr sample_evm 0x10A11CE (Suc 0) = 0x30A11CE" by (simp add: sample_evm_simps)
  show "create2_addr sample_evm 0x10A11CE ATOKEN_SALT (keccak sample_evm (aToken_creation sample_evm 0x1E6))
      = 0x41546F6B656E00000000000000000000010A11CE"
    by (simp add: sample_evm_simps ATOKEN_SALT_def drop_bit_eq_div)
  show "distinct [sample_owner, 0x10A11CE, 0x30A11CE, 0x41546F6B656E00000000000000000000010A11CE]"
    by (simp add: sample_addr_defs)
  show "ch_code sample_chain x = None \<and> ch_nonce sample_chain x = 0"
    if "x \<in> {0x10A11CE, 0x30A11CE, 0x41546F6B656E00000000000000000000010A11CE}" for x
    using that by (auto simp: sample_chain_simps sample_addr_defs)
qed (simp add: sample_evm_simps)

lemma sample_deployFactory:
  assumes "v \<noteq> Some True" and "w_chain w = sample_chain"
  shows "\<exists>fd w'. deployFactoryTask sample_first wc v None w = (Inr fd, w') \<and> w_fs w' = w_fs w"
proof -
  from getGasPrices_run [of sample_first w] obtain fees where
    fees: "getGasPrices sample_first w = (Inr fees, w)" by metis
  have a: "getFactoryDeploymentArgs sample_first None w = (Inr None, w)"
    by (simp add: getFactoryDeploymentArgs_def getFullyQualifiedName_def readArtifact_def hasConstructorArgs_def
        contractOutput_def outputContract_def extractName_def extractPath_def js_nth_def sample_first_def bnd_def world_simps)
  obtain ch where c: "create_factory sample_evm sample_owner 0x1E6 sample_chain = Inr (0x10A11CE, ch)"
    using sample_create_factory by blast
  have s: "hre_evm sample_first = sample_evm" "signers sample_first = [sample_owner, 0xB0B]"
    "\<not> not_silenced sample_first" "to_address sample_first v = Some 0x1E6" for v
    by (simp_all add: sample_first_def sample_quiet_simps not_silenced_def sample_quiet_def sample_hre_simps)
  have e: "estimateGas sample_first tx w = (Inr 50000, w)" for tx
    by (simp add: estimateGas_def sample_first_def sample_quiet_def sample_hre_simps world_simps)
  obtain w1 where "deployFactoryTx sample_first 0x1E6 (Some fees) w = (Inr 0x10A11CE, w1)" "w_fs w1 = w_fs w"
    by (simp add: deployFactoryTx_def firstSigner_run [OF s(2)] s(1) c logAction_def assms(2) world_simps)
  with assms(1) show ?thesis
    by (simp add: deployFactoryTask_def checkUserDirPath_def getAccounts_def a s e fees logAction_def
        updateDefaultFactoryData_def silenced_noop [OF s(3)] Let_def world_simps)
qed

theorem deployFactory_deploys_witness:
  "\<exists>fd w'. deployFactoryTask sample_first None None None sample_world = (Inr fd, w')
     \<and> ch_code (w_chain w') (fd_address fd) = Some FactoryCode \<and> fd_owner fd = Some sample_owner"
proof -
  obtain fd w' where r: "deployFactoryTask sample_first None None None sample_world = (Inr fd, w')"
    using sample_deployFactory [of None sample_world None] by (auto simp: sample_chain_simps)
  have "hd (signers sample_first) = sample_owner" by (simp add: sample_first_def sample_quiet_simps)
  with deployFactory_deploys [OF r] r show ?thesis by auto
qed

section \<open>An upgrade in one transaction\<close>

text \<open>
  C31. The task \<open>multiCallUpgradeProxy\<close>. When it returns, constructor arguments were given, and one transaction was
  sent that created the new logic contract at the predicted address, which had no code, and pointed the
  unlocked proxy of the salt at it before running the initialiser. The data it returns names the proxy but,
  unlike that of the other tasks, not the logic contract.
\<close>

theorem multiCallUpgradeProxy_upgrades:
  assumes hash: "keccak (hre_evm H) METAMORPHIC_CODE = METAMORPHIC_HASH"
    and code: "ch_code (w_chain w) f = Some FactoryCode" and eoa: "hd (signers H) \<noteq> f"
    and salt: "saltOrDefault H s c w = (Inr salt, w1)" and p: "p = getMetamorphicAddress H f salt"
    and proxy: "ch_code (w_chain w) p = Some (ProxyCode f)"
    and a: "a = create_addr (hre_evm H) f (ch_nonce (w_chain w) f)"
    and run: "multiCallUpgradeProxyTask H wc c f i s cargs w = (Inr pd, w')"
  shows "\<exists>as b d es ch4. cargs = Some as \<and> deploy_data H c as = Inr (Some b)
    \<and> \<not> proxy_locked (ch_storage (w_chain w) p IMPL_SLOT) \<and> ch_code (w_chain w) a = None
    \<and> initializeContract (hre_evm H) f p d (set_slot p (ucast a)
         (new_account a (LogicCode b) (bump_nonce f (bump_nonce (hd (signers H)) (w_chain w))))) = Inr (es, ch4)
    \<and> w_chain w' = ch4\<lparr>ch_block := ch_block ch4 + 1\<rparr>
    \<and> sent (w_log w') = sent (w_log w) @ [CallTx f (MultiCall [MCArgs f 0 (DeployCreate b), MCArgs f 0 (UpgradeProxy salt a d)])]
    \<and> pd_proxyAddress pd = p \<and> pd_salt pd = salt \<and> pd_logicAddress pd = None \<and> w_fs w' = w_fs w"
proof -
  note unf = multiCallUpgradeProxyTask_def Let_def encodeMultiCallArgs_def
  have q: "w_chain w1 = w_chain w" "w_log w1 = w_log w" "w_fs w1 = w_fs w"
    using keepsD [OF quiet_steps.keeps_salts(2) salt] by (simp_all add: quiet_def)
  from run obtain d w0 where d: "initCallDataOf H c (initArgsOf i) w = (Inr d, w0)"
    unfolding unf by (elim bnd_InrE)
  then have "w0 = w" by (rule reads_state [OF reads.keeps_abi(3)])
  note d = d [unfolded this]
  from run obtain as where as: "cargs = Some as"
    unfolding unf by (auto simp: d world_simps elim!: bnd_InrE orTypeError_InrE)
  from run obtain b where b: "deploy_data H c as = Inr (Some b)"
    unfolding unf
    by (auto simp: d as encodeDeployCreate_def world_simps elim!: bnd_InrE fromSum_InrE split: option.splits)
  have im: "read_impl (hre_evm H) (getMetamorphicAddress H f salt) (w_chain w)
      = Some (getImplementationAddress (ch_storage (w_chain w) p IMPL_SLOT))"
    using proxy by (simp add: read_impl_def q p)
  from getGasPrices_run [of H w1] obtain fees where fees: "getGasPrices H w1 = (Inr fees, w1)" by metis
  let ?mc = "MultiCall [MCArgs f 0 (DeployCreate b), MCArgs f 0 (UpgradeProxy salt a d)]"
  from run obtain r w2 where t: "sendFactoryTx H f ?mc (Some fees) w1 = (Inr r, w2)"
    unfolding unf
    by (auto simp: d as b salt im fees encodeDeployCreate_def a q(1) world_simps elim!: bnd_InrE)
  have pd: "pd_proxyAddress pd = p" "pd_salt pd = salt" "pd_logicAddress pd = None"
    and w': "w_chain w' = w_chain w2" "sent (w_log w') = sent (w_log w2)" "w_fs w' = w_fs w2"
    using run unfolding unf p toNumber_def
    by (auto simp: d as b salt im fees t [unfolded a] encodeDeployCreate_def q(1) world_simps split: if_splits)
  have p': "p = getMetamorphicContractAddress (hre_evm H) salt f" using p metamorphic_addresses_agree [OF hash] by simp
  note u = sendCreateUpgrade [OF code [folded q(1)] eoa p' proxy [folded q(1)] a [folded q(1)] t, unfolded q]
  from u(3) obtain es ch4 where "initializeContract (hre_evm H) f p d (set_slot p (ucast a)
         (new_account a (LogicCode b) (bump_nonce f (bump_nonce (hd (signers H)) (w_chain w))))) = Inr (es, ch4)"
    "w_chain w2 = ch4\<lparr>ch_block := ch_block ch4 + 1\<rparr>" by blast
  with as b u(1,2,4,5) pd w' show ?thesis
    by (intro exI [of _ as] exI [of _ b] exI [of _ d] exI [of _ es] exI [of _ ch4]) simp
qed

lemma sample_create_upgrade:
  "\<exists>es ch'. tx_exec sample_evm sample_owner sample_factory (MultiCall [MCArgs sample_factory 0 (DeployCreate ''Foo5''),
       MCArgs sample_factory 0 (UpgradeProxy Foo_salt 0x4000FAC (OtherCall ''Foo'' ''initialize'' []))])
     (bump_nonce sample_owner (w_chain sample_world2)) = Inr (es, ch')"
proof -
  have a: "create_addr sample_evm sample_factory 3 = 0x4000FAC" by (simp add: sample_evm_simps sample_addr_defs)
  have "(0x4000FAC :: addr) \<noteq> 0x466F6F0000000000000000000000000000000FAC" by simp
  then show ?thesis
    by (simp add: sample_world2_simps sample_chain_simps factory_exec.simps factory_call.simps auth_def
        multiCall_self_Cons multiCall.simps(1) deployCreate_def Let_def a fresh_account_def sample_evm_simps(4)
        sample_proxy_addr upgradeProxy_own getMetamorphicContractAddress_def initializeContract.simps callAny.simps
        call_other_def sample_evm_simps(6))
qed

lemma sample_multiCallUpgradeProxy:
  "\<exists>pd w'. multiCallUpgradeProxyTask sample_quiet None ''Foo'' sample_factory (Some ''1, 2'') None (Some [JStr ''5''])
     sample_world2 = (Inr pd, w')"
proof -
  from getGasPrices_run [of sample_quiet sample_world2] obtain fees where
    fees: "getGasPrices sample_quiet sample_world2 = (Inr fees, sample_world2)" by metis
  from sample_create_upgrade obtain es ch' where "tx_exec sample_evm sample_owner sample_factory
      (MultiCall [MCArgs sample_factory 0 (DeployCreate ''Foo5''),
         MCArgs sample_factory 0 (UpgradeProxy Foo_salt 0x4000FAC (OtherCall ''Foo'' ''initialize'' []))])
      (bump_nonce sample_owner (w_chain sample_world2)) = Inr (es, ch')" by blast
  note s = sample_quiet_send [OF this]
  have a: "create_addr sample_evm sample_factory (ch_nonce (w_chain sample_world2) sample_factory) = 0x4000FAC"
    by (simp add: sample_world2_simps sample_chain_simps sample_evm_simps sample_addr_defs)
  have i: "read_impl sample_evm 0x466F6F0000000000000000000000000000000FAC (w_chain sample_world2)
      = Some (getImplementationAddress 0)"
    by (simp add: read_impl_def sample_world2_simps)
  show ?thesis
    by (simp add: multiCallUpgradeProxyTask_def Let_def sample_quiet_simps sample_quiet_steps sample_Foo_steps(1)
        saltOrDefault_def encodeDeployCreate_def encodeMultiCallArgs_def a sample_meta i fees s toNumber_def world_simps)
qed

theorem multiCallUpgradeProxy_upgrades_witness:
  "\<exists>pd w'. multiCallUpgradeProxyTask sample_quiet None ''Foo'' sample_factory (Some ''1, 2'') None (Some [JStr ''5''])
     sample_world2 = (Inr pd, w') \<and> pd_logicAddress pd = None \<and> length (sent (w_log w')) = 1"
proof -
  obtain pd w' where r: "multiCallUpgradeProxyTask sample_quiet None ''Foo'' sample_factory (Some ''1, 2'') None
      (Some [JStr ''5'']) sample_world2 = (Inr pd, w')"
    using sample_multiCallUpgradeProxy by blast
  have h: "keccak (hre_evm sample_quiet) METAMORPHIC_CODE = METAMORPHIC_HASH"
    "ch_code (w_chain sample_world2) sample_factory = Some FactoryCode" "hd (signers sample_quiet) \<noteq> sample_factory"
    "saltOrDefault sample_quiet None ''Foo'' sample_world2 = (Inr Foo_salt, sample_world2)"
    "ch_code (w_chain sample_world2) 0x466F6F0000000000000000000000000000000FAC = Some (ProxyCode sample_factory)"
    "sent (w_log sample_world2) = []"
    by (simp_all add: sample_quiet_simps sample_evm_simps sample_quiet_steps saltOrDefault_def sample_world2_def
        sample_world_def sample_chain_simps)
  from multiCallUpgradeProxy_upgrades [OF h(1-4) sample_meta [symmetric] h(5) refl r] r h(6) show ?thesis by auto
qed

section \<open>The functions of alicenetFactory.ts\<close>

lemma af_getEventVar_eq: "af_getEventVar r e v = getEventVar r e v"
  by (simp add: af_getEventVar_def getEventVar_def af_eventLoop_drop split: option.split)

lemma af_getSalt_state: "af_getSalt H c w = (r, w') \<Longrightarrow> w' = w"
proof (rule reads_state)
  show "keeps unchanged (af_getSalt H c)"
    unfolding af_getSalt_def by (intro reads.keeps_rules reads.keeps_artifacts)
qed

text \<open>
  The functions that \<open>alicenetFactory.ts\<close> repeats agree with those of \<open>alicenetFactoryTasks.ts\<close>: the loop over indices and
  the loop over events read the same address from every receipt, errors included, and the salt that
  \<open>getSalt\<close> finds for a contract is the salt the tasks use for it.
\<close>

theorem af_functions_agree:
  assumes "af_getFullyQualifiedName H c = Some q" and "read_artifact H c = Some path" and "q = path @ '':'' @ c"
    and "af_getSalt H c w = (Inr (Some b), w')"
  shows "af_getEventVar r e v = getEventVar r e v \<and> task_getBytes32Salt H c w = (Inr b, w) \<and> w' = w"
proof -
  have w: "w' = w" by (rule af_getSalt_state [OF assms(4)])
  from assms(1,4) obtain info out s where i: "build_info_of H q = Some info"
    and o: "outputContract info (af_extractPath q) (Some c) w = (Inr out, w)"
    and s: "co_devdoc out ''custom:salt'' = Some s" "formatBytes32String H s = Inr b"
    unfolding w by (auto simp: af_getSalt_def world_simps elim!: bnd_InrE fromSum_InrE split: option.splits if_splits)
  with assms(2,3) have "task_getBytes32Salt H c w = (Inr b, w)"
    unfolding af_extractPath_def
    by (simp add: task_getBytes32Salt_def task_getSalt_def task_getFullyQualifiedName_def readArtifact_def
        task_extractPath_def formatSalt_def world_simps)
  with w show ?thesis by (simp add: af_getEventVar_eq)
qed

lemma sample_af_Foo:
  "af_getFullyQualifiedName sample_quiet ''Foo'' = Some (sample_source @ '':'' @ ''Foo'')"
  "read_artifact sample_quiet ''Foo'' = Some sample_source"
  "af_getSalt sample_quiet ''Foo'' w = (Inr (Some Foo_salt), w)"
proof -
  show q: "af_getFullyQualifiedName sample_quiet ''Foo'' = Some (sample_source @ '':'' @ ''Foo'')"
    by (simp add: af_getFullyQualifiedName_def sample_quiet_def sample_hre_simps(10) sample_contracts_def sample_fqn_def
        sample_source_def js_nth_def)
  show "read_artifact sample_quiet ''Foo'' = Some sample_source"
    by (simp add: sample_quiet_def sample_Foo_artifact)
  have i: "build_info_of sample_quiet (sample_source @ '':'' @ ''Foo'') = Some sample_build_info"
    unfolding sample_quiet_def using sample_Foo_artifact(2) by simp
  have p: "af_extractPath (sample_source @ '':'' @ ''Foo'') = sample_source"
    by (simp add: af_extractPath_def sample_source_def)
  have out: "sample_build_info sample_source = Some (map_of sample_contracts)"
    by (simp add: sample_build_info_def)
  have f: "formatBytes32String sample_quiet ''Foo'' = Inr Foo_salt"
    by (simp add: sample_quiet_def sample_hre_simps(15) sample_bytes32_Foo Foo_salt_def)
  obtain o' where o: "map_of sample_contracts ''Foo'' = Some o'" "co_devdoc o' ''custom:salt'' = Some ''Foo''"
    by (simp add: sample_contracts_def sample_doc_def)
  show "af_getSalt sample_quiet ''Foo'' w = (Inr (Some Foo_salt), w)"
    unfolding af_getSalt_def q
    by (simp only: orTypeError_run bnd_Inr i option.case p outputContract_def out o f fromSum_run ret_run list.distinct if_False)
qed

theorem af_functions_agree_witness:
  "task_getBytes32Salt sample_quiet ''Foo'' sample_world = (Inr Foo_salt, sample_world)"
  using af_functions_agree [OF sample_af_Foo(1,2) refl sample_af_Foo(3)] by blast

text \<open>
  C35. \<open>deployUpgradeable\<close> of \<open>alicenetFactory.ts\<close>, for a contract with a salt. When it returns, two transactions were
  sent; the logic contract is at the reported address, the one the factory's nonce determined, which had no
  code before; and the proxy of the salt is at the reported address and points at the logic contract.
\<close>

theorem deployUpgradeable_chain:
  assumes hash: "keccak (hre_evm H) METAMORPHIC_CODE = METAMORPHIC_HASH"
    and code: "ch_code (w_chain w) f = Some FactoryCode" and eoa: "hd (signers H) \<noteq> f"
    and a: "a = create_addr (hre_evm H) f (ch_nonce (w_chain w) f)"
    and run: "deployUpgradeable H c f args w = (Inr res, w')" and salt: "af_proxySalt res = Some salt"
  shows "\<exists>b. deploy_data H c args = Inr (Some b) \<and> af_logicAddress res = a
    \<and> af_proxyAddress res = Some (getMetamorphicAddress H f salt)
    \<and> ch_code (w_chain w) a = None \<and> ch_code (w_chain w) (getMetamorphicAddress H f salt) = None
    \<and> ch_code (w_chain w') = (ch_code (w_chain w))
        (a \<mapsto> LogicCode b, getMetamorphicAddress H f salt \<mapsto> ProxyCode f)
    \<and> ch_storage (w_chain w') (getMetamorphicAddress H f salt) IMPL_SLOT = ucast a
    \<and> sent (w_log w') = sent (w_log w) @ [CallTx f (DeployCreate b),
        CallTx f (MultiCall [MCArgs f 0 (DeployProxy salt), MCArgs f 0 (UpgradeProxy salt a NoData)])]"
proof -
  note unf = deployUpgradeable_def Let_def af_getEventVar_eq DeployedProxyEvent_def contractAddrVar_def
    af_getDeployUpgradeableMultiCallArgs_def encodeMultiCallArgs_def option.case
  from run obtain b where b: "deploy_data H c args = Inr (Some b)"
    unfolding unf by (auto simp: world_simps elim!: bnd_InrE fromSum_InrE split: option.splits)
  from run obtain r w1 where t1: "sendFactoryTx H f (DeployCreate b) None w = (Inr r, w1)"
    unfolding unf by (auto simp: b world_simps elim!: bnd_InrE)
  note s1 = sendDeployCreate [OF code eoa t1 a]
  let ?w1 = "w1\<lparr>w_log := w_log w1 @ [Waited None]\<rparr>"
  from run obtain so where so: "af_getSalt H c ?w1 = (Inr so, ?w1)"
    unfolding unf by (auto simp: b t1 world_simps elim!: bnd_InrE dest: af_getSalt_state)
  have "so = Some salt"
    using run salt unfolding unf
    by (cases so) (auto simp: b t1 so s1(1) world_simps elim!: bnd_InrE fromSum_InrE)
  note so = so [unfolded this]
  let ?mc = "MultiCall [MCArgs f 0 (DeployProxy salt), MCArgs f 0 (UpgradeProxy salt a NoData)]"
  from run obtain r2 w2 where t2: "sendFactoryTx H f ?mc None ?w1 = (Inr r2, w2)"
    unfolding unf by (auto simp: b t1 so s1(1) world_simps elim!: bnd_InrE)
  have code1: "ch_code (w_chain ?w1) f = Some FactoryCode" using code s1(3,4) by simp
  note s2 = sendDeployProxy [OF hash code1 t2]
  from s2(2) have ev: "getEventVar r2 ''DeployedProxy'' ''contractAddr'' = Inr (getMetamorphicAddress H f salt)" by simp
  have res: "af_logicAddress res = a" "af_proxyAddress res = Some (getMetamorphicAddress H f salt)"
    and w': "w_chain w' = w_chain w2" "sent (w_log w') = sent (w_log w2)"
    using run unfolding unf by (auto simp: b t1 so s1(1) t2 ev world_simps)
  from proxied_NoData [OF s2(1) refl] metamorphic_addresses_agree [OF hash, of f salt] s1(2,4)
  have "ch_code (w_chain w) (getMetamorphicAddress H f salt) = None"
    "ch_code (w_chain w2) = (ch_code (w_chain w))(a \<mapsto> LogicCode b, getMetamorphicAddress H f salt \<mapsto> ProxyCode f)"
    "ch_storage (w_chain w2) (getMetamorphicAddress H f salt) IMPL_SLOT = ucast a"
    by (auto split: if_splits)
  with b res w' s1(2,9) s2(4) show ?thesis by simp
qed

lemma sample_deployUpgradeable:
  "\<exists>res w'. deployUpgradeable sample_quiet ''Foo'' sample_factory [JStr ''5''] sample_world = (Inr res, w')
     \<and> af_proxySalt res = Some Foo_salt"
proof -
  obtain es ch' where e: "tx_exec sample_evm sample_owner sample_factory
      (MultiCall (sample_proxy_mc NoData)) (bump_nonce sample_owner sample_chain1)
    = Inr (DeployedProxy sample_factory 0x466F6F0000000000000000000000000000000FAC # es, ch')"
    using sample_proxy_exec by blast
  have ch1: "(new_account 0x4000FAC (LogicCode ''Foo5'') (bump_nonce sample_factory
      (bump_nonce sample_owner sample_chain)))\<lparr>ch_block := Suc (ch_block (new_account 0x4000FAC
      (LogicCode ''Foo5'') (bump_nonce sample_factory (bump_nonce sample_owner sample_chain))))\<rparr> = sample_chain1"
    by (simp add: sample_chain1_def new_account_def bump_nonce_def sample_chain_def)
  note send1 = sample_quiet_send [of sample_factory "DeployCreate ''Foo5''" sample_world, unfolded sample_chain_simps(8),
      OF sample_create]
  let ?w1 = "sample_world\<lparr>w_chain := sample_chain1, w_log := [Sent (CallTx sample_factory (DeployCreate ''Foo5'')) None,
    Waited None]\<rparr>"
  have "w_chain ?w1 = sample_chain1" by simp
  note send2 = sample_quiet_send [of sample_factory _ ?w1, unfolded this, OF e, unfolded sample_proxy_mc_def]
  show ?thesis
    by (simp add: deployUpgradeable_def Let_def sample_quiet_simps send1 ch1 af_getEventVar_eq getEventVar_simps
        sample_chain_simps sample_af_Foo(3) af_getDeployUpgradeableMultiCallArgs_def encodeMultiCallArgs_def send2
        DeployedProxyEvent_def contractAddrVar_def world_simps)
qed

theorem deployUpgradeable_chain_witness:
  "\<exists>res w'. deployUpgradeable sample_quiet ''Foo'' sample_factory [JStr ''5''] sample_world = (Inr res, w')
     \<and> af_logicAddress res = 0x4000FAC \<and> length (sent (w_log w')) = 2"
proof -
  obtain res w' where r: "deployUpgradeable sample_quiet ''Foo'' sample_factory [JStr ''5''] sample_world = (Inr res, w')"
    "af_proxySalt res = Some Foo_salt" using sample_deployUpgradeable by blast
  have h: "keccak (hre_evm sample_quiet) METAMORPHIC_CODE = METAMORPHIC_HASH"
    "ch_code (w_chain sample_world) sample_factory = Some FactoryCode" "hd (signers sample_quiet) \<noteq> sample_factory"
    "0x4000FAC = create_addr (hre_evm sample_quiet) sample_factory (ch_nonce (w_chain sample_world) sample_factory)"
    by (simp_all add: sample_quiet_simps sample_defs) (simp add: sample_addr_defs)
  from deployUpgradeable_chain [OF h r] r show ?thesis by (auto simp: sample_chain_simps)
qed

end
