(* ===== verification/Deployment_Pipeline.thy ===== *)
theory Deployment_Pipeline
  imports Library_Correctness
begin

text \<open>
  The tasks that run a whole deployment: from the generated configuration files to the contracts on the
  chain and the entries in the factory state. The steps are those of the single tasks; here they
  are put together along the deployment list.
\<close>

section \<open>What the result of a script depends on\<close>

text \<open>
  Two worlds in the relation give the same result, and worlds in the relation again. With it a value read
  at one moment of a run can be carried to another.
\<close>

definition agrees :: "(world \<Rightarrow> world \<Rightarrow> bool) \<Rightarrow> 'a js \<Rightarrow> bool" where
  "agrees S m = (\<forall>w1 w2. S w1 w2 \<longrightarrow> fst (m w1) = fst (m w2) \<and> S (snd (m w1)) (snd (m w2)))"

lemma agreesD: "agrees S m \<Longrightarrow> S w1 w2 \<Longrightarrow> m w1 = (r, w1') \<Longrightarrow> \<exists>w2'. m w2 = (r, w2') \<and> S w1' w2'"
  unfolding agrees_def by (metis fst_conv prod.collapse snd_conv)

lemma agrees_pure: "agrees S (ret a)" "agrees S (throw e)" "agrees S (fromSum r)" "agrees S (orTypeError msg v)"
  by (auto simp: agrees_def world_simps orTypeError_def split: option.split)

lemma agrees_bnd:
  assumes "agrees S m" and "\<And>a. agrees S (f a)"
  shows "agrees S (bnd m f)"
  unfolding agrees_def
proof (intro allI impI)
  fix w1 w2
  assume "S w1 w2"
  obtain r w1' where m1: "m w1 = (r, w1')" by (cases "m w1")
  with agreesD [OF assms(1) \<open>S w1 w2\<close>] obtain w2' where m2: "m w2 = (r, w2')" "S w1' w2'" by blast
  with m1 assms(2) show "fst (bnd m f w1) = fst (bnd m f w2) \<and> S (snd (bnd m f w1)) (snd (bnd m f w2))"
    by (cases r) (auto simp: bnd_def agrees_def)
qed

lemma agrees_andThen: "agrees S m \<Longrightarrow> agrees S n \<Longrightarrow> agrees S (andThen m n)"
  unfolding andThen_def by (rule agrees_bnd)

lemma agrees_if: "agrees S m \<Longrightarrow> agrees S n \<Longrightarrow> agrees S (if b then m else n)"
  by simp

lemma agrees_option:
  "agrees S m \<Longrightarrow> (\<And>a. agrees S (f a)) \<Longrightarrow> agrees S (case x of None \<Rightarrow> m | Some a \<Rightarrow> f a)"
  by (cases x) auto

lemma agrees_foldJs: "(\<And>b x. agrees S (f b x)) \<Longrightarrow> agrees S (foldJs f b xs)"
  by (induction xs arbitrary: b) (auto intro: agrees_pure agrees_bnd)

lemma agrees_constructorInputs: "agrees S (constructorInputs ms)"
  by (induction ms) (auto intro!: agrees_pure agrees_bnd)

lemma agrees_extractArgs: "agrees S (extractArgs v)"
proof -
  have "agrees S (firstArg x)" for x
    by (cases x rule: firstArg.cases) (auto intro!: agrees_pure agrees_bnd)
  then show ?thesis unfolding extractArgs_def by (intro agrees_bnd agrees_foldJs agrees_pure)
qed

lemmas agrees_rules = agrees_pure agrees_bnd agrees_andThen agrees_if agrees_option agrees_foldJs
  agrees_constructorInputs agrees_extractArgs

text \<open>The salt of a contract does not depend on the world at all.\<close>

lemma salt_world_independent:
  assumes "task_getBytes32Salt H c w1 = (Inr salt, w1')"
  shows "\<exists>w2'. task_getBytes32Salt H c w2 = (Inr salt, w2')"
proof -
  have "agrees (\<lambda>_ _. True) (consoleLog m)" for m
    by (simp add: agrees_def consoleLog_def world_simps)
  then have "agrees (\<lambda>_ _. True) (task_getBytes32Salt H c)"
    unfolding task_getBytes32Salt_def task_getSalt_def task_getFullyQualifiedName_def readArtifact_def
      outputContract_def formatSalt_def
    by (intro agrees_rules)
  from agreesD [OF this TrueI assms] show ?thesis by blast
qed

text \<open>The arguments of a deployment depend on the argument file only.\<close>

definition same_file :: "path \<Rightarrow> world \<Rightarrow> world \<Rightarrow> bool" where
  "same_file p w1 w2 = (w_fs w1 p = w_fs w2 p)"

lemma agrees_readTOML:
  assumes "p = fs_path u"
  shows "agrees (same_file p) (readTOML H d (Some u))"
proof -
  have "agrees (same_file p) (existsSync u)" "agrees (same_file p) (readFileSync u)"
    by (auto simp: assms agrees_def same_file_def existsSync_def readFileSync_def world_simps
        split: option.split node.split)
  then show ?thesis unfolding readTOML_def Let_def option.case by (intro agrees_rules)
qed

lemma deployArgs_same_file:
  assumes "w_fs w1 (fs_path (deploymentArgsTemplatePath i)) = w_fs w2 (fs_path (deploymentArgsTemplatePath i))"
    and "getDeployUpgradeableProxyArgs H q f wc i out v w1 = (Inr da, w1')"
  shows "getDeployUpgradeableProxyArgs H q f wc i out v w2 = (Inr da, w2)"
proof -
  let ?p = "fs_path (deploymentArgsTemplatePath i)"
  have "agrees (same_file ?p) (getDeployUpgradeableProxyArgs H q f wc i out v)"
    unfolding getDeployUpgradeableProxyArgs_def isInitializable_def hasConstructorArgs_def contractOutput_def
      outputContract_def getDeploymentInitializerArgs_def getDeploymentConstructorArgs_def readDeploymentArgs_def
      Let_def
    by (intro agrees_rules agrees_readTOML refl)
  from agreesD [OF this, of w1 w2] assms obtain w2' where
    "getDeployUpgradeableProxyArgs H q f wc i out v w2 = (Inr da, w2')"
    by (auto simp: same_file_def)
  with reads_state [OF reads.keeps_deployArgs(1)] show ?thesis by metis
qed

section \<open>Deploying one contract\<close>

text \<open>A call of another contract does not remove the code of the factory.\<close>

definition calls_keep_factory :: "evm \<Rightarrow> addr \<Rightarrow> bool" where
  "calls_keep_factory E f =
     (\<forall>ch s t v d es ch'. ext_call E ch s t v d = Inr (es, ch') \<longrightarrow> ch_code ch f = Some FactoryCode \<longrightarrow>
        ch_code ch' f = Some FactoryCode)"

lemma initializeContract_keeps_factory:
  assumes "calls_keep_factory E f" and "p \<noteq> f" and "ch_code ch f = Some FactoryCode"
    and "initializeContract E f p d ch = Inr (es, ch')"
  shows "ch_code ch' f = Some FactoryCode"
  using assms
  by (auto simp: initializeContract.simps callAny.simps call_other_def proxy_admin_def calls_keep_factory_def
      transfer_def set_slot_def split: if_splits option.splits code.splits cdata.splits)

text \<open>The call of the initialiser with the given arguments, or none for a contract without initialiser.\<close>

definition init_call :: "hre \<Rightarrow> string \<Rightarrow> string list \<Rightarrow> cdata \<Rightarrow> bool" where
  "init_call H c args d =
     (encode_call H c INITIALIZER (map JStr args) = Inr d
      \<or> d = NoData \<and> (\<exists>w fq. task_getFullyQualifiedName H c w = (Inr fq, w) \<and> isInitializable H fq w = (Inr False, w)))"

lemma initCallDataOf_InrD:
  assumes "initCallDataOf H c args w = (Inr d, w')"
  shows "init_call H c args d"
proof -
  from assms obtain fq w1 where fq: "task_getFullyQualifiedName H c w = (Inr fq, w1)"
    unfolding initCallDataOf_def by (elim bnd_InrE)
  then have "w1 = w" by (rule reads_state [OF reads.keeps_artifacts(5)])
  note fq = fq [unfolded this]
  from assms obtain b w2 where b: "isInitializable H fq w = (Inr b, w2)"
    unfolding initCallDataOf_def by (auto simp: fq world_simps elim!: bnd_InrE)
  then have "w2 = w" by (rule reads_state [OF reads.keeps_abi(1)])
  note b = b [unfolded this]
  from assms show ?thesis
    unfolding initCallDataOf_def init_call_def using fq b
    by (cases b) (auto simp: world_simps)
qed

text \<open>
  The deployment of an upgradeable contract: in one transaction, or in two when the estimate for the one
  exceeds the limit.
\<close>

abbreviation upgradeable_calls :: "addr \<Rightarrow> bytecode \<Rightarrow> bytes32 \<Rightarrow> addr \<Rightarrow> cdata \<Rightarrow> payload" where
  "upgradeable_calls f b salt a d \<equiv> CallTx f (MultiCall [MCArgs f 0 (DeployCreate b),
     MCArgs f 0 (DeployProxy salt), MCArgs f 0 (UpgradeProxy salt a d)])"

definition upgradeable_txs ::
    "hre \<Rightarrow> DeployArgs \<Rightarrow> chain \<Rightarrow> payload list \<Rightarrow> nat \<Rightarrow> chain \<Rightarrow> bool" where
  "upgradeable_txs H da ch txs gas ch' =
     (let f = da_factoryAddress da; c = da_contractName da; a = create_addr (hre_evm H) f (ch_nonce ch f) in
      \<exists>b salt d w w1.
        deploy_data H c (case da_constructorArgs da of None \<Rightarrow> [] | Some as \<Rightarrow> as) = Inr (Some b)
        \<and> task_getBytes32Salt H c w = (Inr salt, w1) \<and> init_call H c (initArgsOf (da_initCallData da)) d
        \<and> ((deployed_upgradeable H f b salt d ch ch' \<and> txs = [upgradeable_calls f b salt a d]
             \<and> gas = gas_used H ch (upgradeable_calls f b salt a d))
           \<or> (\<exists>ch1. ch_code ch a = None \<and> ch_code ch1 = (ch_code ch)(a \<mapsto> LogicCode b)
               \<and> proxied H f salt a d ch1 ch' \<and> txs = [CallTx f (DeployCreate b), proxy_calls f salt a d]
               \<and> gas = gas_used H ch (CallTx f (DeployCreate b)) + gas_used H ch1 (proxy_calls f salt a d))))"

lemma upgradeable_txs_keep_factory:
  assumes law: "calls_keep_factory (hre_evm H) (da_factoryAddress da)"
    and code: "ch_code ch (da_factoryAddress da) = Some FactoryCode"
    and txs: "upgradeable_txs H da ch txs gas ch'"
  shows "ch_code ch' (da_factoryAddress da) = Some FactoryCode"
proof -
  let ?f = "da_factoryAddress da"
  from txs consider
    b salt d where "deployed_upgradeable H ?f b salt d ch ch'"
  | a b salt d ch1 where "ch_code ch a = None" "ch_code ch1 = (ch_code ch)(a \<mapsto> LogicCode b)"
      "proxied H ?f salt a d ch1 ch'"
    unfolding upgradeable_txs_def Let_def by blast
  then show ?thesis
  proof cases
    case 1
    then obtain ch3 ch4 es where r: "upgradeable_ready (hre_evm H) ?f b salt (bump_nonce (hd (signers H)) ch) ch3"
      and i: "initializeContract (hre_evm H) ?f (getMetamorphicContractAddress (hre_evm H) salt ?f) d ch3
        = Inr (es, ch4)" and ch': "ch' = ch4\<lparr>ch_block := ch_block ch4 + 1\<rparr>"
      unfolding deployed_upgradeable_def by blast
    from r code have "getMetamorphicContractAddress (hre_evm H) salt ?f \<noteq> ?f" "ch_code ch3 ?f = Some FactoryCode"
      by (auto simp: upgradeable_ready_def Let_def)
    from initializeContract_keeps_factory [OF law this i] show ?thesis by (simp add: ch')
  next
    case 2
    then obtain ch2 ch3 ch4 es where c: "ch_code ch2 = ch_code ch1"
      and r: "proxy_ready (hre_evm H) ?f salt a ch2 ch3"
      and i: "initializeContract (hre_evm H) ?f (getMetamorphicContractAddress (hre_evm H) salt ?f) d ch3
        = Inr (es, ch4)" and ch': "ch' = ch4\<lparr>ch_block := ch_block ch4 + 1\<rparr>"
      unfolding proxied_def by blast
    have "ch_code ch2 ?f = Some FactoryCode" using 2 c code by auto
    with r have "getMetamorphicContractAddress (hre_evm H) salt ?f \<noteq> ?f" "ch_code ch3 ?f = Some FactoryCode"
      by (auto simp: proxy_ready_def Let_def)
    from initializeContract_keeps_factory [OF law this i] show ?thesis by (simp add: ch')
  qed
qed

lemma fullMultiCall_upgradeable:
  assumes hash: "keccak (hre_evm H) METAMORPHIC_CODE = METAMORPHIC_HASH"
    and code: "ch_code (w_chain w) (da_factoryAddress da) = Some FactoryCode"
    and eoa: "hd (signers H) \<noteq> da_factoryAddress da"
    and plain: "plain_name H (da_contractName da)"
    and run: "fullMultiCallDeployProxyTask H da w = (Inr pd, w')"
  shows "\<exists>txs gas. upgradeable_txs H da (w_chain w) txs gas (w_chain w') \<and> pd_gas pd = BigNum gas
    \<and> sent (w_log w') = sent (w_log w) @ txs"
  using run
proof (rule fullMultiCall_prefix)
  fix d0 salt w1 w2 cd args g
  assume i: "initCallDataOf H (da_contractName da) (initArgsOf (da_initCallData da)) w = (Inr d0, w)"
    and s: "task_getBytes32Salt H (da_contractName da) w = (Inr salt, w1)"
    and w2: "w_chain w2 = w_chain w" "sent (w_log w2) = sent (w_log w)"
    and cd: "cd_name cd = da_contractName da"
      "cd_constructorArgs cd = (case da_constructorArgs da of None \<Rightarrow> [] | Some as \<Rightarrow> as)"
      "cd_initializerArgs cd = map JStr (initArgsOf (da_initCallData da))"
    and a: "getDeployUpgradeableMultiCallArgs H cd (da_factoryAddress da) (Some d0) w2 = (Inr args, w2)"
    and rest: "(if g < 10000000 then sendUpgradeable H da d0 salt args
        else deployUpgradeableProxyTask H (Some False) (da_contractName da) (da_factoryAddress da)
               (da_initCallData da) (da_outputFolder da) (da_constructorArgs da)) w2 = (Inr pd, w')"
  let ?f = "da_factoryAddress da" and ?c = "da_contractName da"
  let ?a = "create_addr (hre_evm H) ?f (ch_nonce (w_chain w) ?f)"
  show ?thesis
  proof (cases "g < 10000000")
    case True
    with rest have "sendUpgradeable H da d0 salt args w2 = (Inr pd, w')" by simp
    then obtain fees r w3 w5 pd0 where t: "sendFactoryTx H ?f (MultiCall args) (Some fees) w2 = (Inr r, w3)"
      and w5: "w_chain w5 = w_chain w3" "sent (w_log w5) = sent (w_log w3)" and g: "pd_gas pd0 = BigNum (rc_gasUsed r)"
      and u: "updateProxyList H multiCallProxyKeys (network_name H) pd0 (da_outputFolder da) w5 = (Inr pd, w')"
      by (rule sendUpgradeable_InrE) (metis ProxyData.select_convs(6))
    from a obtain b salt' d where b: "deploy_data H (cd_name cd) (cd_constructorArgs cd) = Inr (Some b)"
      and s': "getBytes32Salt H (cd_name cd) w2 = (Inr salt', w2)"
      and d: "if cd_initializerArgs cd = [] then d = (case Some d0 of None \<Rightarrow> NoData | Some i \<Rightarrow> i)
         else encode_call H (cd_name cd) INITIALIZER (cd_initializerArgs cd) = Inr d"
      and args: "args = [MCArgs ?f 0 (DeployCreate b), MCArgs ?f 0 (DeployProxy salt'),
        MCArgs ?f 0 (UpgradeProxy salt' (create_addr (hre_evm H) ?f (ch_nonce (w_chain w2) ?f)) d)]"
      by (rule getDeployUpgradeableMultiCallArgs_InrE)
    have "salt' = salt" using salts_agree [OF plain s] s' cd(1) by simp
    note m = sendDeployUpgradeable [OF hash code [folded w2(1)] eoa args t, unfolded w2 this]
    have "init_call H ?c (initArgsOf (da_initCallData da)) d"
      using d cd initCallDataOf_InrD [OF i] by (auto simp: init_call_def split: if_splits)
    moreover have "pd_gas pd = BigNum (gas_used H (w_chain w) (CallTx ?f (MultiCall args)))"
      using updateProxyList_InrD [OF u] g t w2(1) by (auto elim!: sendFactoryTx_InrE)
    moreover have "w_chain w' = w_chain w3" "sent (w_log w') = sent (w_log w3)"
      using updateProxyList_InrD [OF u] w5 by simp_all
    ultimately have "upgradeable_txs H da (w_chain w) [CallTx ?f (MultiCall args)]
        (gas_used H (w_chain w) (CallTx ?f (MultiCall args))) (w_chain w')"
      unfolding upgradeable_txs_def Let_def using m b s cd args w2 \<open>salt' = salt\<close>
      by (intro exI [of _ b] exI [of _ salt] exI [of _ d] exI [of _ w] exI [of _ w1] conjI disjI1) simp_all
    moreover have "sent (w_log w') = sent (w_log w) @ [CallTx ?f (MultiCall args)]"
      using m w2(2) \<open>sent (w_log w') = _\<close> by simp
    ultimately show ?thesis using \<open>pd_gas pd = _\<close> by blast
  next
    case False
    with rest have d: "deployUpgradeableProxyTask H (Some False) ?c ?f (da_initCallData da)
        (da_outputFolder da) (da_constructorArgs da) w2 = (Inr pd, w')" by simp
    show ?thesis
    proof (rule deployUpgradeableProxyTask_InrE [OF hash code [folded w2(1)] eoa refl d, unfolded w2], goal_cases)
      case (1 b salt d ch1 w3 w4)
      then have "upgradeable_txs H da (w_chain w) [CallTx ?f (DeployCreate b), proxy_calls ?f salt ?a d]
          (gas_used H (w_chain w) (CallTx ?f (DeployCreate b)) + gas_used H ch1 (proxy_calls ?f salt ?a d)) (w_chain w')"
        unfolding upgradeable_txs_def Let_def using initCallDataOf_InrD
        by (intro exI [of _ b] exI [of _ salt] exI [of _ d] exI [of _ w3] exI [of _ w4] conjI disjI2 exI [of _ ch1])
           (assumption | blast | rule refl)+
      with 1 show ?thesis by blast
    qed
  qed
qed

section \<open>Deploying the contracts of the list\<close>

text \<open>The deployment tasks write one file, the factory state of the output folder.\<close>

definition only_file :: "path \<Rightarrow> world \<Rightarrow> world \<Rightarrow> bool" where
  "only_file p w w' = (\<forall>q. q \<noteq> p \<longrightarrow> w_fs w' q = w_fs w q)"

interpretation one_file: effect_frame "only_file p" for p
  by unfold_locales (auto simp: keeps_def only_file_def consoleLog_def logAction_def modW_def)

lemma writeFactoryState_one_file: "keeps (only_file (fs_path (factoryStatePath u))) (writeFactoryState H n f v u)"
proof -
  have "keeps (only_file (fs_path p)) (writeFileSync p s)" for p s
    by (auto simp: keeps_def only_file_def writeFileSync_def)
  then show ?thesis
    unfolding writeFactoryState_def Let_def factoryStatePath_def [symmetric]
    by (intro one_file.keeps_rules one_file.keeps_configs)
qed

lemma fs_path_last:
  assumes "CHR ''/'' \<notin> set t" and "t \<noteq> []"
  shows "last (fs_path (s @ CHR ''/'' # t)) = t"
proof (cases "s = []")
  case True
  with assms show ?thesis by (simp add: fs_path_def js_startsWith_def js_split_no_sep)
qed (simp add: fs_path_child [OF _ assms])

lemma state_file_not_args: "fs_path (deploymentArgsTemplatePath i) \<noteq> fs_path (factoryStatePath u)"
proof -
  have "last (fs_path (deploymentArgsTemplatePath i)) = ''deploymentArgsTemplate''"
    unfolding deploymentArgsTemplatePath_def
    by (cases i) (simp_all only: option.case append_Cons [symmetric], (rule fs_path_last; simp)+)
  moreover have "last (fs_path (factoryStatePath u)) = ''factoryState''"
  proof (cases u)
    case None
    then show ?thesis by (simp add: factoryStatePath_def fs_path_def)
  next
    case (Some p)
    have "last (fs_path (js_strip_slashes p @ ''/factoryState'')) = ''factoryState''"
      by (rule fs_path_last; simp)
    then show ?thesis by (simp only: Some factoryStatePath_def option.case)
  qed
  ultimately show ?thesis by auto
qed

lemma deployArgs_fields:
  assumes "getDeployUpgradeableProxyArgs H q f wc i out v w = (Inr da, w')"
  shows "da_factoryAddress da = f" and "da_outputFolder da = out" and "extractName q = Some (da_contractName da)"
  using assms unfolding getDeployUpgradeableProxyArgs_def
  by (auto simp: world_simps elim!: bnd_InrE orTypeError_InrE)

text \<open>One entry of the list, and the list.\<close>

definition proxy_tx :: "hre \<Rightarrow> addr \<Rightarrow> string \<Rightarrow> chain \<Rightarrow> payload \<Rightarrow> chain \<Rightarrow> bool" where
  "proxy_tx H f c ch tx ch' =
     (\<exists>salt w w1. task_getBytes32Salt H c w = (Inr salt, w1) \<and> tx = CallTx f (DeployProxy salt)
        \<and> ch_code ch (getMetamorphicAddress H f salt) = None
        \<and> ch_code ch' = (ch_code ch)(getMetamorphicAddress H f salt \<mapsto> ProxyCode f)
        \<and> ch_storage ch' (getMetamorphicAddress H f salt) IMPL_SLOT = 0)"

inductive deploys_one ::
    "hre \<Rightarrow> addr \<Rightarrow> (string \<Rightarrow> DeployArgs \<Rightarrow> bool) \<Rightarrow> string \<Rightarrow> chain \<Rightarrow> payload list \<Rightarrow> nat \<Rightarrow> chain \<Rightarrow> bool"
  for H f args where
  upgradeable:
    "nstag H q ''deploy-type'' = Inr (Some ''deployUpgradeable'') \<Longrightarrow> args q da \<Longrightarrow>
     upgradeable_txs H da ch txs gas ch' \<Longrightarrow> deploys_one H f args q ch txs gas ch'"
| only_proxy:
    "nstag H q ''deploy-type'' = Inr (Some ''onlyProxy'') \<Longrightarrow> extractName q = Some c \<Longrightarrow>
     proxy_tx H f c ch tx ch' \<Longrightarrow> deploys_one H f args q ch [tx] (gas_used H ch tx) ch'"
| skipped:
    "nstag H q ''deploy-type'' = Inr t \<Longrightarrow> t \<notin> {Some ''deployUpgradeable'', Some ''onlyProxy''} \<Longrightarrow>
     deploys_one H f args q ch [] 0 ch"

inductive deploys ::
    "hre \<Rightarrow> addr \<Rightarrow> (string \<Rightarrow> DeployArgs \<Rightarrow> bool) \<Rightarrow> string list \<Rightarrow> chain \<Rightarrow> payload list \<Rightarrow> nat \<Rightarrow> chain \<Rightarrow> bool"
  for H f args where
  finished: "deploys H f args [] ch [] 0 ch"
| entry: "deploys_one H f args q ch txs1 g1 ch1 \<Longrightarrow> deploys H f args qs ch1 txs2 g2 ch2 \<Longrightarrow>
     deploys H f args (q # qs) ch (txs1 @ txs2) (g1 + g2) ch2"

lemma deployProxyTask_gas:
  assumes "deployProxyTask H wc salt f w = (Inr pd, w')"
  shows "pd_gas pd = BigNum (gas_used H (w_chain w) (CallTx f (DeployProxy salt)))"
proof -
  from getGasPrices_run [of H w] obtain fees where g: "getGasPrices H w = (Inr fees, w)" by metis
  from assms obtain r w1 where s: "sendFactoryTx H f (DeployProxy salt) (Some fees) w = (Inr r, w1)"
    unfolding deployProxyTask_def Let_def by (auto simp: g elim!: bnd_InrE)
  then have "rc_gasUsed r = gas_used H (w_chain w) (CallTx f (DeployProxy salt))"
    by (auto elim!: sendFactoryTx_InrE)
  with assms g s show ?thesis
    by (auto simp: deployProxyTask_def Let_def bnd_def andThen_def world_simps split: sum.splits if_splits)
qed

text \<open>The source names of the artifacts are paths without a colon.\<close>

definition plain_sources :: "hre \<Rightarrow> bool" where
  "plain_sources H = (\<forall>c p. read_artifact H c = Some p \<longrightarrow> CHR '':'' \<notin> set p)"

lemma extractName_plain:
  assumes "plain_sources H" and "extractName q = Some c"
  shows "plain_name H c"
proof -
  from assms(2) have "c \<in> set (js_split CHR '':'' q)"
    by (auto simp: extractName_def js_nth_def split: if_splits)
  then have "CHR '':'' \<notin> set c" by (rule js_split_elem_no_sep)
  with assms(1) show ?thesis by (auto simp: plain_name_def plain_sources_def split: option.split)
qed

text \<open>The laws the deployment relies on, for a factory of the signer.\<close>

definition deployable_from :: "hre \<Rightarrow> addr \<Rightarrow> bool" where
  "deployable_from H f =
     (keccak (hre_evm H) METAMORPHIC_CODE = METAMORPHIC_HASH \<and> calls_keep_factory (hre_evm H) f
      \<and> plain_sources H \<and> hd (signers H) \<noteq> f)"

lemma bigFrom_InrE:
  assumes "bigFrom b w = (Inr n, w')"
  obtains "w' = w" and "\<And>m. b = BigNum m \<Longrightarrow> n = m"
  using assms by (cases b) (auto simp: world_simps split: if_splits)

lemma upgradeable_step:
  assumes t: "nstag H q ''deploy-type'' = Inr (Some ''deployUpgradeable'')"
    and run: "deployContractsStep H f wc v i out g0 (JStr q) w = (Inr g1, w')"
  obtains da pd where "getDeployUpgradeableProxyArgs H q f wc i out v w = (Inr da, w)"
    and "da_factoryAddress da = f" and "da_outputFolder da = out" and "extractName q = Some (da_contractName da)"
    and "fullMultiCallDeployProxyTask H da w = (Inr pd, w')" and "\<forall>n. pd_gas pd = BigNum n \<longrightarrow> g1 = g0 + n"
proof -
  note unf = deployContractsStep_def getDeployType_def
  from run obtain da w1 where da: "getDeployUpgradeableProxyArgs H q f wc i out v w = (Inr da, w1)"
    unfolding unf by (auto simp: t getCustomNSTag_run world_simps elim!: bnd_InrE)
  then have "w1 = w" by (rule reads_state [OF reads.keeps_deployArgs(1)])
  note da = da [unfolded this]
  from run obtain pd where "fullMultiCallDeployProxyTask H da w = (Inr pd, w')"
    and "\<forall>n. pd_gas pd = BigNum n \<longrightarrow> g1 = g0 + n"
    unfolding unf by (auto simp: t da getCustomNSTag_run world_simps elim!: bnd_InrE bigFrom_InrE)
  with that [OF da deployArgs_fields [OF da]] show thesis by blast
qed

lemma only_proxy_step:
  assumes t: "nstag H q ''deploy-type'' = Inr (Some ''onlyProxy'')"
    and run: "deployContractsStep H f wc v i out g0 (JStr q) w = (Inr g1, w')"
  obtains c salt w1 pd where "extractName q = Some c" and "task_getBytes32Salt H c w = (Inr salt, w1)"
    and "quiet w w1" and "deployProxyTask H wc salt f w1 = (Inr pd, w')" and "\<forall>n. pd_gas pd = BigNum n \<longrightarrow> g1 = g0 + n"
proof -
  note unf = deployContractsStep_def getDeployType_def
  from run obtain c where c: "extractName q = Some c"
    unfolding unf by (auto simp: t getCustomNSTag_run world_simps elim!: bnd_InrE orTypeError_InrE)
  from run obtain salt w1 where s: "task_getBytes32Salt H c w = (Inr salt, w1)"
    unfolding unf by (auto simp: t c getCustomNSTag_run world_simps elim!: bnd_InrE)
  then have w1: "quiet w w1" by (rule keepsD [OF quiet_steps.keeps_salts(1)])
  from run obtain pd where "deployProxyTask H wc salt f w1 = (Inr pd, w')"
    and "\<forall>n. pd_gas pd = BigNum n \<longrightarrow> g1 = g0 + n"
    unfolding unf by (auto simp: t c s getCustomNSTag_run world_simps elim!: bnd_InrE bigFrom_InrE)
  with that [OF c s w1] show thesis by blast
qed

lemma upgradeable_entry:
  assumes env: "deployable_from H f" and code: "ch_code (w_chain w) f = Some FactoryCode"
    and t: "nstag H q ''deploy-type'' = Inr (Some ''deployUpgradeable'')"
    and run: "deployContractsStep H f wc v i out g0 (JStr q) w = (Inr g1, w')"
  shows "\<exists>txs g. g1 = g0 + g \<and> sent (w_log w') = sent (w_log w) @ txs
    \<and> deploys_one H f (\<lambda>q da. getDeployUpgradeableProxyArgs H q f wc i out v w = (Inr da, w)) q
        (w_chain w) txs g (w_chain w')
    \<and> ch_code (w_chain w') f = Some FactoryCode
    \<and> w_fs w' (fs_path (deploymentArgsTemplatePath i)) = w_fs w (fs_path (deploymentArgsTemplatePath i))"
proof -
  let ?p = "fs_path (deploymentArgsTemplatePath i)"
  let ?A = "\<lambda>q da. getDeployUpgradeableProxyArgs H q f wc i out v w = (Inr da, w)"
  from t run obtain da pd where da: "getDeployUpgradeableProxyArgs H q f wc i out v w = (Inr da, w)"
    and fields: "da_factoryAddress da = f" "da_outputFolder da = out" "extractName q = Some (da_contractName da)"
    and pd: "fullMultiCallDeployProxyTask H da w = (Inr pd, w')" and g: "\<forall>n. pd_gas pd = BigNum n \<longrightarrow> g1 = g0 + n"
    by (rule upgradeable_step)
  have plain: "plain_name H (da_contractName da)"
    using extractName_plain fields(3) env by (simp add: deployable_from_def)
  from fullMultiCall_upgradeable [OF _ _ _ plain pd] env code fields(1) obtain txs n where
    u: "upgradeable_txs H da (w_chain w) txs n (w_chain w')" "pd_gas pd = BigNum n"
      "sent (w_log w') = sent (w_log w) @ txs"
    by (auto simp: deployable_from_def)
  have "only_file (fs_path (factoryStatePath out)) w w'"
    by (rule keepsD [OF one_file.keeps_deploy_tasks(4) [OF writeFactoryState_one_file fields(2)] pd])
  then have "w_fs w' ?p = w_fs w ?p" using state_file_not_args by (auto simp: only_file_def)
  moreover have "ch_code (w_chain w') f = Some FactoryCode"
    using upgradeable_txs_keep_factory [OF _ _ u(1)] env code fields(1) by (simp add: deployable_from_def)
  moreover have "deploys_one H f ?A q (w_chain w) txs n (w_chain w')"
    using t da u(1) by (intro deploys_one.upgradeable [of H q ?A da]) auto
  ultimately show ?thesis using g u(2,3) by blast
qed

lemma only_proxy_entry:
  assumes env: "deployable_from H f" and code: "ch_code (w_chain w) f = Some FactoryCode"
    and t: "nstag H q ''deploy-type'' = Inr (Some ''onlyProxy'')"
    and run: "deployContractsStep H f wc v i out g0 (JStr q) w = (Inr g1, w')"
  shows "\<exists>txs g. g1 = g0 + g \<and> sent (w_log w') = sent (w_log w) @ txs
    \<and> deploys_one H f (\<lambda>q da. getDeployUpgradeableProxyArgs H q f wc i out v w = (Inr da, w)) q
        (w_chain w) txs g (w_chain w')
    \<and> ch_code (w_chain w') f = Some FactoryCode
    \<and> w_fs w' (fs_path (deploymentArgsTemplatePath i)) = w_fs w (fs_path (deploymentArgsTemplatePath i))"
proof -
  let ?p = "fs_path (deploymentArgsTemplatePath i)"
  let ?A = "\<lambda>q da. getDeployUpgradeableProxyArgs H q f wc i out v w = (Inr da, w)"
  from t run obtain c salt w1 pd where c: "extractName q = Some c"
    and s: "task_getBytes32Salt H c w = (Inr salt, w1)" and w1: "quiet w w1"
    and pd: "deployProxyTask H wc salt f w1 = (Inr pd, w')" and g: "\<forall>n. pd_gas pd = BigNum n \<longrightarrow> g1 = g0 + n"
    by (rule only_proxy_step)
  have ch: "w_chain w1 = w_chain w" "w_log w1 = w_log w" "w_fs w1 = w_fs w" using w1 by (simp_all add: quiet_def)
  note c' = deployProxyTask_chain [OF code [folded ch(1)] refl pd, unfolded ch]
  have "f \<noteq> getMetamorphicAddress H f salt" using c' code by auto
  moreover have "deploys_one H f ?A q (w_chain w) [CallTx f (DeployProxy salt)]
      (gas_used H (w_chain w) (CallTx f (DeployProxy salt))) (w_chain w')"
    using t c c' s by (intro deploys_one.only_proxy [of H q c]) (auto simp: proxy_tx_def)
  ultimately show ?thesis
    using g deployProxyTask_gas [OF pd] c' code deployProxyTask_log [OF pd] ch by auto
qed

lemma deployContractsStep_InrE:
  assumes env: "deployable_from H f" and code: "ch_code (w_chain w) f = Some FactoryCode"
    and run: "deployContractsStep H f wc v i out g0 x w = (Inr g1, w')"
  obtains q txs g where "x = JStr q" and "g1 = g0 + g" and "sent (w_log w') = sent (w_log w) @ txs"
    and "deploys_one H f (\<lambda>q da. getDeployUpgradeableProxyArgs H q f wc i out v w = (Inr da, w)) q
        (w_chain w) txs g (w_chain w')"
    and "ch_code (w_chain w') f = Some FactoryCode"
    and "w_fs w' (fs_path (deploymentArgsTemplatePath i)) = w_fs w (fs_path (deploymentArgsTemplatePath i))"
proof -
  from run obtain q where q: "x = JStr q"
    unfolding deployContractsStep_def by (cases x) (auto simp: world_simps)
  from run obtain t where t: "nstag H q ''deploy-type'' = Inr t"
    unfolding deployContractsStep_def getDeployType_def
    by (auto simp: q getCustomNSTag_run world_simps elim!: bnd_InrE)
  consider "t = Some ''deployUpgradeable''" | "t = Some ''onlyProxy''"
    | "t \<notin> {Some ''deployUpgradeable'', Some ''onlyProxy''}" by blast
  then show thesis
  proof cases
    case 1
    with upgradeable_entry [OF env code _ run [unfolded q]] t that [OF q] show ?thesis by blast
  next
    case 2
    with only_proxy_entry [OF env code _ run [unfolded q]] t that [OF q] show ?thesis by blast
  next
    case 3
    with run have "g1 = g0" "w' = w"
      unfolding deployContractsStep_def getDeployType_def by (auto simp: q t getCustomNSTag_run world_simps)
    with 3 that [OF q] t code deploys_one.skipped [of H q t] show ?thesis by auto
  qed
qed

lemma deployContracts_fold:
  assumes env: "deployable_from H f" and code: "ch_code (w_chain w) f = Some FactoryCode"
    and same: "w_fs w (fs_path (deploymentArgsTemplatePath i)) = w_fs w0 (fs_path (deploymentArgsTemplatePath i))"
    and run: "foldJs (deployContractsStep H f wc v i out) g0 xs w = (Inr g1, w')"
  shows "\<exists>qs txs g. xs = map JStr qs \<and> g1 = g0 + g \<and> sent (w_log w') = sent (w_log w) @ txs
    \<and> deploys H f (\<lambda>q da. getDeployUpgradeableProxyArgs H q f wc i out v w0 = (Inr da, w0)) qs
        (w_chain w) txs g (w_chain w')"
  using assms(2-)
proof (induction xs arbitrary: g0 w)
  case Nil
  then show ?case by (auto simp: world_simps intro: deploys.finished)
next
  case (Cons x xs)
  let ?A = "\<lambda>w q da. getDeployUpgradeableProxyArgs H q f wc i out v w = (Inr da, w)"
  from Cons.prems(3) obtain g2 w1 where s: "deployContractsStep H f wc v i out g0 x w = (Inr g2, w1)"
    and r: "foldJs (deployContractsStep H f wc v i out) g2 xs w1 = (Inr g1, w')"
    by (auto elim!: bnd_InrE)
  from s obtain q txs1 g where q: "x = JStr q" "g2 = g0 + g" "sent (w_log w1) = sent (w_log w) @ txs1"
    and o: "deploys_one H f (?A w) q (w_chain w) txs1 g (w_chain w1)"
    and c: "ch_code (w_chain w1) f = Some FactoryCode"
      "w_fs w1 (fs_path (deploymentArgsTemplatePath i)) = w_fs w (fs_path (deploymentArgsTemplatePath i))"
    by (rule deployContractsStep_InrE [OF env Cons.prems(1)])
  have "?A w = ?A w0"
    using deployArgs_same_file [OF Cons.prems(2)] deployArgs_same_file [OF Cons.prems(2) [symmetric]]
    by (intro ext) blast
  with o have o: "deploys_one H f (?A w0) q (w_chain w) txs1 g (w_chain w1)" by simp
  from Cons.IH [OF c(1) _ r] c(2) Cons.prems(2) obtain qs txs2 g' where
    "xs = map JStr qs" "g1 = g2 + g'" "sent (w_log w') = sent (w_log w1) @ txs2"
    "deploys H f (?A w0) qs (w_chain w1) txs2 g' (w_chain w')" by auto
  with q deploys.entry [OF o] show ?case
    by (intro exI [of _ "q # qs"] exI [of _ "txs1 @ txs2"] exI [of _ "g + g'"]) auto
qed

section \<open>Recording the contracts of the list\<close>

text \<open>The state file can take another proxy: it is intact, the network has an entry, its proxies are tables.\<close>

definition records_ok :: "hre \<Rightarrow> string option \<Rightarrow> world \<Rightarrow> bool" where
  "records_ok H u w =
     (state_file_ok H u w \<and> state_dir_ok u w
      \<and> obj_get (obj_fields (disk_state H u w)) (network_name H) \<noteq> JUndef
      \<and> table_list (state_get (disk_state H u w) (network_name H, ''proxies'')))"

definition proxies_of :: "hre \<Rightarrow> string option \<Rightarrow> world \<Rightarrow> jsval list" where
  "proxies_of H u w = list_elems (abs_state H u w (network_name H, ''proxies''))"

text \<open>The entries for the upgradeable contracts of a list; the other fields stay as they are.\<close>

definition proxy_entry :: "hre \<Rightarrow> addr \<Rightarrow> string \<Rightarrow> jsval \<Rightarrow> bool" where
  "proxy_entry H f q e =
     (\<exists>pd. e = toml_norm H (JObj (ProxyData_js H multiCallProxyKeys pd)) \<and> pd_logicName pd = extractName q
        \<and> pd_factoryAddress pd = f \<and> pd_receipt pd = None)"

definition is_upgradeable :: "hre \<Rightarrow> string \<Rightarrow> bool" where
  "is_upgradeable H q = (nstag H q ''deploy-type'' = Inr (Some ''deployUpgradeable''))"

definition recorded :: "hre \<Rightarrow> addr \<Rightarrow> string option \<Rightarrow> string list \<Rightarrow> world \<Rightarrow> world \<Rightarrow> bool" where
  "recorded H f u qs w w' =
     (\<exists>es. proxies_of H u w' = proxies_of H u w @ es
        \<and> list_all2 (proxy_entry H f) (filter (is_upgradeable H) qs) es
        \<and> (\<forall>k. k \<noteq> (network_name H, ''proxies'') \<longrightarrow> abs_state H u w' k = abs_state H u w k))"

lemma recorded_trans:
  assumes "recorded H f u [q] w w1" and "recorded H f u qs w1 w2"
  shows "recorded H f u (q # qs) w w2"
proof -
  from assms obtain es1 es2 where e: "proxies_of H u w1 = proxies_of H u w @ es1"
      "list_all2 (proxy_entry H f) (filter (is_upgradeable H) [q]) es1"
      "proxies_of H u w2 = proxies_of H u w1 @ es2"
      "list_all2 (proxy_entry H f) (filter (is_upgradeable H) qs) es2"
    and k: "\<forall>k. k \<noteq> (network_name H, ''proxies'') \<longrightarrow> abs_state H u w2 k = abs_state H u w k"
    unfolding recorded_def by metis
  have "list_all2 (proxy_entry H f) (filter (is_upgradeable H) (q # qs)) (es1 @ es2)"
    using list_all2_appendI [OF e(2,4)] by (cases "is_upgradeable H q") auto
  with e(1,3) k show ?thesis unfolding recorded_def by auto
qed

lemma records_cong:
  assumes "same_state_file u w1 w2"
  shows "records_ok H u w1 = records_ok H u w2" and "proxies_of H u w1 = proxies_of H u w2"
  by (simp_all add: records_ok_def proxies_of_def state_cong [OF assms])

lemma recorded_same_files: "w_fs w' = w_fs w \<Longrightarrow> \<not> is_upgradeable H q \<Longrightarrow> recorded H f u [q] w w'"
  using state_cong(4) [OF same_state_fileI, of w' w] records_cong(2) [OF same_state_fileI, of w' w]
  by (auto simp: recorded_def)

lemma table_list_norm: "table_list (toml_norm H v) \<Longrightarrow> table_list v"
  by (cases v) (auto simp: table_list_def list_all_iff toml_type_norm)

lemma records_ok_append:
  assumes f: "state_file_ok H u w'" "state_dir_ok u w'"
    and k: "abs_state H u w' (network_name H, ''proxies'') = JArr (vs @ [toml_norm H (JObj d)])"
    and t: "list_all (\<lambda>x. toml_type x = ''table'') vs"
  shows "records_ok H u w'"
proof -
  have "table_list (toml_norm H (state_get (disk_state H u w') (network_name H, ''proxies'')))"
    using k t by (simp add: abs_state_def table_list_def)
  moreover have "obj_get (obj_fields (disk_state H u w')) (network_name H) \<noteq> JUndef"
    using k by (auto simp: abs_state_def obj_get_def)
  ultimately show ?thesis using f table_list_norm unfolding records_ok_def by blast
qed

lemma table_list_elems:
  assumes "table_list v"
  shows "list_all (\<lambda>x. toml_type x = ''table'') (list_elems (toml_norm H v))"
  using assms by (cases v) (auto simp: table_list_def list_elems_def list_all_iff toml_type_norm)

lemma fullMultiCall_recorded:
  assumes lib: "toml_library H" and loud: "not_silenced H" and ok: "records_ok H (da_outputFolder da) w"
    and cheap: "\<forall>tx g. estimate_gas H (w_chain w) tx = Inr g \<longrightarrow> g < 10000000"
    and q: "extractName q = Some (da_contractName da)" "is_upgradeable H q"
    and run: "fullMultiCallDeployProxyTask H da w = (Inr pd, w')"
  shows "records_ok H (da_outputFolder da) w' \<and> recorded H (da_factoryAddress da) (da_outputFolder da) [q] w w'"
  using run cheap
proof (rule fullMultiCall_steps)
  fix d0 salt w2 args fees r w3 logic proxy w5
  let ?u = "da_outputFolder da" and ?K = "(network_name H, ''proxies'')"
  let ?pd = "\<lparr>pd_proxyAddress = proxy, pd_salt = salt, pd_logicName = Some (da_contractName da),
    pd_logicAddress = Some logic, pd_factoryAddress = da_factoryAddress da, pd_gas = BigNum (rc_gasUsed r),
    pd_receipt = Some r, pd_initCallData = Some d0\<rparr>"
  assume w2: "w_fs w2 = w_fs w" and t: "sendFactoryTx H (da_factoryAddress da) (MultiCall args) (Some fees) w2 = (Inr r, w3)"
    and w5: "w_fs w5 = w_fs w3"
    and u: "updateProxyList H multiCallProxyKeys (network_name H) ?pd ?u w5 = (Inr pd, w')"
  have "w_fs w3 = w_fs w2" by (rule sendFactoryTx_InrE [OF t]) simp
  then have same: "same_state_file ?u w5 w" using w2 w5 by (intro same_state_fileI) simp
  have "distinct multiCallProxyKeys" by (simp add: multiCallProxyKeys_def)
  with updateProxyList_run [OF lib loud, of ?u w5 "network_name H" multiCallProxyKeys ?pd] u
    ok [folded records_cong(1) [OF same]]
  have a: "abs_state H ?u w' = (abs_state H ?u w)(?K := JArr (proxies_of H ?u w
      @ [toml_norm H (JObj (ProxyData_js H multiCallProxyKeys (?pd\<lparr>pd_receipt := None\<rparr>)))]))"
    and f: "state_file_ok H ?u w'"
    by (auto simp: records_ok_def state_cong(4) [OF same] clear_receipt_ProxyData proxies_of_def)
  have "keeps (only_file (fs_path (factoryStatePath ?u))) (updateProxyList H multiCallProxyKeys (network_name H) ?pd ?u)"
    by (rule one_file.keeps_updates(2) [OF writeFactoryState_one_file])
  from keepsD [OF this u] have "state_dir_ok ?u w' = state_dir_ok ?u w5"
    using append_butlast_last_id [OF factoryStatePath_not_Nil, of ?u]
    by (metis (no_types, lifting) append_self_conv is_dir_def list.distinct(1) only_file_def state_dir_ok_def)
  then have "state_dir_ok ?u w'" using ok state_cong(2) [OF same] by (simp add: records_ok_def)
  moreover have "list_all (\<lambda>x. toml_type x = ''table'') (proxies_of H ?u w)"
    using ok table_list_elems by (auto simp: records_ok_def proxies_of_def abs_state_def)
  ultimately have "records_ok H ?u w'" using f a by (intro records_ok_append) auto
  moreover have "recorded H (da_factoryAddress da) ?u [q] w w'"
    using a q unfolding recorded_def proxies_of_def
    by (intro exI [of _ "[toml_norm H (JObj (ProxyData_js H multiCallProxyKeys (?pd\<lparr>pd_receipt := None\<rparr>)))]"])
       (auto simp: list_elems_def proxy_entry_def)
  ultimately show ?thesis by simp
qed

lemma deployContractsStep_recorded:
  assumes lib: "toml_library H" and loud: "not_silenced H" and ok: "records_ok H out w"
    and cheap: "\<forall>ch tx g. estimate_gas H ch tx = Inr g \<longrightarrow> g < 10000000"
    and run: "deployContractsStep H f wc v i out g0 x w = (Inr g1, w')"
  obtains q where "x = JStr q" and "records_ok H out w'" and "recorded H f out [q] w w'"
proof -
  from run obtain q where q: "x = JStr q"
    unfolding deployContractsStep_def by (cases x) (auto simp: world_simps)
  from run obtain t where t: "nstag H q ''deploy-type'' = Inr t"
    unfolding deployContractsStep_def getDeployType_def
    by (auto simp: q getCustomNSTag_run world_simps elim!: bnd_InrE)
  consider "t = Some ''deployUpgradeable''" | "t = Some ''onlyProxy''"
    | "t \<notin> {Some ''deployUpgradeable'', Some ''onlyProxy''}" by blast
  then show thesis
  proof cases
    case 1
    with t have "nstag H q ''deploy-type'' = Inr (Some ''deployUpgradeable'')" by simp
    from upgradeable_step [OF this run [unfolded q]] obtain da pd where
      "da_factoryAddress da = f" "da_outputFolder da = out" "extractName q = Some (da_contractName da)"
      "fullMultiCallDeployProxyTask H da w = (Inr pd, w')" by metis
    with fullMultiCall_recorded [OF lib loud, of da w q pd w'] ok cheap 1 t that [OF q] show ?thesis
      by (auto simp: is_upgradeable_def)
  next
    case 2
    with t have t': "nstag H q ''deploy-type'' = Inr (Some ''onlyProxy'')" by simp
    from only_proxy_step [OF this run [unfolded q]] have "w_fs w' = w_fs w"
      using deployProxyTask_log by (metis quiet_def)
    with records_cong(1) [OF same_state_fileI, of w' w] recorded_same_files t' ok that [OF q] show ?thesis
      by (auto simp: is_upgradeable_def)
  next
    case 3
    with run have "w' = w"
      unfolding deployContractsStep_def getDeployType_def by (auto simp: q t getCustomNSTag_run world_simps)
    with recorded_same_files [of w' w H q] t 3 ok that [OF q] show ?thesis by (auto simp: is_upgradeable_def)
  qed
qed

lemma deployContracts_fold_recorded:
  assumes lib: "toml_library H" and loud: "not_silenced H" and ok: "records_ok H out w"
    and cheap: "\<forall>ch tx g. estimate_gas H ch tx = Inr g \<longrightarrow> g < 10000000"
    and run: "foldJs (deployContractsStep H f wc v i out) g0 xs w = (Inr g1, w')"
  shows "\<exists>qs. xs = map JStr qs \<and> recorded H f out qs w w'"
  using ok run
proof (induction xs arbitrary: g0 w)
  case Nil
  then show ?case by (auto simp: world_simps recorded_def)
next
  case (Cons x xs)
  from Cons.prems(2) obtain g2 w1 where s: "deployContractsStep H f wc v i out g0 x w = (Inr g2, w1)"
    and r: "foldJs (deployContractsStep H f wc v i out) g2 xs w1 = (Inr g1, w')"
    by (auto elim!: bnd_InrE)
  from deployContractsStep_recorded [OF lib loud Cons.prems(1) cheap s] obtain q where
    q: "x = JStr q" "records_ok H out w1" "recorded H f out [q] w w1" by blast
  from Cons.IH [OF q(2) r] obtain qs where "xs = map JStr qs" "recorded H f out qs w1 w'" by blast
  with q recorded_trans show ?case by (intro exI [of _ "q # qs"]) auto
qed

text \<open>What the task does once it has a factory: it reads the list and folds over it.\<close>

definition deployListed ::
    "hre \<Rightarrow> addr \<Rightarrow> bool \<Rightarrow> bool \<Rightarrow> string option \<Rightarrow> string option \<Rightarrow> nat \<Rightarrow> unit js" where
  "deployListed H f wc v i out g0 =
     bnd (getDeploymentList H i) (\<lambda>list.
     bnd (orTypeError ''Cannot read properties of undefined'' (js_elements list)) (\<lambda>contracts.
     bnd (foldJs (deployContractsStep H f (Some wc) (Some v) i out) g0 contracts) (\<lambda>cumulativeGasUsed.
       consoleLog (''total gas used: '' @ js_show_nat cumulativeGasUsed))))"

lemma deployListed_InrE:
  assumes run: "deployListed H f wc v i out g0 w = (Inr (), w')"
  obtains l xs g w2 where "getDeploymentList H i w = (Inr l, w)" and "js_elements l = Some xs"
    and "foldJs (deployContractsStep H f (Some wc) (Some v) i out) g0 xs w = (Inr g, w2)"
    and "consoleLog (''total gas used: '' @ js_show_nat g) w2 = (Inr (), w')"
proof -
  from run obtain l w1 where l: "getDeploymentList H i w = (Inr l, w1)"
    unfolding deployListed_def by (auto elim!: bnd_InrE)
  then have "w1 = w" by (rule reads_state [OF reads.keeps_configs(4)])
  note l = l [unfolded this]
  from run obtain xs where xs: "js_elements l = Some xs"
    unfolding deployListed_def by (auto simp: l world_simps elim!: bnd_InrE orTypeError_InrE)
  from run obtain g w2 where "foldJs (deployContractsStep H f (Some wc) (Some v) i out) g0 xs w = (Inr g, w2)"
    and "consoleLog (''total gas used: '' @ js_show_nat g) w2 = (Inr (), w')"
    unfolding deployListed_def by (auto simp: l xs world_simps elim!: bnd_InrE)
  with that [OF l xs] show thesis by blast
qed

lemma deployContractsTask_given:
  assumes "deployContractsTask H wc v (Some f) i out w = (Inr (), w')"
  obtains w0 where "checkUserDirPath out w = (Inr (), w0)" and "same_chain w w0"
    and "deployListed H f wc v i out 0 w0 = (Inr (), w')"
proof -
  from assms obtain w0 where w0: "checkUserDirPath out w = (Inr (), w0)"
    unfolding deployContractsTask_def by (auto elim!: andThen_InrE)
  from assms have "deployListed H f wc v i out 0 w0 = (Inr (), w')"
    unfolding deployContractsTask_def deployListed_def by (simp add: w0 world_simps)
  with that [OF w0 keepsD [OF chain_writes.keeps_checkUserDirPath w0]] show thesis by blast
qed

lemma deployContractsTask_new:
  assumes "deployContractsTask H wc v None i out w = (Inr (), w')"
  obtains w0 fd w1 where "checkUserDirPath out w = (Inr (), w0)" and "same_chain w w0"
    and "deployFactoryTask H (Some False) (Some v) out w0 = (Inr fd, w1)"
    and "deployListed H (fd_address fd) wc v i out (fd_gas fd) w1 = (Inr (), w')"
proof -
  from assms obtain w0 where w0: "checkUserDirPath out w = (Inr (), w0)"
    unfolding deployContractsTask_def by (auto elim!: andThen_InrE)
  from assms obtain fd w1 where f: "deployFactoryTask H (Some False) (Some v) out w0 = (Inr fd, w1)"
    unfolding deployContractsTask_def by (auto simp: w0 bnd_assoc world_simps elim!: bnd_InrE)
  from assms have "deployListed H (fd_address fd) wc v i out (fd_gas fd) w1 = (Inr (), w')"
    unfolding deployContractsTask_def deployListed_def by (simp add: w0 f bnd_assoc world_simps)
  with that [OF w0 keepsD [OF chain_writes.keeps_checkUserDirPath w0] f] show thesis by blast
qed

lemma deployListed_deploys:
  assumes env: "deployable_from H f" and code: "ch_code (w_chain w) f = Some FactoryCode"
    and run: "deployListed H f wc v i out g0 w = (Inr (), w')"
  shows "\<exists>l qs txs g. getDeploymentList H i w = (Inr l, w) \<and> js_elements l = Some (map JStr qs)
    \<and> deploys H f (\<lambda>q da. getDeployUpgradeableProxyArgs H q f (Some wc) i out (Some v) w = (Inr da, w)) qs
        (w_chain w) txs g (w_chain w')
    \<and> sent (w_log w') = sent (w_log w) @ txs
    \<and> last (w_console w') = ''total gas used: '' @ js_show_nat (g0 + g)"
  using run
proof (rule deployListed_InrE)
  fix l xs g1 w2
  assume l: "getDeploymentList H i w = (Inr l, w)" "js_elements l = Some xs"
    and f: "foldJs (deployContractsStep H f (Some wc) (Some v) i out) g0 xs w = (Inr g1, w2)"
    and w': "consoleLog (''total gas used: '' @ js_show_nat g1) w2 = (Inr (), w')"
  from deployContracts_fold [OF env code refl f] obtain qs txs g where
    "xs = map JStr qs" "g1 = g0 + g" "sent (w_log w2) = sent (w_log w) @ txs"
    "deploys H f (\<lambda>q da. getDeployUpgradeableProxyArgs H q f (Some wc) i out (Some v) w = (Inr da, w)) qs
       (w_chain w) txs g (w_chain w2)" by blast
  with w' l show ?thesis
    by (intro exI [of _ l] exI [of _ qs] exI [of _ txs] exI [of _ g]) (auto simp: consoleLog_run)
qed

section \<open>Properties\<close>

text \<open>
  C3. The task \<open>deployContracts\<close> with a given factory. When it returns, it has gone through the deployment list in
  order: an upgradeable contract was deployed behind the proxy of its salt and initialised, with the
  arguments of the argument file, in one transaction or in two; for an entry of the type \<open>onlyProxy\<close> the
  proxy was created; other entries were left out. Nothing else was sent, and the total printed last is the
  sum of the gas of all these transactions.
\<close>

theorem deployContracts_deploys:
  assumes env: "deployable_from H f" and code: "ch_code (w_chain w) f = Some FactoryCode"
    and run: "deployContractsTask H wc v (Some f) i out w = (Inr (), w')"
  shows "\<exists>w0 l qs txs g. checkUserDirPath out w = (Inr (), w0) \<and> getDeploymentList H i w0 = (Inr l, w0)
    \<and> js_elements l = Some (map JStr qs)
    \<and> deploys H f (\<lambda>q da. getDeployUpgradeableProxyArgs H q f (Some wc) i out (Some v) w0 = (Inr da, w0)) qs
        (w_chain w) txs g (w_chain w')
    \<and> sent (w_log w') = sent (w_log w) @ txs
    \<and> last (w_console w') = ''total gas used: '' @ js_show_nat g"
  using run
proof (rule deployContractsTask_given)
  fix w0
  assume w0: "checkUserDirPath out w = (Inr (), w0)" "same_chain w w0" and r: "deployListed H f wc v i out 0 w0 = (Inr (), w')"
  have "ch_code (w_chain w0) f = Some FactoryCode" using code w0(2) by (simp add: same_chain_def)
  from deployListed_deploys [OF env this r] w0 show ?thesis by (auto simp: same_chain_def)
qed

text \<open>A deployment list with an upgradeable contract and an entry without a type, and its arguments.\<close>

definition sample_list :: jsval where
  "sample_list = JObj [(''deploymentList'', JArr [JStr (sample_fqn ''Foo''), JStr (sample_fqn ''AliceNetFactory'')])]"

definition sample_args :: jsval where
  "sample_args =
     JObj [(''constructor'', JObj [(sample_fqn ''Foo'', JArr [JObj [(''size_'', JStr ''5'')]])]),
           (''initializer'', JObj [(sample_fqn ''Foo'', JArr [JObj [(''rate_'', JStr ''1'')], JObj [(''cap_'', JStr ''2'')]])])]"

definition sample_deployment :: world where
  "sample_deployment = sample_world1\<lparr>w_fs := (w_fs sample_world1)
     ([''out'', ''deploymentList''] \<mapsto> File (enc sample_list),
      [''out'', ''deploymentArgsTemplate''] \<mapsto> File (enc sample_args))\<rparr>"

lemma sample_config_parse:
  "toml_parse sample_hre (enc sample_list) = Inr sample_list"
  "toml_parse sample_hre (enc sample_args) = Inr sample_args"
  using sample_toml_roundtrip [of "[(''deploymentList'', JArr [JStr (sample_fqn ''Foo''), JStr (sample_fqn ''AliceNetFactory'')])]"]
    sample_toml_roundtrip [of "[(''constructor'', JObj [(sample_fqn ''Foo'', JArr [JObj [(''size_'', JStr ''5'')]])]),
      (''initializer'', JObj [(sample_fqn ''Foo'', JArr [JObj [(''rate_'', JStr ''1'')], JObj [(''cap_'', JStr ''2'')]])])]"]
  by (simp_all add: sample_hre_def sample_hre0_def sample_list_def sample_args_def toml_order_def)

lemma sample_config_paths:
  "fs_path (deploymentListPath (Some ''out'')) = [''out'', ''deploymentList'']"
  "fs_path (deploymentArgsTemplatePath (Some ''out'')) = [''out'', ''deploymentArgsTemplate'']"
  "fs_path (factoryStatePath (Some ''out'')) = [''out'', ''factoryState'']" "fs_path ''out'' = [''out'']"
  by code_simp+

lemma sample_deployment_files:
  "w_fs sample_deployment [''out'', ''deploymentList''] = Some (File (enc sample_list))"
  "w_fs sample_deployment [''out'', ''deploymentArgsTemplate''] = Some (File (enc sample_args))"
  "w_fs sample_deployment [''out''] = Some Dir" "w_chain sample_deployment = sample_chain"
  "w_log sample_deployment = []" "same_state_file (Some ''out'') sample_deployment sample_world1"
  by (simp_all add: sample_deployment_def sample_world1_def sample_world_def sample_files_def sample_chain_simps
      same_state_file_def sample_config_paths)

lemma sample_deployment_dir: "checkUserDirPath (Some ''out'') sample_deployment = (Inr (), sample_deployment)"
  by (simp add: checkUserDirPath_def existsSync_def statIsFile_def sample_config_paths sample_deployment_files
      bnd_def andThen_def world_simps)

lemma sample_deployment_list:
  "getDeploymentList sample_hre (Some ''out'') sample_deployment
     = (Inr (JArr [JStr (sample_fqn ''Foo''), JStr (sample_fqn ''AliceNetFactory'')]), sample_deployment)"
  by (simp add: getDeploymentList_def readDeploymentList_def readTOML_def existsSync_def readFileSync_def Let_def
      sample_config_paths sample_deployment_files sample_config_parse bnd_def world_simps)
     (simp add: sample_list_def obj_get_def world_simps)

lemma sample_arg_keys:
  "js_keys [(''size_'', JStr ''5'')] = [''size_'']" "js_keys [(''rate_'', JStr ''1'')] = [''rate_'']"
  "js_keys [(''cap_'', JStr ''2'')] = [''cap_'']"
  by code_simp+

lemma sample_deployment_args:
  "getDeploymentInitializerArgs sample_hre (sample_fqn ''Foo'') (Some ''out'') sample_deployment
     = (Inr (Some [JStr ''1'', JStr ''2'']), sample_deployment)"
  "getDeploymentConstructorArgs sample_hre (sample_fqn ''Foo'') (Some ''out'') sample_deployment
     = (Inr [JStr ''5''], sample_deployment)"
  by (simp_all add: getDeploymentInitializerArgs_def getDeploymentConstructorArgs_def readDeploymentArgs_def readTOML_def
      existsSync_def readFileSync_def Let_def sample_config_paths sample_deployment_files sample_config_parse bnd_def world_simps)
     (simp_all add: sample_args_def obj_get_def extractArgs_def bnd_def world_simps sample_arg_keys)

lemma sample_deployArgs:
  "\<exists>da. getDeployUpgradeableProxyArgs sample_hre (sample_fqn ''Foo'') sample_factory wc (Some ''out'') (Some ''out'')
       (Some False) sample_deployment = (Inr da, sample_deployment)
     \<and> da_contractName da = ''Foo'' \<and> da_factoryAddress da = sample_factory \<and> da_outputFolder da = Some ''out''
     \<and> da_constructorArgs da = Some [JStr ''5''] \<and> initArgsOf (da_initCallData da) = [''1'', ''2'']
     \<and> da_verify da \<noteq> Some True"
proof -
  have "isInitializable sample_hre (sample_fqn ''Foo'') w = (Inr True, w)"
    "hasConstructorArgs sample_hre (sample_fqn ''Foo'') w = (Inr True, w)" for w
    by (simp_all add: isInitializable_def hasConstructorArgs_def contractOutput_def outputContract_def extractPath_def
        extractName_def js_nth_def bnd_def world_simps sample_defs sample_contracts_def sample_source_def
        sample_fqn_def sample_build_info_def sample_abi_def)
  moreover have "extractName (sample_fqn ''Foo'') = Some ''Foo''" by code_simp
  moreover have "initArgsOf (getEncodedInitCallData (Some [JStr ''1'', JStr ''2''])) = [''1'', ''2'']" by code_simp
  ultimately show ?thesis
    by (simp add: getDeployUpgradeableProxyArgs_def sample_deployment_args world_simps)
qed

lemma sample_deployable: "deployable_from sample_hre sample_factory"
  by (auto simp: deployable_from_def sample_keccak calls_keep_factory_def plain_sources_def sample_defs sample_source_def)

lemma sample_untagged: "getCustomNSTag sample_hre (sample_fqn ''AliceNetFactory'') ''deploy-type'' w = (Inr None, w)"
  by (simp add: getCustomNSTag_def outputContract_def extractPath_def extractName_def js_nth_def
      bnd_def world_simps sample_defs sample_contracts_def sample_source_def sample_fqn_def
      sample_build_info_def sample_doc_def)

lemma sample_deployContracts:
  "\<exists>w'. deployContractsTask sample_hre False False (Some sample_factory) (Some ''out'') (Some ''out'') sample_deployment
     = (Inr (), w')"
proof -
  obtain da where da: "getDeployUpgradeableProxyArgs sample_hre (sample_fqn ''Foo'') sample_factory (Some False)
      (Some ''out'') (Some ''out'') (Some False) sample_deployment = (Inr da, sample_deployment)"
    and fields: "da_contractName da = ''Foo''" "da_factoryAddress da = sample_factory" "da_outputFolder da = Some ''out''"
      "da_constructorArgs da = Some [JStr ''5'']" "initArgsOf (da_initCallData da) = [''1'', ''2'']" "da_verify da \<noteq> Some True"
    using sample_deployArgs by blast
  obtain pd w1 where pd: "fullMultiCallDeployProxyTask sample_hre da sample_deployment = (Inr pd, w1)"
    using sample_deploy_runs [OF sample_deployment_files(4,6) fields] by blast
  have c: "ch_code (w_chain sample_deployment) (da_factoryAddress da) = Some FactoryCode" "hd (signers sample_hre) \<noteq> da_factoryAddress da"
    by (simp_all add: fields sample_deployment_files sample_defs)
  have n: "plain_name sample_hre (da_contractName da)"
    by (simp add: fields plain_name_def sample_Foo_artifact sample_source_def)
  from fullMultiCall_upgradeable [OF sample_keccak c n pd] obtain g where g: "pd_gas pd = BigNum g" by blast
  show ?thesis
    by (simp add: deployContractsTask_def sample_untagged sample_deployment_dir sample_deployment_list deployContractsStep_def
        getDeployType_def sample_tags(1) da pd g world_simps)
qed

theorem deployContracts_deploys_witness:
  "\<exists>w' txs. deployContractsTask sample_hre False False (Some sample_factory) (Some ''out'') (Some ''out'') sample_deployment
       = (Inr (), w') \<and> sent (w_log w') = txs
     \<and> (\<exists>qs args g. deploys sample_hre sample_factory args qs sample_chain txs g (w_chain w')
          \<and> qs = [sample_fqn ''Foo'', sample_fqn ''AliceNetFactory''] \<and> last (w_console w') = ''total gas used: '' @ js_show_nat g)"
proof -
  obtain w' where r: "deployContractsTask sample_hre False False (Some sample_factory) (Some ''out'') (Some ''out'')
      sample_deployment = (Inr (), w')" using sample_deployContracts by blast
  have "ch_code (w_chain sample_deployment) sample_factory = Some FactoryCode"
    by (simp add: sample_deployment_files sample_chain_simps)
  from deployContracts_deploys [OF sample_deployable this r] obtain l qs txs g args where
    "getDeploymentList sample_hre (Some ''out'') sample_deployment = (Inr l, sample_deployment)"
    "js_elements l = Some (map JStr qs)" "deploys sample_hre sample_factory args qs sample_chain txs g (w_chain w')"
    "sent (w_log w') = txs" "last (w_console w') = ''total gas used: '' @ js_show_nat g"
    by (auto simp: sample_deployment_dir sample_deployment_files)
  moreover then have "qs = [sample_fqn ''Foo'', sample_fqn ''AliceNetFactory'']"
    by (auto simp: sample_deployment_list Cons_eq_map_conv)
  ultimately show ?thesis using r by blast
qed



text \<open>
  C4. The task \<open>deployContracts\<close> without a factory address. When it returns, it has first created a factory at the next
  address of the first account, and has then deployed the contracts of the list through that factory, in
  order. The creation of the factory is the first transaction sent, those of the list follow, and the total
  printed is the recorded gas of the factory plus the gas of the others.
\<close>

theorem deployContracts_bootstraps:
  assumes f: "f = create_addr (hre_evm H) (hd (signers H)) (ch_nonce (w_chain w) (hd (signers H)))"
    and env: "deployable_from H f" and run: "deployContractsTask H wc v None i out w = (Inr (), w')"
  shows "\<exists>w0 fd w1 legacy l qs txs g. checkUserDirPath out w = (Inr (), w0)
    \<and> deployFactoryTask H (Some False) (Some v) out w0 = (Inr fd, w1) \<and> fd_address fd = f
    \<and> ch_code (w_chain w1) f = Some FactoryCode
    \<and> getDeploymentList H i w1 = (Inr l, w1) \<and> js_elements l = Some (map JStr qs)
    \<and> deploys H f (\<lambda>q da. getDeployUpgradeableProxyArgs H q f (Some wc) i out (Some v) w1 = (Inr da, w1)) qs
        (w_chain w1) txs g (w_chain w')
    \<and> sent (w_log w') = sent (w_log w) @ CreateFactoryTx legacy # txs
    \<and> last (w_console w') = ''total gas used: '' @ js_show_nat (fd_gas fd + g)"
  using run
proof (rule deployContractsTask_new)
  fix w0 fd w1
  assume w0: "checkUserDirPath out w = (Inr (), w0)" "same_chain w w0"
    and t: "deployFactoryTask H (Some False) (Some v) out w0 = (Inr fd, w1)"
    and r: "deployListed H (fd_address fd) wc v i out (fd_gas fd) w1 = (Inr (), w')"
  have a: "fd_address fd = f" using deployFactoryTask_ready(1) [OF t] w0(2) f by (simp add: same_chain_def)
  note c = deployFactoryTask_ready(2) [OF t, unfolded a]
  from deployFactoryTask_sends [OF t] obtain legacy where
    "sent (w_log w1) = sent (w_log w) @ [CreateFactoryTx legacy]" using w0(2) by (auto simp: same_chain_def)
  moreover obtain l qs txs g where "getDeploymentList H i w1 = (Inr l, w1)" "js_elements l = Some (map JStr qs)"
    "deploys H f (\<lambda>q da. getDeployUpgradeableProxyArgs H q f (Some wc) i out (Some v) w1 = (Inr da, w1)) qs
        (w_chain w1) txs g (w_chain w')" "sent (w_log w') = sent (w_log w1) @ txs"
    "last (w_console w') = ''total gas used: '' @ js_show_nat (fd_gas fd + g)"
    using deployListed_deploys [OF env c r [unfolded a]] by blast
  ultimately show ?thesis using w0(1) t a c
    by (intro exI [of _ w0] exI [of _ fd] exI [of _ w1] exI [of _ legacy] exI [of _ l] exI [of _ qs]
        exI [of _ txs] exI [of _ g]) simp
qed

text \<open>The list of the sample deployment on a network without a factory, where no contract has a deploy type.\<close>

lemma sample_bootstrap:
  "\<exists>w'. deployContractsTask sample_first False False None (Some ''out'') None sample_deployment = (Inr (), w')"
proof -
  obtain fd w1 where f: "deployFactoryTask sample_first (Some False) (Some False) None sample_deployment = (Inr fd, w1)"
    and w1: "w_fs w1 = w_fs sample_deployment"
    using sample_deployFactory [of "Some False" sample_deployment "Some False"] sample_deployment_files(4) by auto
  have p: "toml_parse sample_first = toml_parse sample_hre" by (simp add: sample_first_def sample_quiet_def)
  have "getDeploymentList sample_first (Some ''out'') w1
      = (Inr (JArr [JStr (sample_fqn ''Foo''), JStr (sample_fqn ''AliceNetFactory'')]), w1)"
    by (simp add: getDeploymentList_def readDeploymentList_def readTOML_def existsSync_def readFileSync_def Let_def w1 p
        sample_config_paths sample_deployment_files sample_config_parse bnd_def world_simps)
       (simp add: sample_list_def obj_get_def world_simps)
  moreover have "getDeployType sample_first (sample_fqn c) w = (Inr None, w)" if "c \<in> {''Foo'', ''AliceNetFactory''}" for c w
    using that by (auto simp: getDeployType_def getCustomNSTag_def outputContract_def extractPath_def extractName_def
        js_nth_def sample_fqn_def sample_source_def sample_first_def bnd_def world_simps)
  ultimately show ?thesis
    by (simp add: deployContractsTask_def checkUserDirPath_def f deployContractsStep_def bnd_assoc world_simps)
qed

theorem deployContracts_bootstraps_witness:
  "\<exists>w' legacy fd w1. deployContractsTask sample_first False False None (Some ''out'') None sample_deployment = (Inr (), w')
     \<and> deployFactoryTask sample_first (Some False) (Some False) None sample_deployment = (Inr fd, w1)
     \<and> fd_address fd = 0x10A11CE \<and> ch_code (w_chain w1) 0x10A11CE = Some FactoryCode
     \<and> hd (sent (w_log w')) = CreateFactoryTx legacy"
proof -
  obtain w' where r: "deployContractsTask sample_first False False None (Some ''out'') None sample_deployment = (Inr (), w')"
    using sample_bootstrap by blast
  have s: "hre_evm sample_first = sample_evm" "signers sample_first = [sample_owner, 0xB0B]"
    by (simp_all add: sample_first_def sample_quiet_simps)
  have f: "0x10A11CE = create_addr (hre_evm sample_first) (hd (signers sample_first))
      (ch_nonce (w_chain sample_deployment) (hd (signers sample_first)))"
    by (simp add: s sample_deployment_files sample_evm_simps sample_chain_simps sample_addr_defs)
  have "plain_sources sample_first" by (simp add: plain_sources_def sample_first_def)
  moreover have "calls_keep_factory sample_evm 0x10A11CE" by (simp add: calls_keep_factory_def sample_evm_simps)
  moreover have "hd [sample_owner, 0xB0B] \<noteq> 0x10A11CE" by (simp add: sample_addr_defs)
  ultimately have env: "deployable_from sample_first 0x10A11CE"
    using sample_keccak by (simp only: deployable_from_def s sample_hre_simps) simp
  from deployContracts_bootstraps [OF f env r] r show ?thesis
    by (auto simp: checkUserDirPath_def world_simps sample_deployment_files)
qed

end
