(* ===== verification/Admin_Tasks.thy ===== *)
theory Admin_Tasks
  imports Task_Frames
begin

text \<open>
  The administration tasks of \<^verbatim>\<open>scripts/lib/alicenetTasks.ts\<close>: calls of the system's contracts through the
  factory, transfers and balances, and requests to a hardhat node. A transaction is executed when it is
  sent; a transaction that would revert, or that its sender cannot pay, is rejected and not sent.
  Addresses in task arguments are addresses, and amounts that \<open>BigNumber.from\<close> reads are integers. A receipt
  is printed as an object whose fields are left out.
\<close>

section \<open>The client library\<close>

text \<open>A message with a value to an account: a transfer, a factory, or another contract.\<close>

definition value_exec :: "evm \<Rightarrow> addr \<Rightarrow> addr \<Rightarrow> nat \<Rightarrow> cdata \<Rightarrow> chain \<Rightarrow> call_result" where
  "value_exec E src dst val data ch =
     (case ch_code ch dst of
        None \<Rightarrow> Inr ([], transfer src dst val ch)
      | Some FactoryCode \<Rightarrow> factory_exec E dst src val data ch
      | Some _ \<Rightarrow> ext_call E ch src dst val data)"

definition pay_fee :: "addr \<Rightarrow> nat \<Rightarrow> chain \<Rightarrow> chain" where
  "pay_fee src fee ch = ch\<lparr>ch_balance := (ch_balance ch)(src := ch_balance ch src - fee)\<rparr>"

text \<open>\<open>signer.sendTransaction({to, value, data})\<close>\<close>

definition sendValue :: "hre \<Rightarrow> payload \<Rightarrow> addr \<Rightarrow> addr \<Rightarrow> int \<Rightarrow> cdata \<Rightarrow> receipt js" where
  "sendValue H tx src dst val data =
     (if val < 0 then throw (LibErr ''value out-of-bounds'')
      else
        bnd (getW w_chain) (\<lambda>ch.
        let fee = tx_fee H ch tx in
        if ch_balance ch src < nat val + fee then throw (LibErr ''insufficient funds'')
        else
          (case value_exec (hre_evm H) src dst (nat val) data (pay_fee src fee (bump_nonce src ch)) of
             Inl r \<Rightarrow> throw (TxReverted r)
           | Inr (es, ch') \<Rightarrow>
               andThen (modW (\<lambda>w. w\<lparr>w_chain := ch'\<lparr>ch_block := ch_block ch' + 1\<rparr>\<rparr>))
               (andThen (logAction (Sent tx None))
               (ret \<lparr>rc_events = Some (map (receipt_event_of H) es),
                     rc_gasUsed = gas_used H ch tx, rc_status = 1\<rparr>)))))"

definition sendTransaction :: "hre \<Rightarrow> addr \<Rightarrow> addr \<Rightarrow> int \<Rightarrow> receipt js" where
  "sendTransaction H src dst val = sendValue H (SendTx src dst (nat val)) src dst val NoData"

definition getBalance :: "addr \<Rightarrow> nat js" where
  "getBalance a = getW (\<lambda>w. ch_balance (w_chain w) a)"

text \<open>\<open>BigNumber.from\<close> of a number, \<open>None\<close> being \<open>NaN\<close>.\<close>

definition bigFromNumber :: "int option \<Rightarrow> int js" where
  "bigFromNumber n =
     (case n of
        None \<Rightarrow> throw (LibErr ''invalid BigNumber string'')
      | Some i \<Rightarrow> if \<bar>i\<bar> < 2 ^ 53 - 1 then ret i else throw (LibErr ''overflow''))"

text \<open>\<open>factory.lookup(salt)\<close>, a view call.\<close>

definition lookupSalt :: "hre \<Rightarrow> addr \<Rightarrow> bytes32 \<Rightarrow> addr js" where
  "lookupSalt H factory salt =
     bnd (getW w_chain) (\<lambda>ch.
       if ch_code ch factory = Some FactoryCode then ret (lookup (hre_evm H) factory salt ch)
       else throw (LibErr ''call revert exception''))"

definition factoryLookup :: "hre \<Rightarrow> addr \<Rightarrow> string \<Rightarrow> addr js" where
  "factoryLookup H factory name = bnd (fromSum (formatBytes32String H name)) (lookupSalt H factory)"

text \<open>\<open>catch\<close> sees what the call throws, not what \<open>formatBytes32String\<close> throws.\<close>

definition factoryLookupAddress :: "hre \<Rightarrow> addr \<Rightarrow> string \<Rightarrow> addr js" where
  "factoryLookupAddress H factoryAdress salt =
     bnd (fromSum (formatBytes32String H salt)) (\<lambda>saltBytes.
       tryCatch (lookupSalt H factoryAdress saltBytes)
         (\<lambda>error. throw (Err (''Invalid factory-address '' @ addr_hex H factoryAdress @ ''!'' @ [CHR 0x0A]
            @ js_error_text error))))"

text \<open>\<open>(await factory.connect(admin).callAny(target, 0, input)).wait(n)\<close>\<close>

definition callThroughFactory :: "hre \<Rightarrow> addr \<Rightarrow> addr \<Rightarrow> cdata \<Rightarrow> nat option \<Rightarrow> receipt js" where
  "callThroughFactory H factory target input n =
     bnd (sendFactoryTx H factory (CallAny target 0 input) None) (\<lambda>txResponse. waitTx txResponse n)"

definition checkReceipt :: "receipt \<Rightarrow> unit js" where
  "checkReceipt r =
     (if rc_status r \<noteq> 1 then throw (Err ''Receipt indicates failure: [object Object]'')
      else consoleLog ''Done'')"

definition tokenBalance :: "hre \<Rightarrow> string \<Rightarrow> addr \<Rightarrow> addr \<Rightarrow> int js" where
  "tokenBalance H token tokenAddr account =
     bnd (getW w_chain) (\<lambda>ch.
     bnd (fromSum (call_static H ch tokenAddr token ''balanceOf'' [JStr (addr_hex H account)])) (\<lambda>bal.
       (case bal of JBig n \<Rightarrow> ret n | _ \<Rightarrow> throw (TypeErr ''not a BigNumber''))))"

section \<open>Calls of the validator pool, the snapshots and the dynamics contracts\<close>

definition unregisterValidatorsTask :: "hre \<Rightarrow> addr \<Rightarrow> addr list \<Rightarrow> unit js" where
  "unregisterValidatorsTask H factoryAddress addresses =
     andThen (consoleLog (''unregisterValidators '' @ inspect H (JArr (map (\<lambda>a. JStr (addr_hex H a)) addresses))))
     (andThen (consoleLog (inspect H (JArr (map (\<lambda>a. JStr (addr_hex H a)) addresses))))
     (bnd (firstSigner H) (\<lambda>admin.
      andThen (consoleLog (''Admin address: '' @ addr_hex H admin))
      (bnd (factoryLookup H factoryAddress ''ValidatorPool'') (\<lambda>validatorPool.
       andThen (consoleLog (''validatorPool Address: '' @ addr_hex H validatorPool))
       (bnd (fromSum (encode_call H ''ValidatorPool'' ''unregisterValidators''
               [JArr (map (\<lambda>a. JStr (addr_hex H a)) addresses)])) (\<lambda>input.
        bnd (callThroughFactory H factoryAddress validatorPool input (Some 3)) checkReceipt)))))))"

definition ethdkgInputTask :: "hre \<Rightarrow> unit js" where
  "ethdkgInputTask H =
     bnd (fromSum (encode_iface H ''function initializeETHDKG()'' ''initializeETHDKG'' [])) (\<lambda>input.
       consoleLog (''input '' @ cdata_hex H input))"

definition virtualMintDepositTask :: "hre \<Rightarrow> addr \<Rightarrow> addr \<Rightarrow> int \<Rightarrow> int \<Rightarrow> unit js" where
  "virtualMintDepositTask H factoryAddress depositOwnerAddress depositAmount accountType =
     bnd (fromSum (encode_iface H
            ''function virtualMintDeposit(uint8 accountType_,address to_,uint256 amount_)''
            ''virtualMintDeposit''
            [JNum accountType, JStr (addr_hex H depositOwnerAddress), JBig depositAmount])) (\<lambda>input.
     bnd (firstSigner H) (\<lambda>admin.
     bnd (factoryLookup H factoryAddress ''BToken'') (\<lambda>bToken.
     bnd (callThroughFactory H factoryAddress bToken input None) (\<lambda>receipt.
     andThen (consoleLog (inspect H (JObj [])))
     (bnd (orTypeError ''Cannot read properties of undefined''
            (js_nth (case rc_events receipt of None \<Rightarrow> [] | Some logs \<Rightarrow> logs) 0)) (\<lambda>log.
      bnd (fromSum (decode_log H
             ''event DepositReceived(uint256 indexed depositID, uint8 indexed accountType, address indexed depositor, uint256 amount)''
             (ev_address log) (ev_topics log))) (\<lambda>event.
        consoleLog (inspect H event))))))))"

definition scheduleMaintenanceTask :: "hre \<Rightarrow> addr \<Rightarrow> unit js" where
  "scheduleMaintenanceTask H factoryAddress =
     andThen (consoleLog ''scheduling maintenance after the next snapshot'')
     (bnd (fromSum (encode_iface H ''function scheduleMaintenance()'' ''scheduleMaintenance'' [])) (\<lambda>input.
      bnd (firstSigner H) (\<lambda>admin.
      bnd (factoryLookup H factoryAddress ''ValidatorPool'') (\<lambda>validatorPool.
      andThen (consoleLog ''calling the contract and waiting receipt'')
      (andThen (callThroughFactory H factoryAddress validatorPool input (Some 3)) (ret ()))))))"

definition pauseEthdkgArbitraryHeightTask :: "hre \<Rightarrow> string \<Rightarrow> addr \<Rightarrow> unit js" where
  "pauseEthdkgArbitraryHeightTask H alicenetHeight factoryAddress =
     bnd (fromSum (encode_iface H ''function pauseConsensusOnArbitraryHeight(uint256)''
            ''pauseConsensusOnArbitraryHeight'' [JStr alicenetHeight])) (\<lambda>input.
     bnd (firstSigner H) (\<lambda>admin.
     bnd (factoryLookup H factoryAddress ''ValidatorPool'') (\<lambda>validatorPool.
     andThen (callThroughFactory H factoryAddress validatorPool input None) (ret ()))))"

definition changeIntervalToEvictValidatorsTask :: "hre \<Rightarrow> string \<Rightarrow> addr \<Rightarrow> unit js" where
  "changeIntervalToEvictValidatorsTask H interval factoryAddress =
     bnd (firstSigner H) (\<lambda>admin.
     bnd (factoryLookup H factoryAddress ''ValidatorPool'') (\<lambda>validatorPool.
     bnd (fromSum (encode_call H ''ValidatorPool'' ''setMaxIntervalWithoutSnapshots'' [JStr interval])) (\<lambda>input.
     andThen (callThroughFactory H factoryAddress validatorPool input None) (ret ()))))"

definition unregisterAllValidatorsTask :: "hre \<Rightarrow> addr \<Rightarrow> unit js" where
  "unregisterAllValidatorsTask H factoryAddress =
     bnd (firstSigner H) (\<lambda>admin.
     bnd (factoryLookup H factoryAddress ''ValidatorPool'') (\<lambda>validatorPool.
     bnd (fromSum (encode_call H ''ValidatorPool'' ''unregisterAllValidators'' [])) (\<lambda>input.
     andThen (callThroughFactory H factoryAddress validatorPool input None) (ret ()))))"

definition initializeEthdkgTask :: "hre \<Rightarrow> addr \<Rightarrow> unit js" where
  "initializeEthdkgTask H factoryAddress =
     bnd (firstSigner H) (\<lambda>admin.
     bnd (factoryLookup H factoryAddress ''ValidatorPool'') (\<lambda>validatorPool.
     andThen (consoleLog ''Initializing ETHDKG'')
     (bnd (fromSum (encode_call H ''ValidatorPool'' ''initializeETHDKG'' [])) (\<lambda>input.
      andThen (callThroughFactory H factoryAddress validatorPool input (Some 3))
        (consoleLog ''Done'')))))"

definition setMinEthereumBlocksPerSnapshotTask :: "hre \<Rightarrow> addr \<Rightarrow> int \<Rightarrow> unit js" where
  "setMinEthereumBlocksPerSnapshotTask H factoryAddress blockNum =
     bnd (factoryLookup H factoryAddress ''Snapshots'') (\<lambda>snapshots.
       if blockNum < 0 then throw (Err ''block-num not passed or the value was smaller than 0!'')
       else
         bnd (firstSigner H) (\<lambda>admin.
         bnd (fromSum (encode_call H ''Snapshots'' ''setMinimumIntervalBetweenSnapshots'' [JNum blockNum])) (\<lambda>input.
         andThen (consoleLog (''Setting the setMinimumIntervalBetweenSnapshots to '' @ js_show_int blockNum))
         (bnd (callThroughFactory H factoryAddress snapshots input (Some 3)) checkReceipt))))"

definition updateAliceNetNodeVersionTask ::
    "hre \<Rightarrow> addr \<Rightarrow> int \<Rightarrow> int \<Rightarrow> int \<Rightarrow> int \<Rightarrow> string \<Rightarrow> unit js" where
  "updateAliceNetNodeVersionTask H factoryAddress relativeEpoch major minor patch binaryHash =
     bnd (factoryLookup H factoryAddress ''Dynamics'') (\<lambda>dynamics.
       if relativeEpoch < 2 then
         throw (Err ''relativeEpoch parameter not sent or the value was smaller than 2!'')
       else if major < 0 then
         throw (Err ''major version parameter not sent or the value was smaller than 0!'')
       else if minor < 0 then
         throw (Err ''minor parameter not sent or the value was smaller than 0!'')
       else if patch < 0 then
         throw (Err ''patch parameter not sent or the value was smaller than 0!'')
       else if binaryHash = [] then throw (Err ''binaryHash parameter not sent!'')
       else
         bnd (firstSigner H) (\<lambda>admin.
         bnd (fromSum (formatBytes32String H binaryHash)) (\<lambda>hash.
         bnd (fromSum (encode_call H ''Dynamics'' ''updateAliceNetNodeVersion''
                [JNum relativeEpoch, JNum major, JNum minor, JNum patch, JStr (bytes32_hex H hash)])) (\<lambda>input.
         andThen (consoleLog (''Updating the updateAliceNetNodeVersion to '' @ js_show_int major @ ''.''
             @ js_show_int minor @ ''.'' @ js_show_int patch))
         (bnd (callThroughFactory H factoryAddress dynamics input (Some 3)) checkReceipt)))))"

section \<open>Ether and tokens\<close>

definition transferEthTask :: "hre \<Rightarrow> addr \<Rightarrow> string \<Rightarrow> unit js" where
  "transferEthTask H receiver amountText =
     bnd (firstSigner H) (\<lambda>account.
     bnd (getBalance account) (\<lambda>ownerBal.
     bnd (bigFromNumber (js_parseInt 16 amountText)) (\<lambda>n.
     let amount = n * 10 ^ 18 in
     andThen (consoleLog (''previous owner balance: '' @ js_show_nat ownerBal))
     (bnd (getBalance receiver) (\<lambda>receiverBal.
      andThen (consoleLog (''previous receiver balance: '' @ js_show_nat receiverBal))
      (bnd (sendTransaction H account receiver amount) (\<lambda>txResponse.
       andThen (waitTx txResponse None)
       (bnd (getBalance receiver) (\<lambda>receiverBal.
        andThen (consoleLog (''new receiver balance: '' @ js_show_nat receiverBal))
        (bnd (getBalance account) (\<lambda>ownerBal2.
          consoleLog (''new owner balance: '' @ js_show_int (int ownerBal - int ownerBal2)))))))))))))"

text \<open>
  A transaction with an explicit nonce: the node accepts it only as the sender's next one.
\<close>

definition sendFactoryTxNonce :: "hre \<Rightarrow> addr \<Rightarrow> cdata \<Rightarrow> nat \<Rightarrow> receipt js" where
  "sendFactoryTxNonce H factory data nonce =
     bnd (firstSigner H) (\<lambda>sender.
     bnd (getW (\<lambda>w. ch_nonce (w_chain w) sender)) (\<lambda>next.
       if nonce \<noteq> next then throw (LibErr ''invalid nonce'') else sendFactoryTx H factory data None))"

definition mintATokenTo :: "hre \<Rightarrow> addr \<Rightarrow> addr \<Rightarrow> nat \<Rightarrow> receipt js" where
  "mintATokenTo H factoryAddress to nonce =
     bnd (factoryLookup H factoryAddress ''ATokenMinter'') (\<lambda>aTokenMinterAddr.
     bnd (fromSum (encode_call H ''ATokenMinter'' ''mint'' [JStr (addr_hex H to), JNum 1])) (\<lambda>calldata.
       sendFactoryTxNonce H factoryAddress (CallAny aTokenMinterAddr 0 calldata) nonce))"

definition mintATokenToTask :: "hre \<Rightarrow> addr \<Rightarrow> string \<Rightarrow> addr \<Rightarrow> nat option \<Rightarrow> unit js" where
  "mintATokenToTask H factoryAddress amount to nonceArg =
     bnd (firstSigner H) (\<lambda>signer.
     bnd (case nonceArg of
            None \<Rightarrow> getW (\<lambda>w. ch_nonce (w_chain w) signer)
          | Some n \<Rightarrow> ret n) (\<lambda>nonce.
     bnd (factoryLookup H factoryAddress ''ATokenMinter'') (\<lambda>aTokenMinterAddr.
     bnd (factoryLookup H factoryAddress ''AToken'') (\<lambda>aToken.
     bnd (tokenBalance H ''AToken'' aToken to) (\<lambda>bal1.
     bnd (fromSum (encode_call H ''ATokenMinter'' ''mint'' [JStr (addr_hex H to), JStr amount])) (\<lambda>calldata.
     bnd (sendFactoryTxNonce H factoryAddress (CallAny aTokenMinterAddr 0 calldata) nonce) (\<lambda>txResponse.
     andThen (waitTx txResponse None)
     (bnd (tokenBalance H ''AToken'' aToken to) (\<lambda>bal2.
       consoleLog (''Minted '' @ js_show_int (bal2 - bal1) @ '' to account '' @ addr_hex H to))))))))))"

definition getATokenBalanceTask :: "hre \<Rightarrow> addr \<Rightarrow> addr \<Rightarrow> int js" where
  "getATokenBalanceTask H factoryAddress account =
     bnd (factoryLookup H factoryAddress ''AToken'') (\<lambda>aToken.
     bnd (tokenBalance H ''AToken'' aToken account) (\<lambda>bal.
       andThen (consoleLog (inspect H (JBig bal))) (ret bal)))"

text \<open>The guard: \<open>None\<close> is an address that is left out or empty.\<close>

definition mintBTokenToTask :: "hre \<Rightarrow> addr option \<Rightarrow> string \<Rightarrow> nat \<Rightarrow> addr \<Rightarrow> unit js" where
  "mintBTokenToTask H factoryAddressArg amount numWei to =
     (case factoryAddressArg of
        None \<Rightarrow> throw (Err ''Expected a factory address to be passed!'')
      | Some factoryAddress \<Rightarrow>
          bnd (factoryLookup H factoryAddress ''BToken'') (\<lambda>bToken.
          bnd (tokenBalance H ''BToken'' bToken to) (\<lambda>bal1.
          bnd (fromSum (encode_call H ''BToken'' ''mintTo'' [JStr (addr_hex H to), JStr amount])) (\<lambda>calldata.
          bnd (firstSigner H) (\<lambda>signer.
          bnd (sendValue H (CallValueTx bToken numWei calldata) signer bToken (int numWei) calldata) (\<lambda>txResponse.
          andThen (waitTx txResponse None)
          (bnd (tokenBalance H ''BToken'' bToken to) (\<lambda>bal2.
            consoleLog (''Minted '' @ js_show_int (bal2 - bal1) @ '' BToken to account ''
              @ addr_hex H to)))))))))"

definition getBTokenBalanceTask :: "hre \<Rightarrow> addr \<Rightarrow> addr \<Rightarrow> int js" where
  "getBTokenBalanceTask H factoryAddress account =
     bnd (factoryLookup H factoryAddress ''BToken'') (\<lambda>bToken.
     bnd (tokenBalance H ''BToken'' bToken account) (\<lambda>bal.
       andThen (consoleLog (inspect H (JBig bal))) (ret bal)))"

definition getEthBalanceTask :: "hre \<Rightarrow> addr \<Rightarrow> nat js" where
  "getEthBalanceTask H account =
     bnd (getBalance account) (\<lambda>bal.
       andThen (consoleLog (inspect H (JBig (int bal)))) (ret bal))"

section \<open>Requests to a hardhat node\<close>

definition showHex :: "int \<Rightarrow> string" where
  "showHex n = (if n < 0 then ''-'' @ js_show_radix 16 (nat (- n)) else js_show_radix 16 (nat n))"

definition enableHardhatImpersonateTask :: "hre \<Rightarrow> string \<Rightarrow> unit js" where
  "enableHardhatImpersonateTask H account = rpcSend H ''hardhat_impersonateAccount'' [JStr account]"

definition mineNumBlocksTask :: "hre \<Rightarrow> string \<Rightarrow> unit js" where
  "mineNumBlocksTask H numBlocksText =
     (let numBlocks = js_parseInt 10 numBlocksText in
      rpcSend H ''hardhat_mine''
        [JStr (''0x'' @ (case numBlocks of None \<Rightarrow> ''NaN'' | Some n \<Rightarrow> showHex n))])"

text \<open>\<open>NaN\<close> reaches the node as \<open>null\<close>.\<close>

definition setHardhatIntervalMiningTask :: "hre \<Rightarrow> bool \<Rightarrow> string \<Rightarrow> unit js" where
  "setHardhatIntervalMiningTask H enableAutoMine intervalText =
     (let interval = js_parseInt 10 intervalText in
      if chain_id H = 1337 then
        if enableAutoMine then
          tryCatch (rpcSend H ''evm_setAutomine'' [JBool True]) (\<lambda>error. ret ())
        else
          tryCatch
            (andThen (rpcSend H ''evm_setIntervalMining'' [js_opt JNum interval])
              (rpcSend H ''evm_setAutomine'' [JBool False]))
            (\<lambda>error. ret ())
      else ret ())"

definition setHardhatBaseFeeTask :: "hre \<Rightarrow> int \<Rightarrow> unit js" where
  "setHardhatBaseFeeTask H baseFeeGwei =
     (let baseFee = baseFeeGwei * 10 ^ 9 in
      if chain_id H = 1337 then
        tryCatch (rpcSend H ''hardhat_setNextBlockBaseFeePerGas'' [JStr (''0x'' @ showHex baseFee)])
          (\<lambda>error. ret ())
      else ret ())"

definition startLocalSeedNodeTask :: "unit js" where
  "startLocalSeedNodeTask =
     logAction (Spawn ''./alicenet''
       [''--config'', ''./scripts/base-files/localTestNetBaseConfig.toml'', ''validator''])"

end
