(* ===== verification/Validator_Tasks.thy ===== *)
theory Validator_Tasks
  imports Admin_Tasks
begin

text \<open>
  The tasks of \<^verbatim>\<open>scripts/lib/alicenetTasks.ts\<close> that stake for, register and migrate validators, and the
  polling loop \<open>waitBlocks\<close>. A script that may wait forever has the type \<open>jsd\<close>: \<open>None\<close> when it does not return.
\<close>

section \<open>Scripts that may not return\<close>

type_synonym 'a jsd = "world \<Rightarrow> ((js_error + 'a) \<times> world) option"

definition returning :: "'a js \<Rightarrow> 'a jsd" where
  "returning m w = Some (m w)"

definition bndD :: "'a jsd \<Rightarrow> ('a \<Rightarrow> 'b jsd) \<Rightarrow> 'b jsd" where
  "bndD m f w =
     (case m w of
        None \<Rightarrow> None
      | Some (Inl e, w') \<Rightarrow> Some (Inl e, w')
      | Some (Inr a, w') \<Rightarrow> f a w')"

partial_function (option) waitLoop :: "hre \<Rightarrow> nat \<Rightarrow> nat \<Rightarrow> world \<Rightarrow> world option" where
  "waitLoop H expectedBlock constBlock w =
     (if constBlock < expectedBlock
      then (let constBlock = ch_block (w_chain w);
                w1 = snd (consoleLog (''Current block: '' @ js_show_nat constBlock) w);
                w2 = snd (delay H 10000 w1)
            in waitLoop H expectedBlock constBlock w2)
      else Some w)"

definition waitBlocks :: "nat \<Rightarrow> hre \<Rightarrow> unit jsd" where
  "waitBlocks waitingBlocks H w =
     (let constBlock = ch_block (w_chain w);
          expectedBlock = constBlock + waitingBlocks;
          w1 = snd (consoleLog (''Current block: '' @ js_show_nat constBlock @ '' Waiting for ''
                 @ js_show_nat waitingBlocks @ '' blocks to be mined!'') w)
      in (case waitLoop H expectedBlock constBlock w1 of
            None \<Rightarrow> None
          | Some w' \<Rightarrow> Some (Inr (), w')))"

section \<open>Staking and registering\<close>

definition addr_js :: "hre \<Rightarrow> addr \<Rightarrow> jsval" where
  "addr_js H a = JStr (addr_hex H a)"

text \<open>\<open>parseEther\<close> of a whole number of ether.\<close>

definition parseEther :: "int \<Rightarrow> int" where
  "parseEther n = n * 10 ^ 18"

definition getTokenIdFromTx :: "hre \<Rightarrow> receipt \<Rightarrow> jsval js" where
  "getTokenIdFromTx H tx =
     bnd (waitTx tx None) (\<lambda>receipt.
     bnd (orTypeError ''Cannot read properties of undefined''
            (js_nth (case rc_events receipt of None \<Rightarrow> [] | Some logs \<Rightarrow> logs) 2)) (\<lambda>log.
     bnd (fromSum (decode_log H
            ''event Transfer(address indexed from, address indexed to, uint256 indexed tokenId)''
            (ev_address log) (ev_topics log))) (\<lambda>args.
       ret (case js_nth (case args of JArr vs \<Rightarrow> vs | _ \<Rightarrow> []) 2 of None \<Rightarrow> JUndef | Some v \<Rightarrow> v))))"

definition stakeAmt :: int where
  "stakeAmt = parseEther 5000000"

definition stakeStep :: "hre \<Rightarrow> addr \<Rightarrow> mcArgs list \<Rightarrow> nat \<Rightarrow> mcArgs list js" where
  "stakeStep H publicStakingAddress stakeNFT i =
     bnd (fromSum (encode_call H ''PublicStaking'' ''mint'' [JBig stakeAmt])) (\<lambda>stakeToken.
       ret (stakeNFT @ [encodeMultiCallArgs publicStakingAddress 0 stakeToken]))"

definition stakeValidators :: "nat \<Rightarrow> addr \<Rightarrow> addr \<Rightarrow> addr \<Rightarrow> hre \<Rightarrow> receipt js" where
  "stakeValidators numValidators factoryAddress aTokenAddress publicStakingAddress H =
     bnd (fromSum (encode_call H ''AToken'' ''approve''
            [addr_js H publicStakingAddress, JBig (int numValidators * stakeAmt)])) (\<lambda>approveATokenCallData.
     let approveAToken = encodeMultiCallArgs aTokenAddress 0 approveATokenCallData in
     bnd (foldJs (stakeStep H publicStakingAddress) [] [0..<numValidators]) (\<lambda>stakeNFT.
     bnd (getGasPrices H) (\<lambda>fees.
       sendFactoryTx H factoryAddress (MultiCall ([approveAToken] @ stakeNFT)) (Some fees))))"

definition TRANSFER_EVENT_HASH :: bytes32 where
  "TRANSFER_EVENT_HASH = 0xddf252ad1be2c89b69c2b068fc378daa952ba7f163c4a11628f55a4df523b3ef"

text \<open>The events that carry the id of a staked token, and that id.\<close>

definition isStakedToken :: "addr \<Rightarrow> receipt_event \<Rightarrow> bool" where
  "isStakedToken publicStakingAddress event =
     (ev_address event = publicStakingAddress
      \<and> js_nth (ev_topics event) 0 = Some TRANSFER_EVENT_HASH)"

definition eventTokenId :: "receipt_event \<Rightarrow> int js" where
  "eventTokenId event =
     bnd (orTypeError ''Cannot convert undefined to a BigInt'' (js_nth (ev_topics event) 3)) (\<lambda>topic.
       ret (uint topic))"

definition approveToken :: "hre \<Rightarrow> addr \<Rightarrow> addr \<Rightarrow> int \<Rightarrow> mcArgs js" where
  "approveToken H publicStakingAddress validatorPoolAddress tokenID =
     bnd (fromSum (encode_call H ''PublicStaking'' ''approve''
            [addr_js H validatorPoolAddress, JBig tokenID])) (\<lambda>approveCallData.
       ret (encodeMultiCallArgs publicStakingAddress 0 approveCallData))"

definition registerStep ::
    "hre \<Rightarrow> addr \<Rightarrow> addr \<Rightarrow> int list \<times> mcArgs list \<Rightarrow> receipt_event \<Rightarrow> (int list \<times> mcArgs list) js" where
  "registerStep H publicStakingAddress validatorPoolAddress acc event =
     (if isStakedToken publicStakingAddress event then
        bnd (eventTokenId event) (\<lambda>id.
        bnd (approveToken H publicStakingAddress validatorPoolAddress id) (\<lambda>approve.
          ret (fst acc @ [id], snd acc @ [approve])))
      else ret acc)"

text \<open>Between the transactions: blocks mined on request in a test, confirmations otherwise.\<close>

definition mineOrWait :: "hre \<Rightarrow> bool \<Rightarrow> receipt \<Rightarrow> unit js" where
  "mineOrWait H test tx =
     (if test then rpcSend H ''hardhat_mine'' [JStr ''0x3''] else andThen (waitTx tx (Some 3)) (ret ()))"

definition eventsOf :: "receipt \<Rightarrow> receipt_event list js" where
  "eventsOf receipt =
     (case rc_events receipt of
        None \<Rightarrow> throw (Err ''receipt has no events'')
      | Some events \<Rightarrow> ret events)"

definition registerValidatorsTask :: "hre \<Rightarrow> bool \<Rightarrow> addr \<Rightarrow> addr list \<Rightarrow> unit js" where
  "registerValidatorsTask H test factoryAddress addresses =
     (let addressesJs = JArr (map (addr_js H) addresses) in
      andThen (consoleLog (''registerValidators '' @ inspect H addressesJs))
      (bnd (factoryLookupAddress H factoryAddress ''AToken'') (\<lambda>aTokenAddress.
       bnd (factoryLookupAddress H factoryAddress ''PublicStaking'') (\<lambda>publicStakingAddress.
       bnd (factoryLookupAddress H factoryAddress ''ValidatorPool'') (\<lambda>validatorPoolAddress.
       andThen (consoleLog (inspect H addressesJs))
       (bnd (firstSigner H) (\<lambda>admin.
        andThen (consoleLog (''Admin address: '' @ addr_hex H admin))
        (andThen (if test then rpcSend H ''hardhat_mine'' [JStr ''0x3''] else ret ())
        (bnd (factoryLookup H factoryAddress ''ValidatorPool'') (\<lambda>validatorPool.
         andThen (consoleLog (''validatorPool Address: '' @ addr_hex H validatorPool))
         (andThen (consoleLog ''Staking validators'')
         (bnd (stakeValidators (length addresses) factoryAddress aTokenAddress publicStakingAddress H) (\<lambda>tx.
          bnd (waitTx tx None) (\<lambda>receipt.
          bnd (eventsOf receipt) (\<lambda>events.
          bnd (foldJs (registerStep H publicStakingAddress validatorPoolAddress) ([], []) events)
            (\<lambda>(tokenIds, approveTokens).
          andThen (mineOrWait H test tx)
          (bnd (fromSum (encode_call H ''ValidatorPool'' ''registerValidators''
                  [addressesJs, JArr (map JBig tokenIds)])) (\<lambda>regValidatorsCallData.
           let regValidators = encodeMultiCallArgs validatorPoolAddress 0 regValidatorsCallData in
           andThen (consoleLog (inspect H (JArr (map JBig tokenIds))))
           (andThen (consoleLog ''Registering validators'')
           (bnd (getGasPrices H) (\<lambda>fees.
            bnd (sendFactoryTx H factoryAddress (MultiCall (approveTokens @ [regValidators])) (Some fees)) (\<lambda>tx.
            andThen (mineOrWait H test tx) (consoleLog ''done'')))))))))))))))))))))))"

section \<open>Migrating the state of a network\<close>

text \<open>\<open>"0x" + v\<close>\<close>

definition js_plus_string :: "string \<Rightarrow> jsval \<Rightarrow> string" where
  "js_plus_string s v = s @ (if v = JUndef then ''undefined'' else js_to_string v)"

definition groupSignatureStep :: "hre \<Rightarrow> string list \<Rightarrow> nat \<Rightarrow> string list js" where
  "groupSignatureStep H groupSignatures i =
     (let height = i * 1024 in
      andThen (consoleLog (inspect H (JBig (int height))))
      (bnd (axiosPost H ''https://edge.alice.net/v1/get-block-header''
             (JObj [(''Height'', JStr (js_show_nat height))])) (\<lambda>(status, data).
       bnd (propOf data ''BlockHeader'') (\<lambda>header.
       bnd (propOf header ''SigGroup'') (\<lambda>sig.
         ret (groupSignatures @ [js_plus_string ''0x'' sig]))))))"

definition getGroupSignatures :: "hre \<Rightarrow> nat \<Rightarrow> string list js" where
  "getGroupSignatures H epoch =
     (let bufferSize = 5;
          start = (if bufferSize < epoch then epoch - bufferSize else 1) in
      andThen (consoleLog (inspect H (JBig (int epoch))))
      (andThen (consoleLog (inspect H (JBig (int start))))
      (andThen (consoleLog (if start < epoch then ''true'' else ''false''))
      (bnd (foldJs (groupSignatureStep H) [] [start..<epoch + 1]) (\<lambda>groupSignatures.
        andThen (consoleLog (inspect H (JArr (map JStr groupSignatures)))) (ret groupSignatures))))))"

definition migrateSnapshotsAndValidators ::
    "addr \<Rightarrow> addr \<Rightarrow> addr \<Rightarrow> addr \<Rightarrow> addr \<Rightarrow> int list \<Rightarrow> jsval list \<Rightarrow> jsval list \<Rightarrow> jsval list \<Rightarrow> nat
     \<Rightarrow> jsval list \<Rightarrow> jsval list \<Rightarrow> string list \<Rightarrow> hre \<Rightarrow> receipt js" where
  "migrateSnapshotsAndValidators factoryAddress publicStakingAddress snapshotAddress ethDKGAddress
     validatorPoolAddress tokenIDs validatorAccounts validatorIndexes validatorShares ethHeight
     masterPublicKey bClaims groupSignatures H =
     bnd (foldJs (\<lambda>approveTokens tokenID.
            bnd (approveToken H publicStakingAddress validatorPoolAddress tokenID) (\<lambda>approve.
              ret (approveTokens @ [approve]))) [] tokenIDs) (\<lambda>approveTokens.
     let validatorCount = 4; epoch = 0; sideChainHeight = 0 in
     bnd (fromSum (encode_call H ''ValidatorPool'' ''registerValidators''
            [JArr validatorAccounts, JArr (map JBig tokenIDs)])) (\<lambda>registerValidatorsCallData.
     let registerValidators = encodeMultiCallArgs validatorPoolAddress 0 registerValidatorsCallData in
     bnd (fromSum (encode_call H ''ETHDKG'' ''migrateValidators''
            [JArr validatorAccounts, JArr validatorIndexes, JArr validatorShares, JNum validatorCount,
             JNum epoch, JNum sideChainHeight, JNum (int ethHeight), JArr masterPublicKey]))
       (\<lambda>migrateValidatorsCallData.
     let migrateValidators = encodeMultiCallArgs ethDKGAddress 0 migrateValidatorsCallData in
     bnd (fromSum (encode_call H ''Snapshots'' ''migrateSnapshots''
            [JArr (map JStr groupSignatures), JArr bClaims])) (\<lambda>migrateSnapshotsCallData.
     let migrateSnapshots = encodeMultiCallArgs snapshotAddress 0 migrateSnapshotsCallData in
     bnd (getGasPrices H) (\<lambda>fees.
       sendFactoryTx H factoryAddress
         (MultiCall (approveTokens @ [registerValidators, migrateValidators, migrateSnapshots]))
         (Some fees))))))"

definition masterPublicKey :: "jsval list" where
  "masterPublicKey =
     [JBig 19973864405227474494428046886218960395017286398286997273859673757240376592503,
      JBig 3666564623138203565215945530726129772754495167220101411282198856069539995091,
      JBig 16839568499509318396654065605910525620620734593528167444141729662886794883267,
      JBig 4238394038888761339041070176707923282936512397513542246905279490862584218353]"

definition validatorAccounts :: "jsval list" where
  "validatorAccounts =
     [JStr ''0xb80d6653f7e5b80dbbe8d0aa9f61b5d72e8028ad'',
      JStr ''0x25489d6a720663f7e5253df68948edb302dfdcb6'',
      JStr ''0x322e8f463b925da54a778ed597aef41bc4fe4743'',
      JStr ''0xadf2a338e19c12298a3007cbea1c5276d1f746e0'']"

definition blockClaims :: "jsval list" where
  "blockClaims =
     [JStr ''0x000000000100040015000000008001000d00000002010000190000000201000025000000020100003100000002010000417e8cd8049656c9e1b2cbf90ae9dcc7fa1d70f2aaea7df7a2a4cfcd8b4a02a8c5d2460186f7233c927e7db2dcc703c0e500b653ca82273b7bfad8045d85a4702a5187985e08d03011645d5072d0aadb9b50eafb0014ad93cbc8a2c869a4139054ef9bd198da2c45c75bbecd8062d39451112d53cf60c02b48f144778f40b1b5'',
      JStr ''0x000000000100040015000000008401000d0000000201000019000000020100002500000002010000310000000201000034003720c36c4406bd8fd6cb7b6f9ec3877dcdffb08e74058e54f07015e89e99c5d2460186f7233c927e7db2dcc703c0e500b653ca82273b7bfad8045d85a4703139e7a7362b5e743a2013b7f33d360530c5195a402693f74c78200e90afcef57f9e10df3d7cf622c1f2497043de80d3abf4450d05355571d732c1ea47987432'',
      JStr ''0x000000000100040015000000008801000d000000020100001900000002010000250000000201000031000000020100007be9eda53b983d0fa3e17f6f8f051b658e165f39b1eb27da02eafa09467f76f8c5d2460186f7233c927e7db2dcc703c0e500b653ca82273b7bfad8045d85a470b28d67ca4ba36e663354920c301f855eb83703445d503c80183ee877041bd05b9936d9df3a955c09140093ea74a33151249848b964d0bb579e24377535b56316'',
      JStr ''0x000000000100040015000000008c01000d00000002010000190000000201000025000000020100003100000002010000a9272bb0fd1998d2c98d8c449efe48f9dca1fe7d5c59b15e13aa1844e07a0aedc5d2460186f7233c927e7db2dcc703c0e500b653ca82273b7bfad8045d85a4704b4c04b0bacc06565ec44607848f4c16f7bc9b5bcf2a0622d0200f7d4e57f663735108c50c69dc004a21f95c1787b9109fba494481e504d8d87a4133b8b5057d'',
      JStr ''0x000000000100040015000000009001000d00000002010000190000000201000025000000020100003100000002010000b11dfff48b9cd76b85e669f10e4cb8e64ab7d5f6a44d3aab1747c49b16626620c5d2460186f7233c927e7db2dcc703c0e500b653ca82273b7bfad8045d85a4708925a50edd15ded4b0076b2d682aba6cabdf9b3682005254082b808b6eeefb4782fd2260282b659817b3f6e725e13f743cfbda9c27b34271e4a003607c743144'',
      JStr ''0x000000000100040015000000009401000d0000000201000019000000020100002500000002010000310000000201000072e4379e7ab07923d3047755c3eee288116d911f7ff92532e6faaff39f4b4b58c5d2460186f7233c927e7db2dcc703c0e500b653ca82273b7bfad8045d85a470c9e957c9edde4dc5e9766a1ec7524d412b456e0fcaba46d1f41d262768806b0827def5d9058edfb39cb9025033c0a3855d5c3de0850b52a446f907a7231ee744'']"

definition validatorShares :: "jsval list" where
  "validatorShares =
     [JArr [JStr ''0x109f68dde37442959baa4b16498a6fd19c285f9355c23d8eef900876e8536a12'',
        JStr ''0x2c11cec2ce4e17afffcc105f9bd0e646f6274f562f1c93f93545fc22c74a2cdc'',
        JStr ''0x0430024aa1619a117e74425481c44f4628f45af7b389e4d5f84fc41227e1829e'',
        JStr ''0x163cb9abb41800ba5cc1955fd72c0983edc9869a21925006e691d4947451c9fd''],
      JArr [JStr ''0x13f8a33ff7ef3cb5536b2223195b7b652a3533d309ad3887bcf570c9b1dbe142'',
        JStr ''0x170fe500681ff96e84a6dd7d1e4698f0ad6dd3ef17520a7cac29b29b84f86aa7'',
        JStr ''0x19d29ec38a1d7d8d7284a76b214bf5b818eaccf47cd37ab8bc08c20833e586e9'',
        JStr ''0x27c0f981d1bbc1667ea520341b7fa65fc79815ab8122a814e3714bfdbacd84db''],
      JArr [JStr ''0x1064dd800716a7e80ed5d40d5563940cd25be4451976a28c237e1426d40eae5a'',
        JStr ''0x0e1c4d27ca7672e0662aaecbc5f2d62ec23e58cf63ffa9b6fabd41d3cff7c927'',
        JStr ''0x106d1f91c4b77d5c9bb485aeea784e9acf0c91702eefb766e94aefc92043a004'',
        JStr ''0x281971fd391a560142b8d796018afc31131a668b2ca6f62b304564d6422bb03f''],
      JArr [JStr ''0x2228b7dd85ddae13994fa85f42df1833da3b9468a1e65b987142d62f125a9754'',
        JStr ''0x0c5682ae7cd22a3c3daff06ce469f318025845e90254d9d05cecaeba45f445a5'',
        JStr ''0x2cdac99ed82ffc83fc17213e96d56400db23f08d05418936cb352f0e179cf971'',
        JStr ''0x06371376125bb2b96a5e427fac829f5c3919296aac4c42ddc44eb7c773369c2b'']]"

definition collectTokenId :: "addr \<Rightarrow> int list \<Rightarrow> receipt_event \<Rightarrow> int list js" where
  "collectTokenId publicStakingAddress tokenIds event =
     (if isStakedToken publicStakingAddress event
      then bnd (eventTokenId event) (\<lambda>id. ret (tokenIds @ [id]))
      else ret tokenIds)"

definition stakeForMigration :: "hre \<Rightarrow> addr \<Rightarrow> addr \<Rightarrow> addr \<Rightarrow> int list js" where
  "stakeForMigration H factoryAddress aTokenAddress publicStakingAddress =
     andThen (consoleLog ''Minting and staking Atoken!'')
     (bnd (stakeValidators 4 factoryAddress aTokenAddress publicStakingAddress H) (\<lambda>contractTx.
      bnd (waitTx contractTx (Some 8)) (\<lambda>receipt.
      bnd (eventsOf receipt) (\<lambda>events.
      bnd (foldJs (collectTokenId publicStakingAddress) [] events) (\<lambda>tokenIds.
        andThen (consoleLog (inspect H (JArr (map JBig tokenIds)))) (ret tokenIds))))))"

definition lookupMigrationAddresses :: "hre \<Rightarrow> addr \<Rightarrow> (addr \<times> addr \<times> addr \<times> addr \<times> addr) js" where
  "lookupMigrationAddresses H factoryAddress =
     bnd (factoryLookupAddress H factoryAddress ''AToken'') (\<lambda>aTokenAddress.
     bnd (factoryLookupAddress H factoryAddress ''PublicStaking'') (\<lambda>publicStakingAddress.
     bnd (factoryLookupAddress H factoryAddress ''ValidatorPool'') (\<lambda>validatorPoolAddress.
     bnd (factoryLookupAddress H factoryAddress ''Snapshots'') (\<lambda>snapshotAddress.
     bnd (factoryLookupAddress H factoryAddress ''ETHDKG'') (\<lambda>ethDKGAddress.
       ret (aTokenAddress, publicStakingAddress, validatorPoolAddress, snapshotAddress, ethDKGAddress))))))"

definition deployStateMigrationContractTask :: "hre \<Rightarrow> addr option \<Rightarrow> bool \<Rightarrow> unit jsd" where
  "deployStateMigrationContractTask H factoryAddressArg skipFirstTransaction =
     (case factoryAddressArg of
        None \<Rightarrow> returning (throw (Err ''Expected a factory address to be passed!''))
      | Some factoryAddress \<Rightarrow>
          bndD (returning (firstSigner H)) (\<lambda>admin.
          bndD (returning (consoleLog (''Admin address: '' @ addr_hex H admin))) (\<lambda>_.
          bndD (returning (lookupMigrationAddresses H factoryAddress))
            (\<lambda>(aTokenAddress, publicStakingAddress, validatorPoolAddress, snapshotAddress, ethDKGAddress).
          bndD (returning (consoleLog (''Master Public Key: '' @ js_to_string (JArr masterPublicKey)))) (\<lambda>_.
          bndD (returning (getGroupSignatures H 101)) (\<lambda>groupSignatures.
          bndD (if \<not> skipFirstTransaction then
                  bndD (returning (stakeForMigration H factoryAddress aTokenAddress publicStakingAddress))
                    (\<lambda>tokenIds. bndD (waitBlocks 3 H) (\<lambda>_. returning (ret tokenIds)))
                else returning (ret [])) (\<lambda>tokenIds.
          bndD (returning (consoleLog ''register and migrate state'')) (\<lambda>_.
          bndD (returning (getW (\<lambda>w. ch_block (w_chain w)))) (\<lambda>ethHeight.
          bndD (returning (migrateSnapshotsAndValidators factoryAddress publicStakingAddress snapshotAddress
                  ethDKGAddress validatorPoolAddress tokenIds validatorAccounts
                  [JNum 1, JNum 2, JNum 3, JNum 4] validatorShares ethHeight masterPublicKey blockClaims
                  groupSignatures H)) (\<lambda>contractTx.
          bndD (returning (waitTx contractTx (Some 8))) (\<lambda>_.
            waitBlocks 3 H)))))))))))"

end
