(* ===== verification/Network_Tasks.thy ===== *)
theory Network_Tasks
  imports Validator_Tasks
begin

text \<open>
  The remaining tasks of \<^verbatim>\<open>scripts/lib/alicenetTasks.ts\<close>: the legacy token of a test network, the seed node,
  the funding of validators, and the two tasks that loop until they are interrupted. What a child
  process prints is not part of the model.
\<close>

section \<open>Contracts deployed by an account\<close>

definition signerAt :: "hre \<Rightarrow> nat \<Rightarrow> addr js" where
  "signerAt H i = orTypeError ''Cannot read properties of undefined'' (js_nth (signers H) i)"

text \<open>\<open>(await getContractFactory(name)).deploy(...args)\<close>\<close>

definition deployContractTx :: "hre \<Rightarrow> addr \<Rightarrow> string \<Rightarrow> jsval list \<Rightarrow> addr js" where
  "deployContractTx H sender name args =
     bnd (fromSum (deploy_data H name args)) (\<lambda>data.
     bnd (case data of None \<Rightarrow> throw (LibErr ''contract creation without any data provided'')
          | Some creation \<Rightarrow> ret creation) (\<lambda>creation.
     bnd (getW w_chain) (\<lambda>ch.
     let tx = CreateTx name args; fee = tx_fee H ch tx;
         a = create_addr (hre_evm H) sender (ch_nonce ch sender);
         ch1 = pay_fee sender fee (bump_nonce sender ch) in
     if ch_balance ch sender < fee then throw (LibErr ''insufficient funds'')
     else if \<not> fresh_account ch1 a \<or> \<not> ctor_ok (hre_evm H) ch1 a creation then throw (TxReverted CodeSizeZero)
     else
       andThen (modW (\<lambda>w. w\<lparr>w_chain := (new_account a (LogicCode creation) ch1)\<lparr>ch_block := ch_block ch1 + 1\<rparr>\<rparr>))
       (andThen (logAction (Sent tx None)) (ret a)))))"

text \<open>\<open>v[0] = o\<close>\<close>

fun js_set_first :: "jsval \<Rightarrow> jsval \<Rightarrow> js_error + jsval" where
  "js_set_first (JArr []) v = Inr (JArr [v])"
| "js_set_first (JArr (x # xs)) v = Inr (JArr (v # xs))"
| "js_set_first (JObj ps) v = Inr (JObj (obj_put ''0'' v ps))"
| "js_set_first JFun v = Inr JFun"
| "js_set_first _ v = Inl (TypeErr ''Cannot create property 0'')"

definition deployLegacyTokenTask :: "hre \<Rightarrow> string \<Rightarrow> string \<Rightarrow> unit js" where
  "deployLegacyTokenTask H templatePath outputFolder =
     bnd (existsSync templatePath) (\<lambda>ex1.
     if \<not> ex1 then
       throw (Err (''Error: Could not find deployment Args file expected at '' @ templatePath))
     else
       bnd (existsSync outputFolder) (\<lambda>ex2.
       if \<not> ex2 then throw (Err (''Error: Output folder  '' @ outputFolder @ '' doesn't exist!''))
       else
         andThen (consoleLog (''Loading deploymentArgs from: '' @ templatePath))
         (bnd (readDeploymentArgs H (Some templatePath)) (\<lambda>deploymentConfig.
          let expectedContract = ''contracts/AToken.sol:AToken''; expectedField = ''legacyToken_'' in
          bnd (orTypeError ''Cannot read properties of undefined'' (js_prop_constructor deploymentConfig))
            (\<lambda>constructors.
          bnd (propOf constructors expectedContract) (\<lambda>entry.
          if entry = JUndef then
            throw (Err (''Couldn't find '' @ expectedField @ '' in the constructor area for''
              @ '' '' @ expectedContract @ '' inside the '' @ templatePath))
          else
            bnd (signerAt H 0) (\<lambda>admin.
            andThen (consoleLog (''Admin address: '' @ addr_hex H admin))
            (bnd (deployContractTx H admin ''LegacyToken'' []) (\<lambda>legacyToken.
             bnd (tokenBalance H ''LegacyToken'' legacyToken admin) (\<lambda>balance.
             andThen (consoleLog (''Minted '' @ js_show_int balance @ '' tokens for user: '' @ addr_hex H admin))
             (andThen (consoleLog (''Deployed legacy token at: '' @ addr_hex H legacyToken))
             (bnd (fromSum (js_set_first entry
                     (JObj [(''legacyToken_'', JStr (addr_hex H legacyToken))]))) (\<lambda>newEntry.
              bnd (fromSum (js_set constructors expectedContract newEntry)) (\<lambda>newConstructors.
              bnd (fromSum (js_set deploymentConfig ''constructor'' newConstructors)) (\<lambda>newConfig.
              bnd (fromSum (toml_stringify H newConfig)) (\<lambda>data.
                writeFileSync (outputFolder @ ''/deploymentArgsTemplate'') data))))))))))))))))"

section \<open>The seed node\<close>

definition SEED_NODE_URL :: string where
  "SEED_NODE_URL = ''http://0.0.0.0:8885/v1/'' @ ''get-block-number''"

partial_function (option) syncLoop :: "hre \<Rightarrow> world \<Rightarrow> (jsval \<times> world) option" where
  "syncLoop H w =
     (case axiosPost H SEED_NODE_URL (JObj []) w of
        (Inr (status, data), w1) \<Rightarrow> (if status = 200 then Some (data, w1) else syncLoop H w1)
      | (Inl err, w1) \<Rightarrow> syncLoop H (snd (delay H 5000 w1)))"

definition createLocalSeedNodeTask :: "hre \<Rightarrow> string \<Rightarrow> string jsd" where
  "createLocalSeedNodeTask H configPath =
     bndD (returning (logAction (Spawn ''./alicenet'' [''--config'', configPath, ''validator'']))) (\<lambda>_.
     bndD (\<lambda>w. map_option (\<lambda>(v, w'). (Inr v, w')) (syncLoop H w)) (\<lambda>alicenetHeight.
     bndD (returning (logAction (Kill 1))) (\<lambda>_.
     bndD (returning (propOf alicenetHeight ''BlockHeight'')) (\<lambda>height.
     bndD (returning (consoleLog (inspect H height))) (\<lambda>_.
       returning (if height = JUndef then throw (TypeErr ''Cannot read properties of undefined'')
                  else ret (js_to_string height)))))))"

section \<open>Funding validators\<close>

definition readdirSync :: "hre \<Rightarrow> string \<Rightarrow> string list js" where
  "readdirSync H p w =
     (if fs_path p = [] then (Inl (FsErr ''ENOENT''), w)
      else (case w_fs w (fs_path p) of
              None \<Rightarrow> (Inl (FsErr ''ENOENT''), w)
            | Some (File s) \<Rightarrow> (Inl (FsErr ''ENOTDIR''), w)
            | Some Dir \<Rightarrow> (Inr (read_dir H (w_fs w) (fs_path p)), w)))"

definition getValidatorAccount :: "hre \<Rightarrow> string \<Rightarrow> jsval js" where
  "getValidatorAccount H path =
     bnd (readFileSync path) (\<lambda>data.
     bnd (fromSum (toml_parse H data)) (\<lambda>config.
     bnd (propOf config ''validator'') (\<lambda>validator.
       propOf validator ''rewardAccount'')))"

definition fundStep :: "hre \<Rightarrow> jsval \<Rightarrow> unit js" where
  "fundStep H account =
     (let minAmount = 90; maxAmount = 100 in
      (case to_address H account of
         None \<Rightarrow> throw (LibErr ''invalid address'')
       | Some a \<Rightarrow>
           bnd (getBalance a) (\<lambda>bal.
           if int bal < parseEther minAmount then
             bnd (signerAt H 0) (\<lambda>signer.
             bnd (sendTransaction H signer a (parseEther (maxAmount - int bal))) (\<lambda>txResponse.
             andThen (waitTx txResponse None)
             (bnd (getBalance a) (\<lambda>newBal.
               consoleLog (''account '' @ js_to_string account @ '' has '' @ js_show_nat newBal)))))
           else ret ())))"

definition fundValidatorsTask :: "hre \<Rightarrow> string \<Rightarrow> unit js" where
  "fundValidatorsTask H configPath =
     bnd (readdirSync H configPath) (\<lambda>validatorConfigs.
     bnd (foldJs (\<lambda>accounts val.
            bnd (getValidatorAccount H (configPath @ ''/'' @ val)) (\<lambda>account. ret (accounts @ [account])))
            [] validatorConfigs) (\<lambda>accounts.
       forEach accounts (fundStep H)))"

section \<open>Load on a test network\<close>

text \<open>
  \<open>Math.floor(Math.random() * (max - min + 1) + min)\<close>, where \<open>Math.random()\<close> is \<open>bits / 2 ^ 53\<close> and \<open>hi\<close>, \<open>lo\<close> are \<open>max\<close>, \<open>min\<close>.
\<close>

definition notSoRandomNumBetweenRange :: "nat \<Rightarrow> int \<Rightarrow> int \<Rightarrow> int" where
  "notSoRandomNumBetweenRange bits hi lo = (int bits * (hi - lo + 1)) div 2 ^ 53 + lo"

text \<open>\<open>populateTransaction\<close> estimates the gas: it throws where sending would and changes nothing.\<close>

definition populateTransaction :: "hre \<Rightarrow> addr \<Rightarrow> addr \<Rightarrow> int \<Rightarrow> unit js" where
  "populateTransaction H src dst val w =
     (case fst (sendTransaction H src dst val w) of Inl e \<Rightarrow> (Inl e, w) | Inr r \<Rightarrow> (Inr (), w))"

definition fundAccount :: "hre \<Rightarrow> nat \<Rightarrow> unit js" where
  "fundAccount H i =
     bnd (signerAt H i) (\<lambda>account.
     bnd (getBalance account) (\<lambda>bal.
     if bal < 100000000000000000000 then
       bnd (signerAt H 0) (\<lambda>account0.
       andThen (populateTransaction H account0 account 100000000000000000000)
       (bnd (sendTransaction H account0 account 100000000000000000000) (\<lambda>txResponse.
         andThen (waitTx txResponse None) (ret ()))))
     else ret ()))"

definition gasBomb :: "hre \<Rightarrow> addr \<Rightarrow> unit js" where
  "gasBomb H fooToken =
     bnd (signerAt H 0) (\<lambda>account0.
       andThen (deployContractTx H account0 ''Minter'' [addr_js H fooToken]) (ret ()))"

definition deployValidatorPool :: "hre \<Rightarrow> unit js" where
  "deployValidatorPool H =
     bnd (signerAt H 0) (\<lambda>account0.
       andThen (deployContractTx H account0 ''ValidatorPool'' []) (ret ()))"

definition sendOneWei :: "hre \<Rightarrow> addr \<Rightarrow> addr \<Rightarrow> receipt list \<Rightarrow> receipt list js" where
  "sendOneWei H src dst transactions =
     andThen (populateTransaction H src dst 1)
       (tryCatch (bnd (sendTransaction H src dst 1) (\<lambda>tx. ret (transactions @ [tx])))
         (\<lambda>error. ret transactions))"

definition sendEth :: "hre \<Rightarrow> receipt list js" where
  "sendEth H =
     bnd (signerAt H 2) (\<lambda>account2.
     bnd (signerAt H 1) (\<lambda>account1.
     bnd (sendOneWei H account2 account1 []) (\<lambda>transactions.
       sendOneWei H account1 account2 transactions)))"

definition mintAToken :: "hre \<Rightarrow> addr \<Rightarrow> receipt js" where
  "mintAToken H factoryAddress =
     bnd (signerAt H 1) (\<lambda>account1.
     bnd (signerAt H 0) (\<lambda>account0.
     bnd (getW (\<lambda>w. ch_nonce (w_chain w) account0)) (\<lambda>nonce.
       mintATokenTo H factoryAddress account1 nonce)))"

record spam_state =
  sp_txSet :: "receipt list"
  sp_txSent :: nat
  sp_previousBlockNum :: nat

definition spamSwitch :: "hre \<Rightarrow> addr \<Rightarrow> addr \<Rightarrow> int \<Rightarrow> receipt list \<Rightarrow> receipt list js" where
  "spamSwitch H factoryAddress fooToken type txSet =
     (if type = 0 then
        tryCatch (andThen (deployValidatorPool H) (ret txSet)) (\<lambda>error. ret txSet)
      else if type = 1 then
        tryCatch (bnd (sendEth H) (\<lambda>tx. ret (txSet @ tx))) (\<lambda>error. ret txSet)
      else if type = 2 then
        tryCatch (bnd (mintAToken H factoryAddress) (\<lambda>tx. ret (txSet @ [tx]))) (\<lambda>error. ret txSet)
      else if type = 3 then
        tryCatch (andThen (gasBomb H fooToken) (ret txSet)) (\<lambda>error. ret txSet)
      else ret txSet)"

text \<open>
  One turn of the loop. The entries of \<open>txSet\<close> are responses that have arrived, so \<open>Promise.all\<close> waits for
  nothing.
\<close>

definition spamStep :: "hre \<Rightarrow> addr \<Rightarrow> addr \<Rightarrow> spam_state \<Rightarrow> spam_state js" where
  "spamStep H factoryAddress fooToken st =
     bnd (getW (\<lambda>w. ch_block (w_chain w))) (\<lambda>blocknum.
     bnd (if sp_previousBlockNum st < blocknum
          then andThen (gasBomb H fooToken) (ret blocknum)
          else ret (sp_previousBlockNum st)) (\<lambda>previousBlockNum.
     if 15 < sp_txSent st then
       ret (st\<lparr>sp_previousBlockNum := previousBlockNum, sp_txSent := 0\<rparr>)
     else
       bnd (signerAt H 1) (\<lambda>account1.
       bnd (getBalance account1) (\<lambda>bal1.
       bnd (signerAt H 2) (\<lambda>account2.
       bnd (getBalance account2) (\<lambda>bal2.
       bnd (getW (\<lambda>w. random_bits H (w_log w) (length (w_console w)))) (\<lambda>bits.
       let type = notSoRandomNumBetweenRange bits 3 0 in
       andThen (consoleLog (''tx type: '' @ js_show_int type @ '', account1: '' @ js_show_nat bal1
           @ '', account2: '' @ js_show_nat bal2))
       (bnd (spamSwitch H factoryAddress fooToken type (sp_txSet st)) (\<lambda>txSet.
         ret (st\<lparr>sp_previousBlockNum := previousBlockNum, sp_txSent := sp_txSent st + 1,
              sp_txSet := txSet\<rparr>))))))))))"

partial_function (option) spamLoop ::
    "hre \<Rightarrow> addr \<Rightarrow> addr \<Rightarrow> spam_state \<Rightarrow> world \<Rightarrow> ((js_error + unit) \<times> world) option" where
  "spamLoop H factoryAddress fooToken st w =
     (case spamStep H factoryAddress fooToken st w of
        (Inl e, w') \<Rightarrow> Some (Inl e, w')
      | (Inr st', w') \<Rightarrow> spamLoop H factoryAddress fooToken st' w')"

definition spamSetup :: "hre \<Rightarrow> addr js" where
  "spamSetup H =
     andThen (fundAccount H 2)
     (andThen (fundAccount H 1)
     (bnd (signerAt H 0) (\<lambda>account0. deployContractTx H account0 ''FooToken'' [])))"

definition spamEthereumTask :: "hre \<Rightarrow> addr \<Rightarrow> unit jsd" where
  "spamEthereumTask H factoryAddress =
     bndD (returning (spamSetup H)) (\<lambda>fooToken.
       spamLoop H factoryAddress fooToken \<lparr>sp_txSet = [], sp_txSent = 0, sp_previousBlockNum = 0\<rparr>)"

text \<open>One turn of the loop of \<open>getGasCost\<close>, and its first \<open>n\<close> turns.\<close>

definition gasCostStep :: "hre \<Rightarrow> nat \<Rightarrow> nat js" where
  "gasCostStep H lastBlock =
     bnd (getW (\<lambda>w. eth_gasPrice H (w_chain w))) (\<lambda>gasPrice.
     andThen (delay H 7000)
     (bnd (getW (\<lambda>w. ch_block (w_chain w))) (\<lambda>blocknum.
      andThen (if lastBlock < blocknum
               then consoleLog (''gas price @ blocknum '' @ js_show_nat blocknum @ '': '' @ js_show_nat gasPrice)
               else ret ())
        (ret blocknum))))"

primrec gasCostTurns :: "hre \<Rightarrow> nat \<Rightarrow> nat \<Rightarrow> nat js" where
  "gasCostTurns H lastBlock 0 = ret lastBlock"
| "gasCostTurns H lastBlock (Suc n) = bnd (gasCostTurns H lastBlock n) (gasCostStep H)"

end
