(* ===== verification/Code_Generators.thy ===== *)
theory Code_Generators
  imports Network_Tasks
begin

text \<open>
  The scripts that generate source files: \<^verbatim>\<open>generateImmutableAuth.ts\<close> writes the Solidity contract of the
  addresses the system's contracts get, \<^verbatim>\<open>lib/gogogen.ts\<close> a shell script that generates the Go bindings, and
  \<^verbatim>\<open>build/build.ts\<close> the Go map from function selectors to names and the Go interfaces; and the small scripts
  that write the default deployment list and argument template.
\<close>

section \<open>The immutable addresses\<close>

record Contract =
  ct_name :: string
  ct_salt :: string

abbreviation NL :: string where
  "NL \<equiv> [CHR 0x0A]"

definition templateImmutableFactory :: string where
  \<open>templateImmutableFactory = js_join NL
     [''// This file is auto-generated by hardhat generate-immutable-auth-contract task. DO NOT EDIT.'',
      ''// SPDX-License-Identifier: MIT-open-group'',
      ''pragma solidity ^0.8.16;'',
      '''',
      ''import "contracts/utils/DeterministicAddress.sol";'',
      ''import "contracts/interfaces/IAliceNetFactory.sol";'',
      '''',
      ''abstract contract ImmutableFactory is DeterministicAddress {'',
      ''    address private immutable _factory;'',
      ''    error OnlyFactory(address sender, address expected);'',
      '''',
      ''    modifier onlyFactory() {'',
      ''      if (msg.sender != _factory) {'',
      ''        revert OnlyFactory(msg.sender, _factory);'',
      ''      }'',
      ''      _;'',
      ''  }'',
      '''',
      ''    constructor(address factory_) {'',
      ''        _factory = factory_;'',
      ''    }'',
      '''',
      ''    function _factoryAddress() internal view returns (address) {'',
      ''        return _factory;'',
      ''    }'',
      '''',
      ''}'',
      '''',
      ''abstract contract ImmutableAToken is ImmutableFactory {'',
      ''    address private immutable _aToken;'',
      ''    error OnlyAToken(address sender, address expected);'',
      '''',
      ''    modifier onlyAToken() {'',
      ''        if (msg.sender != _aToken) {'',
      ''            revert OnlyAToken(msg.sender, _aToken);'',
      ''        }'',
      ''        _;'',
      ''    }'',
      '''',
      ''    constructor() {'',
      ''        _aToken = IAliceNetFactory(_factoryAddress()).lookup(_saltForAToken());'',
      ''    }'',
      '''',
      ''    function _aTokenAddress() internal view returns (address) {'',
      ''        return _aToken;'',
      ''    }'',
      '''',
      ''    function _saltForAToken() internal pure returns (bytes32) {'',
      ''        return 0x41546f6b656e0000000000000000000000000000000000000000000000000000;'',
      ''    }'',
      ''}'',
      '''',
      ''abstract contract ImmutableBToken is ImmutableFactory {'',
      ''    address private immutable _bToken;'',
      ''    error OnlyBToken(address sender, address expected);'',
      '''',
      ''    modifier onlyBToken() {'',
      ''        if (msg.sender != _bToken) {'',
      ''            revert OnlyBToken(msg.sender, _bToken);'',
      ''        }'',
      ''        _;'',
      ''    }'',
      '''',
      ''    constructor() {'',
      ''        _bToken = IAliceNetFactory(_factoryAddress()).lookup(_saltForBToken());'',
      ''    }'',
      '''',
      ''    function _bTokenAddress() internal view returns (address) {'',
      ''        return _bToken;'',
      ''    }'',
      '''',
      ''    function _saltForBToken() internal pure returns (bytes32) {'',
      ''        return 0x42546f6b656e0000000000000000000000000000000000000000000000000000;'',
      ''    }'',
      ''}'',
      '''']\<close>

definition mixedName :: "string \<Rightarrow> string" where
  "mixedName name =
     (if js_startsWith name ''ETHDKG'' then ''ethdkg'' @ drop 6 name
      else map js_lower (take 1 name) @ drop 1 name)"

definition templateContract :: "Contract \<Rightarrow> string" where
  \<open>templateContract contract =
     (let name = ct_name contract; salt = ct_salt contract; mixedContractName = mixedName name
      in js_join NL
       [[],
        ''abstract contract Immutable'' @ name @ '' is ImmutableFactory {'',
        [],
        ''    address private immutable _'' @ mixedContractName @ '';'',
        ''    error Only'' @ name @ ''(address sender, address expected);'',
        [],
        ''    modifier only'' @ name @ ''() {'',
        ''        if (msg.sender != _'' @ mixedContractName @ '') {'',
        ''          revert Only'' @ name @ ''(msg.sender, _'' @ mixedContractName @ '');'',
        ''        }'',
        ''        _;'',
        ''    }'',
        [],
        ''    constructor() {'',
        ''        _'' @ mixedContractName @ '' = getMetamorphicContractAddress('' @ salt @ '', _factoryAddress());'',
        ''    }'',
        [],
        ''    function _'' @ mixedContractName @ ''Address() internal view returns(address) {'',
        ''        return _'' @ mixedContractName @ '';'',
        ''    }'',
        [],
        ''    function _saltFor'' @ name @ ''() internal pure returns(bytes32) {'',
        ''        return '' @ salt @ '';'',
        ''    }'',
        ''}'',
        ''    ''])\<close>

definition ia_extractPath :: "string \<Rightarrow> string" where
  "ia_extractPath qualifiedName = hd (js_split CHR '':'' qualifiedName)"

text \<open>Since an entry of the array is a string, \<open>split(":").length > 0\<close> always holds.\<close>

fun ia_findArtifact :: "string option \<Rightarrow> string list \<Rightarrow> string option" where
  "ia_findArtifact contractName [] = None"
| "ia_findArtifact contractName (artifactPath # artifactPaths) =
     (if 0 < length (js_split CHR '':'' artifactPath)
         \<and> js_nth (js_split CHR '':'' artifactPath) 1 = contractName
      then Some artifactPath
      else ia_findArtifact contractName artifactPaths)"

definition ia_getFullyQualifiedName :: "hre \<Rightarrow> string option \<Rightarrow> string option" where
  "ia_getFullyQualifiedName H contractName = ia_findArtifact contractName (allFullyQualifiedNames H)"

text \<open>The salt of a contract with a salt type: the hash of the two hashes.\<close>

definition typedSalt :: "hre \<Rightarrow> string option \<Rightarrow> string \<Rightarrow> string js" where
  "typedSalt H salt saltType =
     bnd (formatSalt H salt) (\<lambda>s.
     bnd (fromSum (formatBytes32String H saltType)) (\<lambda>t.
       ret (keccak256_hex H (keccak256_hex H (bytes32_hex H s) @ drop 2 (keccak256_hex H (bytes32_hex H t))))))"

definition ia_getSalt :: "hre \<Rightarrow> string option \<Rightarrow> string js" where
  "ia_getSalt H contractName =
     bnd (orTypeError ''Cannot read properties of undefined'' (ia_getFullyQualifiedName H contractName))
       (\<lambda>qualifiedName.
     bnd (case build_info_of H qualifiedName of
            Some buildInfo \<Rightarrow>
              bnd (outputContract buildInfo (ia_extractPath qualifiedName) contractName) (\<lambda>contractOutput.
                ret (co_devdoc contractOutput ''custom:salt'', co_devdoc contractOutput ''custom:salt-type''))
          | None \<Rightarrow> andThen (consoleLog ''missing salt'') (ret (Some [], Some []))) (\<lambda>(salt, saltType).
       (case saltType of
          None \<Rightarrow> bnd (formatSalt H salt) (\<lambda>b. ret (bytes32_hex H b))
        | Some ty \<Rightarrow> typedSalt H salt ty)))"

definition nameSaltStep :: "hre \<Rightarrow> Contract list \<Rightarrow> jsval \<Rightarrow> Contract list js" where
  "nameSaltStep H contractNameSaltMap item =
     bnd (orTypeError ''fullyQualifiedName.split is not a function'' (js_string item)) (\<lambda>fullyQualifiedName.
     let contractName = js_nth (js_split CHR '':'' fullyQualifiedName) 1 in
     bnd (ia_getSalt H contractName) (\<lambda>salt.
     bnd (orTypeError ''Cannot read properties of undefined'' contractName) (\<lambda>name.
       ret (contractNameSaltMap @ [\<lparr>ct_name = name, ct_salt = salt\<rparr>]))))"

text \<open>
  \<open>checkUserDirPath\<close> is called without \<open>await\<close>: it runs to its end, but what it throws does not stop the task.
\<close>

definition generateImmutableAuthTask :: "hre \<Rightarrow> string option \<Rightarrow> string option \<Rightarrow> unit js" where
  "generateImmutableAuthTask H input output =
     bnd (case input of
            None \<Rightarrow>
              bnd (getAllContracts H) (\<lambda>allContracts.
              bnd (getSortedDeployList H allContracts) (\<lambda>deploymentList.
                ret (map JStr (transformDeploymentList deploymentList))))
          | Some i \<Rightarrow>
              bnd (getDeploymentList H (Some i)) (\<lambda>list.
                orTypeError ''Cannot read properties of undefined'' (js_elements list))) (\<lambda>contracts.
     bnd (foldJs (nameSaltStep H) [] contracts) (\<lambda>contractNameSaltMap.
     let immutableContract = foldl (\<lambda>acc c. acc @ templateContract c) templateImmutableFactory contractNameSaltMap in
     (case output of
        None \<Rightarrow> writeFileSync (''contracts/utils/'' @ ''ImmutableAuth.sol'') immutableContract
      | Some out \<Rightarrow>
          andThen (tryCatch (checkUserDirPath (Some out)) (\<lambda>error. ret ()))
            (writeFileSync (out @ ''ImmutableAuth.sol'') immutableContract))))"

section \<open>The script that generates the Go bindings\<close>

text \<open>\<open>outpath[-1]\<close> is \<open>undefined\<close>: JavaScript has no negative indices.\<close>

definition goOutPath :: "string \<Rightarrow> string" where
  "goOutPath out =
     (let lastChar = (None :: char option);
          outpath = (if out \<noteq> ''.'' \<and> lastChar \<noteq> Some CHR ''/'' then out @ ''/'' else out)
      in if outpath = ''.'' then [] else outpath)"

definition abigenLine :: "string \<Rightarrow> string \<Rightarrow> string \<Rightarrow> string \<Rightarrow> string" where
  "abigenLine inp pkg outpath file =
     (let source = js_replace_first file ''.json'' []
      in ''abigen --abi '' @ inp @ ''/'' @ source @ ''.json --pkg '' @ pkg @ '' --type '' @ source
         @ '' --out '' @ outpath @ source @ ''.go'' @ NL)"

definition goGenHeader :: "string \<Rightarrow> string \<Rightarrow> string \<Rightarrow> string" where
  "goGenHeader inp out pkg =
     ''#! /bin/bash'' @ NL
     @ ''# DO NOT EDIT THIS FILE! THIS FILE CONTAINS GENERATED CODE'' @ NL
     @ ''# CHANGES MADE TO THIS FILE WILL BE LOST'' @ NL
     @ ''#'' @ NL
     @ ''# npx hardhat go-go-gen --pkg '' @ pkg @ '' --in '' @ inp @ '' --out '' @ out @ '' '' @ NL"

definition goGoGenTask :: "hre \<Rightarrow> string \<Rightarrow> string \<Rightarrow> string \<Rightarrow> unit js" where
  "goGoGenTask H inp out pkg =
     (let outpath = goOutPath out in
      bnd (readdirSync H inp) (\<lambda>files.
      let outputData = foldl (\<lambda>acc file. acc @ abigenLine inp pkg outpath file) (goGenHeader inp out pkg) files in
      bnd (existsSync pkg) (\<lambda>ex.
      andThen (if \<not> ex then mkdirSync pkg else ret ())
        (writeFileSync (pkg @ ''/generate.sh'') outputData))))"

section \<open>The Go map of function selectors and the Go interfaces\<close>

text \<open>\<open>path.basename(file, ".json")\<close> of a file name without slashes.\<close>

definition js_basename :: "string \<Rightarrow> string \<Rightarrow> string" where
  "js_basename file ext =
     (if js_endsWith file ext \<and> file \<noteq> ext then take (length file - length ext) file else file)"

text \<open>
  \<open>Buffer.from(keccak256(Buffer.from(canonical)).slice(2, 10), "hex")\<close>: the first four bytes of the hash.
\<close>

definition functionSelector :: "hre \<Rightarrow> string \<Rightarrow> nat list" where
  "functionSelector H canonical =
     map (\<lambda>i. unat (drop_bit (248 - 8 * i) (event_topic H canonical) AND 255)) [0..<4]"

record signatureAssociation =
  sa_signature :: "nat list"
  sa_name :: string

text \<open>\<open>func.inputs.map((input) => input.type).join(",")\<close>\<close>

definition inputType :: "jsval \<Rightarrow> string js" where
  "inputType input = bnd (propOf input ''type'') (\<lambda>t. ret (js_to_string t))"

definition mapJs :: "('a \<Rightarrow> 'b js) \<Rightarrow> 'a list \<Rightarrow> 'b list js" where
  "mapJs f xs = foldJs (\<lambda>acc x. bnd (f x) (\<lambda>y. ret (acc @ [y]))) [] xs"

definition functionAssociation :: "hre \<Rightarrow> string \<Rightarrow> jsval \<Rightarrow> signatureAssociation js" where
  "functionAssociation H contractName func =
     bnd (propOf func ''name'') (\<lambda>fname.
     bnd (propOf func ''inputs'') (\<lambda>inputs.
     bnd (orTypeError ''inputs.map is not a function'' (js_list inputs)) (\<lambda>ins.
     bnd (mapJs inputType ins) (\<lambda>types.
     let canonical = js_plus_string [] fname @ ''('' @ js_join '','' types @ '')'' in
       ret \<lparr>sa_signature = functionSelector H canonical, sa_name = contractName @ ''.'' @ canonical\<rparr>))))"

definition filterFunctions :: "jsval list \<Rightarrow> jsval list js" where
  "filterFunctions items =
     foldJs (\<lambda>acc x. bnd (propOf x ''type'') (\<lambda>t. ret (if t = JStr ''function'' then acc @ [x] else acc))) [] items"

definition fileAssociations :: "hre \<Rightarrow> string \<Rightarrow> string \<Rightarrow> signatureAssociation list js" where
  "fileAssociations H abiDir fileName =
     bnd (readFileSync (abiDir @ ''/'' @ fileName)) (\<lambda>contents.
     bnd (fromSum (json_parse H contents)) (\<lambda>abi.
     let contractName = js_basename fileName ''.json'' in
     bnd (orTypeError ''abi.filter is not a function'' (js_list abi)) (\<lambda>items.
     bnd (filterFunctions items) (\<lambda>funcs.
       mapJs (functionAssociation H contractName) funcs))))"

definition mappingEntry :: "signatureAssociation \<Rightarrow> string" where
  \<open>mappingEntry a =
     [CHR 0x09] @ ''{'' @ js_join '','' (map js_show_nat (sa_signature a)) @ ''}: "'' @ sa_name a @ ''"''\<close>

definition mappingSource :: "signatureAssociation list \<Rightarrow> string" where
  \<open>mappingSource associations = js_join NL
     [''// Generated by custom bridge script. DO NOT EDIT.'', [],
      ''package bindings'', [],
      ''var FunctionMapping = map[[4]byte]string {'',
      ''    {0,0,0,0}: "transfer()",'',
      ''    {96,128,96,64}: "deploy()",'',
      js_join ('','' @ NL) (map mappingEntry associations) @ ''}'', []]\<close>

text \<open>\<open>fs.mkdir(dir, {recursive: true})\<close>: every missing folder of the path, outermost first.\<close>

definition mkdirPrefix :: "path \<Rightarrow> unit js" where
  "mkdirPrefix p w =
     (case w_fs w p of
        Some Dir \<Rightarrow> (Inr (), w)
      | Some (File s) \<Rightarrow> (Inl (FsErr ''ENOTDIR''), w)
      | None \<Rightarrow>
          (if is_dir (w_fs w) (butlast p) then (Inr (), w\<lparr>w_fs := (w_fs w)(p \<mapsto> Dir)\<rparr>)
           else (Inl (FsErr ''ENOENT''), w)))"

definition mkdirRecursive :: "string \<Rightarrow> unit js" where
  "mkdirRecursive p =
     (if fs_path p = [] then throw (FsErr ''ENOENT'')
      else forEach (map (\<lambda>n. take (n + 1) (fs_path p)) [0..<length (fs_path p)]) mkdirPrefix)"

definition jsonFiles :: "hre \<Rightarrow> string \<Rightarrow> string list js" where
  "jsonFiles H abiDir =
     bnd (readdirSync H abiDir) (\<lambda>files. ret (filter (\<lambda>file. js_endsWith file ''.json'') files))"

definition generateMappingFile :: "hre \<Rightarrow> string \<Rightarrow> unit js" where
  "generateMappingFile H bindingsDir =
     (let abiDir = bindingsDir @ ''/bindings-artifacts'' in
      andThen (consoleLog ''generating signature mapping...'')
      (bnd (jsonFiles H abiDir) (\<lambda>files.
       bnd (mapJs (fileAssociations H abiDir) files) (\<lambda>associations.
       let golangSrc = mappingSource (concat associations) in
       andThen (mkdirRecursive bindingsDir)
         (writeFileSync (bindingsDir @ ''/mapping.go'') golangSrc)))))"

definition ifacemakerPart :: "string \<Rightarrow> string \<Rightarrow> string \<Rightarrow> string" where
  \<open>ifacemakerPart contract part letter =
     ''ifacemaker -f '' @ contract @ ''.go -s '' @ contract @ part @ '' -o '' @ contract @ ''.iface.''
     @ letter @ ''.go -p bindings -i I'' @ contract @ part @ '' -c "Generated by ifacemaker. DO NOT EDIT."''\<close>

definition ifacemakerCommand :: "string \<Rightarrow> string" where
  "ifacemakerCommand contract =
     ifacemakerPart contract ''Caller'' ''c'' @ '' &&'' @ NL @ ''         ''
     @ ifacemakerPart contract ''Transactor'' ''t'' @ '' &&'' @ NL @ ''         ''
     @ ifacemakerPart contract ''Filterer'' ''f''"

definition execCommand :: "hre \<Rightarrow> string \<Rightarrow> unit js" where
  "execCommand H cmd =
     andThen (logAction (Spawn cmd []))
       (case exec_error H cmd of Some e \<Rightarrow> throw e | None \<Rightarrow> ret ())"

definition ifaceType :: "string \<Rightarrow> string" where
  "ifaceType contract =
     js_join NL
       [''type I'' @ contract @ '' interface {'',
        [CHR 0x09] @ ''I'' @ contract @ ''Caller'',
        [CHR 0x09] @ ''I'' @ contract @ ''Transactor'',
        [CHR 0x09] @ ''I'' @ contract @ ''Filterer'',
        ''}'']"

definition ifaceSource :: "string list \<Rightarrow> string" where
  "ifaceSource contracts =
     js_join NL
       [''// Generated by custom bridge script. DO NOT EDIT'', [],
        ''package bindings'', [],
        js_join (NL @ NL) (map ifaceType contracts), []]"

definition generateIfaces :: "hre \<Rightarrow> string \<Rightarrow> unit js" where
  "generateIfaces H bindingsDir =
     (let abiDir = bindingsDir @ ''/bindings-artifacts'' in
      bnd (jsonFiles H abiDir) (\<lambda>files.
      let contracts = map (\<lambda>file. js_basename file ''.json'') files in
      andThen (forEach contracts (\<lambda>contract.
          andThen (consoleLog (''generating '' @ contract @ '' interface...''))
            (execCommand H (ifacemakerCommand contract))))
        (writeFileSync (bindingsDir @ ''/iface.go'') (ifaceSource contracts))))"

definition build_main :: "hre \<Rightarrow> string \<Rightarrow> unit js" where
  "build_main H bindingsDir = andThen (generateMappingFile H bindingsDir) (generateIfaces H bindingsDir)"

section \<open>Small scripts\<close>

definition getInitCallData_main :: "hre \<Rightarrow> unit js" where
  "getInitCallData_main H =
     bnd (fromSum (encode_call H ''BToken'' ''initialize'' [])) (\<lambda>initCallData.
       consoleLog (cdata_hex H initCallData))"

definition generateDeployList_main :: "hre \<Rightarrow> unit js" where
  "generateDeployList_main H =
     bnd (getAllContracts H) (\<lambda>contracts.
     bnd (getSortedDeployList H contracts) (\<lambda>deploymentList.
       writeDeploymentList H (transformDeploymentList deploymentList) None))"

text \<open>The elements a loop \<open>for (const x of xs)\<close> visits.\<close>

fun js_iter :: "jsval \<Rightarrow> jsval list option" where
  "js_iter (JArr vs) = Some vs"
| "js_iter (JStr s) = Some (map (\<lambda>c. JStr [c]) s)"
| "js_iter _ = None"

definition generateDeploymentArgTemplate_main :: "hre \<Rightarrow> unit js" where
  "generateDeploymentArgTemplate_main H =
     bnd (getDeploymentList H None) (\<lambda>list.
     bnd (orTypeError ''contracts is not iterable'' (js_iter list)) (\<lambda>contracts.
     bnd (foldJs (\<lambda>deploymentArgs item.
            bnd (orTypeError ''contract.split is not a function'' (js_string item)) (templateStep H deploymentArgs))
            \<lparr>dpa_constructor = [], dpa_initializer = []\<rparr> contracts) (\<lambda>deploymentArgs.
       writeDeploymentArgs H deploymentArgs None)))"

definition accountsTask :: "hre \<Rightarrow> unit js" where
  "accountsTask H =
     bnd (getAccounts H) (\<lambda>accounts. forEach accounts (\<lambda>account. consoleLog (addr_hex H account)))"

end
