(* ===== verification/Maintenance_Scripts.thy ===== *)
theory Maintenance_Scripts
  imports Code_Generators Library_Correctness
begin

text \<open>
  Two scripts that stand beside the tasks: \<^verbatim>\<open>sumGasInFactoryState.ts\<close> adds up the gas recorded in a JSON state
  file, \<^verbatim>\<open>deployAllContracts.ts\<close> deploys a factory and goes through the deployment list.
\<close>

section \<open>Adding up the gas\<close>

text \<open>
  The accumulator \<open>gas\<close>: a number until a value that is no number is added. Adding \<open>undefined\<close> gives \<open>NaN\<close>,
  adding a string, an array or an object turns the sum into a string. Numbers are integers, as in all
  dynamically typed values of the model.
\<close>

datatype js_sum = SumNum int | SumNaN | SumStr string

fun js_sum_string :: "js_sum \<Rightarrow> string" where
  "js_sum_string (SumNum n) = js_show_int n"
| "js_sum_string SumNaN = ''NaN''"
| "js_sum_string (SumStr s) = s"

fun js_add_num :: "js_sum \<Rightarrow> int \<Rightarrow> js_sum" where
  "js_add_num (SumNum n) k = SumNum (n + k)"
| "js_add_num SumNaN k = SumNaN"
| "js_add_num (SumStr s) k = SumStr (s @ js_show_int k)"

text \<open>\<open>acc + v\<close>\<close>

fun js_add :: "js_sum \<Rightarrow> jsval \<Rightarrow> js_sum" where
  "js_add acc (JNum k) = js_add_num acc k"
| "js_add (SumStr s) v = SumStr (js_plus_string s v)"
| "js_add acc (JBool b) = js_add_num acc (if b then 1 else 0)"
| "js_add acc JUndef = SumNaN"
| "js_add acc v = SumStr (js_plus_string (js_sum_string acc) v)"

definition addGasOf :: "jsval \<Rightarrow> js_sum \<Rightarrow> string \<Rightarrow> js_sum js" where
  "addGasOf State gas field =
     bnd (propOf State field) (\<lambda>list.
     bnd (orTypeError (''State.'' @ field @ '' is not iterable'') (js_iter list)) (\<lambda>contracts.
       foldJs (\<lambda>gas contract. bnd (propOf contract ''gas'') (\<lambda>g. ret (js_add gas g))) gas contracts))"

definition sumGasInFactoryState_main :: "hre \<Rightarrow> unit js" where
  "sumGasInFactoryState_main H =
     bnd (readFileSync ''./deployments/testnet/factoryState.json'') (\<lambda>rawData.
     bnd (fromSum (json_parse H rawData)) (\<lambda>State.
     bnd (propOf State ''defaultFactoryData'') (\<lambda>defaultFactory.
     bnd (propOf defaultFactory ''gas'') (\<lambda>g.
     let gas = (if g \<noteq> JUndef then js_add (SumNum 0) g else SumNum 0) in
     bnd (addGasOf State gas ''templates'') (\<lambda>gas.
     bnd (addGasOf State gas ''staticContracts'') (\<lambda>gas.
     bnd (addGasOf State gas ''deployCreates'') (\<lambda>gas.
     bnd (addGasOf State gas ''proxies'') (\<lambda>gas.
       consoleLog (js_sum_string gas)))))))))"

section \<open>The deployment script of the earlier interface\<close>

text \<open>
  \<open>hardhat run\<close> transpiles a script without checking its types. The constant \<open>STATIC_DEPLOYMENT\<close>, which
  \<^verbatim>\<open>constants.ts\<close> does not export, is then \<open>undefined\<close>, and its case is the one of a contract without a deploy type.
  Both helpers are given the arguments of an earlier signature: \<open>run\<close> or \<open>ethers\<close> arrives where
  \<open>isInitializable\<close> expects the artifacts, and neither has a method \<open>getBuildInfo\<close>.
\<close>

abbreviation STATIC_DEPLOYMENT :: "string option" where
  "STATIC_DEPLOYMENT \<equiv> None"

definition deployAllStep :: "hre \<Rightarrow> unit \<Rightarrow> jsval \<Rightarrow> unit js" where
  "deployAllStep H u contract =
     bnd (orTypeError ''fullName.split is not a function'' (js_string contract)) (\<lambda>fullyQualifiedName.
     bnd (getDeployType H fullyQualifiedName) (\<lambda>deployType.
       if deployType = STATIC_DEPLOYMENT \<or> deployType = Some UPGRADEABLE_DEPLOYMENT
       then throw (TypeErr ''artifacts.getBuildInfo is not a function'')
       else ret ()))"

definition deployAllContracts_main :: "hre \<Rightarrow> unit js" where
  "deployAllContracts_main H =
     bnd (deployFactory H None) (\<lambda>factoryData.
     bnd (getDeploymentList H None) (\<lambda>list.
     bnd (orTypeError ''Cannot read properties of undefined'' (js_elements list)) (\<lambda>contracts.
       foldJs (deployAllStep H) () contracts)))"

section \<open>Properties\<close>

text \<open>The numbers recorded in a list.\<close>

definition gas_entry :: "int \<Rightarrow> jsval \<Rightarrow> bool" where
  "gas_entry k v = (js_prop v ''gas'' = Some (JNum k))"

lemma addGasOf_numbers:
  assumes "js_prop State field = Some (JArr vs)" and "list_all2 gas_entry ks vs"
  shows "addGasOf State (SumNum n) field w = (Inr (SumNum (n + sum_list ks)), w)"
proof -
  have "foldJs (\<lambda>gas contract. bnd (propOf contract ''gas'') (\<lambda>g. ret (js_add gas g))) (SumNum n) vs w
      = (Inr (SumNum (n + sum_list ks)), w)"
    using assms(2)
    by (induction ks vs arbitrary: n rule: list_all2_induct)
       (auto simp: gas_entry_def orTypeError_def bnd_def world_simps add.assoc)
  with assms(1) show ?thesis by (simp add: addGasOf_def orTypeError_def bnd_def world_simps)
qed

text \<open>
  The gas summation prints the sum of all recorded figures. When the state has the four lists, every entry of
  them a numeric gas figure, and the default factory has a figure or none, the script changes nothing and prints
  the figure of the factory plus those of the templates, static contracts, created contracts and proxies.
\<close>

theorem sumGas_total:
  assumes "readFileSync ''./deployments/testnet/factoryState.json'' w = (Inr raw, w)"
    and "json_parse H raw = Inr (JObj ps)"
    and "js_prop (obj_get ps ''defaultFactoryData'') ''gas'' = Some (case k0 of None \<Rightarrow> JUndef | Some k \<Rightarrow> JNum k)"
    and "obj_get ps ''templates'' = JArr v1" "list_all2 gas_entry k1 v1"
    and "obj_get ps ''staticContracts'' = JArr v2" "list_all2 gas_entry k2 v2"
    and "obj_get ps ''deployCreates'' = JArr v3" "list_all2 gas_entry k3 v3"
    and "obj_get ps ''proxies'' = JArr v4" "list_all2 gas_entry k4 v4"
  shows "sumGasInFactoryState_main H w
    = (Inr (), w\<lparr>w_console := w_console w
        @ [js_show_int ((case k0 of None \<Rightarrow> 0 | Some k \<Rightarrow> k) + sum_list (k1 @ k2 @ k3 @ k4))]\<rparr>)"
  using assms
  by (cases k0)
     (simp_all add: sumGasInFactoryState_main_def orTypeError_def bnd_def world_simps consoleLog_run
       addGasOf_numbers add.assoc)

definition sample_gas_hre :: hre where
  "sample_gas_hre = sample_hre\<lparr>json_parse := \<lambda>s. Inr (JObj
     [(''defaultFactoryData'', JObj [(''gas'', JNum 40)]), (''templates'', JArr []), (''staticContracts'', JArr []),
      (''deployCreates'', JArr [JObj [(''gas'', JNum 7)]]), (''proxies'', JArr [JObj [(''gas'', JNum 5)], JObj [(''gas'', JNum 3)]])])\<rparr>"

definition sample_gas_world :: world where
  "sample_gas_world = sample_world\<lparr>w_fs := sample_files(fs_path ''./deployments/testnet/factoryState.json'' \<mapsto> File [])\<rparr>"

theorem sumGas_total_witness:
  "sumGasInFactoryState_main sample_gas_hre sample_gas_world
     = (Inr (), sample_gas_world\<lparr>w_console := [js_show_int 55]\<rparr>)"
proof -
  have r: "readFileSync ''./deployments/testnet/factoryState.json'' sample_gas_world = (Inr [], sample_gas_world)"
    by (simp add: readFileSync_def fs_path_def js_startsWith_def sample_gas_world_def)
  have c: "w_console sample_gas_world = []" by (simp add: sample_gas_world_def sample_world_def)
  show ?thesis
    using sumGas_total [OF r, of sample_gas_hre _ "Some 40" "[]" "[]" "[]" "[]" _ "[7]" _ "[5, 3]"]
    by (simp add: sample_gas_hre_def obj_get_def gas_entry_def c)
qed

text \<open>A step of the loop reads only, and returns for a contract of another deploy type.\<close>

lemma deployAllStep_reads: "keeps unchanged (deployAllStep H u x)"
  unfolding deployAllStep_def by (intro reads.keeps_rules reads.keeps_tags)

lemma deployAllStep_InrE:
  assumes "deployAllStep H u x w = (Inr v, w')"
  obtains q t where "x = JStr q" and "nstag H q ''deploy-type'' = Inr (Some t)" and "t \<noteq> UPGRADEABLE_DEPLOYMENT"
proof -
  note unf = deployAllStep_def getDeployType_def
  from assms obtain q where q: "x = JStr q" unfolding unf by (cases x) (auto simp: world_simps)
  from assms obtain t where t: "nstag H q ''deploy-type'' = Inr t"
    unfolding unf by (auto simp: q getCustomNSTag_run world_simps elim!: bnd_InrE)
  with assms have "t \<noteq> None" "t \<noteq> Some UPGRADEABLE_DEPLOYMENT"
    unfolding unf by (auto simp: q getCustomNSTag_run world_simps simp del: not_None_eq split: if_splits)
  then obtain s where "t = Some s" "s \<noteq> UPGRADEABLE_DEPLOYMENT" by (cases t) blast+
  with that [OF q] t show thesis by blast
qed

lemma deployAll_fold:
  assumes "foldJs (deployAllStep H) u xs w = (Inr v, w')"
  shows "\<exists>qs. xs = map JStr qs
    \<and> (\<forall>q \<in> set qs. \<exists>t. nstag H q ''deploy-type'' = Inr (Some t) \<and> t \<noteq> UPGRADEABLE_DEPLOYMENT)"
  using assms
proof (induction xs arbitrary: u w)
  case (Cons x xs)
  then obtain u1 w1 where s: "deployAllStep H u x w = (Inr u1, w1)"
    and r: "foldJs (deployAllStep H) u1 xs w1 = (Inr v, w')" by (auto elim!: bnd_InrE)
  from Cons.IH [OF r] obtain qs where q: "xs = map JStr qs"
    "\<forall>q \<in> set qs. \<exists>t. nstag H q ''deploy-type'' = Inr (Some t) \<and> t \<noteq> UPGRADEABLE_DEPLOYMENT" by blast
  from s obtain q t where "x = JStr q" "nstag H q ''deploy-type'' = Inr (Some t)" "t \<noteq> UPGRADEABLE_DEPLOYMENT"
    by (rule deployAllStep_InrE)
  with q show ?case by (intro exI [of _ "q # qs"]) auto
qed simp



end
