(* ===== verification/Admin_Correctness.thy ===== *)
theory Admin_Correctness
  imports Validator_Tasks Sample_Env
begin

text \<open>
  The administration tasks: what a call through the factory does, that only the owner of the factory can make
  one, and the transfer of ether.
\<close>

section \<open>Calls by an account that does not own the factory\<close>

text \<open>The first signer is not the owner. Then nothing a task sends is accepted.\<close>

definition stranger :: "hre \<Rightarrow> addr \<Rightarrow> world \<Rightarrow> bool" where
  "stranger H f w =
     (ch_code (w_chain w) f = Some FactoryCode
      \<and> \<not> auth f (hd (signers H)) (w_chain w))"

definition stranger_kept :: "hre \<Rightarrow> addr \<Rightarrow> world \<Rightarrow> world \<Rightarrow> bool" where
  "stranger_kept H f w w' =
     (stranger H f w \<longrightarrow>
        w_chain w' = w_chain w \<and> sent (w_log w') = sent (w_log w) \<and> w_fs w' = w_fs w)"

interpretation strangers: console_frame "stranger_kept H f" for H f
  by unfold_locales
     (auto simp: stranger_kept_def stranger_def keeps_def consoleLog_def modW_def)

text \<open>\<open>refused H f m\<close>: a stranger's run of \<open>m\<close> throws and leaves the chain, the transactions and the files alone.\<close>

definition refused :: "hre \<Rightarrow> addr \<Rightarrow> 'a js \<Rightarrow> bool" where
  "refused H f m = (keeps (stranger_kept H f) m \<and> (\<forall>w. stranger H f w \<longrightarrow> isl (fst (m w))))"

lemma refused_keeps: "refused H f m \<Longrightarrow> keeps (stranger_kept H f) m"
  by (simp add: refused_def)

lemma refused_throw: "refused H f (throw e)"
  by (simp add: refused_def strangers.keeps_throw world_simps)

lemma refused_first: "refused H f m \<Longrightarrow> (\<And>a. keeps (stranger_kept H f) (g a)) \<Longrightarrow> refused H f (bnd m g)"
  by (auto simp: refused_def bnd_def isl_def intro!: strangers.keeps_bnd split: prod.splits sum.splits)

lemma stranger_stays: "stranger_kept H f w w' \<Longrightarrow> stranger H f w \<Longrightarrow> stranger H f w'"
  by (simp add: stranger_kept_def stranger_def)

lemma refused_later:
  assumes m: "keeps (stranger_kept H f) m" and g: "\<And>a. refused H f (g a)"
  shows "refused H f (bnd m g)"
  unfolding refused_def
proof (intro conjI allI impI)
  show "keeps (stranger_kept H f) (bnd m g)"
    using m g by (intro strangers.keeps_bnd) (simp_all add: refused_def)
  fix w assume s: "stranger H f w"
  obtain r w' where r: "m w = (r, w')" by (cases "m w")
  with m s have "stranger H f w'" by (blast dest: keepsD stranger_stays)
  then show "isl (fst (bnd m g w))"
    using g r by (cases r) (simp_all add: refused_def world_simps)
qed

lemma refused_andThen_first: "refused H f m \<Longrightarrow> keeps (stranger_kept H f) n \<Longrightarrow> refused H f (andThen m n)"
  unfolding andThen_def by (rule refused_first)

lemma refused_andThen_later: "keeps (stranger_kept H f) m \<Longrightarrow> refused H f n \<Longrightarrow> refused H f (andThen m n)"
  unfolding andThen_def by (rule refused_later)

lemma refused_if: "refused H f m \<Longrightarrow> refused H f n \<Longrightarrow> refused H f (if b then m else n)"
  by simp

lemma refused_prod: "(\<And>a b. refused H f (g a b)) \<Longrightarrow> refused H f (case x of (a, b) \<Rightarrow> g a b)"
  by (cases x) auto

lemma stranger_call_reverts:
  assumes "stranger H f w" and "d = CallAny t 0 i \<or> d = MultiCall cs" and "signers H = s # os"
  shows "\<exists>e. tx_exec (hre_evm H) s f d (bump_nonce s (w_chain w)) = Inl e"
  using assms by (auto simp: stranger_def evm_simps auth_def)

lemma refused_sendFactoryTx:
  assumes "d = CallAny t 0 i \<or> d = MultiCall cs"
  shows "refused H f (sendFactoryTx H f d fees)"
proof -
  have "\<exists>e. sendFactoryTx H f d fees w = (Inl e, w)" if "stranger H f w" for w
  proof (cases "signers H")
    case Nil
    then show ?thesis by (simp add: sendFactoryTx_def firstSigner_def js_nth_def bnd_def world_simps)
  next
    case (Cons s os)
    from stranger_call_reverts [OF that assms this] obtain e where
      "tx_exec (hre_evm H) s f d (bump_nonce s (w_chain w)) = Inl e" by blast
    from sendFactoryTx_revert [OF Cons this] show ?thesis by blast
  qed
  then show ?thesis
    unfolding refused_def keeps_def stranger_kept_def by (metis fst_conv snd_conv sum.disc(1))
qed

lemmas refused_transactions = refused_sendFactoryTx [OF disjI1 [OF refl]] refused_sendFactoryTx [OF disjI2 [OF refl]]

lemma stranger_keeps_log:
  "keeps (stranger_kept H f) (waitTx r n)" "keeps (stranger_kept H f) (rpcSend H m ps)"
  by (auto simp: keeps_def stranger_kept_def waitTx_def rpcSend_def andThen_def bnd_def logAction_def world_simps
      split: option.split)

lemma stranger_keeps_reads:
  "keeps (stranger_kept H f) (factoryLookup H g name)" "keeps (stranger_kept H f) (factoryLookupAddress H g name)"
  "keeps (stranger_kept H f) (checkReceipt r)" "keeps (stranger_kept H f) (tokenBalance H t a b)"
  unfolding factoryLookup_def factoryLookupAddress_def lookupSalt_def checkReceipt_def tokenBalance_def
  by (intro strangers.keeps_console_rules | simp add: strangers.keeps_basic split: jsval.split)+

lemmas stranger_keeps = strangers.keeps_console_rules stranger_keeps_log stranger_keeps_reads

lemma refused_callThroughFactory: "refused H f (callThroughFactory H f t i n)"
  unfolding callThroughFactory_def by (intro refused_first refused_transactions stranger_keeps)

lemmas refused_steps = refused_if refused_prod refused_throw refused_first [OF refused_callThroughFactory]
  refused_andThen_first [OF refused_callThroughFactory] refused_later refused_andThen_later

lemma refused_pool_calls:
  "refused H f (unregisterValidatorsTask H f vs)" "refused H f (scheduleMaintenanceTask H f)"
  "refused H f (pauseEthdkgArbitraryHeightTask H h f)" "refused H f (changeIntervalToEvictValidatorsTask H i f)"
  "refused H f (unregisterAllValidatorsTask H f)" "refused H f (initializeEthdkgTask H f)"
  unfolding unregisterValidatorsTask_def scheduleMaintenanceTask_def pauseEthdkgArbitraryHeightTask_def
    changeIntervalToEvictValidatorsTask_def unregisterAllValidatorsTask_def initializeEthdkgTask_def
  by (intro refused_steps stranger_keeps)+

lemma refused_other_calls:
  "refused H f (virtualMintDepositTask H f o' amt ty)" "refused H f (setMinEthereumBlocksPerSnapshotTask H f b)"
  "refused H f (updateAliceNetNodeVersionTask H f e ma mi pa bh)"
  unfolding virtualMintDepositTask_def setMinEthereumBlocksPerSnapshotTask_def updateAliceNetNodeVersionTask_def
  by (intro refused_steps stranger_keeps)+

lemma refused_sendFactoryTxNonce: "refused H f (sendFactoryTxNonce H f (CallAny t 0 i) n)"
  unfolding sendFactoryTxNonce_def by (intro refused_steps refused_transactions stranger_keeps)

lemma refused_mintATokenToTask: "refused H f (mintATokenToTask H f amt to' n)"
  unfolding mintATokenToTask_def
  by (intro refused_later stranger_keeps refused_first [OF refused_sendFactoryTxNonce])

lemma stranger_keeps_approve:
  "keeps (stranger_kept H f) (stakeStep H a ns i)" "keeps (stranger_kept H f) (approveToken H a b t)"
  "keeps (stranger_kept H f) (eventTokenId ev)" "keeps (stranger_kept H f) (eventsOf rc)"
  unfolding stakeStep_def approveToken_def eventTokenId_def eventsOf_def by (intro stranger_keeps)+

lemma refused_stakeValidators: "refused H f (stakeValidators n f a p H)"
  unfolding stakeValidators_def Let_def
  by (intro refused_later refused_transactions stranger_keeps stranger_keeps_approve)

lemma refused_registerValidatorsTask: "refused H f (registerValidatorsTask H t f vs)"
  unfolding registerValidatorsTask_def registerStep_def mineOrWait_def Let_def
  by (intro refused_later refused_andThen_later stranger_keeps refused_first [OF refused_stakeValidators]
      stranger_keeps_approve refused_keeps [OF refused_sendFactoryTx [OF disjI2 [OF refl]]])

section \<open>Calls by the owner\<close>

text \<open>
  The effect of a call of the contract with the salt \<open>name\<close> through the factory: one transaction, to the address
  the factory has for the salt, which the factory executed.
\<close>

definition called_through :: "hre \<Rightarrow> addr \<Rightarrow> string \<Rightarrow> cdata \<Rightarrow> world \<Rightarrow> world \<Rightarrow> bool" where
  "called_through H f name input w w' =
     (\<exists>salt target es ch'.
        formatBytes32String H name = Inr salt \<and> target = lookup (hre_evm H) f salt (w_chain w)
        \<and> factory_exec (hre_evm H) f (hd (signers H)) 0 (CallAny target 0 input)
            (bump_nonce (hd (signers H)) (w_chain w)) = Inr (es, ch')
        \<and> w_chain w' = ch'\<lparr>ch_block := ch_block ch' + 1\<rparr>
        \<and> sent (w_log w') = sent (w_log w) @ [CallTx f (CallAny target 0 input)]
        \<and> w_fs w' = w_fs w)"

lemma factoryLookup_InrE:
  assumes "factoryLookup H f name w = (Inr a, w')"
  obtains salt where "formatBytes32String H name = Inr salt" and "a = lookup (hre_evm H) f salt (w_chain w)"
    and "ch_code (w_chain w) f = Some FactoryCode" and "w' = w"
proof -
  from assms obtain salt where s: "formatBytes32String H name = Inr salt"
    and l: "lookupSalt H f salt w = (Inr a, w')"
    unfolding factoryLookup_def by (auto elim!: bnd_InrE fromSum_InrE)
  from l have "a = lookup (hre_evm H) f salt (w_chain w)" "ch_code (w_chain w) f = Some FactoryCode" "w' = w"
    by (auto simp: lookupSalt_def world_simps split: if_splits)
  with s show thesis by (rule that)
qed

lemma callThroughFactory_InrE:
  assumes "callThroughFactory H f target input n w = (Inr r, w')" and "ch_code (w_chain w) f = Some FactoryCode"
  obtains es ch' where "factory_exec (hre_evm H) f (hd (signers H)) 0 (CallAny target 0 input)
            (bump_nonce (hd (signers H)) (w_chain w)) = Inr (es, ch')"
    and "w_chain w' = ch'\<lparr>ch_block := ch_block ch' + 1\<rparr>"
    and "sent (w_log w') = sent (w_log w) @ [CallTx f (CallAny target 0 input)]" and "w_fs w' = w_fs w"
    and "rc_events r = Some (map (receipt_event_of H) es)"
proof -
  from assms(1) obtain w2 where t: "sendFactoryTx H f (CallAny target 0 input) None w = (Inr r, w2)"
    and w': "w' = w2\<lparr>w_log := w_log w2 @ [Waited n]\<rparr>"
    unfolding callThroughFactory_def by (auto simp: world_simps elim!: bnd_InrE)
  from t assms(2) obtain es ch' where
    "factory_exec (hre_evm H) f (hd (signers H)) 0 (CallAny target 0 input)
       (bump_nonce (hd (signers H)) (w_chain w)) = Inr (es, ch')"
    "w2 = w\<lparr>w_chain := ch'\<lparr>ch_block := ch_block ch' + 1\<rparr>,
       w_log := w_log w @ [Sent (CallTx f (CallAny target 0 input)) None]\<rparr>"
    "rc_events r = Some (map (receipt_event_of H) es)"
    by (auto elim!: sendFactoryTx_InrE)
  with w' show thesis by (intro that) simp_all
qed

text \<open>The shape the tasks share: the lookup, some reading and printing, the call, and printing.\<close>

lemma called_throughI:
  assumes "factoryLookup H f name w1 = (Inr target, w2)"
    and "callThroughFactory H f target input n w3 = (Inr r, w4)"
    and "quiet w w1" and "quiet w2 w3" and "quiet w4 w'"
  shows "called_through H f name input w w'"
proof -
  from assms(1) obtain salt where s: "formatBytes32String H name = Inr salt"
    "target = lookup (hre_evm H) f salt (w_chain w1)" "ch_code (w_chain w1) f = Some FactoryCode" "w2 = w1"
    by (rule factoryLookup_InrE)
  have q: "w_chain w3 = w_chain w" "w_log w3 = w_log w" "w_fs w3 = w_fs w" "w_chain w1 = w_chain w"
    using assms(3,4) s(4) by (simp_all add: quiet_def)
  from assms(2) s(3) q(1,4) obtain es ch' where
    "factory_exec (hre_evm H) f (hd (signers H)) 0 (CallAny target 0 input)
            (bump_nonce (hd (signers H)) (w_chain w)) = Inr (es, ch')"
    "w_chain w4 = ch'\<lparr>ch_block := ch_block ch' + 1\<rparr>"
    "sent (w_log w4) = sent (w_log w) @ [CallTx f (CallAny target 0 input)]" "w_fs w4 = w_fs w"
    by (auto simp: q elim!: callThroughFactory_InrE)
  with s q assms(5) show ?thesis unfolding called_through_def quiet_def by metis
qed

lemma quiet_console [simp]: "quiet w (w\<lparr>w_console := c\<rparr>)"
  by (simp add: quiet_def)

lemma quiet_refl [simp]: "quiet w w"
  by (simp add: quiet_def)

lemma checkReceipt_quiet: "checkReceipt r w = (Inr (), w') \<Longrightarrow> quiet w w'"
  by (auto simp: checkReceipt_def world_simps split: if_splits)

lemma firstSigner_InrD: "firstSigner H w = (Inr a, w') \<Longrightarrow> w' = w \<and> a = hd (signers H)"
  by (auto simp: firstSigner_def js_nth_def world_simps elim!: orTypeError_InrE split: if_splits)
     (simp add: hd_conv_nth)

lemmas call_elims = bnd_InrE andThen_InrE fromSum_InrE orTypeError_InrE

text \<open>The tasks that make one call: the contract's name, and how the call is encoded.\<close>

definition administration :: "hre \<Rightarrow> addr \<Rightarrow> addr list \<Rightarrow> string \<Rightarrow> addr \<Rightarrow> int list
    \<Rightarrow> (unit js \<times> string \<times> (js_error + cdata)) list" where
  "administration H f vs s to' n =
     [(unregisterValidatorsTask H f vs, ''ValidatorPool'',
         encode_call H ''ValidatorPool'' ''unregisterValidators'' [JArr (map (\<lambda>a. JStr (addr_hex H a)) vs)]),
      (scheduleMaintenanceTask H f, ''ValidatorPool'',
         encode_iface H ''function scheduleMaintenance()'' ''scheduleMaintenance'' []),
      (pauseEthdkgArbitraryHeightTask H s f, ''ValidatorPool'',
         encode_iface H ''function pauseConsensusOnArbitraryHeight(uint256)''
           ''pauseConsensusOnArbitraryHeight'' [JStr s]),
      (changeIntervalToEvictValidatorsTask H s f, ''ValidatorPool'',
         encode_call H ''ValidatorPool'' ''setMaxIntervalWithoutSnapshots'' [JStr s]),
      (unregisterAllValidatorsTask H f, ''ValidatorPool'',
         encode_call H ''ValidatorPool'' ''unregisterAllValidators'' []),
      (initializeEthdkgTask H f, ''ValidatorPool'', encode_call H ''ValidatorPool'' ''initializeETHDKG'' []),
      (setMinEthereumBlocksPerSnapshotTask H f (n ! 0), ''Snapshots'',
         encode_call H ''Snapshots'' ''setMinimumIntervalBetweenSnapshots'' [JNum (n ! 0)]),
      (virtualMintDepositTask H f to' (n ! 0) (n ! 1), ''BToken'',
         encode_iface H ''function virtualMintDeposit(uint8 accountType_,address to_,uint256 amount_)''
           ''virtualMintDeposit'' [JNum (n ! 1), JStr (addr_hex H to'), JBig (n ! 0)])]"

lemma calls_pool:
  "unregisterValidatorsTask H f vs w = (Inr (), w') \<Longrightarrow>
     \<exists>i. encode_call H ''ValidatorPool'' ''unregisterValidators'' [JArr (map (\<lambda>a. JStr (addr_hex H a)) vs)] = Inr i
       \<and> called_through H f ''ValidatorPool'' i w w'"
  "scheduleMaintenanceTask H f w = (Inr (), w') \<Longrightarrow>
     \<exists>i. encode_iface H ''function scheduleMaintenance()'' ''scheduleMaintenance'' [] = Inr i
       \<and> called_through H f ''ValidatorPool'' i w w'"
  "pauseEthdkgArbitraryHeightTask H s f w = (Inr (), w') \<Longrightarrow>
     \<exists>i. encode_iface H ''function pauseConsensusOnArbitraryHeight(uint256)''
           ''pauseConsensusOnArbitraryHeight'' [JStr s] = Inr i
       \<and> called_through H f ''ValidatorPool'' i w w'"
  "changeIntervalToEvictValidatorsTask H s f w = (Inr (), w') \<Longrightarrow>
     \<exists>i. encode_call H ''ValidatorPool'' ''setMaxIntervalWithoutSnapshots'' [JStr s] = Inr i
       \<and> called_through H f ''ValidatorPool'' i w w'"
  "unregisterAllValidatorsTask H f w = (Inr (), w') \<Longrightarrow>
     \<exists>i. encode_call H ''ValidatorPool'' ''unregisterAllValidators'' [] = Inr i
       \<and> called_through H f ''ValidatorPool'' i w w'"
  "initializeEthdkgTask H f w = (Inr (), w') \<Longrightarrow>
     \<exists>i. encode_call H ''ValidatorPool'' ''initializeETHDKG'' [] = Inr i
       \<and> called_through H f ''ValidatorPool'' i w w'"
  unfolding unregisterValidatorsTask_def scheduleMaintenanceTask_def pauseEthdkgArbitraryHeightTask_def
    changeIntervalToEvictValidatorsTask_def unregisterAllValidatorsTask_def initializeEthdkgTask_def
  by (auto simp: world_simps elim!: call_elims dest!: firstSigner_InrD checkReceipt_quiet)
     (erule (1) called_throughI; simp add: quiet_def)+

lemma calls_other:
  "setMinEthereumBlocksPerSnapshotTask H f b w = (Inr (), w') \<Longrightarrow>
     \<exists>i. encode_call H ''Snapshots'' ''setMinimumIntervalBetweenSnapshots'' [JNum b] = Inr i
       \<and> called_through H f ''Snapshots'' i w w'"
  "virtualMintDepositTask H f to' amt ty w = (Inr (), w') \<Longrightarrow>
     \<exists>i. encode_iface H ''function virtualMintDeposit(uint8 accountType_,address to_,uint256 amount_)''
           ''virtualMintDeposit'' [JNum ty, JStr (addr_hex H to'), JBig amt] = Inr i
       \<and> called_through H f ''BToken'' i w w'"
  unfolding setMinEthereumBlocksPerSnapshotTask_def virtualMintDepositTask_def
  by (auto simp: world_simps elim!: call_elims dest!: firstSigner_InrD checkReceipt_quiet split: if_splits)
     (erule (1) called_throughI; simp add: quiet_def)+

lemma updateVersion_InrE:
  assumes "updateAliceNetNodeVersionTask H f e ma mi pa bh w = (Inr (), w')"
  obtains hash input where "formatBytes32String H bh = Inr hash"
    and "encode_call H ''Dynamics'' ''updateAliceNetNodeVersion''
           [JNum e, JNum ma, JNum mi, JNum pa, JStr (bytes32_hex H hash)] = Inr input"
    and "called_through H f ''Dynamics'' input w w'"
    and "2 \<le> e \<and> 0 \<le> ma \<and> 0 \<le> mi \<and> 0 \<le> pa \<and> bh \<noteq> []"
proof -
  from assms obtain d where l: "factoryLookup H f ''Dynamics'' w = (Inr d, w)"
    unfolding updateAliceNetNodeVersionTask_def by (elim bnd_InrE) (auto elim: factoryLookup_InrE)
  with assms have g: "2 \<le> e \<and> 0 \<le> ma \<and> 0 \<le> mi \<and> 0 \<le> pa \<and> bh \<noteq> []"
    unfolding updateAliceNetNodeVersionTask_def by (auto simp: world_simps split: if_splits)
  from assms obtain hash where h: "formatBytes32String H bh = Inr hash"
    unfolding updateAliceNetNodeVersionTask_def
    by (auto simp: l g world_simps elim!: call_elims dest!: firstSigner_InrD split: if_splits)
  from assms obtain i where i: "encode_call H ''Dynamics'' ''updateAliceNetNodeVersion''
      [JNum e, JNum ma, JNum mi, JNum pa, JStr (bytes32_hex H hash)] = Inr i"
    unfolding updateAliceNetNodeVersionTask_def
    by (auto simp: l g h world_simps elim!: call_elims dest!: firstSigner_InrD split: if_splits)
  from assms have "called_through H f ''Dynamics'' i w w'"
    unfolding updateAliceNetNodeVersionTask_def
    by (auto simp: l g h i world_simps elim!: call_elims dest!: firstSigner_InrD checkReceipt_quiet split: if_splits)
       (erule called_throughI [OF l]; simp add: quiet_def)+
  with h i show thesis using g by (rule that)
qed

section \<open>Transfers\<close>

lemma sendTransaction_InrE:
  assumes "sendTransaction H src dst val w = (Inr r, w')" and "ch_code (w_chain w) dst = None" and "src \<noteq> dst"
  obtains fee where "0 \<le> val" and "fee = tx_fee H (w_chain w) (SendTx src dst (nat val))"
    and "nat val + fee \<le> ch_balance (w_chain w) src"
    and "ch_balance (w_chain w') = (ch_balance (w_chain w))
           (src := ch_balance (w_chain w) src - fee - nat val, dst := ch_balance (w_chain w) dst + nat val)"
    and "w_log w' = w_log w @ [Sent (SendTx src dst (nat val)) None]" and "w_fs w' = w_fs w"
    and "w_console w' = w_console w"
proof -
  let ?fee = "tx_fee H (w_chain w) (SendTx src dst (nat val))"
  have v: "0 \<le> val" using assms(1) by (auto simp: sendTransaction_def sendValue_def world_simps split: if_splits)
  have b: "nat val + ?fee \<le> ch_balance (w_chain w) src"
    using assms(1) v by (auto simp: sendTransaction_def sendValue_def Let_def world_simps split: if_splits)
  let ?ch = "transfer src dst (nat val) (pay_fee src ?fee (bump_nonce src (w_chain w)))"
  have w': "w' = w\<lparr>w_chain := ?ch\<lparr>ch_block := ch_block ?ch + 1\<rparr>,
      w_log := w_log w @ [Sent (SendTx src dst (nat val)) None]\<rparr>"
    using assms v b
    by (auto simp: sendTransaction_def sendValue_def value_exec_def pay_fee_def Let_def logAction_def andThen_def
        bnd_def world_simps)
  show thesis
    by (rule that [OF v refl b])
       (use assms(3) in \<open>auto simp: w' transfer_def pay_fee_def Let_def fun_eq_iff\<close>)
qed

lemma bigFromNumber_InrD: "bigFromNumber (Some n) w = (Inr i, w') \<Longrightarrow> i = n \<and> w' = w"
  by (auto simp: bigFromNumber_def world_simps split: if_splits)

section \<open>Properties\<close>



text \<open>
  C34. An administration task that returns has made one call: it asked the factory for the address of the
  contract it is about, and sent one transaction in which the factory called that address with the task's
  arguments, encoded. The factory executed it, and no file changed.
\<close>

theorem administration_calls:
  assumes "(task, name, encoded) \<in> set (administration H f vs s to' n)" and "task w = (Inr (), w')"
  shows "\<exists>input. encoded = Inr input \<and> called_through H f name input w w'"
  using assms calls_pool calls_other unfolding administration_def by auto

text \<open>On the sample network the factory accepts its owner's calls of the other contracts.\<close>

lemma sample_call:
  assumes "t \<noteq> sample_factory" and "w_chain w = sample_chain"
  shows "\<exists>r ch'. sendFactoryTx sample_hre sample_factory (CallAny t 0 (OtherCall c g [])) fees w
    = (Inr r, w\<lparr>w_chain := ch', w_log := w_log w @ [Sent (CallTx sample_factory (CallAny t 0 (OtherCall c g []))) fees]\<rparr>)
    \<and> rc_events r = Some [] \<and> rc_status r = 1"
  using assms
  by (auto simp: sendFactoryTx_def firstSigner_def js_nth_def bnd_def andThen_def logAction_def world_simps
      sample_defs evm_simps auth_def call_other_def split: code.splits option.splits prod.splits)

lemma sample_pool:
  "w_chain w = sample_chain \<Longrightarrow> factoryLookup sample_hre sample_factory ''ValidatorPool'' w
     = (Inr 0x56616C696461746F72506F6F6C00000000000FAC, w)"
  by (simp add: factoryLookup_def lookupSalt_def world_simps sample_defs sample_bytes32_def lookup_def
      getMetamorphicContractAddress_def ATOKEN_SALT_def)
     (simp add: sample_addr_defs drop_bit_eq_div)

lemma sample_initialize: "\<exists>w'. initializeEthdkgTask sample_hre sample_factory sample_world = (Inr (), w')"
proof -
  have "0x56616C696461746F72506F6F6C00000000000FAC \<noteq> sample_factory" by (simp add: sample_addr_defs)
  from sample_call [OF this, of "sample_world\<lparr>w_console := [''Initializing ETHDKG'']\<rparr>" "''ValidatorPool''"
      "''initializeETHDKG''" None]
  show ?thesis
    by (auto simp: initializeEthdkgTask_def firstSigner_run [OF sample_hre_simps(4)] sample_pool sample_chain_simps
        sample_hre_simps(14) callThroughFactory_def world_simps)
qed

theorem administration_calls_witness:
  "\<exists>w' input. initializeEthdkgTask sample_hre sample_factory sample_world = (Inr (), w')
     \<and> called_through sample_hre sample_factory ''ValidatorPool'' input sample_world w'"
proof -
  obtain w' where r: "initializeEthdkgTask sample_hre sample_factory sample_world = (Inr (), w')"
    using sample_initialize by blast
  have "(initializeEthdkgTask sample_hre sample_factory, ''ValidatorPool'',
      encode_call sample_hre ''ValidatorPool'' ''initializeETHDKG'' [])
      \<in> set (administration sample_hre sample_factory [] [] 0 [0, 0])"
    by (simp add: administration_def)
  from administration_calls [OF this r] r show ?thesis by blast
qed

text \<open>
  C38. The task \<open>updateAliceNetNodeVersion\<close> checks its arguments. With a relative epoch below 2, a negative
  version number or no hash it throws and does nothing; when it returns, the arguments passed these
  checks and the factory called the dynamics contract with them.
\<close>

theorem updateAliceNetNodeVersion_guards:
  assumes "ch_code (w_chain w) f = Some FactoryCode" and "formatBytes32String H ''Dynamics'' = Inr salt"
  shows "(e < 2 \<or> ma < 0 \<or> mi < 0 \<or> pa < 0 \<or> bh = [] \<longrightarrow>
       (\<exists>msg. updateAliceNetNodeVersionTask H f e ma mi pa bh w = (Inl (Err msg), w)))
    \<and> (updateAliceNetNodeVersionTask H f e ma mi pa bh w = (Inr (), w') \<longrightarrow>
       2 \<le> e \<and> 0 \<le> ma \<and> 0 \<le> mi \<and> 0 \<le> pa \<and> bh \<noteq> []
       \<and> (\<exists>hash input. formatBytes32String H bh = Inr hash
            \<and> encode_call H ''Dynamics'' ''updateAliceNetNodeVersion''
                [JNum e, JNum ma, JNum mi, JNum pa, JStr (bytes32_hex H hash)] = Inr input
            \<and> called_through H f ''Dynamics'' input w w'))"
proof (intro conjI impI)
  have l: "factoryLookup H f ''Dynamics'' w = (Inr (lookup (hre_evm H) f salt (w_chain w)), w)"
    using assms by (simp add: factoryLookup_def lookupSalt_def world_simps)
  show "\<exists>msg. updateAliceNetNodeVersionTask H f e ma mi pa bh w = (Inl (Err msg), w)"
    if "e < 2 \<or> ma < 0 \<or> mi < 0 \<or> pa < 0 \<or> bh = []"
    using that by (auto simp: updateAliceNetNodeVersionTask_def l world_simps)
qed (auto elim!: updateVersion_InrE)

theorem updateAliceNetNodeVersion_guards_witness:
  "\<exists>msg. updateAliceNetNodeVersionTask sample_hre sample_factory 1 0 0 0 ''aa'' sample_world
     = (Inl (Err msg), sample_world)"
proof -
  have "ch_code (w_chain sample_world) sample_factory = Some FactoryCode"
    "\<exists>salt. formatBytes32String sample_hre ''Dynamics'' = Inr salt"
    by (simp_all add: sample_chain_simps sample_defs sample_bytes32_def)
  then obtain salt where "ch_code (w_chain sample_world) sample_factory = Some FactoryCode"
    "formatBytes32String sample_hre ''Dynamics'' = Inr salt" by blast
  from updateAliceNetNodeVersion_guards [OF this, of 1 0 0 0 "''aa''"] show ?thesis by simp
qed

text \<open>
  The task \<open>transferEth\<close> reads the amount as a hexadecimal number of ether. When it returns, that many ether
  went from the first account to the receiver, the first account also paid the fee, one transaction was
  sent, and the last line it prints calls the amount spent the new balance.
\<close>

theorem transferEth_moves:
  assumes amount: "js_parseInt 16 text = Some n" and a: "a = hd (signers H)"
    and receiver: "ch_code (w_chain w) rcv = None" "rcv \<noteq> a"
    and run: "transferEthTask H rcv text w = (Inr (), w')"
  shows "\<exists>fee. 0 \<le> n \<and> fee = tx_fee H (w_chain w) (SendTx a rcv (nat (n * 10 ^ 18)))
    \<and> ch_balance (w_chain w') = (ch_balance (w_chain w))
         (a := ch_balance (w_chain w) a - fee - nat (n * 10 ^ 18),
          rcv := ch_balance (w_chain w) rcv + nat (n * 10 ^ 18))
    \<and> sent (w_log w') = sent (w_log w) @ [SendTx a rcv (nat (n * 10 ^ 18))]
    \<and> last (w_console w') = ''new owner balance: '' @ js_show_int (int fee + n * 10 ^ 18)"
proof -
  let ?val = "n * 10 ^ 18"
  from run obtain r w1 w2 where w1: "quiet w w1" and t: "sendTransaction H a rcv ?val w1 = (Inr r, w2)"
    and w': "w_chain w' = w_chain w2" "sent (w_log w') = sent (w_log w2)"
    and c: "last (w_console w') = ''new owner balance: ''
      @ js_show_int (int (ch_balance (w_chain w) a) - int (ch_balance (w_chain w2) a))"
    unfolding transferEthTask_def getBalance_def Let_def amount a
    by (auto simp: world_simps elim!: bnd_InrE dest!: firstSigner_InrD bigFromNumber_InrD)
       (metis quiet_console)
  have q: "w_chain w1 = w_chain w" "w_log w1 = w_log w" using w1 by (simp_all add: quiet_def)
  from t receiver obtain fee where v: "0 \<le> ?val" "fee = tx_fee H (w_chain w) (SendTx a rcv (nat ?val))"
    and b: "nat ?val + fee \<le> ch_balance (w_chain w) a"
    and s: "ch_balance (w_chain w2) = (ch_balance (w_chain w))
         (a := ch_balance (w_chain w) a - fee - nat ?val, rcv := ch_balance (w_chain w) rcv + nat ?val)"
      "w_log w2 = w_log w @ [Sent (SendTx a rcv (nat ?val)) None]"
    by (auto simp: q elim!: sendTransaction_InrE)
  have "int (ch_balance (w_chain w) a) - int (ch_balance (w_chain w2) a) = int fee + ?val"
    using b v(1) receiver(2) by (simp add: s of_nat_diff)
  with v s w' c show ?thesis by (intro exI [of _ fee]) (simp add: zero_le_mult_iff)
qed

text \<open>The sample network with funded accounts.\<close>

definition sample_rich :: world where
  "sample_rich = sample_world\<lparr>w_chain := sample_chain\<lparr>ch_balance := (\<lambda>a. 10 ^ 21)\<rparr>\<rparr>"

lemma sample_transfer: "\<exists>w'. transferEthTask sample_hre 0xCAFE ''1f'' sample_rich = (Inr (), w')"
proof -
  have n: "js_parseInt 16 ''1f'' = Some 31" by code_simp
  have "(0xCAFE :: addr) \<noteq> sample_factory" "(0xCAFE :: addr) \<noteq> sample_template"
    by (simp_all add: sample_addr_defs)
  then show ?thesis
    by (simp add: transferEthTask_def getBalance_def n bigFromNumber_def Let_def sendTransaction_def sendValue_def
        value_exec_def pay_fee_def transfer_def firstSigner_run [OF sample_hre_simps(4)] logAction_def
        sample_rich_def sample_defs world_simps bnd_Inr andThen_Inr)
qed

theorem transferEth_moves_witness:
  "\<exists>w'. transferEthTask sample_hre 0xCAFE ''1f'' sample_rich = (Inr (), w')
     \<and> ch_balance (w_chain w') 0xCAFE = 1031 * 10 ^ 18
     \<and> ch_balance (w_chain w') sample_owner = 969 * 10 ^ 18 - 21000"
proof -
  obtain w' where r: "transferEthTask sample_hre 0xCAFE ''1f'' sample_rich = (Inr (), w')"
    using sample_transfer by blast
  have h: "js_parseInt 16 ''1f'' = Some 31" "sample_owner = hd (signers sample_hre)"
    "ch_code (w_chain sample_rich) 0xCAFE = None" "0xCAFE \<noteq> sample_owner"
    by code_simp (simp_all add: sample_rich_def sample_defs sample_addr_defs)
  from transferEth_moves [OF h r] r h(4) show ?thesis
    by (auto simp: sample_defs sample_rich_def)
qed

end
