(* ===== verification/Validator_Correctness.thy ===== *)
theory Validator_Correctness
  imports Admin_Correctness
begin

text \<open>
  Staking for validators, registering and migrating them: the transactions these tasks send, and when the
  polling loop \<open>waitBlocks\<close> ends.
\<close>

section \<open>Waiting for blocks\<close>

lemma delay_run: "delay H t w = (Inr (), w\<lparr>w_chain := (w_chain w)
    \<lparr>ch_block := ch_block (w_chain w) + mined_in H (w_chain w) t\<rparr>\<rparr>)"
  by (simp add: delay_def world_simps)

lemma waitLoop_done: "e \<le> c \<Longrightarrow> waitLoop H e c w = Some w"
  by (subst waitLoop.simps) simp

text \<open>On a network that mines, the distance to the awaited block shrinks with every turn.\<close>

lemma waitLoop_returns:
  assumes "\<And>ch. 0 < mined_in H ch 10000" and "c \<le> ch_block (w_chain w)"
  shows "\<exists>w'. waitLoop H e c w = Some w' \<and> e \<le> ch_block (w_chain w') \<and> w_log w' = w_log w \<and> w_fs w' = w_fs w"
  using assms(2)
proof (induction "e - ch_block (w_chain w)" arbitrary: c w rule: less_induct)
  case less
  show ?case
  proof (cases "c < e")
    case False
    with less.prems show ?thesis by (auto simp: waitLoop_done)
  next
    case True
    let ?b = "ch_block (w_chain w)"
    define w2 where "w2 = snd (delay H 10000 (snd (consoleLog (''Current block: '' @ js_show_nat ?b) w)))"
    have w2: "w_log w2 = w_log w" "w_fs w2 = w_fs w" "?b < ch_block (w_chain w2)"
      using assms(1) by (simp_all add: w2_def delay_run consoleLog_run)
    have step: "waitLoop H e c w = waitLoop H e ?b w2"
      using True by (subst waitLoop.simps) (simp add: w2_def Let_def)
    show ?thesis
    proof (cases "?b < e")
      case True
      with w2(3) have "e - ch_block (w_chain w2) < e - ?b" by simp
      from less.hyps [OF this, of ?b] w2 step show ?thesis by auto
    next
      case False
      with w2 step show ?thesis by (auto simp: waitLoop_done)
    qed
  qed
qed

text \<open>On a network that does not mine, a loop that has to wait for a block never ends.\<close>

lemma waitLoop_stuck:
  assumes "\<And>ch. mined_in H ch 10000 = 0" and "c < e" and "ch_block (w_chain w) < e"
  shows "waitLoop H e c w = None"
proof -
  have "H' = H \<longrightarrow> \<not> (c < e \<and> ch_block (w_chain w) < e)" if "waitLoop H' e c w = Some w'" for H' e c w w'
  proof (rule waitLoop.raw_induct [OF _ that])
    fix loop H' e c w w'
    assume 1: "\<And>H' e c w w'. loop H' e c w = Some w' \<Longrightarrow> H' = H \<longrightarrow> \<not> (c < e \<and> ch_block (w_chain w) < e)"
      "(if c < e then (let c = ch_block (w_chain w);
           w1 = snd (consoleLog (''Current block: '' @ js_show_nat c) w); w2 = snd (delay H' 10000 w1)
         in loop H' e c w2) else Some w) = Some w'"
    let ?b = "ch_block (w_chain w)"
    define w2 where "w2 = snd (delay H' 10000 (snd (consoleLog (''Current block: '' @ js_show_nat ?b) w)))"
    show "H' = H \<longrightarrow> \<not> (c < e \<and> ?b < e)"
    proof (intro impI notI)
      assume H: "H' = H" and a: "c < e \<and> ?b < e"
      have b: "ch_block (w_chain w2) = ?b" using assms(1) H by (simp add: w2_def delay_run consoleLog_run)
      from 1(2) a have "loop H' e ?b w2 = Some w'" by (simp add: Let_def w2_def)
      from 1(1) [OF this] H a b show False by simp
    qed
  qed
  with assms show ?thesis by (cases "waitLoop H e c w") auto
qed

lemma waitBlocks_run:
  "waitBlocks n H w = map_option (\<lambda>w'. (Inr (), w')) (waitLoop H (ch_block (w_chain w) + n) (ch_block (w_chain w))
     (w\<lparr>w_console := w_console w @ [''Current block: '' @ js_show_nat (ch_block (w_chain w)) @ '' Waiting for ''
        @ js_show_nat n @ '' blocks to be mined!'']\<rparr>))"
  by (simp add: waitBlocks_def Let_def consoleLog_run split: option.split)

lemma waitBlocks_mining:
  assumes "\<And>ch. 0 < mined_in H ch 10000"
  shows "\<exists>w'. waitBlocks n H w = Some (Inr (), w') \<and> ch_block (w_chain w) + n \<le> ch_block (w_chain w')
    \<and> w_log w' = w_log w \<and> w_fs w' = w_fs w"
proof -
  let ?w = "w\<lparr>w_console := w_console w @ [''Current block: '' @ js_show_nat (ch_block (w_chain w)) @ '' Waiting for ''
        @ js_show_nat n @ '' blocks to be mined!'']\<rparr>"
  have "ch_block (w_chain w) \<le> ch_block (w_chain ?w)" by simp
  from waitLoop_returns [OF assms this, of "ch_block (w_chain w) + n"] show ?thesis
    by (auto simp: waitBlocks_run)
qed

section \<open>Staking\<close>

lemma stakeStep_InrD:
  "stakeStep H p acc i w = (Inr ns, w') \<Longrightarrow>
     w' = w \<and> (\<exists>st. encode_call H ''PublicStaking'' ''mint'' [JBig stakeAmt] = Inr st \<and> ns = acc @ [MCArgs p 0 st])"
  by (auto simp: stakeStep_def encodeMultiCallArgs_def world_simps elim!: bnd_InrE fromSum_InrE)

lemma stakeStep_fold:
  assumes "foldJs (stakeStep H p) acc is w = (Inr ns, w')"
  shows "w' = w \<and> (\<exists>st. (is \<noteq> [] \<longrightarrow> encode_call H ''PublicStaking'' ''mint'' [JBig stakeAmt] = Inr st)
    \<and> ns = acc @ replicate (length is) (MCArgs p 0 st))"
  using assms
proof (induction "is" arbitrary: acc)
  case Nil
  then show ?case by (simp add: world_simps)
next
  case (Cons i "is")
  from Cons.prems obtain st where st: "encode_call H ''PublicStaking'' ''mint'' [JBig stakeAmt] = Inr st"
    and f: "foldJs (stakeStep H p) (acc @ [MCArgs p 0 st]) is w = (Inr ns, w')"
    by (auto elim!: bnd_InrE dest!: stakeStep_InrD)
  from Cons.IH [OF f] st show ?case by (cases "is") auto
qed

text \<open>The calls of the staking transaction.\<close>

definition stake_calls :: "hre \<Rightarrow> nat \<Rightarrow> addr \<Rightarrow> addr \<Rightarrow> cdata \<Rightarrow> bool" where
  "stake_calls H n a p d =
     (\<exists>ap st. encode_call H ''AToken'' ''approve'' [addr_js H p, JBig (int n * (5000000 * 10 ^ 18))] = Inr ap
       \<and> (0 < n \<longrightarrow> encode_call H ''PublicStaking'' ''mint'' [JBig (5000000 * 10 ^ 18)] = Inr st)
       \<and> d = MultiCall (MCArgs a 0 ap # replicate n (MCArgs p 0 st)))"

lemma stakeValidators_InrE:
  assumes "stakeValidators n f a p H w = (Inr r, w')"
  obtains d fees where "stake_calls H n a p d" and "sendFactoryTx H f d (Some fees) w = (Inr r, w')"
proof -
  note unf = stakeValidators_def Let_def
  from assms obtain ap where ap: "encode_call H ''AToken'' ''approve'' [addr_js H p, JBig (int n * stakeAmt)] = Inr ap"
    unfolding unf by (auto elim!: bnd_InrE fromSum_InrE)
  from assms obtain ns w1 where f: "foldJs (stakeStep H p) [] [0..<n] w = (Inr ns, w1)"
    unfolding unf by (auto simp: ap world_simps elim!: bnd_InrE)
  from stakeStep_fold [OF f] obtain st where "w1 = w"
    and st: "0 < n \<longrightarrow> encode_call H ''PublicStaking'' ''mint'' [JBig stakeAmt] = Inr st"
      "ns = replicate n (MCArgs p 0 st)" by auto
  note f = f [unfolded this]
  from getGasPrices_run [of H w] obtain fees where fees: "getGasPrices H w = (Inr fees, w)" by metis
  from assms have "sendFactoryTx H f (MultiCall (MCArgs a 0 ap # replicate n (MCArgs p 0 st))) (Some fees) w
      = (Inr r, w')"
    unfolding unf by (simp add: ap f fees encodeMultiCallArgs_def world_simps)
  moreover have "stake_calls H n a p (MultiCall (MCArgs a 0 ap # replicate n (MCArgs p 0 st)))"
    unfolding stake_calls_def using ap st(1) by (auto simp: stakeAmt_def parseEther_def)
  ultimately show thesis using that by blast
qed

section \<open>Registering\<close>

text \<open>The ids of the staked tokens, and the calls that approve their transfer.\<close>

definition staked_ids :: "addr \<Rightarrow> receipt_event list \<Rightarrow> int list" where
  "staked_ids p events = map (\<lambda>e. uint (ev_topics e ! 3))
     (filter (\<lambda>e. ev_address e = p \<and> take 1 (ev_topics e) = [TRANSFER_EVENT_HASH]) events)"

lemma isStakedToken_iff: "isStakedToken p e = (ev_address e = p \<and> take 1 (ev_topics e) = [TRANSFER_EVENT_HASH])"
  by (cases "ev_topics e") (auto simp: isStakedToken_def js_nth_def)

definition approvals :: "hre \<Rightarrow> addr \<Rightarrow> addr \<Rightarrow> int list \<Rightarrow> mcArgs list \<Rightarrow> bool" where
  "approvals H p v ids aps =
     list_all2 (\<lambda>t ap. \<exists>d. encode_call H ''PublicStaking'' ''approve'' [addr_js H v, JBig t] = Inr d
       \<and> ap = MCArgs p 0 d) ids aps"

lemma approveToken_InrD:
  "approveToken H p v t w = (Inr ap, w') \<Longrightarrow> w' = w \<and> approvals H p v [t] [ap]"
  by (auto simp: approveToken_def approvals_def encodeMultiCallArgs_def world_simps elim!: bnd_InrE fromSum_InrE)

lemma eventTokenId_InrD: "eventTokenId e w = (Inr t, w') \<Longrightarrow> w' = w \<and> t = uint (ev_topics e ! 3)"
  by (auto simp: eventTokenId_def js_nth_def world_simps elim!: bnd_InrE orTypeError_InrE split: if_splits)

lemma approvals_append:
  "approvals H p v is as \<Longrightarrow> approvals H p v js bs \<Longrightarrow> approvals H p v (is @ js) (as @ bs)"
  unfolding approvals_def by (rule list_all2_appendI)

lemma registerStep_InrD:
  assumes "registerStep H p v acc e w = (Inr acc', w')"
  shows "w' = w \<and> (if isStakedToken p e
      then \<exists>ap. approvals H p v [uint (ev_topics e ! 3)] [ap] \<and> acc' = (fst acc @ [uint (ev_topics e ! 3)], snd acc @ [ap])
      else acc' = acc)"
  using assms
  by (auto simp: registerStep_def world_simps elim!: bnd_InrE dest!: eventTokenId_InrD approveToken_InrD
      split: if_splits)

lemma registerStep_fold:
  assumes "foldJs (registerStep H p v) (ids0, aps0) events w = (Inr (ids, aps), w')"
    and "approvals H p v ids0 aps0"
  shows "w' = w \<and> ids = ids0 @ staked_ids p events \<and> approvals H p v ids aps"
  using assms
proof (induction events arbitrary: ids0 aps0)
  case Nil
  then show ?case by (simp add: world_simps staked_ids_def)
next
  case (Cons e events)
  show ?case
  proof (cases "isStakedToken p e")
    case False
    with Cons.prems(1) have f: "foldJs (registerStep H p v) (ids0, aps0) events w = (Inr (ids, aps), w')"
      by (auto elim!: bnd_InrE dest!: registerStep_InrD)
    from Cons.IH [OF f Cons.prems(2)] False show ?thesis by (auto simp: staked_ids_def isStakedToken_iff)
  next
    case True
    with Cons.prems(1) obtain ap where ap: "approvals H p v [uint (ev_topics e ! 3)] [ap]"
      and f: "foldJs (registerStep H p v) (ids0 @ [uint (ev_topics e ! 3)], aps0 @ [ap]) events w
        = (Inr (ids, aps), w')"
      by (auto elim!: bnd_InrE dest!: registerStep_InrD)
    from Cons.IH [OF f approvals_append [OF Cons.prems(2) ap]] True show ?thesis
      by (auto simp: staked_ids_def isStakedToken_iff)
  qed
qed

lemma factoryLookupAddress_InrE:
  assumes "factoryLookupAddress H f name w = (Inr a, w')"
  obtains "factoryLookup H f name w = (Inr a, w')" and "w' = w"
proof -
  from assms have "factoryLookup H f name w = (Inr a, w')"
    by (auto simp: factoryLookupAddress_def factoryLookup_def lookupSalt_def tryCatch_def world_simps
        elim!: bnd_InrE fromSum_InrE split: if_splits)
  moreover then have "w' = w" by (rule factoryLookup_InrE) simp
  ultimately show thesis by (rule that)
qed

text \<open>The chain, the transactions and the files are the same.\<close>

definition calm :: "world \<Rightarrow> world \<Rightarrow> bool" where
  "calm w w' = (w_chain w' = w_chain w \<and> sent (w_log w') = sent (w_log w) \<and> w_fs w' = w_fs w)"

lemma mineOrWait_calm: "mineOrWait H test tx w = (Inr (), w') \<Longrightarrow> calm w w'"
  by (auto simp: calm_def mineOrWait_def rpcSend_def logAction_def world_simps split: if_splits option.splits)

lemma mineIf_calm: "(if test then rpcSend H m ps else ret ()) w = (Inr (), w') \<Longrightarrow> calm w w'"
  by (auto simp: calm_def rpcSend_def logAction_def world_simps split: if_splits option.splits)

lemma factoryLookup_cong:
  "w_chain w = w_chain w1 \<Longrightarrow> factoryLookup H f name w = (Inr a, w) \<Longrightarrow> factoryLookup H f name w1 = (Inr a, w1)"
  by (auto simp: factoryLookup_def lookupSalt_def world_simps elim!: bnd_InrE fromSum_InrE split: if_splits)

text \<open>The transaction that registers validators with tokens.\<close>

definition register_calls :: "hre \<Rightarrow> addr \<Rightarrow> addr \<Rightarrow> jsval list \<Rightarrow> int list \<Rightarrow> cdata \<Rightarrow> bool" where
  "register_calls H p v accounts ids d =
     (\<exists>aps input. approvals H p v ids aps
       \<and> encode_call H ''ValidatorPool'' ''registerValidators'' [JArr accounts, JArr (map JBig ids)] = Inr input
       \<and> d = MultiCall (aps @ [MCArgs v 0 input]))"

text \<open>The run of \<open>registerValidators\<close> up to the staking, and the rest of it.\<close>

definition registering :: "hre \<Rightarrow> bool \<Rightarrow> addr \<Rightarrow> addr list \<Rightarrow> addr \<Rightarrow> addr \<Rightarrow> receipt \<Rightarrow> unit js" where
  "registering H test f vs p v tx =
     bnd (waitTx tx None) (\<lambda>receipt.
     bnd (eventsOf receipt) (\<lambda>events.
     bnd (foldJs (registerStep H p v) ([], []) events) (\<lambda>(tokenIds, approveTokens).
     andThen (mineOrWait H test tx)
     (bnd (fromSum (encode_call H ''ValidatorPool'' ''registerValidators''
             [JArr (map (addr_js H) vs), JArr (map JBig tokenIds)])) (\<lambda>input.
      andThen (consoleLog (inspect H (JArr (map JBig tokenIds))))
      (andThen (consoleLog ''Registering validators'')
      (bnd (getGasPrices H) (\<lambda>fees.
       bnd (sendFactoryTx H f (MultiCall (approveTokens @ [MCArgs v 0 input])) (Some fees)) (\<lambda>tx.
       andThen (mineOrWait H test tx) (consoleLog ''done''))))))))))"

lemma registerValidatorsTask_split:
  "registerValidatorsTask H test f vs =
     andThen (consoleLog (''registerValidators '' @ inspect H (JArr (map (addr_js H) vs))))
     (bnd (factoryLookupAddress H f ''AToken'') (\<lambda>a.
      bnd (factoryLookupAddress H f ''PublicStaking'') (\<lambda>p.
      bnd (factoryLookupAddress H f ''ValidatorPool'') (\<lambda>v.
      andThen (consoleLog (inspect H (JArr (map (addr_js H) vs))))
      (bnd (firstSigner H) (\<lambda>admin.
       andThen (consoleLog (''Admin address: '' @ addr_hex H admin))
       (andThen (if test then rpcSend H ''hardhat_mine'' [JStr ''0x3''] else ret ())
       (bnd (factoryLookup H f ''ValidatorPool'') (\<lambda>validatorPool.
        andThen (consoleLog (''validatorPool Address: '' @ addr_hex H validatorPool))
        (andThen (consoleLog ''Staking validators'')
        (bnd (stakeValidators (length vs) f a p H) (registering H test f vs p v))))))))))))"
  by (simp add: registerValidatorsTask_def registering_def [abs_def] Let_def encodeMultiCallArgs_def)

lemma registerValidatorsTask_stakes:
  assumes run: "registerValidatorsTask H test f vs w = (Inr (), w')"
  obtains a p v w1 tx w2 where "factoryLookup H f ''AToken'' w = (Inr a, w)"
    and "factoryLookup H f ''PublicStaking'' w = (Inr p, w)" and "factoryLookup H f ''ValidatorPool'' w = (Inr v, w)"
    and "calm w w1" and "stakeValidators (length vs) f a p H w1 = (Inr tx, w2)"
    and "registering H test f vs p v tx w2 = (Inr (), w')"
proof -
  define c where "c = w\<lparr>w_console := w_console w @ [''registerValidators '' @ inspect H (JArr (map (addr_js H) vs))]\<rparr>"
  let ?rest = "\<lambda>a p v. andThen (consoleLog (inspect H (JArr (map (addr_js H) vs))))
      (bnd (firstSigner H) (\<lambda>admin.
       andThen (consoleLog (''Admin address: '' @ addr_hex H admin))
       (andThen (if test then rpcSend H ''hardhat_mine'' [JStr ''0x3''] else ret ())
       (bnd (factoryLookup H f ''ValidatorPool'') (\<lambda>validatorPool.
        andThen (consoleLog (''validatorPool Address: '' @ addr_hex H validatorPool))
        (andThen (consoleLog ''Staking validators'')
        (bnd (stakeValidators (length vs) f a p H) (registering H test f vs p v))))))))"
  from run have "bnd (factoryLookupAddress H f ''AToken'') (\<lambda>a. bnd (factoryLookupAddress H f ''PublicStaking'') (\<lambda>p.
      bnd (factoryLookupAddress H f ''ValidatorPool'') (?rest a p))) c = (Inr (), w')"
    unfolding registerValidatorsTask_split andThen_Inr [OF consoleLog_run] c_def .
  then obtain a wa where a: "factoryLookupAddress H f ''AToken'' c = (Inr a, wa)"
    and 1: "bnd (factoryLookupAddress H f ''PublicStaking'') (\<lambda>p.
      bnd (factoryLookupAddress H f ''ValidatorPool'') (?rest a p)) wa = (Inr (), w')" by (rule bnd_InrE)
  from a have a: "factoryLookup H f ''AToken'' c = (Inr a, c)" "wa = c" by (auto elim: factoryLookupAddress_InrE)
  from 1 obtain p wp where p: "factoryLookupAddress H f ''PublicStaking'' c = (Inr p, wp)"
    and 2: "bnd (factoryLookupAddress H f ''ValidatorPool'') (?rest a p) wp = (Inr (), w')"
    unfolding a by (rule bnd_InrE)
  from p have p: "factoryLookup H f ''PublicStaking'' c = (Inr p, c)" "wp = c" by (auto elim: factoryLookupAddress_InrE)
  from 2 obtain v wv where v: "factoryLookupAddress H f ''ValidatorPool'' c = (Inr v, wv)"
    and 3: "?rest a p v wv = (Inr (), w')"
    unfolding p by (rule bnd_InrE)
  from v have v: "factoryLookup H f ''ValidatorPool'' c = (Inr v, c)" "wv = c" by (auto elim: factoryLookupAddress_InrE)
  from 3 have "\<exists>w1 tx w2. stakeValidators (length vs) f a p H w1 = (Inr tx, w2)
      \<and> registering H test f vs p v tx w2 = (Inr (), w') \<and> calm c w1"
    unfolding v
    by (elim bnd_InrE andThen_InrE factoryLookup_InrE)
       (intro exI conjI, assumption, assumption,
        auto simp: world_simps calm_def dest!: firstSigner_InrD mineIf_calm)
  then obtain w1 tx w2 where t: "stakeValidators (length vs) f a p H w1 = (Inr tx, w2)"
    and r: "registering H test f vs p v tx w2 = (Inr (), w')" and w1: "calm c w1" by blast
  have "w_chain c = w_chain w" "calm w w1" using w1 by (simp_all add: c_def calm_def)
  with a v p show thesis using that [OF _ _ _ _ t r] factoryLookup_cong [of c w H f] by blast
qed

lemma registering_InrE:
  assumes run: "registering H test f vs p v tx w = (Inr (), w')"
  obtains events d fees w1 r w2 where "rc_events tx = Some events"
    and "register_calls H p v (map (addr_js H) vs) (staked_ids p events) d"
    and "calm w w1" and "sendFactoryTx H f d (Some fees) w1 = (Inr r, w2)" and "calm w2 w'"
proof -
  note unf = registering_def
  from run obtain events where e: "rc_events tx = Some events"
    unfolding unf by (auto simp: eventsOf_def world_simps split: option.splits elim!: bnd_InrE)
  let ?wa = "w\<lparr>w_log := w_log w @ [Waited None]\<rparr>"
  from run obtain ids aps wb where f: "foldJs (registerStep H p v) ([], []) events ?wa = (Inr (ids, aps), wb)"
    unfolding unf by (auto simp: eventsOf_def e world_simps elim!: bnd_InrE)
  have "wb = ?wa" and ids: "ids = staked_ids p events" and aps: "approvals H p v ids aps"
    using registerStep_fold [OF f] by (auto simp: approvals_def)
  note f = f [unfolded this(1)]
  from run obtain wc where m: "mineOrWait H test tx ?wa = (Inr (), wc)"
    unfolding unf by (auto simp: eventsOf_def e f world_simps elim!: andThen_InrE)
  from run obtain input where i: "encode_call H ''ValidatorPool'' ''registerValidators''
      [JArr (map (addr_js H) vs), JArr (map JBig ids)] = Inr input"
    unfolding unf by (auto simp: eventsOf_def e f m world_simps elim!: bnd_InrE fromSum_InrE)
  let ?wd = "wc\<lparr>w_console := w_console wc @ [inspect H (JArr (map JBig ids)), ''Registering validators'']\<rparr>"
  from getGasPrices_run [of H ?wd] obtain fees where fees: "getGasPrices H ?wd = (Inr fees, ?wd)" by metis
  from run obtain r w2 where t: "sendFactoryTx H f (MultiCall (aps @ [MCArgs v 0 input])) (Some fees) ?wd = (Inr r, w2)"
    and k: "andThen (mineOrWait H test r) (consoleLog ''done'') w2 = (Inr (), w')"
    unfolding unf by (auto simp: eventsOf_def e f m i fees world_simps elim!: bnd_InrE)
  from k have c2: "calm w2 w'" by (elim andThen_InrE) (auto simp: calm_def world_simps dest!: mineOrWait_calm)
  have c1: "calm w ?wd" using mineOrWait_calm [OF m] by (simp add: calm_def)
  have "register_calls H p v (map (addr_js H) vs) (staked_ids p events) (MultiCall (aps @ [MCArgs v 0 input]))"
    unfolding register_calls_def using aps i ids by blast
  from that [OF e this c1 t c2] show thesis .
qed

section \<open>Migrating\<close>

lemma bndD_InrE:
  assumes "bndD m g w = Some (Inr b, w'')"
  obtains a w' where "m w = Some (Inr a, w')" and "g a w' = Some (Inr b, w'')"
  using assms by (auto simp: bndD_def split: option.splits prod.splits sum.splits)

lemma returning_run: "returning m w = Some r \<longleftrightarrow> m w = r"
  by (simp add: returning_def)

lemma bnd_returningE:
  assumes "bndD (returning m) g w = Some (Inr b, w'')"
  obtains a w' where "m w = (Inr a, w')" and "g a w' = Some (Inr b, w'')"
  using assms by (rule bndD_InrE) (simp add: returning_run)

lemma lookupMigrationAddresses_log: "lookupMigrationAddresses H f w = (r, w') \<Longrightarrow> w' = w"
proof (rule reads_state)
  show "keeps unchanged (lookupMigrationAddresses H f)"
    unfolding lookupMigrationAddresses_def factoryLookupAddress_def lookupSalt_def
    by (intro reads.keeps_rules)
qed

lemma axiosPost_InrD:
  "axiosPost H url body w = (Inr (s, d), w') \<Longrightarrow> w' = w\<lparr>w_log := w_log w @ [Post url body]\<rparr>"
  by (auto simp: axiosPost_def logAction_def world_simps)

text \<open>The request for the header of the block at a snapshot.\<close>

definition header_request :: "nat \<Rightarrow> action" where
  "header_request i = Post ''https://edge.alice.net/v1/get-block-header''
     (JObj [(''Height'', JStr (js_show_nat (i * 1024)))])"

lemma groupSignatureStep_InrD:
  assumes "groupSignatureStep H sigs i w = (Inr sigs', w')"
  shows "w_log w' = w_log w @ [header_request i] \<and> w_chain w' = w_chain w \<and> w_fs w' = w_fs w
    \<and> (\<exists>s. sigs' = sigs @ [''0x'' @ s])"
  using assms
  by (auto simp: groupSignatureStep_def header_request_def js_plus_string_def world_simps
      elim!: bnd_InrE andThen_InrE orTypeError_InrE dest!: axiosPost_InrD)

lemma groupSignature_fold:
  assumes "foldJs (groupSignatureStep H) acc is w = (Inr sigs, w')"
  shows "w_log w' = w_log w @ map header_request is \<and> w_chain w' = w_chain w \<and> w_fs w' = w_fs w
    \<and> (\<exists>ss. sigs = acc @ map (\<lambda>s. ''0x'' @ s) ss \<and> length ss = length is)"
  using assms
proof (induction "is" arbitrary: acc w)
  case Nil
  then show ?case by (simp add: world_simps)
next
  case (Cons i "is")
  then obtain s w1 where 1: "w_log w1 = w_log w @ [header_request i]" "w_chain w1 = w_chain w" "w_fs w1 = w_fs w"
    and f: "foldJs (groupSignatureStep H) (acc @ [''0x'' @ s]) is w1 = (Inr sigs, w')"
    by (auto elim!: bnd_InrE dest!: groupSignatureStep_InrD)
  from Cons.IH [OF f] 1 obtain ss where "sigs = acc @ map (\<lambda>s. ''0x'' @ s) (s # ss)" "length ss = length is"
    "w_log w' = w_log w @ map header_request (i # is)" "w_chain w' = w_chain w" "w_fs w' = w_fs w" by auto
  then show ?case by (intro conjI exI [of _ "s # ss"]) simp_all
qed

lemma getGroupSignatures_InrD:
  assumes "getGroupSignatures H epoch w = (Inr sigs, w')"
  shows "w_log w' = w_log w @ map header_request [(if 5 < epoch then epoch - 5 else 1)..<epoch + 1]
    \<and> w_chain w' = w_chain w \<and> w_fs w' = w_fs w
    \<and> (\<exists>ss. sigs = map (\<lambda>s. ''0x'' @ s) ss \<and> length ss = epoch + 1 - (if 5 < epoch then epoch - 5 else 1))"
  using assms unfolding getGroupSignatures_def Let_def
  by (elim andThen_InrE bnd_InrE) (auto simp: world_simps dest!: groupSignature_fold)

lemma migrate_InrE:
  assumes run: "migrateSnapshotsAndValidators f p sn dkg v [] accounts idx shares h mpk claims sigs H w = (Inr r, w')"
  obtains d1 d2 d3 fees where
    "encode_call H ''ValidatorPool'' ''registerValidators'' [JArr accounts, JArr []] = Inr d1"
    and "sendFactoryTx H f (MultiCall [MCArgs v 0 d1, MCArgs dkg 0 d2, MCArgs sn 0 d3]) (Some fees) w = (Inr r, w')"
proof -
  from getGasPrices_run [of H w] obtain fees where fees: "getGasPrices H w = (Inr fees, w)" by metis
  show thesis
    using run unfolding migrateSnapshotsAndValidators_def Let_def encodeMultiCallArgs_def
    by (auto simp: fees world_simps elim!: bnd_InrE fromSum_InrE intro: that)
qed

text \<open>The end of the migration, after the signatures have been fetched and the tokens staked.\<close>

definition migrating :: "hre \<Rightarrow> addr \<Rightarrow> addr \<times> addr \<times> addr \<times> addr \<times> addr \<Rightarrow> string list \<Rightarrow> int list \<Rightarrow> unit jsd" where
  "migrating H f = (\<lambda>(a, p, v, sn, dkg) sigs tokenIds.
     bndD (returning (consoleLog ''register and migrate state'')) (\<lambda>_.
     bndD (returning (getW (\<lambda>w. ch_block (w_chain w)))) (\<lambda>h.
     bndD (returning (migrateSnapshotsAndValidators f p sn dkg v tokenIds validatorAccounts
       [JNum 1, JNum 2, JNum 3, JNum 4] validatorShares h masterPublicKey blockClaims sigs H)) (\<lambda>contractTx.
     bndD (returning (waitTx contractTx (Some 8))) (\<lambda>_. waitBlocks 3 H)))))"

lemma bndD_ret [simp]: "bndD (returning (ret a)) g = g a"
  by (simp add: fun_eq_iff bndD_def returning_def ret_def)

lemma migration_skipping:
  "deployStateMigrationContractTask H (Some f) True =
     bndD (returning (firstSigner H)) (\<lambda>admin.
     bndD (returning (consoleLog (''Admin address: '' @ addr_hex H admin))) (\<lambda>_.
     bndD (returning (lookupMigrationAddresses H f)) (\<lambda>x.
     bndD (returning (consoleLog (''Master Public Key: '' @ js_to_string (JArr masterPublicKey)))) (\<lambda>_.
     bndD (returning (getGroupSignatures H 101)) (\<lambda>sigs. migrating H f x sigs [])))))"
  by (simp add: deployStateMigrationContractTask_def migrating_def case_prod_unfold)

lemma waitLoop_InrD:
  assumes "waitLoop H e c w = Some w'"
  shows "w_log w' = w_log w \<and> w_fs w' = w_fs w"
proof (rule waitLoop.raw_induct [OF _ assms])
  fix loop H e c w w'
  assume "\<And>H e c w w'. loop H e c w = Some w' \<Longrightarrow> w_log w' = w_log w \<and> w_fs w' = w_fs w"
    and "(if c < e then (let c = ch_block (w_chain w);
           w1 = snd (consoleLog (''Current block: '' @ js_show_nat c) w); w2 = snd (delay H 10000 w1)
         in loop H e c w2) else Some w) = Some w'"
  then show "w_log w' = w_log w \<and> w_fs w' = w_fs w"
    by (fastforce simp: Let_def consoleLog_run delay_run split: if_splits)
qed

lemma waitBlocks_InrD: "waitBlocks n H w = Some (r, w') \<Longrightarrow> r = Inr () \<and> w_log w' = w_log w \<and> w_fs w' = w_fs w"
  by (auto simp: waitBlocks_def Let_def consoleLog_run split: option.splits dest!: waitLoop_InrD)

section \<open>The sample network\<close>

text \<open>The factory of the sample network forwards calls of other contracts, with an empty answer.\<close>

definition sample_ok :: "chain \<Rightarrow> bool" where
  "sample_ok ch = (ch_code ch = ch_code sample_chain \<and> ch_fact ch = ch_fact sample_chain)"

fun foreign :: "mcArgs \<Rightarrow> bool" where
  "foreign (MCArgs t v d) = (t \<noteq> sample_factory \<and> v = 0 \<and> (\<exists>c g. d = OtherCall c g []))"

lemma sample_multiCall:
  assumes "list_all foreign cs" and "sample_ok ch"
  shows "\<exists>ch'. multiCall sample_evm sample_factory cs ch = Inr ([], ch') \<and> sample_ok ch'"
  using assms
proof (induction cs arbitrary: ch)
  case Nil
  then show ?case by (simp add: multiCall.simps)
next
  case (Cons c cs)
  then obtain t n g where c: "c = MCArgs t 0 (OtherCall n g [])" "t \<noteq> sample_factory"
    by (cases c) auto
  have "\<exists>ch1. callAny sample_evm sample_factory t 0 (OtherCall n g []) ch = Inr ([], ch1) \<and> sample_ok ch1"
    using c Cons.prems(2)
    by (auto simp: callAny.simps call_other_def sample_ok_def sample_chain_simps sample_evm_simps transfer_def Let_def)
  then obtain ch1 where 1: "callAny sample_evm sample_factory t 0 (OtherCall n g []) ch = Inr ([], ch1)" "sample_ok ch1"
    by blast
  from Cons.IH [OF _ 1(2)] Cons.prems(1) 1(1) show ?case by (auto simp: c multiCall.simps)
qed

lemma sample_multi_send:
  assumes "list_all foreign cs" and "sample_ok (w_chain w)"
  shows "\<exists>r ch'. sendFactoryTx sample_hre sample_factory (MultiCall cs) fees w
    = (Inr r, w\<lparr>w_chain := ch', w_log := w_log w @ [Sent (CallTx sample_factory (MultiCall cs)) fees]\<rparr>)
    \<and> sample_ok ch' \<and> rc_events r = Some []"
proof -
  let ?ch = "bump_nonce sample_owner (w_chain w)"
  have ok: "sample_ok ?ch" using assms(2) by (simp add: sample_ok_def)
  from sample_multiCall [OF assms(1) this] obtain ch' where
    m: "multiCall sample_evm sample_factory cs ?ch = Inr ([], ch')" and "sample_ok ch'" by blast
  then show ?thesis
    using assms(2)
    by (simp add: sendFactoryTx_def firstSigner_run [OF sample_hre_simps(4)] logAction_def world_simps
        sample_hre_simps factory_exec.simps factory_call.simps auth_def sample_ok_def sample_chain_simps)
       (rule exI [of _ "ch'\<lparr>ch_block := Suc (ch_block ch')\<rparr>"], simp)
qed

text \<open>The addresses the factory has for the contracts of the system.\<close>

definition sample_salt_addr :: "string \<Rightarrow> addr" where
  "sample_salt_addr name = lookup sample_evm sample_factory (projr (sample_bytes32 name)) sample_chain"

lemma sample_lookups:
  assumes "sample_ok (w_chain w)" and "length name \<le> 31"
  shows "factoryLookup sample_hre sample_factory name w = (Inr (sample_salt_addr name), w)"
    and "factoryLookupAddress sample_hre sample_factory name w = (Inr (sample_salt_addr name), w)"
  using assms
  by (auto simp: factoryLookup_def factoryLookupAddress_def lookupSalt_def tryCatch_def world_simps sample_hre_simps
      sample_bytes32_def sample_salt_addr_def sample_ok_def sample_chain_simps lookup_def)

lemma sample_salt_addrs:
  "sample_salt_addr ''AToken'' \<noteq> sample_factory" "sample_salt_addr ''PublicStaking'' \<noteq> sample_factory"
  "sample_salt_addr ''ValidatorPool'' \<noteq> sample_factory" "sample_salt_addr ''Snapshots'' \<noteq> sample_factory"
  "sample_salt_addr ''ETHDKG'' \<noteq> sample_factory"
  by (simp_all add: sample_salt_addr_def sample_bytes32_def lookup_def ATOKEN_SALT_def sample_chain_simps
      getMetamorphicContractAddress_def sample_evm_simps)
     (simp_all add: sample_addr_defs sample_chain_def drop_bit_eq_div)

section \<open>Properties\<close>

text \<open>
  C28. \<open>waitBlocks\<close> ends exactly when the network goes on. If blocks are mined while it sleeps, it returns, at least
  the awaited number of blocks later, having sent and written nothing; if no block is ever mined
  and it waits for at least one, it does not return.
\<close>

theorem waitBlocks_returns:
  "((\<forall>ch. 0 < mined_in H ch 10000) \<longrightarrow>
      (\<exists>w'. waitBlocks n H w = Some (Inr (), w') \<and> ch_block (w_chain w) + n \<le> ch_block (w_chain w')
         \<and> w_log w' = w_log w \<and> w_fs w' = w_fs w))
   \<and> ((\<forall>ch. mined_in H ch 10000 = 0) \<and> 0 < n \<longrightarrow> waitBlocks n H w = None)"
  using waitBlocks_mining [of H n w] waitLoop_stuck [of H "ch_block (w_chain w)" "ch_block (w_chain w) + n"]
  by (simp add: waitBlocks_run)

theorem waitBlocks_returns_witness:
  "(\<exists>w'. waitBlocks 3 sample_hre sample_world = Some (Inr (), w') \<and> 10 \<le> ch_block (w_chain w'))
   \<and> waitBlocks 3 (sample_hre\<lparr>mined_in := \<lambda>ch t. 0\<rparr>) sample_world = None"
  using waitBlocks_returns [of sample_hre 3 sample_world]
    waitBlocks_returns [of "sample_hre\<lparr>mined_in := \<lambda>ch t. 0\<rparr>" 3 sample_world]
  by (auto simp: sample_hre_simps sample_world_def sample_chain_def)


lemma sample_stake:
  assumes "a \<noteq> sample_factory" and "p \<noteq> sample_factory" and "sample_ok (w_chain w)"
  shows "\<exists>r w'. stakeValidators 1 sample_factory a p sample_hre w = (Inr r, w')
    \<and> sample_ok (w_chain w') \<and> rc_events r = Some []"
proof -
  from getGasPrices_run [of sample_hre w] obtain fees where fees: "getGasPrices sample_hre w = (Inr fees, w)" by metis
  have "list_all foreign [MCArgs a 0 (OtherCall ''AToken'' ''approve'' []), MCArgs p 0 (OtherCall ''PublicStaking'' ''mint'' [])]"
    using assms by simp
  from sample_multi_send [OF this assms(3), of "Some fees"] show ?thesis
    by (auto simp: stakeValidators_def stakeStep_def Let_def encodeMultiCallArgs_def fees sample_hre_simps world_simps)
qed

lemma sample_registering:
  assumes "v \<noteq> sample_factory" and "sample_ok (w_chain w)" and "rc_events tx = Some []"
  shows "\<exists>w'. registering sample_hre False sample_factory vs p v tx w = (Inr (), w')"
proof -
  let ?w = "w\<lparr>w_log := w_log w @ [Waited None, Waited (Some 3)],
    w_console := w_console w @ [inspect sample_hre (JArr []), ''Registering validators'']\<rparr>"
  from getGasPrices_run [of sample_hre ?w] obtain fees where fees: "getGasPrices sample_hre ?w = (Inr fees, ?w)" by metis
  have "list_all foreign [MCArgs v 0 (OtherCall ''ValidatorPool'' ''registerValidators'' [])]" using assms by simp
  from sample_multi_send [OF this, of ?w "Some fees"] assms(2) show ?thesis
    by (auto simp: registering_def eventsOf_def assms(3) mineOrWait_def fees sample_hre_simps world_simps)
qed

lemma sample_registerValidators:
  "\<exists>w'. registerValidatorsTask sample_hre False sample_factory [0xB0B] sample_world = (Inr (), w')"
proof -
  let ?w = "sample_world\<lparr>w_console := [''registerValidators '' @ inspect sample_hre (JArr [addr_js sample_hre 0xB0B]),
    inspect sample_hre (JArr [addr_js sample_hre 0xB0B]), ''Admin address: '' @ addr_hex sample_hre sample_owner,
    ''validatorPool Address: '' @ addr_hex sample_hre (sample_salt_addr ''ValidatorPool''), ''Staking validators'']\<rparr>"
  have ok: "sample_ok sample_chain" by (simp add: sample_ok_def)
  have "sample_ok (w_chain ?w)" by (simp add: sample_ok_def sample_chain_simps)
  from sample_stake [OF sample_salt_addrs(1,2) this] obtain r w1 where
    s: "stakeValidators 1 sample_factory (sample_salt_addr ''AToken'') (sample_salt_addr ''PublicStaking'')
      sample_hre ?w = (Inr r, w1)" "sample_ok (w_chain w1)" "rc_events r = Some []" by blast
  from sample_registering [OF sample_salt_addrs(3) s(2,3)] show ?thesis
    using s(1)
    by (simp add: registerValidatorsTask_split sample_lookups ok firstSigner_run [OF sample_hre_simps(4)]
        sample_chain_simps world_simps)
qed


text \<open>
  \<open>getGroupSignatures\<close> asks for the headers of the snapshot blocks of the last six epochs, one request per epoch
  in ascending order, and returns one signature with the prefix \<open>0x\<close> for each; it changes nothing else. For the
  epoch of the migration these are as many as there are block claims.
\<close>

theorem getGroupSignatures_requests:
  assumes run: "getGroupSignatures H epoch w = (Inr sigs, w')" and "0 < epoch"
  shows "w_log w' = w_log w @ map header_request [(if 5 < epoch then epoch - 5 else 1)..<epoch + 1]
    \<and> length sigs = min epoch 6 \<and> (\<forall>i < length sigs. take 2 (sigs ! i) = ''0x'')
    \<and> w_chain w' = w_chain w \<and> w_fs w' = w_fs w
    \<and> (epoch = 101 \<longrightarrow> length sigs = length blockClaims)"
proof -
  from getGroupSignatures_InrD [OF run] obtain ss where
    "sigs = map (\<lambda>s. ''0x'' @ s) ss" "length ss = epoch + 1 - (if 5 < epoch then epoch - 5 else 1)" by blast
  then show ?thesis
    using getGroupSignatures_InrD [OF run] assms(2) by (auto simp: blockClaims_def min_def)
qed

lemma sample_groupSignature:
  "groupSignatureStep sample_hre sigs i w = (Inr (sigs @ [''0xab'']),
     w\<lparr>w_console := w_console w @ [inspect sample_hre (JBig (int (i * 1024)))], w_log := w_log w @ [header_request i]\<rparr>)"
  by (simp add: groupSignatureStep_def axiosPost_def logAction_def header_request_def js_plus_string_def obj_get_def
      sample_hre_simps(24) world_simps)

lemma sample_getGroupSignatures:
  "\<exists>w'. getGroupSignatures sample_hre 101 w
     = (Inr [''0xab'', ''0xab'', ''0xab'', ''0xab'', ''0xab'', ''0xab''], w')"
  by (simp add: getGroupSignatures_def Let_def sample_groupSignature world_simps)

theorem getGroupSignatures_requests_witness:
  "\<exists>sigs w'. getGroupSignatures sample_hre 101 sample_world = (Inr sigs, w') \<and> length sigs = 6
     \<and> length (w_log w') = 6"
proof -
  obtain sigs w' where r: "getGroupSignatures sample_hre 101 sample_world = (Inr sigs, w')"
    using sample_getGroupSignatures by blast
  from getGroupSignatures_requests [OF r] r show ?thesis by (auto simp: sample_world_def)
qed

text \<open>
  C39. The migration without its first transaction does not know the tokens that an earlier run staked: when
  \<open>deployStateMigrationContract --skip-first-transaction\<close> returns, it has sent one transaction, which
  approves no token and registers the four validators with an empty list of tokens.
\<close>

theorem migration_skips_tokens:
  assumes run: "deployStateMigrationContractTask H (Some f) True w = Some (Inr (), w')"
  shows "\<exists>v d1 c2 c3. encode_call H ''ValidatorPool'' ''registerValidators'' [JArr validatorAccounts, JArr []] = Inr d1
    \<and> sent (w_log w') = sent (w_log w) @ [CallTx f (MultiCall [MCArgs v 0 d1, c2, c3])]"
proof -
  from run obtain x sigs w1 w2 where g: "getGroupSignatures H 101 w1 = (Inr sigs, w2)" and w1: "w_log w1 = w_log w"
    and 1: "migrating H f x sigs [] w2 = Some (Inr (), w')"
    unfolding migration_skipping
    by (elim bnd_returningE) (auto simp: world_simps dest!: firstSigner_InrD lookupMigrationAddresses_log)
  obtain a p v sn dkg where x: "x = (a, p, v, sn, dkg)" by (cases x)
  let ?w = "w2\<lparr>w_console := w_console w2 @ [''register and migrate state'']\<rparr>"
  from 1 obtain r w3 where m: "migrateSnapshotsAndValidators f p sn dkg v [] validatorAccounts
          [JNum 1, JNum 2, JNum 3, JNum 4] validatorShares (ch_block (w_chain w2)) masterPublicKey blockClaims sigs H ?w
        = (Inr r, w3)"
    and b: "waitBlocks 3 H (w3\<lparr>w_log := w_log w3 @ [Waited (Some 8)]\<rparr>) = Some (Inr (), w')"
    unfolding migrating_def x prod.case by (elim bnd_returningE) (auto simp: world_simps)
  from m obtain d1 d2 d3 fees where
    d1: "encode_call H ''ValidatorPool'' ''registerValidators'' [JArr validatorAccounts, JArr []] = Inr d1"
    and t: "sendFactoryTx H f (MultiCall [MCArgs v 0 d1, MCArgs dkg 0 d2, MCArgs sn 0 d3]) (Some fees) ?w = (Inr r, w3)"
    by (rule migrate_InrE)
  from t have "sent (w_log w3) = sent (w_log w2)
      @ [CallTx f (MultiCall [MCArgs v 0 d1, MCArgs dkg 0 d2, MCArgs sn 0 d3])]"
    by (auto elim!: sendFactoryTx_InrE)
  moreover have "sent (w_log w2) = sent (w_log w)"
    using getGroupSignatures_InrD [OF g] w1 by (simp add: header_request_def)
  ultimately show ?thesis using d1 waitBlocks_InrD [OF b] by auto
qed

lemma sample_migrating:
  assumes ok: "sample_ok (w_chain w)" and "v \<noteq> sample_factory" "sn \<noteq> sample_factory" "dkg \<noteq> sample_factory"
  shows "\<exists>w'. migrating sample_hre sample_factory (a, p, v, sn, dkg) sigs [] w = Some (Inr (), w')"
proof -
  let ?w = "w\<lparr>w_console := w_console w @ [''register and migrate state'']\<rparr>"
  from getGasPrices_run [of sample_hre ?w] obtain fees where fees: "getGasPrices sample_hre ?w = (Inr fees, ?w)" by metis
  have "list_all foreign [MCArgs v 0 (OtherCall ''ValidatorPool'' ''registerValidators'' []),
      MCArgs dkg 0 (OtherCall ''ETHDKG'' ''migrateValidators'' []),
      MCArgs sn 0 (OtherCall ''Snapshots'' ''migrateSnapshots'' [])]" using assms by simp
  from sample_multi_send [OF this, of ?w "Some fees"] ok obtain r w2 where
    m: "migrateSnapshotsAndValidators sample_factory p sn dkg v [] validatorAccounts [JNum 1, JNum 2, JNum 3, JNum 4]
      validatorShares (ch_block (w_chain w)) masterPublicKey blockClaims sigs sample_hre ?w = (Inr r, w2)"
    by (auto simp: migrateSnapshotsAndValidators_def Let_def encodeMultiCallArgs_def fees sample_hre_simps world_simps)
  let ?w2 = "w2\<lparr>w_log := w_log w2 @ [Waited (Some 8)]\<rparr>"
  obtain w' where "waitBlocks 3 sample_hre ?w2 = Some (Inr (), w')"
    using waitBlocks_mining [of sample_hre 3 ?w2] by (auto simp: sample_hre_simps)
  then show ?thesis
    using m by (auto simp: migrating_def bndD_def returning_def world_simps)
qed

lemma sample_migration: "\<exists>w'. deployStateMigrationContractTask sample_hre (Some sample_factory) True sample_world = Some (Inr (), w')"
proof -
  have ok: "sample_ok sample_chain" by (simp add: sample_ok_def)
  define w1 where "w1 = sample_world\<lparr>w_console := [''Admin address: '' @ addr_hex sample_hre sample_owner,
    ''Master Public Key: '' @ js_to_string (JArr masterPublicKey)]\<rparr>"
  obtain sigs w2 where g: "getGroupSignatures sample_hre 101 w1 = (Inr sigs, w2)" using sample_getGroupSignatures by blast
  have "sample_ok (w_chain w2)" using getGroupSignatures_InrD [OF g] ok by (simp add: w1_def sample_chain_simps)
  from sample_migrating [OF this sample_salt_addrs(3-5)] g show ?thesis
    by (simp add: migration_skipping bndD_def returning_def firstSigner_run [OF sample_hre_simps(4)]
        lookupMigrationAddresses_def sample_lookups ok sample_chain_simps world_simps w1_def del: js_to_string.simps)
qed

theorem migration_skips_tokens_witness:
  "\<exists>w' v d1 c2 c3. deployStateMigrationContractTask sample_hre (Some sample_factory) True sample_world = Some (Inr (), w')
     \<and> sent (w_log w') = [CallTx sample_factory (MultiCall [MCArgs v 0 d1, c2, c3])]"
proof -
  obtain w' where r: "deployStateMigrationContractTask sample_hre (Some sample_factory) True sample_world = Some (Inr (), w')"
    using sample_migration by blast
  from migration_skips_tokens [OF r] r show ?thesis by (auto simp: sample_world_def)
qed

end
