(* ===== verification/Network_Correctness.thy ===== *)
theory Network_Correctness
  imports Network_Tasks Validator_Correctness
begin

text \<open>
  The seed node, the funding of validators, and the load generator, whose loop is a transition system.
\<close>

section \<open>The seed node\<close>

text \<open>How often the seed node was asked.\<close>

definition polls :: "action list \<Rightarrow> nat" where
  "polls log = length (filter (\<lambda>a. a = Post SEED_NODE_URL (JObj [])) log)"

text \<open>The node does not answer the first \<open>k\<close> questions, and answers \<open>data\<close> from then on.\<close>

definition answers_after :: "hre \<Rightarrow> nat \<Rightarrow> jsval \<Rightarrow> bool" where
  "answers_after H k data =
     (\<forall>log. if k \<le> polls log then http_post H log SEED_NODE_URL (JObj []) = Inr (200, data)
            else (\<forall>d. http_post H log SEED_NODE_URL (JObj []) \<noteq> Inr (200, d)))"

lemma axiosPost_run:
  "axiosPost H url body w = (http_post H (w_log w) url body, w\<lparr>w_log := w_log w @ [Post url body]\<rparr>)"
  by (simp add: axiosPost_def logAction_def world_simps)

lemma polls_Post: "polls (log @ [Post SEED_NODE_URL (JObj [])]) = polls log + 1"
  by (simp add: polls_def)

lemma syncLoop_returns:
  assumes "answers_after H k data"
  shows "\<exists>w'. syncLoop H w = Some (data, w') \<and> w_fs w' = w_fs w
    \<and> w_log w' = w_log w @ replicate (k - polls (w_log w) + 1) (Post SEED_NODE_URL (JObj []))"
proof (induction "k - polls (w_log w)" arbitrary: w)
  case 0
  then have "http_post H (w_log w) SEED_NODE_URL (JObj []) = Inr (200, data)"
    using assms by (auto simp: answers_after_def)
  with 0 show ?case by (subst syncLoop.simps) (simp add: axiosPost_run)
next
  case (Suc n)
  let ?w = "w\<lparr>w_log := w_log w @ [Post SEED_NODE_URL (JObj [])]\<rparr>"
  have no: "http_post H (w_log w) SEED_NODE_URL (JObj []) \<noteq> Inr (200, d)" for d
    using assms Suc(2) by (auto simp: answers_after_def split: if_splits)
  have n: "n = k - polls (w_log w @ [Post SEED_NODE_URL (JObj [])])" using Suc(2) by (simp add: polls_Post)
  obtain w1 where s: "syncLoop H w = syncLoop H w1" and w1: "w_log w1 = w_log ?w" "w_fs w1 = w_fs w"
  proof (cases "http_post H (w_log w) SEED_NODE_URL (JObj [])")
    case (Inl e)
    then have "syncLoop H w = syncLoop H (snd (delay H 5000 ?w))"
      by (subst syncLoop.simps) (simp add: axiosPost_run)
    with that show thesis by (simp add: delay_run)
  next
    case (Inr r)
    with no have "syncLoop H w = syncLoop H ?w"
      by (subst syncLoop.simps) (cases r, auto simp: axiosPost_run)
    with that show thesis by simp
  qed
  from Suc(1) [of w1] n w1 have "\<exists>w'. syncLoop H w1 = Some (data, w') \<and> w_fs w' = w_fs w1
      \<and> w_log w' = w_log w1 @ replicate (n + 1) (Post SEED_NODE_URL (JObj []))" by simp
  with s w1 Suc(2) show ?case by (auto simp flip: replicate_Suc)
qed

section \<open>Funding and random numbers\<close>

lemma notSoRandom_bounds:
  assumes "bits < 2 ^ 53" and "lo \<le> hi"
  shows "lo \<le> notSoRandomNumBetweenRange bits hi lo \<and> notSoRandomNumBetweenRange bits hi lo \<le> hi"
proof -
  have "int bits < int (2 ^ 53)" using assms(1) by (simp only: of_nat_less_iff)
  then have "int bits * (hi - lo + 1) < 2 ^ 53 * (hi - lo + 1)"
    using assms(2) by (intro mult_strict_right_mono) simp_all
  then have "int bits * (hi - lo + 1) div 2 ^ 53 < hi - lo + 1" by (simp add: div_less_iff_less_mult)
  moreover have "0 \<le> int bits * (hi - lo + 1) div 2 ^ 53"
    using assms by (intro pos_imp_zdiv_nonneg_iff [THEN iffD2]) simp_all
  ultimately show ?thesis by (simp add: notSoRandomNumBetweenRange_def)
qed

section \<open>The load generator\<close>

text \<open>The states the loop of \<open>spamEthereum\<close> reaches.\<close>

inductive spam_reach :: "hre \<Rightarrow> addr \<Rightarrow> addr \<Rightarrow> world \<Rightarrow> spam_state \<Rightarrow> world \<Rightarrow> bool"
  for H f t w0 where
  spam_init: "spam_reach H f t w0 \<lparr>sp_txSet = [], sp_txSent = 0, sp_previousBlockNum = 0\<rparr> w0"
| spam_turn: "spam_reach H f t w0 st w \<Longrightarrow> spamStep H f t st w = (Inr st', w') \<Longrightarrow> spam_reach H f t w0 st' w'"

inductive_cases spam_turnE: "spam_reach H f t w0 st w"

lemma spamStep_InrD:
  assumes "spamStep H f t st w = (Inr st', w')"
  shows "sp_txSent st' = (if 15 < sp_txSent st then 0 else sp_txSent st + 1)
    \<and> (sp_previousBlockNum st' = sp_previousBlockNum st
        \<and> ch_block (w_chain w) \<le> sp_previousBlockNum st
       \<or> sp_previousBlockNum st' = ch_block (w_chain w))"
  using assms unfolding spamStep_def
  by (auto simp: world_simps Let_def elim!: bnd_InrE andThen_InrE split: if_splits)

lemma spam_reach_txSent: "spam_reach H f t w0 st w \<Longrightarrow> sp_txSent st \<le> 16"
  by (induction rule: spam_reach.induct) (auto dest!: spamStep_InrD)

lemma spamLoop_throws:
  assumes "spamLoop H f t st w = Some r"
  shows "isl (fst r)"
proof (rule spamLoop.raw_induct [OF _ assms])
  fix loop H f t st w r
  assume "\<And>H f t st w r. loop H f t st w = Some r \<Longrightarrow> isl (fst r)"
    and "(case spamStep H f t st w of (Inl e, w') \<Rightarrow> Some (Inl e, w') | (Inr st', w') \<Rightarrow> loop H f t st' w') = Some r"
  then show "isl (fst r)" by (auto split: prod.splits sum.splits)
qed

text \<open>A turn that throws ends the loop.\<close>

lemma spam_reach_loop:
  assumes "spam_reach H f t w0 st w"
  shows "spamLoop H f t \<lparr>sp_txSet = [], sp_txSent = 0, sp_previousBlockNum = 0\<rparr> w0 = spamLoop H f t st w"
  using assms
proof (induction rule: spam_reach.induct)
  case (spam_turn st w st' w')
  then show ?case by (subst (asm) (2) spamLoop.simps) simp
qed simp

section \<open>Properties\<close>

text \<open>
  C29. The task \<open>create-local-seed-node\<close> returns as soon as the node it started answers: if the node does not answer the
  first \<open>k\<close> questions and answers from then on, the task asks once more than that, stops the node and
  returns the height the node reported.
\<close>

theorem createLocalSeedNode_returns:
  assumes "answers_after H k (JObj [(''BlockHeight'', JNum h)])" and "polls (w_log w) = 0"
  shows "\<exists>w'. createLocalSeedNodeTask H cfg w = Some (Inr (js_show_int h), w')
    \<and> w_log w' = w_log w @ [Spawn ''./alicenet'' [''--config'', cfg, ''validator'']]
        @ replicate (k + 1) (Post SEED_NODE_URL (JObj [])) @ [Kill 1]
    \<and> w_fs w' = w_fs w"
proof -
  let ?w = "w\<lparr>w_log := w_log w @ [Spawn ''./alicenet'' [''--config'', cfg, ''validator'']]\<rparr>"
  have "polls (w_log ?w) = 0" using assms(2) by (simp add: polls_def)
  with syncLoop_returns [OF assms(1), of ?w] obtain w1 where
    "syncLoop H ?w = Some (JObj [(''BlockHeight'', JNum h)], w1)" "w_fs w1 = w_fs w"
    "w_log w1 = w_log ?w @ replicate (k + 1) (Post SEED_NODE_URL (JObj []))" by auto
  then show ?thesis
    by (simp add: createLocalSeedNodeTask_def bndD_def returning_def logAction_def obj_get_def world_simps)
qed

theorem createLocalSeedNode_returns_witness:
  "\<exists>w'. createLocalSeedNodeTask (sample_hre\<lparr>http_post := \<lambda>log url body.
         if 2 \<le> polls log then Inr (200, JObj [(''BlockHeight'', JNum 9)]) else Inl (LibErr ''ECONNREFUSED'')\<rparr>)
       ''c.toml'' sample_world = Some (Inr (js_show_int 9), w')
     \<and> length (w_log w') = 5"
proof -
  let ?H = "sample_hre\<lparr>http_post := \<lambda>log url body.
         if 2 \<le> polls log then Inr (200, JObj [(''BlockHeight'', JNum 9)]) else Inl (LibErr ''ECONNREFUSED'')\<rparr>"
  have "answers_after ?H 2 (JObj [(''BlockHeight'', JNum 9)])" by (simp add: answers_after_def)
  moreover have "polls (w_log sample_world) = 0" by (simp add: polls_def sample_world_def)
  ultimately show ?thesis
    using createLocalSeedNode_returns [of ?H 2 9 sample_world "''c.toml''"] by (auto simp: sample_world_def)
qed


text \<open>A first turn on the sample network, with a third account.\<close>

definition sample_spam :: hre where
  "sample_spam = sample_hre\<lparr>signers := [sample_owner, 0xB0B, 0xB0C]\<rparr>"

lemma deployContractTx_run:
  assumes "deploy_data H name args = Inr (Some b)" and "tx_fee H (w_chain w) (CreateTx name args) = fee"
    and "fee \<le> ch_balance (w_chain w) s" and "a = create_addr (hre_evm H) s (ch_nonce (w_chain w) s)"
    and "ch1 = pay_fee s fee (bump_nonce s (w_chain w))" and "fresh_account ch1 a" and "ctor_ok (hre_evm H) ch1 a b"
  shows "\<exists>w'. deployContractTx H s name args w = (Inr a, w')"
  using assms by (simp add: deployContractTx_def Let_def logAction_def world_simps)

lemma sample_gasBomb: "\<exists>w'. gasBomb sample_spam 0xF00 sample_rich = (Inr (), w')"
proof -
  have f: "fresh_account (pay_fee sample_owner 21000 (bump_nonce sample_owner (w_chain sample_rich))) 0x10A11CE"
    by (simp add: fresh_account_def pay_fee_def sample_rich_def sample_chain_simps) (simp add: sample_addr_defs)
  have "\<exists>w'. deployContractTx sample_spam sample_owner ''Minter'' [addr_js sample_spam 0xF00] sample_rich
      = (Inr 0x10A11CE, w')"
    by (rule deployContractTx_run [OF _ _ _ _ refl f [folded sample_hre_simps(22) [of "w_chain sample_rich"]]])
       (simp_all add: sample_spam_def sample_hre_simps sample_evm_simps sample_rich_def sample_chain_simps sample_addr_defs)
  then show ?thesis
    by (auto simp: gasBomb_def signerAt_def js_nth_def world_simps) (auto simp: sample_spam_def world_simps)
qed

lemma tryCatch_ret: "\<exists>a w'. tryCatch m (\<lambda>e. ret a0) w = (Inr a, w')"
  by (cases "m w") (auto simp: tryCatch_def world_simps split: sum.split)

lemma spamSwitch_Inr: "\<exists>txs w'. spamSwitch H f t ty txSet w = (Inr txs, w')"
  by (simp add: spamSwitch_def tryCatch_ret world_simps)

lemma sample_spam_turn:
  "\<exists>st w'. spamStep sample_spam sample_factory 0xF00 \<lparr>sp_txSet = [], sp_txSent = 0, sp_previousBlockNum = 0\<rparr>
     sample_rich = (Inr st, w') \<and> sp_txSent st = 1"
proof -
  obtain w1 where g: "gasBomb sample_spam 0xF00 sample_rich = (Inr (), w1)" using sample_gasBomb by blast
  let ?ty = "notSoRandomNumBetweenRange (random_bits sample_spam (w_log w1) (length (w_console w1))) 3 0"
  let ?w2 = "w1\<lparr>w_console := w_console w1 @ [''tx type: '' @ js_show_int ?ty @ '', account1: ''
    @ js_show_nat (ch_balance (w_chain w1) 0xB0B) @ '', account2: '' @ js_show_nat (ch_balance (w_chain w1) 0xB0C)]\<rparr>"
  obtain txs w' where "spamSwitch sample_spam sample_factory 0xF00 ?ty [] ?w2 = (Inr txs, w')"
    using spamSwitch_Inr by blast
  moreover have "0 < ch_block (w_chain sample_rich)" by (simp add: sample_rich_def sample_chain_def)
  ultimately show ?thesis
    using g by (simp add: spamStep_def signerAt_def js_nth_def getBalance_def sample_spam_def Let_def world_simps)
qed


text \<open>
  \<open>notSoRandomNumBetweenRange(max, min)\<close> lies between its bounds, for every value of \<open>Math.random()\<close>; in the range the
  load generator uses, each of the four kinds of transaction can come up.
\<close>

theorem notSoRandomNumBetweenRange_bounds:
  "(bits < 2 ^ 53 \<and> lo \<le> hi \<longrightarrow>
      lo \<le> notSoRandomNumBetweenRange bits hi lo \<and> notSoRandomNumBetweenRange bits hi lo \<le> hi)
   \<and> (k < 4 \<longrightarrow> k * 2 ^ 51 < (2 ^ 53 :: nat) \<and> notSoRandomNumBetweenRange (k * 2 ^ 51) 3 0 = int k)"
proof (intro conjI impI)
  show "notSoRandomNumBetweenRange (k * 2 ^ 51) 3 0 = int k"
    by (simp add: notSoRandomNumBetweenRange_def)
qed (use notSoRandom_bounds in auto)

theorem notSoRandomNumBetweenRange_bounds_witness:
  "notSoRandomNumBetweenRange (2 ^ 53 - 1) 3 0 \<le> 3 \<and> notSoRandomNumBetweenRange (2 * 2 ^ 51) 3 0 = 2"
  using notSoRandomNumBetweenRange_bounds [of "2 ^ 53 - 1" 0 3 2] by simp

text \<open>
  The task \<open>fundValidators\<close> mixes units: it subtracts a balance in wei from 100 and sends the difference in
  ether. An empty account gets its 100 ether, but an account with more than 100 wei and less than 90
  ether makes the task throw, with nothing sent.
\<close>

theorem fundValidators_units:
  assumes a: "to_address H account = Some a" and s: "signers H = s # os"
    and eoa: "ch_code (w_chain w) a = None" "s \<noteq> a"
  shows "(100 < ch_balance (w_chain w) a \<and> ch_balance (w_chain w) a < 90 * 10 ^ 18 \<longrightarrow>
      fundStep H account w = (Inl (LibErr ''value out-of-bounds''), w))
    \<and> (ch_balance (w_chain w) a = 0 \<and> fundStep H account w = (Inr (), w') \<longrightarrow>
      ch_balance (w_chain w') a = 100 * 10 ^ 18)"
proof (intro conjI impI)
  assume b: "100 < ch_balance (w_chain w) a \<and> ch_balance (w_chain w) a < 90 * 10 ^ 18"
  then have "int (ch_balance (w_chain w) a) < 90 * 10 ^ 18" "(100 - int (ch_balance (w_chain w) a)) * 10 ^ 18 < 0"
    by simp_all
  then show "fundStep H account w = (Inl (LibErr ''value out-of-bounds''), w)"
    by (simp add: fundStep_def a s signerAt_def js_nth_def getBalance_def parseEther_def sendTransaction_def
        sendValue_def world_simps)
next
  assume b: "ch_balance (w_chain w) a = 0 \<and> fundStep H account w = (Inr (), w')"
  then obtain r w1 where t: "sendTransaction H s a (100 * 10 ^ 18) w = (Inr r, w1)" and w': "w_chain w' = w_chain w1"
    by (auto simp: fundStep_def a s signerAt_def js_nth_def getBalance_def parseEther_def world_simps
        elim!: bnd_InrE)
  from t eoa have "ch_balance (w_chain w1) a = nat (100 * 10 ^ 18)"
    by (rule sendTransaction_InrE) (use b in simp)
  with w' show "ch_balance (w_chain w') a = 100 * 10 ^ 18" by simp
qed

theorem fundValidators_units_witness:
  "fundStep sample_hre (JStr ''0x1e6'') (sample_world\<lparr>w_chain := sample_chain\<lparr>ch_balance := \<lambda>a. 10 ^ 18\<rparr>\<rparr>)
   = (Inl (LibErr ''value out-of-bounds''), sample_world\<lparr>w_chain := sample_chain\<lparr>ch_balance := \<lambda>a. 10 ^ 18\<rparr>\<rparr>)"
proof -
  let ?w = "sample_world\<lparr>w_chain := sample_chain\<lparr>ch_balance := \<lambda>a. 10 ^ 18\<rparr>\<rparr>"
  have "to_address sample_hre (JStr ''0x1e6'') = Some 0x1E6" "signers sample_hre = sample_owner # [0xB0B]"
    "ch_code (w_chain ?w) 0x1E6 = None" "sample_owner \<noteq> 0x1E6"
    by (simp_all add: sample_defs) (simp_all add: sample_addr_defs)
  from fundValidators_units [OF this] show ?thesis by simp
qed

end
