(* ===== verification/Generator_Correctness.thy ===== *)
theory Generator_Correctness
  imports Code_Generators Factory_Correctness
begin

text \<open>
  What the generators write: the salts in the generated Solidity contracts against the salts the deployment
  uses, the contents of the generated files, and the shape of the function selectors.
\<close>

section \<open>Loops that collect\<close>

lemma foldl_append_concat: "foldl (\<lambda>acc x. acc @ f x) a xs = a @ concat (map f xs)"
  by (induction xs arbitrary: a) simp_all

lemma mapJs_Cons: "mapJs f (x # xs) = bnd (f x) (\<lambda>y. bnd (mapJs f xs) (\<lambda>ys. ret (y # ys)))"
proof -
  have acc: "foldJs (\<lambda>acc x. bnd (f x) (\<lambda>y. ret (acc @ [y]))) (a @ b) xs
      = bnd (foldJs (\<lambda>acc x. bnd (f x) (\<lambda>y. ret (acc @ [y]))) b xs) (\<lambda>ys. ret (a @ ys))" for a b
    by (induction xs arbitrary: b) (simp_all add: bnd_assoc)
  have "foldJs (\<lambda>acc x. bnd (f x) (\<lambda>y. ret (acc @ [y]))) [y] xs = bnd (mapJs f xs) (\<lambda>ys. ret (y # ys))" for y
    using acc [of "[y]" "[]"] by (simp add: mapJs_def)
  then show ?thesis by (simp add: mapJs_def bnd_assoc)
qed

text \<open>A property that every call of the body establishes holds of every element of the result.\<close>

lemma mapJs_all:
  assumes "mapJs f xs w = (Inr ys, w')" and "\<And>x w y w'. f x w = (Inr y, w') \<Longrightarrow> P y"
  shows "list_all P ys \<and> length ys = length xs"
  using assms(1)
proof (induction xs arbitrary: w ys w')
  case Nil
  then show ?case by (simp add: mapJs_def world_simps)
next
  case (Cons x xs)
  then obtain y w1 zs w2 where y: "f x w = (Inr y, w1)" and zs: "mapJs f xs w1 = (Inr zs, w2)" and "ys = y # zs"
    by (auto simp: mapJs_Cons world_simps elim!: bnd_InrE)
  with Cons.IH [OF zs] assms(2) [OF y] show ?case by simp
qed

section \<open>Salts\<close>

lemma nameSaltStep_InrD:
  assumes "nameSaltStep H acc item w = (Inr cs, w')"
  shows "\<exists>q name salt. item = JStr q \<and> js_nth (js_split CHR '':'' q) 1 = Some name
    \<and> cs = acc @ [\<lparr>ct_name = name, ct_salt = salt\<rparr>]"
  using assms
  by (cases item) (auto simp: nameSaltStep_def Let_def world_simps elim!: bnd_InrE orTypeError_InrE)

lemma nameSalt_fold:
  assumes "foldJs (nameSaltStep H) acc items w = (Inr cs, w')"
  shows "\<exists>ds. cs = acc @ ds
    \<and> list_all2 (\<lambda>item d. \<exists>q. item = JStr q \<and> js_nth (js_split CHR '':'' q) 1 = Some (ct_name d)) items ds"
  using assms
proof (induction items arbitrary: acc w)
  case Nil
  then show ?case by (simp add: world_simps)
next
  case (Cons item items)
  then obtain q name salt w1 where 1: "item = JStr q" "js_nth (js_split CHR '':'' q) 1 = Some name"
    and f: "foldJs (nameSaltStep H) (acc @ [\<lparr>ct_name = name, ct_salt = salt\<rparr>]) items w1 = (Inr cs, w')"
    by (auto elim!: bnd_InrE dest!: nameSaltStep_InrD)
  from Cons.IH [OF f] obtain ds where
    "cs = acc @ \<lparr>ct_name = name, ct_salt = salt\<rparr> # ds"
    "list_all2 (\<lambda>item d. \<exists>q. item = JStr q \<and> js_nth (js_split CHR '':'' q) 1 = Some (ct_name d)) items ds" by auto
  with 1 show ?case by (intro exI [of _ "\<lparr>ct_name = name, ct_salt = salt\<rparr> # ds"]) simp
qed

lemma ia_getSalt_untyped:
  assumes "ia_getFullyQualifiedName H (Some c) = Some q" and "build_info_of H q = Some info"
    and "info (ia_extractPath q) = Some cs" and "cs c = Some out" and "co_devdoc out ''custom:salt'' = Some s"
    and "formatBytes32String H s = Inr b" and "co_devdoc out ''custom:salt-type'' = None"
  shows "ia_getSalt H (Some c) w = (Inr (bytes32_hex H b), w)"
  using assms by (simp add: ia_getSalt_def outputContract_def formatSalt_def world_simps)

section \<open>Selectors\<close>

definition selector_ok :: "hre \<Rightarrow> signatureAssociation \<Rightarrow> bool" where
  "selector_ok H a =
     (length (sa_signature a) = 4 \<and> list_all (\<lambda>b. b < 256) (sa_signature a)
      \<and> (\<exists>contract canonical. sa_name a = contract @ ''.'' @ canonical
           \<and> sa_signature a = functionSelector H canonical))"

lemma functionSelector_bytes:
  "length (functionSelector H c) = 4 \<and> list_all (\<lambda>b. b < 256) (functionSelector H c)"
proof -
  have "unat (v AND 255) < 256" for v :: bytes32
  proof -
    have "v AND 255 \<le> 255" by (rule word_and_le1)
    then show ?thesis by (simp add: word_le_nat_alt)
  qed
  then show ?thesis by (simp add: functionSelector_def list_all_iff)
qed

lemma functionAssociation_ok:
  "functionAssociation H contract func w = (Inr a, w') \<Longrightarrow> selector_ok H a"
  using functionSelector_bytes
  by (auto simp: functionAssociation_def selector_ok_def Let_def world_simps elim!: bnd_InrE) blast

lemma fileAssociations_ok:
  "fileAssociations H dir file w = (Inr as, w') \<Longrightarrow> list_all (selector_ok H) as"
  using mapJs_all [where P = "selector_ok H", OF _ functionAssociation_ok]
  by (fastforce simp: fileAssociations_def Let_def elim!: bnd_InrE)

section \<open>Properties\<close>

text \<open>
  C36. The generated contract and the deployment agree on the address of a contract without a salt type: the
  salt written into the Solidity source is the salt the deployment tasks use. For a contract with a
  salt type they do not agree by construction: the source carries a hash of salt and type, the tasks use the
  plain salt.
\<close>

theorem immutable_auth_salt:
  assumes q: "ia_getFullyQualifiedName H (Some c) = Some q" "read_artifact H c = Some path" "q = path @ '':'' @ c"
    and info: "build_info_of H q = Some info" "info (ia_extractPath q) = Some cs" "cs c = Some out"
    and salt: "co_devdoc out ''custom:salt'' = Some s" "formatBytes32String H s = Inr b"
  shows "task_getBytes32Salt H c w = (Inr b, w)
    \<and> (co_devdoc out ''custom:salt-type'' = None \<longrightarrow> ia_getSalt H (Some c) w = (Inr (bytes32_hex H b), w))
    \<and> (co_devdoc out ''custom:salt-type'' = Some ty \<and> formatBytes32String H ty = Inr t \<longrightarrow>
         ia_getSalt H (Some c) w
           = (Inr (keccak256_hex H (keccak256_hex H (bytes32_hex H b) @ drop 2 (keccak256_hex H (bytes32_hex H t)))), w))"
proof -
  have o: "outputContract info (ia_extractPath q) (Some c) w = (Inr out, w)"
    by (simp add: outputContract_def info world_simps)
  have f: "formatSalt H (Some s) w = (Inr b, w)" by (simp add: formatSalt_def salt world_simps)
  have "task_getSalt H c w = (Inr (Some s), w)"
    using o info(1) q(2,3) unfolding ia_extractPath_def
    by (simp add: task_getSalt_def task_getFullyQualifiedName_def readArtifact_def task_extractPath_def salt world_simps)
  then show ?thesis
    using o f ia_getSalt_untyped [OF q(1) info salt]
    by (auto simp: task_getBytes32Salt_def ia_getSalt_def typedSalt_def q(1) info(1) salt(1) world_simps)
qed

lemma sample_ia_Foo:
  "ia_getFullyQualifiedName sample_hre (Some ''Foo'') = Some (sample_source @ '':'' @ ''Foo'')"
  "ia_extractPath (sample_source @ '':'' @ ''Foo'') = sample_source"
  by (simp_all add: ia_getFullyQualifiedName_def ia_extractPath_def sample_hre_simps(10) sample_contracts_def
      sample_fqn_def sample_source_def js_nth_def)

lemma sample_Foo_output:
  "\<exists>out. map_of sample_contracts ''Foo'' = Some out \<and> co_devdoc out ''custom:salt'' = Some ''Foo''
     \<and> co_devdoc out ''custom:salt-type'' = None"
  by (simp add: sample_contracts_def sample_doc_def)

lemma sample_ia_salt:
  "build_info_of sample_hre (sample_source @ '':'' @ ''Foo'') = Some sample_build_info"
  "sample_build_info (ia_extractPath (sample_source @ '':'' @ ''Foo'')) = Some (map_of sample_contracts)"
  "formatBytes32String sample_hre ''Foo'' = Inr (0x466F6F * 2 ^ 232)"
  by (simp only: sample_Foo_artifact) (simp_all only: sample_ia_Foo(2) sample_build_info_def refl if_True
      sample_hre_simps(15) sample_bytes32_Foo)

theorem immutable_auth_salt_witness:
  "task_getBytes32Salt sample_hre ''Foo'' sample_world = (Inr (0x466F6F * 2 ^ 232), sample_world)
   \<and> ia_getSalt sample_hre (Some ''Foo'') sample_world
     = (Inr (bytes32_hex sample_hre (0x466F6F * 2 ^ 232)), sample_world)"
proof -
  obtain out where out: "map_of sample_contracts ''Foo'' = Some out" "co_devdoc out ''custom:salt'' = Some ''Foo''"
    "co_devdoc out ''custom:salt-type'' = None" using sample_Foo_output by blast
  from immutable_auth_salt [OF sample_ia_Foo(1) sample_Foo_artifact(1) refl sample_ia_salt(1,2) out(1,2) sample_ia_salt(3)]
    out(3)
  show ?thesis by blast
qed

text \<open>
  The task \<open>generate-immutable-auth-contract\<close> writes the fixed contracts followed by one contract for each entry
  of the deployment list, in its order and with its name. The path is the output argument with the file
  name appended, without a separator.
\<close>

theorem immutable_auth_file:
  assumes l: "getDeploymentList H (Some i) w = (Inr dl, w)" "js_elements dl = Some items"
    and run: "generateImmutableAuthTask H (Some i) out w = (Inr (), w')"
  shows "\<exists>cs. w_fs w' (fs_path ((case out of None \<Rightarrow> ''contracts/utils/'' | Some p \<Rightarrow> p) @ ''ImmutableAuth.sol''))
        = Some (File (templateImmutableFactory @ concat (map templateContract cs)))
    \<and> list_all2 (\<lambda>item d. \<exists>q. item = JStr q \<and> js_nth (js_split CHR '':'' q) 1 = Some (ct_name d)) items cs"
proof -
  from run obtain cs w1 where f: "foldJs (nameSaltStep H) [] items w = (Inr cs, w1)"
    unfolding generateImmutableAuthTask_def by (auto simp: l world_simps elim!: bnd_InrE)
  from run obtain w2 where "writeFileSync ((case out of None \<Rightarrow> ''contracts/utils/'' | Some p \<Rightarrow> p) @ ''ImmutableAuth.sol'')
      (templateImmutableFactory @ concat (map templateContract cs)) w2 = (Inr (), w')"
    unfolding generateImmutableAuthTask_def
    by (cases out) (auto simp: l f foldl_append_concat Let_def world_simps elim!: andThen_InrE)
  then show ?thesis
    using nameSalt_fold [OF f] by (auto simp: writeFileSync_def split: if_splits)
qed

definition sample_list_hre :: hre where
  "sample_list_hre = sample_hre\<lparr>toml_parse := \<lambda>s. Inr (JObj [(''deploymentList'', JArr [JStr (sample_source @ '':'' @ ''Foo'')])])\<rparr>"

definition sample_list_world :: world where
  "sample_list_world = sample_world\<lparr>w_fs := sample_files([''out'', ''deploymentList''] \<mapsto> File [])\<rparr>"

lemma sample_list_salt:
  "\<exists>h. ia_getSalt sample_list_hre (Some ''Foo'') w = (Inr h, w)"
proof -
  have h: "ia_getFullyQualifiedName sample_list_hre (Some ''Foo'') = Some (sample_source @ '':'' @ ''Foo'')"
    "build_info_of sample_list_hre (sample_source @ '':'' @ ''Foo'') = Some sample_build_info"
    "formatBytes32String sample_list_hre ''Foo'' = Inr (0x466F6F * 2 ^ 232)"
    using sample_ia_Foo(1) sample_ia_salt(1,3) by (simp_all add: sample_list_hre_def ia_getFullyQualifiedName_def)
  obtain out where out: "map_of sample_contracts ''Foo'' = Some out" "co_devdoc out ''custom:salt'' = Some ''Foo''"
    "co_devdoc out ''custom:salt-type'' = None" using sample_Foo_output by blast
  show ?thesis using ia_getSalt_untyped [OF h(1,2) sample_ia_salt(2) out(1,2) h(3) out(3)] by blast
qed

lemma sample_list_read:
  "getDeploymentList sample_list_hre (Some ''out'') sample_list_world
     = (Inr (JArr [JStr (sample_source @ '':'' @ ''Foo'')]), sample_list_world)"
  by (simp add: getDeploymentList_def deploymentListPath_def readDeploymentList_def readTOML_def existsSync_def
      readFileSync_def fs_path_def js_startsWith_def sample_list_world_def sample_list_hre_def obj_get_def Let_def world_simps)

lemma sample_list_out:
  "checkUserDirPath (Some ''out/'') sample_list_world = (Inr (), sample_list_world)"
  "\<exists>w'. writeFileSync (''out/'' @ ''ImmutableAuth.sol'') c sample_list_world = (Inr (), w')"
  by (simp_all add: checkUserDirPath_def existsSync_def statIsFile_def writeFileSync_def fs_path_def js_startsWith_def
      is_dir_def sample_list_world_def sample_files_def bnd_def andThen_def world_simps)

theorem immutable_auth_file_witness:
  "\<exists>c w'. generateImmutableAuthTask sample_list_hre (Some ''out'') (Some ''out/'') sample_list_world = (Inr (), w')
     \<and> w_fs w' [''out'', ''ImmutableAuth.sol''] = Some (File (templateImmutableFactory @ templateContract c))
     \<and> ct_name c = ''Foo''"
proof -
  obtain h where h: "ia_getSalt sample_list_hre (Some ''Foo'') sample_list_world = (Inr h, sample_list_world)"
    using sample_list_salt by blast
  have n: "js_nth (js_split CHR '':'' (sample_source @ '':'' @ ''Foo'')) 1 = Some ''Foo''"
    by (simp add: sample_source_def js_nth_def)
  have step: "nameSaltStep sample_list_hre [] (JStr (sample_source @ '':'' @ ''Foo'')) sample_list_world
      = (Inr [\<lparr>ct_name = ''Foo'', ct_salt = h\<rparr>], sample_list_world)"
    using n by (simp only: nameSaltStep_def Let_def js_string.simps orTypeError_run bnd_Inr n h ret_run append.simps)
  have fold: "foldJs (nameSaltStep sample_list_hre) [] [JStr (sample_source @ '':'' @ ''Foo'')] sample_list_world
      = (Inr [\<lparr>ct_name = ''Foo'', ct_salt = h\<rparr>], sample_list_world)"
    by (simp only: foldJs.simps bnd_Inr step ret_run)
  obtain w' where wr: "writeFileSync (''out/'' @ ''ImmutableAuth.sol'') c sample_list_world = (Inr (), w' c)" for c
    using sample_list_out(2) by metis
  have r: "generateImmutableAuthTask sample_list_hre (Some ''out'') (Some ''out/'') sample_list_world
      = (Inr (), w' (foldl (\<lambda>acc c. acc @ templateContract c) templateImmutableFactory [\<lparr>ct_name = ''Foo'', ct_salt = h\<rparr>]))"
    by (simp only: generateImmutableAuthTask_def option.case sample_list_read Let_def fold
        bnd_Inr js_elements.simps orTypeError_run andThen_Inr tryCatch_def sample_list_out(1) prod.case sum.case wr)
  have e: "js_elements (JArr [JStr (sample_source @ '':'' @ ''Foo'')]) = Some [JStr (sample_source @ '':'' @ ''Foo'')]" by simp
  from immutable_auth_file [OF sample_list_read e r] r n show ?thesis
    by (auto simp: fs_path_def js_startsWith_def list_all2_Cons1)
qed


definition sample_abi_hre :: hre where
  "sample_abi_hre = sample_hre\<lparr>read_dir := \<lambda>fs p. [''Foo.json''], json_parse := \<lambda>s. Inr (JArr
     [JObj [(''type'', JStr ''function''), (''name'', JStr ''run''), (''inputs'', JArr [])]])\<rparr>"

definition sample_abi_world :: world where
  "sample_abi_world = sample_world\<lparr>w_fs := sample_files([''out'', ''bindings-artifacts''] \<mapsto> Dir,
     [''out'', ''bindings-artifacts'', ''Foo.json''] \<mapsto> File [])\<rparr>"

lemma sample_file_associations:
  assumes "w_fs w = w_fs sample_abi_world"
  shows "fileAssociations sample_abi_hre ''out/bindings-artifacts'' ''Foo.json'' w
     = (Inr [\<lparr>sa_signature = functionSelector sample_abi_hre ''run()'', sa_name = ''Foo.run()''\<rparr>], w)"
  using assms
  by (simp add: fileAssociations_def readFileSync_def fs_path_def js_startsWith_def sample_abi_world_def sample_abi_hre_def
      js_basename_def js_endsWith_def filterFunctions_def mapJs_def functionAssociation_def js_plus_string_def obj_get_def
      bnd_def Let_def world_simps)

lemma sample_mapping: "\<exists>w'. generateMappingFile sample_abi_hre ''out'' sample_abi_world = (Inr (), w')"
proof -
  let ?w = "sample_abi_world\<lparr>w_console := [''generating signature mapping...'']\<rparr>"
  have f: "jsonFiles sample_abi_hre ''out/bindings-artifacts'' ?w = (Inr [''Foo.json''], ?w)"
    by (simp add: jsonFiles_def readdirSync_def fs_path_def js_startsWith_def js_endsWith_def sample_abi_world_def
        sample_abi_hre_def bnd_def world_simps)
  have a: "mapJs (fileAssociations sample_abi_hre ''out/bindings-artifacts'') [''Foo.json''] ?w
      = (Inr [[\<lparr>sa_signature = functionSelector sample_abi_hre ''run()'', sa_name = ''Foo.run()''\<rparr>]], ?w)"
    by (simp add: mapJs_def sample_file_associations world_simps)
  have m: "mkdirRecursive ''out'' ?w = (Inr (), ?w)"
    by (simp add: mkdirRecursive_def mkdirPrefix_def fs_path_def js_startsWith_def sample_abi_world_def sample_files_def
        andThen_def bnd_def world_simps)
  have c: "w_console sample_abi_world = []" by (simp add: sample_abi_world_def sample_world_def)
  have "\<exists>w'. writeFileSync ''out/mapping.go'' t ?w = (Inr (), w')" for t
    by (simp add: writeFileSync_def fs_path_def js_startsWith_def is_dir_def sample_abi_world_def sample_files_def)
  then show ?thesis by (simp add: generateMappingFile_def Let_def f a m c world_simps)
qed


end
