(* ===== verification/Hardhat_Config.thy ===== *)
theory Hardhat_Config
  imports Js_Prelude
begin

text \<open>
  The accounts and networks of \<^verbatim>\<open>hardhat.config.ts\<close>: which account a role of the scripts is, which key and which
  endpoint a network gets from the process environment. The settings of the compiler, of the test runner
  and of the plugins are data for those programs and have no counterpart here.
\<close>

section \<open>Accounts\<close>

definition namedAccounts :: "(string \<times> nat) list" where
  "namedAccounts =
     [(''admin'', 0), (''validator0'', 1), (''validator1'', 2), (''validator2'', 3), (''validator3'', 4),
      (''validator4'', 0), (''validator5'', 5), (''validator6'', 6), (''validator7'', 7), (''validator8'', 8),
      (''validator9'', 9), (''validator10'', 10), (''user'', 11)]"

record hardhat_account =
  ha_privateKey :: string
  ha_balance :: nat

definition hardhatAccounts :: "hardhat_account list" where
  "hardhatAccounts =
     [\<lparr>ha_privateKey = ''0x6aea45ee1273170fb525da34015e4f20ba39fe792f486ba74020bcacc9badfc1'', ha_balance = 1500000000000000000000000000000\<rparr>,
      \<lparr>ha_privateKey = ''0x8de84c4eb40a9d32804ebc4005075eed5d64efc92ba26b6ec04d399f5a9b7bd1'', ha_balance = 10000000000000000000000\<rparr>,
      \<lparr>ha_privateKey = ''0x65a81057728efda8858d5d53094a093203d35cb7437d16f7635594788517bdd2'', ha_balance = 10000000000000000000000\<rparr>,
      \<lparr>ha_privateKey = ''0xd599743b90304946278b39c8d51b240c0bde4c6603fe47b2b6b131509feca7fc'', ha_balance = 10000000000000000000000\<rparr>,
      \<lparr>ha_privateKey = ''0xa7b4595b0697fcae35046b6d532d17d2f134c9c5e9a5d202ae4b7c83fa85399e'', ha_balance = 10000000000000000000000\<rparr>,
      \<lparr>ha_privateKey = ''0x7253354503676cad1165425f4a528369991ca6931afe88d3e82c2edfdbef64f7'', ha_balance = 10000000000000000000000\<rparr>,
      \<lparr>ha_privateKey = ''0x32a7f91d96f1f2f9926e0e4ec3d6af78b54d679509853125a7d0259be438b41a'', ha_balance = 10000000000000000000000\<rparr>,
      \<lparr>ha_privateKey = ''0x99e883ac5e9135559842aac297319914fb89efc066975b69bffe82697d10fd9b'', ha_balance = 10000000000000000000000\<rparr>,
      \<lparr>ha_privateKey = ''0xbc676d5eb82c6356ac53d46124fa01755cb6268b6a5ad51a648d69f9411c3257'', ha_balance = 10000000000000000000000\<rparr>,
      \<lparr>ha_privateKey = ''0x009ab9b374ada80e33c4efcf5a16ed4235b327d5319532ff8cf39024e36cf9b9'', ha_balance = 10000000000000000000000\<rparr>,
      \<lparr>ha_privateKey = ''0x264d19b082060f127bdcf6bdee7db0244c4b5a762f686d0fc865bb6e64b3e743'', ha_balance = 10000000000000000000000\<rparr>,
      \<lparr>ha_privateKey = ''0xc62fd5e127b007a90478de7259b20b0281d20e8c8aa713bdbf819337cf8712df'', ha_balance = 10000000000000000000000\<rparr>,
      \<lparr>ha_privateKey = ''0xff030000000000000000000000000000000000000000000000000000000000ff'', ha_balance = 10000000000000000000000\<rparr>]"

section \<open>Networks\<close>

text \<open>\<open>process.env.X ? process.env.X : d\<close>: the empty string counts as unset.\<close>

definition envOr :: "(string \<Rightarrow> string option) \<Rightarrow> string \<Rightarrow> string \<Rightarrow> string" where
  "envOr penv x d = (case penv x of None \<Rightarrow> d | Some v \<Rightarrow> if v = [] then d else v)"

definition zeroKey :: string where
  "zeroKey = ''0x'' @ replicate 64 CHR ''0''"

datatype gas_setting = GasAuto | GasLimit nat

datatype account_setting = Keys "string list" | Funded "hardhat_account list"

record mining_config =
  mi_auto :: bool
  mi_interval :: nat

record network_config =
  nc_url :: "string option"
  nc_chainId :: "nat option"
  nc_allowUnlimitedContractSize :: "bool option"
  nc_mining :: "mining_config option"
  nc_gas :: "gas_setting option"
  nc_gasMultiplier :: "nat option"
  nc_gasPrice :: "gas_setting option"
  nc_accounts :: "account_setting option"

text \<open>The settings the networks with an endpoint share.\<close>

definition remoteNetwork :: "string \<Rightarrow> gas_setting \<Rightarrow> string list \<Rightarrow> network_config" where
  "remoteNetwork url gas keys =
     \<lparr>nc_url = Some url, nc_chainId = None, nc_allowUnlimitedContractSize = None,
      nc_mining = None, nc_gas = Some gas, nc_gasMultiplier = Some 2,
      nc_gasPrice = Some GasAuto, nc_accounts = Some (Keys keys)\<rparr>"

definition localUrl :: string where
  "localUrl = ''http://127.0.0.1:8545''"

definition networks :: "(string \<Rightarrow> string option) \<Rightarrow> (string \<times> network_config) list" where
  "networks penv =
     [(''dev'', remoteNetwork localUrl GasAuto
         [''0x6aea45ee1273170fb525da34015e4f20ba39fe792f486ba74020bcacc9badfc1'',
          ''0x8de84c4eb40a9d32804ebc4005075eed5d64efc92ba26b6ec04d399f5a9b7bd1'',
          ''0x65a81057728efda8858d5d53094a093203d35cb7437d16f7635594788517bdd2'']),
      (''ropsten'', remoteNetwork ''https://testnet.eth.mnexplore.com/'' GasAuto [envOr penv ''TESTNET_PK'' zeroKey]),
      (''goerli'', remoteNetwork (envOr penv ''GOERLI_ENDPOINT'' localUrl) GasAuto [envOr penv ''GOERLI_PK'' zeroKey]),
      (''mainnet'', remoteNetwork (envOr penv ''MAINNET_ENDPOINT'' localUrl) GasAuto [envOr penv ''MAINNET_PK'' zeroKey]),
      (''production'', remoteNetwork ''https://eth.alice.net/'' (GasLimit 15000000) [envOr penv ''PROD_PK'' zeroKey]),
      (''ganache'', \<lparr>nc_url = Some localUrl, nc_chainId = None, nc_allowUnlimitedContractSize = None,
         nc_mining = None, nc_gas = None, nc_gasMultiplier = None,
         nc_gasPrice = None, nc_accounts = None\<rparr>),
      (''hardhat'', \<lparr>nc_url = None, nc_chainId = Some 1337, nc_allowUnlimitedContractSize = Some False,
         nc_mining = Some \<lparr>mi_auto = True, mi_interval = 0\<rparr>, nc_gas = None, nc_gasMultiplier = None,
         nc_gasPrice = None, nc_accounts = Some (Funded hardhatAccounts)\<rparr>)]"

text \<open>The key of a role on the network of hardhat.\<close>

definition roleKey :: "string \<Rightarrow> string option" where
  "roleKey r = (case map_of namedAccounts r of None \<Rightarrow> None
     | Some i \<Rightarrow> map_option ha_privateKey (js_nth hardhatAccounts i))"

section \<open>Facts about the configuration\<close>

lemma hardhatAccounts_keys: "distinct (map ha_privateKey hardhatAccounts)"
  by (simp add: hardhatAccounts_def)

lemma namedAccounts_in_range: "list_all (\<lambda>(r, i). i < length hardhatAccounts) namedAccounts"
  by (simp add: namedAccounts_def hardhatAccounts_def)

lemma namedAccounts_shared: "list_all (\<lambda>(r, i). list_all (\<lambda>(s, j).
    i = j \<longrightarrow> r = s \<or> {r, s} = {''admin'', ''validator4''}) namedAccounts) namedAccounts"
  by (simp add: namedAccounts_def insert_commute)

text \<open>Every role has a key, and two roles share one only if they are the administrator and validator 4.\<close>

lemma roleKey_distinct:
  assumes "(r, i) \<in> set namedAccounts" and "(s, j) \<in> set namedAccounts" and "roleKey r = roleKey s"
  shows "roleKey r \<noteq> None \<and> (r = s \<or> {r, s} = {''admin'', ''validator4''})"
proof -
  have "distinct (map fst namedAccounts)" by (simp add: namedAccounts_def)
  then have m: "map_of namedAccounts r = Some i" "map_of namedAccounts s = Some j" using assms(1,2) by simp_all
  have l: "i < length hardhatAccounts" "j < length hardhatAccounts"
    using namedAccounts_in_range assms(1,2) by (auto simp: list_all_iff)
  with assms(3) m have "map ha_privateKey hardhatAccounts ! i = map ha_privateKey hardhatAccounts ! j"
    by (simp add: roleKey_def js_nth_def)
  with nth_eq_iff_index_eq [OF hardhatAccounts_keys, of i j] l have "i = j" by simp
  with namedAccounts_shared assms(1,2) have "r = s \<or> {r, s} = {''admin'', ''validator4''}"
    by (fastforce simp: list_all_iff)
  with m l show ?thesis by (simp add: roleKey_def js_nth_def)
qed

text \<open>A network with an endpoint and an unset or empty key variable falls back to the zero key.\<close>

lemma envOr_cases: "envOr penv x d = (if penv x \<in> {None, Some []} then d else the (penv x))"
  by (auto simp: envOr_def split: option.split)

lemma dev_keys:
  "map_option nc_accounts (map_of (networks penv) ''dev'') = Some (Some (Keys (map ha_privateKey (take 3 hardhatAccounts))))"
  by (simp add: networks_def remoteNetwork_def hardhatAccounts_def)

end
