(* ===== verification/Solidity_Base.thy ===== *)
theory Solidity_Base
  imports Evm_Chain
begin

unbundle bit_operations_syntax

text \<open>
  What the models of the Solidity contracts share: the errors they revert with, checked arithmetic on machine
  words, byte strings and the reads of memory words. A function that may revert returns \<open>Inl\<close> of
  the error or \<open>Inr\<close> of its result; a revert undoes every change of the call, so the state before the call
  is the state after it.
\<close>

named_theorems sol_simps \<open>rewrite rules that run a contract function\<close>

section \<open>Errors\<close>

text \<open>\<^verbatim>\<open>DoublyLinkedListErrors.sol\<close> and \<^verbatim>\<open>DynamicsErrors.sol\<close>.\<close>

datatype dynamics_error =
    InvalidNodeId nat nat nat
  | ExistentNodeAtPosition nat
  | InexistentNodeAtPosition nat
  | InvalidData
  | InvalidScheduledDate nat nat nat
  | InvalidExtCodeSize addr nat
  | DynamicValueNotFound nat
  | InvalidAliceNetNodeHash bytes32 bytes32
  | InvalidAliceNetNodeVersion "nat list" "nat list"

text \<open>\<^verbatim>\<open>SnapshotsErrors.sol\<close>.\<close>

datatype snapshots_error =
    OnlyValidatorsAllowed addr
  | ConsensusNotRunning
  | MinimumBlocksIntervalNotPassed nat nat
  | UnexpectedBlockHeight nat nat
  | BlockHeightNotMultipleOfEpochLength nat nat
  | InvalidChainId nat
  | MigrationNotAllowedAtCurrentEpoch
  | MigrationInputDataMismatch nat nat
  | SnapshotsNotInBuffer nat
  | ValidatorNotElected nat nat nat bytes32
  | InvalidRingBufferBlockHeight nat nat
  | EpochMustBeNonZero
  | InvalidMasterPublicKey bytes32 bytes32
  | SignatureVerificationFailed

text \<open>\<^verbatim>\<open>BaseParserLibraryErrors.sol\<close>, \<^verbatim>\<open>BClaimsParserLibraryErrors.sol\<close> and \<^verbatim>\<open>GenericParserLibraryErrors.sol\<close>.\<close>

datatype parser_error =
    OffsetParameterOverflow nat
  | OffsetOutOfBounds nat nat
  | LEUint16OffsetParameterOverflow nat
  | LEUint16OffsetOutOfBounds nat nat
  | BEUint16OffsetParameterOverflow nat
  | BEUint16OffsetOutOfBounds nat nat
  | BooleanOffsetParameterOverflow nat
  | BooleanOffsetOutOfBounds nat nat
  | LEUint256OffsetParameterOverflow nat
  | LEUint256OffsetOutOfBounds nat nat
  | BEUint256OffsetParameterOverflow nat
  | BEUint256OffsetOutOfBounds nat nat
  | Bytes32OffsetParameterOverflow nat
  | Bytes32OffsetOutOfBounds nat nat
  | SizeThresholdExceeded nat
  | DataOffsetOverflow nat
  | NotEnoughBytes nat nat
  | ChainIdZero
  | HeightZero
  | RoundZero
  | GenericDataOffsetOverflow
  | InsufficientBytes nat nat

text \<open>\<^verbatim>\<open>ValidatorPoolErrors.sol\<close>.\<close>

datatype pool_error =
    CallerNotValidator addr
  | ConsensusRunning
  | ETHDKGRoundRunning
  | MaxIntervalWithoutSnapshotsMustBeNonZero
  | MaxNumValidatorsIsTooLow nat nat
  | MinimumBlockIntervalNotMet nat nat
  | NotEnoughValidatorSlotsAvailable nat nat
  | RegistrationParameterLengthMismatch nat nat
  | SenderShouldOwnPosition nat
  | LengthGreaterThanAvailableValidators nat nat
  | ProfitsOnlyClaimableWhileConsensusRunning
  | TokenBalanceChangedDuringOperation
  | EthBalanceChangedDuringOperation
  | SenderNotInExitingQueue addr
  | WaitingPeriodNotMet
  | AddressNotAccusable addr
  | InvalidIndex nat
  | AddressAlreadyValidator addr
  | AddressNotValidator addr
  | PayoutTooLow
  | InsufficientFundsInStakePosition nat nat

text \<open>
  \<open>Panic\<close> carries the code of the compiler's own checks: 0x11 is an arithmetic overflow, 0x12 a division by zero,
  0x21 an invalid enum value, 0x32 an index out of range. \<open>CreateFailed\<close> is the revert after a failed
  creation, \<open>Custom\<close> the failure of a contract that is a parameter; the other constructors are the custom errors of the sources.
\<close>

datatype sol_error =
    Panic nat
  | OnlyFactory addr addr
  | OnlySnapshots addr addr
  | AlreadyInitialized
  | CreateFailed
  | Custom string
  | KeyNotInMap addr
  | OnlyETHDKG addr addr
  | CannotTransferToZeroAddress
  | DynamicsError dynamics_error
  | SnapshotsError snapshots_error
  | ParserError parser_error
  | PoolError pool_error

type_synonym 'a sol = "sol_error + 'a"

definition sbind :: "'a sol \<Rightarrow> ('a \<Rightarrow> 'b sol) \<Rightarrow> 'b sol" where
  "sbind m f = (case m of Inl e \<Rightarrow> Inl e | Inr a \<Rightarrow> f a)"

text \<open>\<open>if (c) revert e;\<close>\<close>

definition revert_if :: "bool \<Rightarrow> sol_error \<Rightarrow> unit sol" where
  "revert_if c e = (if c then Inl e else Inr ())"

lemma sbind_simps [simp, sol_simps]: "sbind (Inl e) f = Inl e" "sbind (Inr a) f = f a"
  by (simp_all add: sbind_def)

lemma sbind_InrE:
  assumes "sbind m f = Inr b"
  obtains a where "m = Inr a" and "f a = Inr b"
  using assms by (cases m) auto

lemma sbind_Inr_iff: "sbind m f = Inr b \<longleftrightarrow> (\<exists>a. m = Inr a \<and> f a = Inr b)"
  by (cases m) auto

lemma revert_if_iff [simp]: "revert_if c e = Inr u \<longleftrightarrow> \<not> c"
  by (simp add: revert_if_def)

lemma revert_if_simps [simp, sol_simps]: "revert_if False e = Inr ()" "revert_if True e = Inl e"
  by (simp_all add: revert_if_def)

section \<open>Checked arithmetic\<close>

definition checked_add :: "'a::len word \<Rightarrow> 'a word \<Rightarrow> 'a word sol" where
  "checked_add a b = (if unat a + unat b < 2 ^ LENGTH('a) then Inr (a + b) else Inl (Panic 0x11))"

definition checked_sub :: "'a::len word \<Rightarrow> 'a word \<Rightarrow> 'a word sol" where
  "checked_sub a b = (if b \<le> a then Inr (a - b) else Inl (Panic 0x11))"

definition checked_mul :: "'a::len word \<Rightarrow> 'a word \<Rightarrow> 'a word sol" where
  "checked_mul a b = (if unat a * unat b < 2 ^ LENGTH('a) then Inr (a * b) else Inl (Panic 0x11))"

definition checked_div :: "'a::len word \<Rightarrow> 'a word \<Rightarrow> 'a word sol" where
  "checked_div a b = (if b = 0 then Inl (Panic 0x12) else Inr (a div b))"

definition checked_mod :: "'a::len word \<Rightarrow> 'a word \<Rightarrow> 'a word sol" where
  "checked_mod a b = (if b = 0 then Inl (Panic 0x12) else Inr (a mod b))"

lemma checked_add_iff:
  "checked_add (a :: 'a::len word) b = Inr c \<longleftrightarrow> unat a + unat b < 2 ^ LENGTH('a) \<and> unat c = unat a + unat b"
  by (auto simp: checked_add_def unat_word_ariths word_unat_eq_iff)

lemma checked_sub_iff:
  "checked_sub (a :: 'a::len word) b = Inr c \<longleftrightarrow> unat b \<le> unat a \<and> unat c = unat a - unat b"
  by (auto simp: checked_sub_def unat_sub word_le_nat_alt word_unat_eq_iff)

lemma checked_mul_iff:
  "checked_mul (a :: 'a::len word) b = Inr c \<longleftrightarrow> unat a * unat b < 2 ^ LENGTH('a) \<and> unat c = unat a * unat b"
  by (auto simp: checked_mul_def unat_word_ariths word_unat_eq_iff)

lemma checked_div_iff: "checked_div (a :: 'a::len word) b = Inr c \<longleftrightarrow> b \<noteq> 0 \<and> unat c = unat a div unat b"
  by (auto simp: checked_div_def unat_div word_unat_eq_iff)

lemma checked_mod_iff: "checked_mod (a :: 'a::len word) b = Inr c \<longleftrightarrow> b \<noteq> 0 \<and> unat c = unat a mod unat b"
  by (auto simp: checked_mod_def unat_mod word_unat_eq_iff)

lemmas checked_iffs = checked_add_iff checked_sub_iff checked_mul_iff checked_div_iff checked_mod_iff

text \<open>Widening a word keeps its value, and narrowing it again gives it back.\<close>

lemma unat_less_power: "unat (a :: 'a::len word) < 2 ^ LENGTH('a)"
  by (rule unsigned_less)

lemma unat_ucast_up [simp]:
  "LENGTH('a) \<le> LENGTH('b) \<Longrightarrow> unat (ucast (a :: 'a::len word) :: 'b::len word) = unat a"
  by (simp add: unsigned_ucast_eq take_bit_nat_eq_self_iff less_le_trans [OF unat_less_power])

lemma ucast_up_inj [simp]:
  "LENGTH('a) \<le> LENGTH('b) \<Longrightarrow> (ucast (a :: 'a::len word) :: 'b::len word) = ucast b \<longleftrightarrow> a = b"
  by (metis unat_ucast_up word_unat_eq_iff)

lemma ucast_up_down [simp]:
  "LENGTH('a) \<le> LENGTH('b) \<Longrightarrow> ucast (ucast (a :: 'a::len word) :: 'b::len word) = a"
  by (rule ucast_up_ucast_id) (simp add: is_up)

lemma ucast_up_0 [simp]: "LENGTH('a) \<le> LENGTH('b) \<Longrightarrow> (ucast (a :: 'a::len word) :: 'b::len word) = 0 \<longleftrightarrow> a = 0"
  using ucast_up_inj [of a 0] by simp

section \<open>Bytes\<close>

type_synonym byte = "8 word"

text \<open>The value of a byte string, most significant byte first, and its inverse for a given length.\<close>

fun be_nat :: "byte list \<Rightarrow> nat" where
  "be_nat [] = 0"
| "be_nat (b # bs) = unat b * 256 ^ length bs + be_nat bs"

fun be_bytes :: "nat \<Rightarrow> nat \<Rightarrow> byte list" where
  "be_bytes 0 k = []"
| "be_bytes (Suc n) k = of_nat (k div 256 ^ n) # be_bytes n k"

lemma length_be_bytes [simp]: "length (be_bytes n k) = n"
  by (induction n) auto

lemma be_nat_less: "be_nat bs < 256 ^ length bs"
proof (induction bs)
  case (Cons b bs)
  have "unat b < 2 ^ LENGTH(8)" by (rule unsigned_less)
  then have "unat b + 1 \<le> 256" by simp
  then have "(unat b + 1) * 256 ^ length bs \<le> 256 * 256 ^ length bs" by (rule mult_le_mono1)
  with Cons show ?case unfolding be_nat.simps list.size power_Suc add_mult_distrib add_0_right add_Suc_right by linarith
qed simp

lemma be_nat_append: "be_nat (xs @ ys) = be_nat xs * 256 ^ length ys + be_nat ys"
  by (induction xs) (auto simp: power_add algebra_simps)

lemma be_nat_bytes: "be_nat (be_bytes n k) = k mod 256 ^ n"
proof (induction n)
  case (Suc n)
  have "unat (of_nat (k div 256 ^ n) :: byte) = k div 256 ^ n mod 256" by (simp add: unat_of_nat)
  moreover have "k mod (256 ^ n * 256) = 256 ^ n * (k div 256 ^ n mod 256) + k mod 256 ^ n"
    by (rule mod_mult2_eq)
  ultimately show ?case using Suc by (simp add: mult.commute)
qed simp

lemma be_nat_bytes_id: "k < 256 ^ n \<Longrightarrow> be_nat (be_bytes n k) = k"
  by (simp add: be_nat_bytes)

lemma be_nat_replicate_0 [simp]: "be_nat (replicate n 0) = 0"
  by (induction n) auto

lemma be_nat_middle: "be_nat (xs @ ys @ zs) div 256 ^ length zs mod 256 ^ length ys = be_nat ys"
  using be_nat_less [of zs] be_nat_less [of ys] by (simp add: be_nat_append flip: append_assoc)

text \<open>
  \<open>mload\<close> of 32 bytes that start at an offset of a byte string. The bytes behind the end of the string are
  those of whatever lies there; they are 0 here, and every caller shifts them out or has checked the length.
\<close>

definition byte_at :: "byte list \<Rightarrow> nat \<Rightarrow> byte" where
  "byte_at bs i = (if i < length bs then bs ! i else 0)"

definition mload :: "byte list \<Rightarrow> nat \<Rightarrow> 256 word" where
  "mload bs p = of_nat (be_nat (map (\<lambda>i. byte_at bs (p + i)) [0..<32]))"

lemma unat_mload: "unat (mload bs p) = be_nat (map (\<lambda>i. byte_at bs (p + i)) [0..<32])"
  using be_nat_less [of "map (\<lambda>i. byte_at bs (p + i)) [0..<32]"]
  by (simp add: mload_def unat_of_nat take_bit_eq_mod)

text \<open>\<open>shr(256 - 8 n, mload(p))\<close> is the value of the \<open>n\<close> bytes at \<open>p\<close>.\<close>

lemma mload_shr:
  assumes "n \<le> 32" and "p + n \<le> length bs"
  shows "unat (drop_bit (256 - 8 * n) (mload bs p)) = be_nat (take n (drop p bs))"
proof -
  let ?f = "\<lambda>i. byte_at bs (p + i)"
  have "[0..<32] = [0..<n] @ [n..<32]" using upt_add_eq_append [of 0 n "32 - n"] assms(1) by (simp only: le_add_diff_inverse add_0 le0)
  then have s: "map ?f [0..<32] = map ?f [0..<n] @ map ?f [n..<32]" by simp
  have t: "map ?f [0..<n] = take n (drop p bs)"
    using assms(2) by (intro nth_equalityI) (auto simp: byte_at_def)
  have "256 - 8 * n = 8 * (32 - n)" by simp
  then have "(2 :: nat) ^ (256 - 8 * n) = (2 ^ 8) ^ (32 - n)" by (simp only: power_mult)
  then have "unat (drop_bit (256 - 8 * n) (mload bs p)) = be_nat (map ?f [0..<32]) div 256 ^ (32 - n)"
    unfolding unat_drop_bit_eq by (simp add: drop_bit_eq_div unat_mload)
  also have "\<dots> = be_nat (take n (drop p bs))"
    unfolding s t be_nat_append using be_nat_less [of "map ?f [n..<32]"] by simp
  finally show ?thesis .
qed

end
