(* ===== verification/Epoch_List.thy ===== *)
theory Epoch_List
  imports Solidity_Base
begin

text \<open>
  \<^verbatim>\<open>DoublyLinkedList.sol\<close>: the list of epochs at which the dynamic values change, kept as linked nodes in a mapping.
  The list is shown to be a strictly increasing sequence of epochs with a marked position, the head.
\<close>

section \<open>Nodes\<close>

record Node =
  nd_epoch :: "32 word"
  nd_next :: "32 word"
  nd_prev :: "32 word"
  nd_data :: addr

record DoublyLinkedList =
  dl_head :: "128 word"
  dl_tail :: "128 word"
  dl_nodes :: "256 word \<Rightarrow> Node"

definition update_node :: "Node \<Rightarrow> 32 word \<Rightarrow> 32 word \<Rightarrow> Node" where
  "update_node node prevEpoch nextEpoch = node\<lparr>nd_prev := prevEpoch, nd_next := nextEpoch\<rparr>"

definition updatePrevious :: "Node \<Rightarrow> 32 word \<Rightarrow> Node" where
  "updatePrevious node prevEpoch = node\<lparr>nd_prev := prevEpoch\<rparr>"

definition updateNext :: "Node \<Rightarrow> 32 word \<Rightarrow> Node" where
  "updateNext node nextEpoch = node\<lparr>nd_next := nextEpoch\<rparr>"

definition createNode :: "32 word \<Rightarrow> addr \<Rightarrow> Node" where
  "createNode epoch data = \<lparr>nd_epoch = epoch, nd_next = 0, nd_prev = 0, nd_data = data\<rparr>"

section \<open>Operations\<close>

definition getHead :: "DoublyLinkedList \<Rightarrow> 256 word" where
  "getHead list = ucast (dl_head list)"

definition getTail :: "DoublyLinkedList \<Rightarrow> 256 word" where
  "getTail list = ucast (dl_tail list)"

definition getNode :: "DoublyLinkedList \<Rightarrow> 256 word \<Rightarrow> Node" where
  "getNode list epoch = dl_nodes list epoch"

definition getValue :: "DoublyLinkedList \<Rightarrow> 256 word \<Rightarrow> addr" where
  "getValue list epoch = nd_data (dl_nodes list epoch)"

definition getNextEpoch :: "DoublyLinkedList \<Rightarrow> 256 word \<Rightarrow> 32 word" where
  "getNextEpoch list epoch = nd_next (dl_nodes list epoch)"

definition getPreviousEpoch :: "DoublyLinkedList \<Rightarrow> 256 word \<Rightarrow> 32 word" where
  "getPreviousEpoch list epoch = nd_prev (dl_nodes list epoch)"

definition node_exists :: "DoublyLinkedList \<Rightarrow> 256 word \<Rightarrow> bool" where
  "node_exists list epoch = (nd_data (dl_nodes list epoch) \<noteq> 0)"

definition put_node :: "DoublyLinkedList \<Rightarrow> 32 word \<Rightarrow> Node \<Rightarrow> DoublyLinkedList" where
  "put_node list epoch node = list\<lparr>dl_nodes := (dl_nodes list)(ucast epoch := node)\<rparr>"

definition setHead :: "DoublyLinkedList \<Rightarrow> 128 word \<Rightarrow> DoublyLinkedList sol" where
  "setHead list epoch =
     (if \<not> node_exists list (ucast epoch) then Inl (DynamicsError (InexistentNodeAtPosition (unat epoch)))
      else Inr (list\<lparr>dl_head := epoch\<rparr>))"

definition setTail :: "DoublyLinkedList \<Rightarrow> 128 word \<Rightarrow> DoublyLinkedList sol" where
  "setTail list epoch =
     (if \<not> node_exists list (ucast epoch) then Inl (DynamicsError (InexistentNodeAtPosition (unat epoch)))
      else Inr (list\<lparr>dl_tail := epoch\<rparr>))"

definition linkNext :: "DoublyLinkedList \<Rightarrow> 32 word \<Rightarrow> 32 word \<Rightarrow> DoublyLinkedList" where
  "linkNext list prevEpoch nextEpoch =
     put_node list prevEpoch ((dl_nodes list (ucast prevEpoch))\<lparr>nd_next := nextEpoch\<rparr>)"

definition linkPrevious :: "DoublyLinkedList \<Rightarrow> 32 word \<Rightarrow> 32 word \<Rightarrow> DoublyLinkedList" where
  "linkPrevious list nextEpoch prevEpoch =
     put_node list nextEpoch ((dl_nodes list (ucast nextEpoch))\<lparr>nd_prev := prevEpoch\<rparr>)"

definition addNode :: "DoublyLinkedList \<Rightarrow> 32 word \<Rightarrow> addr \<Rightarrow> DoublyLinkedList sol" where
  "addNode list epoch data =
     (let head = ucast (dl_head list) :: 32 word; tail = ucast (dl_tail list) :: 32 word in
      if epoch \<le> tail then Inl (DynamicsError (InvalidNodeId (unat head) (unat tail) (unat epoch)))
      else if node_exists list (ucast epoch) then Inl (DynamicsError (ExistentNodeAtPosition (unat epoch)))
      else if data = 0 then Inl (DynamicsError InvalidData)
      else
        let node = createNode epoch data in
        if head = 0 then
          sbind (setHead (put_node list epoch node) (ucast epoch)) (\<lambda>list. setTail list (ucast epoch))
        else
          setTail (linkNext (put_node list epoch (updatePrevious node tail)) tail epoch) (ucast epoch))"

section \<open>The list as a sequence of epochs\<close>

text \<open>The nodes of the epochs are linked in this order, the first one to the epoch before.\<close>

fun linked :: "(256 word \<Rightarrow> Node) \<Rightarrow> 32 word \<Rightarrow> 32 word list \<Rightarrow> bool" where
  "linked nodes p [] = True"
| "linked nodes p (e # es) =
     (nd_epoch (nodes (ucast e)) = e \<and> nd_prev (nodes (ucast e)) = p
      \<and> nd_next (nodes (ucast e)) = (case es of [] \<Rightarrow> 0 | e' # _ \<Rightarrow> e') \<and> linked nodes e es)"

definition rep :: "DoublyLinkedList \<Rightarrow> 32 word list \<Rightarrow> 32 word \<Rightarrow> bool" where
  "rep list es h =
     (linked (dl_nodes list) 0 es \<and> sorted_wrt (<) (0 # es)
      \<and> (\<forall>k. node_exists list k \<longleftrightarrow> k \<in> ucast ` set es)
      \<and> dl_head list = ucast h \<and> dl_tail list = ucast (last (0 # es))
      \<and> (if es = [] then h = 0 else h \<in> set es))"

definition empty_list :: DoublyLinkedList where
  "empty_list = \<lparr>dl_head = 0, dl_tail = 0, dl_nodes = \<lambda>k. \<lparr>nd_epoch = 0, nd_next = 0, nd_prev = 0, nd_data = 0\<rparr>\<rparr>"

lemma rep_empty: "rep empty_list [] 0"
  by (simp add: rep_def empty_list_def node_exists_def)

text \<open>The epoch that follows another in a sequence, and the one before it; 0 when there is none.\<close>

fun succ_in :: "32 word list \<Rightarrow> 32 word \<Rightarrow> 32 word" where
  "succ_in [] h = 0"
| "succ_in (e # es) h = (if e = h then (case es of [] \<Rightarrow> 0 | e' # _ \<Rightarrow> e') else succ_in es h)"

fun pred_in :: "32 word \<Rightarrow> 32 word list \<Rightarrow> 32 word \<Rightarrow> 32 word" where
  "pred_in p [] h = 0"
| "pred_in p (e # es) h = (if e = h then p else pred_in e es h)"

lemma ucast_32_128_256 [simp]: "(ucast (ucast (e :: 32 word) :: 128 word) :: 256 word) = ucast e"
  by (rule ucast_up_ucast) (simp add: is_up)

lemma linked_cong:
  "(\<And>e. e \<in> set es \<Longrightarrow> nodes' (ucast e) = nodes (ucast e)) \<Longrightarrow> linked nodes' p es = linked nodes p es"
  by (induction es arbitrary: p) auto

lemma linked_links:
  assumes "linked nodes p es" and "e \<in> set es"
  shows "nd_next (nodes (ucast e)) = succ_in es e" and "nd_prev (nodes (ucast e)) = pred_in p es e"
  using assms by (induction es arbitrary: p) auto

lemma linked_snoc:
  assumes "linked nodes p es" and "distinct es" and "e \<notin> set es" and "es \<noteq> []"
  shows "linked (nodes(ucast e := \<lparr>nd_epoch = e, nd_next = 0, nd_prev = last es, nd_data = d\<rparr>,
    ucast (last es) := (nodes (ucast (last es)))\<lparr>nd_next := e\<rparr>)) p (es @ [e])"
  using assms
proof (induction es arbitrary: p)
  case (Cons x xs)
  show ?case
  proof (cases "xs = []")
    case True
    with Cons.prems show ?thesis by auto
  next
    case False
    with Cons.prems have "last xs \<noteq> x" by auto
    with False Cons show ?thesis by (auto split: list.splits)
  qed
qed simp

lemma sorted_last:
  assumes "sorted_wrt (<) (es :: 'a::linorder list)" and "x \<in> set es"
  shows "x \<le> last es"
  using assms by (induction es) (auto split: if_splits intro: less_imp_le)

section \<open>Every operation keeps the representation\<close>

lemma rep_pos: "rep l es h \<Longrightarrow> e \<in> set es \<Longrightarrow> 0 < e"
  by (auto simp: rep_def)

lemma rep_tail: "rep l es h \<Longrightarrow> (ucast (dl_tail l) :: 32 word) = last (0 # es)"
  by (simp add: rep_def del: last.simps)

lemma rep_head:
  assumes "rep l es h"
  shows "getHead l = ucast h" and "h = 0 \<longleftrightarrow> es = []"
proof -
  have "dl_head l = ucast h" using assms unfolding rep_def by blast
  then show "getHead l = ucast h" by (simp add: getHead_def)
  show "h = 0 \<longleftrightarrow> es = []"
    using assms rep_pos [OF assms, of h] unfolding rep_def by (metis less_irrefl)
qed

lemma rep_links:
  assumes "rep l es h" and "e \<in> set es"
  shows "getNextEpoch l (ucast e) = succ_in es e" and "getPreviousEpoch l (ucast e) = pred_in 0 es e"
  using assms linked_links by (auto simp: rep_def getNextEpoch_def getPreviousEpoch_def)

lemma rep_distinct: "rep l es h \<Longrightarrow> distinct es"
  by (auto simp: rep_def strict_sorted_iff)

lemma rep_last: "rep l es h \<Longrightarrow> e \<in> set es \<Longrightarrow> e \<le> last (0 # es)"
  using sorted_last [of "0 # es" e] by (simp add: rep_def del: last.simps)

text \<open>What \<open>addNode\<close> does: it appends an epoch behind the last one, or reverts.\<close>

lemma addNode_cases:
  assumes r: "rep l es h"
  shows "addNode l e d =
    (if e \<le> last (0 # es) then Inl (DynamicsError (InvalidNodeId (unat h) (unat (last (0 # es))) (unat e)))
     else if d = 0 then Inl (DynamicsError InvalidData)
     else Inr \<lparr>dl_head = ucast (if es = [] then e else h), dl_tail = ucast e,
       dl_nodes = (if es = []
         then (dl_nodes l)(ucast e := \<lparr>nd_epoch = e, nd_next = 0, nd_prev = 0, nd_data = d\<rparr>)
         else (dl_nodes l)(ucast e := \<lparr>nd_epoch = e, nd_next = 0, nd_prev = last es, nd_data = d\<rparr>,
           ucast (last es) := (dl_nodes l (ucast (last es)))\<lparr>nd_next := e\<rparr>))\<rparr>)"
proof -
  have h: "(ucast (dl_head l) :: 32 word) = h" using r by (simp add: rep_def)
  have x: "node_exists l (ucast e) \<longleftrightarrow> e \<in> set es" using r by (auto simp: rep_def)
  note unf = addNode_def Let_def h rep_tail [OF r] createNode_def put_node_def setHead_def setTail_def linkNext_def
    updatePrevious_def
  show ?thesis
  proof (cases "e \<le> last (0 # es) \<or> d = 0")
    case True
    with x rep_last [OF r] show ?thesis by (auto simp: unf)
  next
    case False
    then have "e \<notin> set es" using rep_last [OF r] by blast
    moreover have "dl_head l = ucast h" using r unfolding rep_def by blast
    ultimately show ?thesis
      using False x rep_head(2) [OF r] by (cases "es = []") (auto simp: unf node_exists_def)
  qed
qed

lemma addNode_rep:
  assumes r: "rep l es h" and e: "last (0 # es) < e" and d: "d \<noteq> 0" and a: "addNode l e d = Inr l'"
  shows "rep l' (es @ [e]) (if es = [] then e else h)"
    and "\<And>x. x \<in> set es \<Longrightarrow> getValue l' (ucast x) = getValue l (ucast x)" and "getValue l' (ucast e) = d"
proof -
  have n: "e \<notin> set es" using rep_last [OF r] e by fastforce
  have s: "sorted_wrt (<) (0 # es @ [e])"
    using r e rep_last [OF r] unfolding rep_def
    by (auto simp: sorted_wrt_append simp del: last.simps intro: le_less_trans)
  have "\<not> e \<le> last (0 # es)" using e by simp
  with a d have l': "\<lparr>dl_head = ucast (if es = [] then e else h), dl_tail = ucast e,
      dl_nodes = (if es = []
         then (dl_nodes l)(ucast e := \<lparr>nd_epoch = e, nd_next = 0, nd_prev = 0, nd_data = d\<rparr>)
         else (dl_nodes l)(ucast e := \<lparr>nd_epoch = e, nd_next = 0, nd_prev = last es, nd_data = d\<rparr>,
           ucast (last es) := (dl_nodes l (ucast (last es)))\<lparr>nd_next := e\<rparr>))\<rparr> = l'"
    unfolding addNode_cases [OF r] by (simp only: if_False sum.inject)
  have links: "linked (dl_nodes l') 0 (es @ [e])"
  proof (cases "es = []")
    case True
    with l' show ?thesis by auto
  next
    case False
    have "linked (dl_nodes l) 0 es" using r by (simp add: rep_def)
    from linked_snoc [OF this rep_distinct [OF r] n False, of d] l' False show ?thesis by auto
  qed
  have ex: "node_exists l' k \<longleftrightarrow> k \<in> ucast ` set (es @ [e])" for k
  proof -
    have "node_exists l k \<longleftrightarrow> k \<in> ucast ` set es" "es \<noteq> [] \<longrightarrow> node_exists l (ucast (last es))"
      using r by (auto simp: rep_def)
    then show ?thesis using l' d by (auto simp: node_exists_def split: if_splits)
  qed
  show "rep l' (es @ [e]) (if es = [] then e else h)"
    using r l' links s ex unfolding rep_def by (auto split: if_splits)
  show "\<And>x. x \<in> set es \<Longrightarrow> getValue l' (ucast x) = getValue l (ucast x)" "getValue l' (ucast e) = d"
    using l' n by (auto simp: getValue_def split: if_splits)
qed

lemma setHead_rep:
  assumes r: "rep l es h"
  shows "setHead l (ucast e) =
    (if e \<in> set es then Inr (l\<lparr>dl_head := ucast e\<rparr>) else Inl (DynamicsError (InexistentNodeAtPosition (unat e))))"
    and "e \<in> set es \<Longrightarrow> rep (l\<lparr>dl_head := ucast e\<rparr>) es e"
proof -
  have "node_exists l (ucast e) \<longleftrightarrow> e \<in> set es" using r by (auto simp: rep_def)
  then show "setHead l (ucast e) =
    (if e \<in> set es then Inr (l\<lparr>dl_head := ucast e\<rparr>) else Inl (DynamicsError (InexistentNodeAtPosition (unat e))))"
    by (simp add: setHead_def)
  show "e \<in> set es \<Longrightarrow> rep (l\<lparr>dl_head := ucast e\<rparr>) es e"
    using r unfolding rep_def by (auto simp: node_exists_def)
qed

end
