(* ===== verification/Dynamics_Contract.thy ===== *)
theory Dynamics_Contract
  imports Epoch_List
begin

unbundle bit_operations_syntax

text \<open>
  \<^verbatim>\<open>Dynamics.sol\<close>: the values that govern the side chain and the epochs from which they hold. A set of values is kept
  as the code of a storage contract of its own; the list of \<^verbatim>\<open>DoublyLinkedList.sol\<close> maps epochs to these contracts.
  The theory has the creation of a storage contract down to the instructions of its creation code, the encoding of
  the values, and every function of the contract.
\<close>

section \<open>Data\<close>

datatype Version = V1

record DynamicValues =
  dv_encoderVersion :: Version
  dv_proposalTimeout :: "24 word"
  dv_preVoteTimeout :: "32 word"
  dv_preCommitTimeout :: "32 word"
  dv_maxBlockSize :: "32 word"
  dv_dataStoreFee :: "64 word"
  dv_valueStoreFee :: "64 word"
  dv_minScaledTransactionFee :: "128 word"

record Configuration =
  cf_minEpochsBetweenUpdates :: "128 word"
  cf_maxEpochsBetweenUpdates :: "128 word"

record CanonicalVersion =
  cv_major :: "32 word"
  cv_minor :: "32 word"
  cv_patch :: "32 word"
  cv_executionEpoch :: "32 word"
  cv_binaryHash :: bytes32

datatype dynamics_event =
    DeployedStorageContract addr
  | DynamicValueChanged "32 word" "byte list"
  | NewAliceNetNodeVersionAvailable CanonicalVersion
  | NewCanonicalAliceNetNodeVersion CanonicalVersion

text \<open>
  The storage of the contract, and what its calls see of the chain: the code of accounts, the nonce of the contract
  and the events it emitted. \<open>dy_initialized\<close> is the flag of OpenZeppelin's \<open>initializer\<close>.
\<close>

record dynamics =
  dy_initialized :: bool
  dy_dynamicValues :: DoublyLinkedList
  dy_configuration :: Configuration
  dy_aliceNetCanonicalVersion :: CanonicalVersion
  dy_code :: "addr \<Rightarrow> byte list"
  dy_nonce :: nat
  dy_events :: "dynamics_event list"

text \<open>
  The context of a call: the sender, the immutables, the epoch the snapshots contract answers with and the address the next
  created account gets for a nonce.
\<close>

record dynamics_call =
  dc_sender :: addr
  dc_factory :: addr
  dc_snapshots :: addr
  dc_epoch :: "256 word"
  dc_create :: "nat \<Rightarrow> addr"

definition dynamics0 :: "(addr \<Rightarrow> byte list) \<Rightarrow> nat \<Rightarrow> dynamics" where
  "dynamics0 code nonce =
     \<lparr>dy_initialized = False, dy_dynamicValues = empty_list,
      dy_configuration = \<lparr>cf_minEpochsBetweenUpdates = 0, cf_maxEpochsBetweenUpdates = 0\<rparr>,
      dy_aliceNetCanonicalVersion =
        \<lparr>cv_major = 0, cv_minor = 0, cv_patch = 0, cv_executionEpoch = 0, cv_binaryHash = 0\<rparr>,
      dy_code = code, dy_nonce = nonce, dy_events = []\<rparr>"

section \<open>Creating a storage contract\<close>

text \<open>
  The instructions of the creation code: \<open>CODESIZE\<close>, \<open>PC\<close>, \<open>CODECOPY\<close>, \<open>PUSH1\<close> and \<open>RETURN\<close>. Memory is 0 where it was not written,
  and code is read as 0 behind its end. The result is what the creation code returns, the code of the new
  account; \<open>None\<close> is a failure, here an instruction outside this set or an empty stack.
\<close>

function run_creation :: "byte list \<Rightarrow> nat \<Rightarrow> nat list \<Rightarrow> (nat \<Rightarrow> byte) \<Rightarrow> byte list option" where
  "run_creation code pc stack mem =
     (if length code \<le> pc then Some []
      else if code ! pc = 0x38 then run_creation code (pc + 1) (length code # stack) mem
      else if code ! pc = 0x58 then run_creation code (pc + 1) (pc # stack) mem
      else if code ! pc = 0x39 then
        (case stack of dest # offset # len # rest \<Rightarrow>
           run_creation code (pc + 1) rest
             (\<lambda>i. if dest \<le> i \<and> i < dest + len then byte_at code (offset + (i - dest)) else mem i)
         | _ \<Rightarrow> None)
      else if code ! pc = 0x60 then run_creation code (pc + 2) (unat (byte_at code (pc + 1)) # stack) mem
      else if code ! pc = 0xf3 then
        (case stack of offset # len # rest \<Rightarrow> Some (map mem [offset..<offset + len]) | _ \<Rightarrow> None)
      else None)"
  by pat_completeness auto
termination by (relation "measure (\<lambda>(code, pc, stack, mem). length code - pc)") auto

declare run_creation.simps [simp del]

definition UNIVERSAL_DEPLOY_CODE :: "byte list" where
  "UNIVERSAL_DEPLOY_CODE = [0x38, 0x58, 0x58, 0x39, 0x38, 0x60, 0x09, 0xf3]"

text \<open>
  \<open>create\<close>: the new account must be unused, and its code may not be longer than 24576 bytes nor begin with the byte
  \<open>0xef\<close>. The gas of the creation is not part of the model.
\<close>

definition evm_create :: "dynamics_call \<Rightarrow> byte list \<Rightarrow> dynamics \<Rightarrow> (addr \<times> dynamics) option" where
  "evm_create C initcode s =
     (let addr = dc_create C (dy_nonce s) in
      case run_creation initcode 0 [] (\<lambda>i. 0) of
        None \<Rightarrow> None
      | Some code \<Rightarrow>
          (if dy_code s addr \<noteq> [] \<or> 24576 < length code \<or> take 1 code = [0xef] then None
           else Some (addr, s\<lparr>dy_code := (dy_code s)(addr := code), dy_nonce := dy_nonce s + 1\<rparr>)))"

definition emit :: "dynamics_event \<Rightarrow> dynamics \<Rightarrow> dynamics" where
  "emit e s = s\<lparr>dy_events := dy_events s @ [e]\<rparr>"

definition deployStorage :: "dynamics_call \<Rightarrow> byte list \<Rightarrow> dynamics \<Rightarrow> (addr \<times> dynamics) sol" where
  "deployStorage C data s =
     (let deployCode = UNIVERSAL_DEPLOY_CODE @ data in
      case evm_create C deployCode s of
        None \<Rightarrow> Inl CreateFailed
      | Some (addr, s) \<Rightarrow>
          (if addr = 0 then Inl CreateFailed else Inr (addr, emit (DeployedStorageContract addr) s)))"

section \<open>Encoding the values\<close>

fun version_index :: "Version \<Rightarrow> nat" where
  "version_index V1 = 0"

definition encodeDynamicValues :: "DynamicValues \<Rightarrow> byte list" where
  "encodeDynamicValues v =
     be_bytes 1 (version_index (dv_encoderVersion v)) @ be_bytes 3 (unat (dv_proposalTimeout v))
     @ be_bytes 4 (unat (dv_preVoteTimeout v)) @ be_bytes 4 (unat (dv_preCommitTimeout v))
     @ be_bytes 4 (unat (dv_maxBlockSize v)) @ be_bytes 8 (unat (dv_dataStoreFee v))
     @ be_bytes 8 (unat (dv_valueStoreFee v)) @ be_bytes 16 (unat (dv_minScaledTransactionFee v))"

fun decodeLoop :: "byte list \<Rightarrow> nat \<Rightarrow> nat list \<Rightarrow> 256 word list" where
  "decodeLoop code ptr [] = []"
| "decodeLoop code ptr (sz # sizes) =
     drop_bit (256 - sz) (mload code ptr) # decodeLoop code (ptr + sz div 8) sizes"

text \<open>The memory words of the struct, as the caller of the public function gets them: an enum value out of range panics.\<close>

definition abiDynamicValues :: "256 word list \<Rightarrow> DynamicValues sol" where
  "abiDynamicValues ws =
     (if ws ! 0 \<noteq> 0 then Inl (Panic 0x21)
      else Inr \<lparr>dv_encoderVersion = V1, dv_proposalTimeout = ucast (ws ! 1), dv_preVoteTimeout = ucast (ws ! 2),
        dv_preCommitTimeout = ucast (ws ! 3), dv_maxBlockSize = ucast (ws ! 4), dv_dataStoreFee = ucast (ws ! 5),
        dv_valueStoreFee = ucast (ws ! 6), dv_minScaledTransactionFee = ucast (ws ! 7)\<rparr>)"

definition decodeDynamicValues :: "addr \<Rightarrow> dynamics \<Rightarrow> DynamicValues sol" where
  "decodeDynamicValues addr s =
     (let code = dy_code s addr; extCodeSize = length code in
      if extCodeSize = 0 \<or> extCodeSize < 48 then Inl (DynamicsError (InvalidExtCodeSize addr extCodeSize))
      else abiDynamicValues (decodeLoop code 0 [8, 24, 32, 32, 32, 64, 64, 128]))"

section \<open>Functions\<close>

definition onlyFactory :: "dynamics_call \<Rightarrow> unit sol" where
  "onlyFactory C = revert_if (dc_sender C \<noteq> dc_factory C) (OnlyFactory (dc_sender C) (dc_factory C))"

definition onlySnapshots :: "dynamics_call \<Rightarrow> unit sol" where
  "onlySnapshots C = revert_if (dc_sender C \<noteq> dc_snapshots C) (OnlySnapshots (dc_sender C) (dc_snapshots C))"

definition dynAddNode :: "dynamics_call \<Rightarrow> 32 word \<Rightarrow> DynamicValues \<Rightarrow> dynamics \<Rightarrow> dynamics sol" where
  "dynAddNode C executionEpoch value s =
     (let encodedData = encodeDynamicValues value in
      sbind (deployStorage C encodedData s) (\<lambda>(dataAddress, s).
      sbind (addNode (dy_dynamicValues s) executionEpoch dataAddress) (\<lambda>list.
        Inr (emit (DynamicValueChanged executionEpoch encodedData) (s\<lparr>dy_dynamicValues := list\<rparr>)))))"

definition computeExecutionEpoch :: "dynamics_call \<Rightarrow> 32 word \<Rightarrow> dynamics \<Rightarrow> 32 word sol" where
  "computeExecutionEpoch C relativeExecutionEpoch s =
     (let config = dy_configuration s in
      if ucast relativeExecutionEpoch < cf_minEpochsBetweenUpdates config
        \<or> cf_maxEpochsBetweenUpdates config < ucast relativeExecutionEpoch
      then Inl (DynamicsError (InvalidScheduledDate (unat relativeExecutionEpoch) (unat (cf_minEpochsBetweenUpdates config))
             (unat (cf_maxEpochsBetweenUpdates config))))
      else
        let currentEpoch = ucast (dc_epoch C) :: 32 word in checked_add relativeExecutionEpoch currentEpoch)"

definition initialValues :: DynamicValues where
  "initialValues = \<lparr>dv_encoderVersion = V1, dv_proposalTimeout = 4000, dv_preVoteTimeout = 3000,
     dv_preCommitTimeout = 3000, dv_maxBlockSize = 3000000, dv_dataStoreFee = 0, dv_valueStoreFee = 0,
     dv_minScaledTransactionFee = 0\<rparr>"

definition dynamics_initialize :: "dynamics_call \<Rightarrow> dynamics \<Rightarrow> dynamics sol" where
  "dynamics_initialize C s =
     sbind (onlyFactory C) (\<lambda>_.
     sbind (revert_if (dy_initialized s) AlreadyInitialized) (\<lambda>_.
       dynAddNode C 1 initialValues
         (s\<lparr>dy_initialized := True,
            dy_configuration := \<lparr>cf_minEpochsBetweenUpdates = 2, cf_maxEpochsBetweenUpdates = 336\<rparr>\<rparr>)))"

definition changeDynamicValues :: "dynamics_call \<Rightarrow> 32 word \<Rightarrow> DynamicValues \<Rightarrow> dynamics \<Rightarrow> dynamics sol" where
  "changeDynamicValues C relativeExecutionEpoch newValue s =
     sbind (onlyFactory C) (\<lambda>_.
     sbind (computeExecutionEpoch C relativeExecutionEpoch s) (\<lambda>executionEpoch.
       dynAddNode C executionEpoch newValue s))"

definition updateHead :: "dynamics_call \<Rightarrow> 32 word \<Rightarrow> dynamics \<Rightarrow> dynamics sol" where
  "updateHead C currentEpoch s =
     sbind (onlySnapshots C) (\<lambda>_.
     let nextEpoch = getNextEpoch (dy_dynamicValues s) (getHead (dy_dynamicValues s)) in
     sbind (if nextEpoch \<noteq> 0 \<and> nextEpoch \<le> currentEpoch then setHead (dy_dynamicValues s) (ucast nextEpoch)
            else Inr (dy_dynamicValues s)) (\<lambda>list.
     let s = s\<lparr>dy_dynamicValues := list\<rparr>; currentVersion = dy_aliceNetCanonicalVersion s in
       Inr (if cv_executionEpoch currentVersion \<noteq> 0 \<and> cv_executionEpoch currentVersion = currentEpoch
            then emit (NewCanonicalAliceNetNodeVersion currentVersion) s else s)))"

definition computeCompactedVersion :: "256 word \<Rightarrow> 256 word \<Rightarrow> 256 word \<Rightarrow> 256 word" where
  "computeCompactedVersion majorVersion minorVersion patch =
     (push_bit 64 majorVersion OR push_bit 32 minorVersion) OR patch"

definition version_nats :: "CanonicalVersion \<Rightarrow> nat list" where
  "version_nats v = [unat (cv_major v), unat (cv_minor v), unat (cv_patch v), unat (cv_executionEpoch v),
     unat (cv_binaryHash v)]"

definition updateAliceNetNodeVersion ::
    "dynamics_call \<Rightarrow> 32 word \<Rightarrow> 32 word \<Rightarrow> 32 word \<Rightarrow> 32 word \<Rightarrow> bytes32 \<Rightarrow> dynamics \<Rightarrow> dynamics sol" where
  "updateAliceNetNodeVersion C relativeUpdateEpoch majorVersion minorVersion patch binaryHash s =
     sbind (onlyFactory C) (\<lambda>_.
     let currentVersion = dy_aliceNetCanonicalVersion s;
         currentCompactedVersion = computeCompactedVersion (ucast (cv_major currentVersion))
           (ucast (cv_minor currentVersion)) (ucast (cv_patch currentVersion)) in
     sbind (computeExecutionEpoch C relativeUpdateEpoch s) (\<lambda>executionEpoch.
     let newVersion = \<lparr>cv_major = majorVersion, cv_minor = minorVersion, cv_patch = patch,
           cv_executionEpoch = executionEpoch, cv_binaryHash = binaryHash\<rparr>;
         newCompactedVersion = computeCompactedVersion (ucast majorVersion) (ucast minorVersion) (ucast patch) in
     sbind (if newCompactedVersion \<le> currentCompactedVersion then Inr True
            else sbind (checked_add (cv_major currentVersion) 1) (\<lambda>m. Inr (m < majorVersion))) (\<lambda>invalid.
     sbind (revert_if invalid (DynamicsError (InvalidAliceNetNodeVersion (version_nats newVersion) (version_nats currentVersion)))) (\<lambda>_.
     sbind (revert_if (binaryHash = 0 \<or> binaryHash = cv_binaryHash currentVersion)
              (DynamicsError (InvalidAliceNetNodeHash binaryHash (cv_binaryHash currentVersion)))) (\<lambda>_.
       Inr (emit (NewAliceNetNodeVersionAvailable newVersion) (s\<lparr>dy_aliceNetCanonicalVersion := newVersion\<rparr>)))))))"

definition setConfiguration :: "dynamics_call \<Rightarrow> Configuration \<Rightarrow> dynamics \<Rightarrow> dynamics sol" where
  "setConfiguration C newConfig s = sbind (onlyFactory C) (\<lambda>_. Inr (s\<lparr>dy_configuration := newConfig\<rparr>))"

definition getLatestDynamicValues :: "dynamics \<Rightarrow> DynamicValues sol" where
  "getLatestDynamicValues s =
     decodeDynamicValues (getValue (dy_dynamicValues s) (getHead (dy_dynamicValues s))) s"

definition getPreviousDynamicValues :: "256 word \<Rightarrow> dynamics \<Rightarrow> DynamicValues sol" where
  "getPreviousDynamicValues epoch s =
     (let list = dy_dynamicValues s; head = getHead list in
      if head \<le> epoch then decodeDynamicValues (getValue list head) s
      else
        let previous = ucast (getPreviousEpoch list head) :: 256 word in
        if previous \<noteq> 0 \<and> previous \<le> epoch then decodeDynamicValues (getValue list previous) s
        else Inl (DynamicsError (DynamicValueNotFound (unat epoch))))"

definition getConfiguration :: "dynamics \<Rightarrow> Configuration" where
  "getConfiguration s = dy_configuration s"

definition getLatestAliceNetVersion :: "dynamics \<Rightarrow> CanonicalVersion" where
  "getLatestAliceNetVersion s = dy_aliceNetCanonicalVersion s"

definition getEncodingVersion :: Version where
  "getEncodingVersion = V1"

section \<open>The storage contracts\<close>

text \<open>One instruction at a time.\<close>

lemma run_creation_steps:
  assumes "pc < length code"
  shows "code ! pc = 0x38 \<Longrightarrow> run_creation code pc st mem = run_creation code (pc + 1) (length code # st) mem"
    and "code ! pc = 0x58 \<Longrightarrow> run_creation code pc st mem = run_creation code (pc + 1) (pc # st) mem"
    and "code ! pc = 0x39 \<Longrightarrow> run_creation code pc (d # n # l # st) mem = run_creation code (pc + 1) st
      (\<lambda>i. if d \<le> i \<and> i < d + l then byte_at code (n + (i - d)) else mem i)"
    and "code ! pc = 0x60 \<Longrightarrow>
      run_creation code pc st mem = run_creation code (pc + 2) (unat (byte_at code (pc + 1)) # st) mem"
    and "code ! pc = 0xf3 \<Longrightarrow> run_creation code pc (n # l # st) mem = Some (map mem [n..<n + l])"
  using assms by (subst run_creation.simps, simp)+

text \<open>
  What the creation code returns: the data, followed by as many zero bytes as the creation code is long, since it
  returns as many bytes as it has itself.
\<close>

lemma run_universal_deploy:
  "run_creation (UNIVERSAL_DEPLOY_CODE @ data) 0 [] (\<lambda>i. 0) = Some (data @ replicate 8 0)"
proof -
  define c where "c = UNIVERSAL_DEPLOY_CODE @ data"
  let ?mem = "\<lambda>i. if 2 \<le> i \<and> i < 2 + length c then byte_at c (1 + (i - 2)) else 0"
  have l: "length c = 8 + length data" by (simp add: c_def UNIVERSAL_DEPLOY_CODE_def)
  have "c ! 0 = 0x38" "c ! 1 = 0x58" "c ! 2 = 0x58" "c ! 3 = 0x39" "c ! 4 = 0x38" "c ! 5 = 0x60" "c ! 7 = 0xf3"
    "unat (byte_at c 6) = 9"
    by (simp_all add: c_def UNIVERSAL_DEPLOY_CODE_def byte_at_def)
  then have "run_creation c 0 [] (\<lambda>i. 0) = Some (map ?mem [9..<9 + length c])"
    by (simp add: run_creation_steps l del: One_nat_def)
  also have "map ?mem [9..<9 + length c] = data @ replicate 8 0"
  proof (rule nth_equalityI)
    fix i
    assume "i < length (map ?mem [9..<9 + length c])"
    then have i: "i < 8 + length data" by (simp add: l)
    have d: "c ! (8 + i) = data ! i" if "i < length data"
      using that nth_append_length_plus [of UNIVERSAL_DEPLOY_CODE data i] by (simp add: c_def UNIVERSAL_DEPLOY_CODE_def)
    have "map ?mem [9..<9 + length c] ! i = (if i < length data then data ! i else 0)"
      using i d by (auto simp: l byte_at_def)
    also have "\<dots> = (data @ replicate 8 0) ! i" using i by (auto simp: nth_append)
    finally show "map ?mem [9..<9 + length c] ! i = (data @ replicate 8 0) ! i" .
  qed (simp add: l)
  finally show ?thesis by (simp add: c_def)
qed

lemma deployStorage_Inr:
  "deployStorage C data s = Inr (a, s') \<longleftrightarrow>
     a = dc_create C (dy_nonce s) \<and> a \<noteq> 0 \<and> dy_code s a = [] \<and> length data \<le> 24568 \<and> take 1 data \<noteq> [0xef]
     \<and> s' = emit (DeployedStorageContract a)
         (s\<lparr>dy_code := (dy_code s)(a := data @ replicate 8 0), dy_nonce := dy_nonce s + 1\<rparr>)"
proof -
  have "take 1 (data @ replicate 8 0) = [0xef] \<longleftrightarrow> take 1 data = [0xef]" by (cases data) simp_all
  then show ?thesis
    by (auto simp: deployStorage_def evm_create_def run_universal_deploy Let_def)
qed

section \<open>Decoding what was encoded\<close>

lemma decode_field:
  assumes "n \<le> 32" and "k < 256 ^ n"
  shows "drop_bit (256 - 8 * n) (mload (pre @ be_bytes n k @ rest) (length pre)) = (of_nat k :: 256 word)"
proof -
  have "256 ^ n \<le> (256 :: nat) ^ 32" by (rule power_increasing) (use assms(1) in simp_all)
  then have k: "k < 2 ^ 256" using assms(2) by simp
  have "unat (drop_bit (256 - 8 * n) (mload (pre @ be_bytes n k @ rest) (length pre))) = k"
    using assms by (simp add: mload_shr be_nat_bytes_id)
  with k show ?thesis by (simp add: word_unat_eq_iff unat_of_nat)
qed

lemma decodeLoop_fields:
  assumes "list_all (\<lambda>(n, k). n \<le> 32 \<and> k < 256 ^ n) fs"
  shows "decodeLoop (pre @ concat (map (\<lambda>(n, k). be_bytes n k) fs) @ rest) (length pre) (map (\<lambda>(n, k). 8 * n) fs)
    = map (\<lambda>(n, k). of_nat k) fs"
  using assms
proof (induction fs arbitrary: pre)
  case (Cons f fs)
  obtain n k where f: "f = (n, k)" by force
  have "decodeLoop ((pre @ be_bytes n k) @ concat (map (\<lambda>(n, k). be_bytes n k) fs) @ rest)
      (length (pre @ be_bytes n k)) (map (\<lambda>(n, k). 8 * n) fs) = map (\<lambda>(n, k). of_nat k) fs"
    using Cons.prems by (intro Cons.IH) simp
  with Cons.prems decode_field [of n k pre "concat (map (\<lambda>(n, k). be_bytes n k) fs) @ rest"] f show ?case by simp
qed simp

definition value_fields :: "DynamicValues \<Rightarrow> (nat \<times> nat) list" where
  "value_fields v =
     [(1, version_index (dv_encoderVersion v)), (3, unat (dv_proposalTimeout v)), (4, unat (dv_preVoteTimeout v)),
      (4, unat (dv_preCommitTimeout v)), (4, unat (dv_maxBlockSize v)), (8, unat (dv_dataStoreFee v)),
      (8, unat (dv_valueStoreFee v)), (16, unat (dv_minScaledTransactionFee v))]"

lemma encode_fields: "encodeDynamicValues v = concat (map (\<lambda>(n, k). be_bytes n k) (value_fields v))"
  by (simp add: encodeDynamicValues_def value_fields_def del: be_bytes.simps)

lemma length_encode [simp]: "length (encodeDynamicValues v) = 48"
  by (simp add: encodeDynamicValues_def)

lemma word_field: "LENGTH('a) = 8 * n \<Longrightarrow> unat (x :: 'a::len word) < 256 ^ n"
  using unat_less_power [of x] by (simp add: power_mult)

lemma of_nat_unat_up: "LENGTH('a) \<le> 256 \<Longrightarrow> (of_nat (unat (x :: 'a::len word)) :: 256 word) = ucast x"
  by (simp add: word_unat_eq_iff unat_of_nat less_le_trans [OF unat_less_power])

lemma decode_encoded:
  assumes "dy_code s a = encodeDynamicValues v @ rest"
  shows "decodeDynamicValues a s = Inr v"
proof -
  have "list_all (\<lambda>(n, k). n \<le> 32 \<and> k < 256 ^ n) (value_fields v)"
    by (cases "dv_encoderVersion v") (simp add: value_fields_def word_field del: power_numeral)
  from decodeLoop_fields [OF this, of "[]" rest]
  have "decodeLoop (dy_code s a) 0 [8, 24, 32, 32, 32, 64, 64, 128] = map (\<lambda>(n, k). of_nat k) (value_fields v)"
    by (simp add: assms encode_fields [symmetric] del: decodeLoop.simps) (simp add: value_fields_def del: decodeLoop.simps)
  moreover have "length (dy_code s a) = 48 + length rest" "dy_code s a \<noteq> []"
    by (auto simp: assms dest: arg_cong [of _ _ length])
  ultimately show ?thesis
    by (cases "dv_encoderVersion v")
      (simp add: decodeDynamicValues_def Let_def abiDynamicValues_def value_fields_def of_nat_unat_up del: decodeLoop.simps)
qed

section \<open>The schedule\<close>

text \<open>
  The contract holds a schedule, a list of epochs and values, with the epoch at its head: its list has these epochs, and the
  storage contract of each epoch decodes to its values.
\<close>

definition schedule :: "dynamics \<Rightarrow> (32 word \<times> DynamicValues) list \<Rightarrow> 32 word \<Rightarrow> bool" where
  "schedule s sched h =
     (rep (dy_dynamicValues s) (map fst sched) h
      \<and> (\<forall>(e, v) \<in> set sched. decodeDynamicValues (getValue (dy_dynamicValues s) (ucast e)) s = Inr v))"

lemma schedule_empty: "schedule (dynamics0 code n) [] 0"
  by (simp add: schedule_def dynamics0_def rep_empty)

lemma decode_keeps:
  assumes "decodeDynamicValues a s = Inr v" and "dy_code s a \<noteq> [] \<Longrightarrow> dy_code s' a = dy_code s a"
  shows "decodeDynamicValues a s' = Inr v"
proof -
  have "dy_code s a \<noteq> []" using assms(1) by (auto simp: decodeDynamicValues_def Let_def)
  with assms show ?thesis by (simp add: decodeDynamicValues_def)
qed

lemma schedule_keeps:
  assumes "schedule s sched h" and "dy_dynamicValues s' = dy_dynamicValues s"
    and "\<And>a. dy_code s a \<noteq> [] \<Longrightarrow> dy_code s' a = dy_code s a"
  shows "schedule s' sched h"
proof -
  have "decodeDynamicValues (getValue (dy_dynamicValues s) (ucast e)) s' = Inr v" if "(e, v) \<in> set sched" for e v
    by (rule decode_keeps [OF _ assms(3)]) (use assms(1) that in \<open>auto simp: schedule_def\<close>)
  with assms(1,2) show ?thesis unfolding schedule_def by auto
qed

lemma emit_simps [simp]:
  "dy_code (emit x s) = dy_code s" "dy_dynamicValues (emit x s) = dy_dynamicValues s"
  "dy_configuration (emit x s) = dy_configuration s" "dy_nonce (emit x s) = dy_nonce s"
  "dy_aliceNetCanonicalVersion (emit x s) = dy_aliceNetCanonicalVersion s"
  "dy_initialized (emit x s) = dy_initialized s" "dy_events (emit x s) = dy_events s @ [x]"
  by (simp_all add: emit_def)

text \<open>A new entry: the conditions under which it is accepted, and the schedule after it.\<close>

lemma dynAddNode_schedule:
  assumes h: "schedule s sched h" and a: "dynAddNode C e v s = Inr s'"
  shows "last (0 # map fst sched) < e" and "schedule s' (sched @ [(e, v)]) (if sched = [] then e else h)"
    and "dy_configuration s' = dy_configuration s" and "dy_initialized s' = dy_initialized s"
    and "dy_aliceNetCanonicalVersion s' = dy_aliceNetCanonicalVersion s"
    and "dy_events s' = dy_events s
      @ [DeployedStorageContract (dc_create C (dy_nonce s)), DynamicValueChanged e (encodeDynamicValues v)]"
proof -
  let ?d = "dc_create C (dy_nonce s)"
  from a obtain s1 l where d: "deployStorage C (encodeDynamicValues v) s = Inr (?d, s1)"
    and l: "addNode (dy_dynamicValues s1) e ?d = Inr l"
    and s': "s' = emit (DynamicValueChanged e (encodeDynamicValues v)) (s1\<lparr>dy_dynamicValues := l\<rparr>)"
    unfolding dynAddNode_def Let_def by (auto simp: deployStorage_Inr elim!: sbind_InrE)
  note s1 = d [unfolded deployStorage_Inr]
  have r: "rep (dy_dynamicValues s) (map fst sched) h" using h by (simp add: schedule_def)
  have l: "addNode (dy_dynamicValues s) e ?d = Inr l" using l s1 by simp
  show e: "last (0 # map fst sched) < e"
    using l unfolding addNode_cases [OF r] by (auto simp del: last.simps split: if_splits)
  note n = addNode_rep [OF r e _ l]
  have "decodeDynamicValues (getValue l (ucast x)) s' = Inr y" if "(x, y) \<in> set (sched @ [(e, v)])" for x y
  proof (cases "(x, y) \<in> set sched")
    case True
    then have "decodeDynamicValues (getValue (dy_dynamicValues s) (ucast x)) s = Inr y"
      using h unfolding schedule_def by blast
    then have "decodeDynamicValues (getValue l (ucast x)) s = Inr y" using n(2) s1 True by force
    then show ?thesis by (rule decode_keeps) (use s1 s' in auto)
  next
    case False
    with that have xy: "x = e" "y = v" by auto
    have "dy_code s' ?d = encodeDynamicValues v @ replicate 8 0" using s1 s' by simp
    from decode_encoded [OF this] n(3) s1 xy show ?thesis by simp
  qed
  then show "schedule s' (sched @ [(e, v)]) (if sched = [] then e else h)"
    using n(1) s1 s' unfolding schedule_def by auto
qed (use a in \<open>auto simp: dynAddNode_def Let_def deployStorage_Inr elim!: sbind_InrE\<close>)

end
