(* ===== verification/Claims_Parser.thy ===== *)
theory Claims_Parser
  imports Solidity_Base
begin

unbundle bit_operations_syntax

text \<open>
  \<^verbatim>\<open>BaseParserLibrary.sol\<close> and \<^verbatim>\<open>BClaimsParserLibrary.sol\<close>: reading numbers and the claims about a block from bytes that the
  side chain has serialised with Cap'n Proto. Offsets are unbounded numbers here, as \<open>offset + n\<close> does not wrap
  around in checked arithmetic: the comparison with the offset alone that precedes each read is then always false.
\<close>

section \<open>Numbers\<close>

definition checkBounds ::
    "(nat \<Rightarrow> parser_error) \<Rightarrow> (nat \<Rightarrow> nat \<Rightarrow> parser_error) \<Rightarrow> nat \<Rightarrow> byte list \<Rightarrow> nat \<Rightarrow> unit sol" where
  "checkBounds overflow bounds n src offset =
     sbind (revert_if (offset + n \<le> offset) (ParserError (overflow offset))) (\<lambda>_.
       revert_if (length src < offset + n) (ParserError (bounds (offset + n) (length src))))"

text \<open>The masks and shifts that turn the order of four bytes around.\<close>

definition swap32 :: "256 word \<Rightarrow> 256 word" where
  "swap32 val =
     ((drop_bit 24 (val AND 0xff000000) OR drop_bit 8 (val AND 0x00ff0000)) OR push_bit 8 (val AND 0x0000ff00))
     OR push_bit 24 (val AND 0x000000ff)"

definition extractUInt32 :: "byte list \<Rightarrow> nat \<Rightarrow> 32 word sol" where
  "extractUInt32 src offset =
     sbind (checkBounds OffsetParameterOverflow OffsetOutOfBounds 4 src offset) (\<lambda>_. Inr (ucast (swap32 (drop_bit (256 - 32) (mload src offset)))))"

definition swap16 :: "256 word \<Rightarrow> 256 word" where
  "swap16 val = drop_bit 8 (val AND 0xff00) OR push_bit 8 (val AND 0x00ff)"

definition extractUInt16 :: "byte list \<Rightarrow> nat \<Rightarrow> 16 word sol" where
  "extractUInt16 src offset =
     sbind (checkBounds LEUint16OffsetParameterOverflow LEUint16OffsetOutOfBounds 2 src offset) (\<lambda>_. Inr (ucast (swap16 (drop_bit (256 - 16) (mload src offset)))))"

definition extractUInt16FromBigEndian :: "byte list \<Rightarrow> nat \<Rightarrow> 16 word sol" where
  "extractUInt16FromBigEndian src offset =
     sbind (checkBounds BEUint16OffsetParameterOverflow BEUint16OffsetOutOfBounds 2 src offset) (\<lambda>_. Inr (ucast (drop_bit (256 - 16) (mload src offset) AND 0xffff)))"

definition extractBool :: "byte list \<Rightarrow> nat \<Rightarrow> bool sol" where
  "extractBool src offset =
     sbind (checkBounds BooleanOffsetParameterOverflow BooleanOffsetOutOfBounds 1 src offset) (\<lambda>_. Inr ((drop_bit (256 - 8) (mload src offset) AND 1) = 1))"

definition extractUInt256 :: "byte list \<Rightarrow> nat \<Rightarrow> 256 word sol" where
  "extractUInt256 src offset = sbind (checkBounds LEUint256OffsetParameterOverflow LEUint256OffsetOutOfBounds 32 src offset) (\<lambda>_. Inr (mload src offset))"

definition limb32 :: "nat \<Rightarrow> 256 word \<Rightarrow> 256 word" where
  "limb32 k w = drop_bit (32 * k) w AND 0xffffffff"

definition extractUInt256FromBigEndian :: "byte list \<Rightarrow> nat \<Rightarrow> 256 word sol" where
  "extractUInt256FromBigEndian src offset =
     sbind (checkBounds BEUint256OffsetParameterOverflow BEUint256OffsetOutOfBounds 32 src offset) (\<lambda>_.
     let w = mload src offset in
       Inr (((((((push_bit 224 (swap32 (limb32 0 w)) OR push_bit 192 (swap32 (limb32 1 w)))
         OR push_bit 160 (swap32 (limb32 2 w))) OR push_bit 128 (swap32 (limb32 3 w)))
         OR push_bit 96 (swap32 (limb32 4 w))) OR push_bit 64 (swap32 (limb32 5 w)))
         OR push_bit 32 (swap32 (limb32 6 w))) OR swap32 (limb32 7 w)))"

definition extractBytes32 :: "byte list \<Rightarrow> nat \<Rightarrow> bytes32 sol" where
  "extractBytes32 src offset = sbind (checkBounds Bytes32OffsetParameterOverflow Bytes32OffsetOutOfBounds 32 src offset) (\<lambda>_. Inr (mload src offset))"

text \<open>\<open>reversed[orig.length - idx - 1] = orig[idx]\<close>\<close>

fun reverseLoop :: "byte list \<Rightarrow> nat \<Rightarrow> byte list \<Rightarrow> byte list" where
  "reverseLoop orig 0 reversed = reversed"
| "reverseLoop orig (Suc n) reversed =
     (let idx = length orig - Suc n in
      reverseLoop orig n (reversed[length orig - idx - 1 := orig ! idx]))"

definition reverse :: "byte list \<Rightarrow> byte list" where
  "reverse orig = reverseLoop orig (length orig) (replicate (length orig) 0)"

section \<open>Claims about a block\<close>

record BClaims =
  bc_chainId :: "32 word"
  bc_height :: "32 word"
  bc_txCount :: "32 word"
  bc_prevBlock :: bytes32
  bc_txRoot :: bytes32
  bc_stateRoot :: bytes32
  bc_headerRoot :: bytes32

definition getPointerOffsetAdjustment :: "byte list \<Rightarrow> nat \<Rightarrow> nat sol" where
  "getPointerOffsetAdjustment src dataOffset =
     sbind (extractUInt16 src dataOffset) (\<lambda>dataSectionSize.
       if dataSectionSize \<le> 0 \<or> 2 < dataSectionSize then Inl (ParserError (SizeThresholdExceeded (unat dataSectionSize)))
       else Inr (if dataSectionSize = 1 then 8 else 0))"

definition extractInnerBClaims :: "byte list \<Rightarrow> nat \<Rightarrow> nat \<Rightarrow> BClaims sol" where
  "extractInnerBClaims src dataOffset adj =
     sbind (revert_if (dataOffset + 176 - adj \<le> dataOffset) (ParserError (DataOffsetOverflow dataOffset))) (\<lambda>_.
     sbind (revert_if (length src < dataOffset + 176 - adj) (ParserError (NotEnoughBytes (dataOffset + 176 - adj) (length src)))) (\<lambda>_.
     sbind (if adj = 0 then extractUInt32 src (dataOffset + 8) else Inr 0) (\<lambda>txCount.
     sbind (extractUInt32 src dataOffset) (\<lambda>chainId.
     sbind (revert_if (chainId = 0) (ParserError ChainIdZero)) (\<lambda>_.
     sbind (extractUInt32 src (dataOffset + 4)) (\<lambda>height.
     sbind (revert_if (height = 0) (ParserError HeightZero)) (\<lambda>_.
     sbind (extractBytes32 src (dataOffset + 48 - adj)) (\<lambda>prevBlock.
     sbind (extractBytes32 src (dataOffset + 80 - adj)) (\<lambda>txRoot.
     sbind (extractBytes32 src (dataOffset + 112 - adj)) (\<lambda>stateRoot.
     sbind (extractBytes32 src (dataOffset + 144 - adj)) (\<lambda>headerRoot.
       Inr \<lparr>bc_chainId = chainId, bc_height = height, bc_txCount = txCount, bc_prevBlock = prevBlock,
         bc_txRoot = txRoot, bc_stateRoot = stateRoot, bc_headerRoot = headerRoot\<rparr>)))))))))))"

definition extractBClaims :: "byte list \<Rightarrow> BClaims sol" where
  "extractBClaims src =
     sbind (getPointerOffsetAdjustment src 4) (\<lambda>adj. extractInnerBClaims src 8 adj)"

section \<open>What the readers return\<close>

text \<open>The value of a byte string, least significant byte first.\<close>

definition le_nat :: "byte list \<Rightarrow> nat" where
  "le_nat bs = be_nat (rev bs)"

lemma checkBounds_run:
  "0 < n \<Longrightarrow> checkBounds f g n src offset = (if offset + n \<le> length src then Inr () else Inl (ParserError (g (offset + n) (length src))))"
  by (simp add: checkBounds_def revert_if_def)

text \<open>The four bytes of a word and the word of four bytes.\<close>

definition word4 :: "byte \<Rightarrow> byte \<Rightarrow> byte \<Rightarrow> byte \<Rightarrow> 256 word" where
  "word4 a b c d = push_bit 24 (ucast a) OR push_bit 16 (ucast b) OR push_bit 8 (ucast c) OR ucast d"

lemma bit_word4:
  "bit (word4 a b c d) n =
     (if n < 8 then bit d n else if n < 16 then bit c (n - 8) else if n < 24 then bit b (n - 16) else bit a (n - 24))"
proof -
  have big: "\<not> bit (x :: byte) k" if "8 \<le> k" for x k using bit_imp_le_length [of x k] that by auto
  have len: "n < 256" if "bit a (n - 24)" using bit_imp_le_length [OF that] by simp
  consider "n < 8" | "8 \<le> n" "n < 16" | "16 \<le> n" "n < 24" | "24 \<le> n" by linarith
  then show ?thesis
    by cases (use len in \<open>auto simp: word4_def bit_simps big\<close>)
qed

lemma swap32_masks:
  "(0xff000000 :: 256 word) = push_bit 24 (mask 8)" "(0x00ff0000 :: 256 word) = push_bit 16 (mask 8)"
  "(0x0000ff00 :: 256 word) = push_bit 8 (mask 8)" "(0x000000ff :: 256 word) = push_bit 0 (mask 8)"
  by (simp_all add: mask_eq_exp_minus_1 push_bit_eq_mult)

lemma swap32_word4: "swap32 (word4 a b c d) = word4 d c b a"
proof (rule bit_word_eqI)
  fix n
  assume n: "n < LENGTH(256)"
  have big: "\<not> bit (x :: byte) k" if "8 \<le> k" for x k using bit_imp_le_length [of x k] that by auto
  consider "n < 8" | "8 \<le> n" "n < 16" | "16 \<le> n" "n < 24" | "24 \<le> n" by linarith
  then show "bit (swap32 (word4 a b c d)) n = bit (word4 d c b a) n"
    by cases (use n in \<open>auto simp: swap32_def swap32_masks bit_or_iff bit_and_iff bit_push_bit_iff
        bit_drop_bit_eq bit_mask_iff bit_word4 big\<close>)
qed

text \<open>Joining a word with shorter ones: the bits of the two do not meet.\<close>

lemma join_words:
  assumes "unat (x :: 256 word) < 2 ^ m" and "m + k \<le> 256" and "unat (y :: 256 word) < 2 ^ k"
  shows "unat (push_bit k x OR y) = unat x * 2 ^ k + unat y" and "unat (push_bit k x OR y) < 2 ^ (m + k)"
proof -
  have "unat x * 2 ^ k + 2 ^ k \<le> 2 ^ m * 2 ^ k"
    using mult_le_mono1 [of "unat x + 1" "2 ^ m" "2 ^ k"] assms(1) by (simp add: algebra_simps)
  then have b: "unat x * 2 ^ k + unat y < 2 ^ (m + k)" using assms(3) by (simp add: power_add)
  also have "(2 :: nat) ^ (m + k) \<le> 2 ^ 256" by (rule power_increasing) (use assms(2) in simp_all)
  finally have l: "unat x * 2 ^ k + unat y < 2 ^ 256" .
  have y: "take_bit k y = y" using assms(3) by (simp add: word_unat_eq_iff unsigned_take_bit_eq take_bit_nat_eq_self_iff)
  then have "\<not> bit y n" if "k \<le> n" for n
    using that by (metis bit_take_bit_iff not_less)
  then have "push_bit k x OR y = push_bit k x + y"
    by (intro disjunctive_add [symmetric]) (auto simp: bit_push_bit_iff)
  moreover have "unat (push_bit k x) = unat x * 2 ^ k"
    using l unfolding unsigned_push_bit_eq by (simp add: push_bit_nat_def take_bit_nat_eq_self)
  ultimately show "unat (push_bit k x OR y) = unat x * 2 ^ k + unat y"
    using l by (simp add: unat_word_ariths)
  with b show "unat (push_bit k x OR y) < 2 ^ (m + k)" by simp
qed

lemma unat_word4: "unat (word4 a b c d) = be_nat [a, b, c, d]"
proof -
  have u: "unat (ucast (x :: byte) :: 256 word) = unat x" "unat x < 2 ^ 8" for x
    using unat_less_power [of x] by simp_all
  have "word4 a b c d = push_bit 8 (push_bit 8 (push_bit 8 (ucast a) OR ucast b) OR ucast c) OR ucast d"
    by (simp add: word4_def push_bit_or push_bit_push_bit or.assoc)
  moreover define x where "x = push_bit 8 (ucast a :: 256 word) OR ucast b"
  moreover define y where "y = push_bit 8 x OR ucast c"
  ultimately have w: "word4 a b c d = push_bit 8 y OR ucast d" by simp
  have x: "unat x = unat a * 256 + unat b"
    unfolding x_def using u join_words(1) [of "ucast a" 8 8 "ucast b"] by simp
  then have xl: "unat x < 2 ^ 16" using u(2) [of a] u(2) [of b] by simp
  have y: "unat y = unat x * 256 + unat c"
    unfolding y_def using u xl join_words(1) [of x 16 8 "ucast c"] by simp
  then have "unat y < 2 ^ 24" using xl u(2) [of c] by simp
  then have "unat (word4 a b c d) = unat y * 256 + unat d"
    unfolding w using u join_words(1) [of y 24 8 "ucast d"] by simp
  then show ?thesis using x y by simp
qed

lemma swap16_word4: "swap16 (word4 0 0 a b) = word4 0 0 b a"
proof (rule bit_word_eqI)
  fix n
  assume n: "n < LENGTH(256)"
  have m: "(0xff00 :: 256 word) = push_bit 8 (mask 8)" "(0x00ff :: 256 word) = push_bit 0 (mask 8)"
    by (simp_all add: mask_eq_exp_minus_1 push_bit_eq_mult)
  have big: "\<not> bit (x :: byte) k" if "8 \<le> k" for x k using bit_imp_le_length [of x k] that by auto
  consider "n < 8" | "8 \<le> n" "n < 16" | "16 \<le> n" by linarith
  then show "bit (swap16 (word4 0 0 a b)) n = bit (word4 0 0 b a) n"
    by cases (use n in \<open>auto simp: swap16_def m bit_or_iff bit_and_iff bit_push_bit_iff
        bit_drop_bit_eq bit_mask_iff bit_word4 big\<close>)
qed

lemma be_nat_word4: "unat (w :: 256 word) = be_nat [a, b, c, d] \<Longrightarrow> w = word4 a b c d"
  by (simp add: word_unat_eq_iff unat_word4 del: be_nat.simps)

lemma length_4E:
  assumes "length xs = 4"
  obtains a b c d where "xs = [a, b, c, d]"
  using assms by (auto simp: numeral_eq_Suc length_Suc_conv)

lemma length_2E:
  assumes "length xs = 2"
  obtains a b where "xs = [a, b]"
  using assms by (auto simp: numeral_eq_Suc length_Suc_conv)

lemma unat_ucast_small: "unat (w :: 256 word) < 2 ^ LENGTH('a) \<Longrightarrow> unat (ucast w :: 'a::len word) = unat w"
  by (simp add: unsigned_ucast_eq take_bit_nat_eq_self)

text \<open>\<open>extractUInt32\<close> and \<open>extractUInt16\<close> read a number with its least significant byte first.\<close>

lemma extractUInt32_value:
  assumes "offset + 4 \<le> length src"
  shows "\<exists>w. extractUInt32 src offset = Inr w \<and> unat w = le_nat (take 4 (drop offset src))"
proof -
  have "length (take 4 (drop offset src)) = 4" using assms by simp
  then obtain a b c d where bs: "take 4 (drop offset src) = [a, b, c, d]" by (rule length_4E)
  have "drop_bit 224 (mload src offset) = word4 a b c d"
    using mload_shr [of 4 offset src] assms unfolding bs by (intro be_nat_word4) simp
  moreover have "unat (word4 d c b a) < 2 ^ 32" using be_nat_less [of "[d, c, b, a]"] by (simp add: unat_word4)
  then have "unat (ucast (word4 d c b a) :: 32 word) = be_nat [d, c, b, a]"
    by (subst unat_ucast_small) (simp_all add: unat_word4)
  ultimately show ?thesis
    using assms by (simp add: extractUInt32_def checkBounds_run swap32_word4 bs le_nat_def del: be_nat.simps)
qed

lemma extractUInt16_value:
  assumes "offset + 2 \<le> length src"
  shows "\<exists>w. extractUInt16 src offset = Inr w \<and> unat w = le_nat (take 2 (drop offset src))"
proof -
  have "length (take 2 (drop offset src)) = 2" using assms by simp
  then obtain a b where bs: "take 2 (drop offset src) = [a, b]" by (rule length_2E)
  have "drop_bit 240 (mload src offset) = word4 0 0 a b"
    using mload_shr [of 2 offset src] assms unfolding bs by (intro be_nat_word4) simp
  moreover have "unat (word4 0 0 b a) < 2 ^ 16" using be_nat_less [of "[b, a]"] by (simp add: unat_word4)
  then have "unat (ucast (word4 0 0 b a) :: 16 word) = be_nat [0, 0, b, a]"
    by (subst unat_ucast_small) (simp_all add: unat_word4)
  ultimately show ?thesis
    using assms by (simp add: extractUInt16_def checkBounds_run swap16_word4 bs le_nat_def)
qed

text \<open>
  \<open>extractUInt256\<close> reads 32 bytes with the most significant byte first, and \<open>extractUInt256FromBigEndian\<close>, which swaps the bytes
  in eight groups of four, with the least significant byte first.
\<close>

lemma extractUInt256_value:
  assumes "offset + 32 \<le> length src"
  shows "\<exists>w. extractUInt256 src offset = Inr w \<and> unat w = be_nat (take 32 (drop offset src))"
  using assms mload_shr [of 32 offset src] by (simp add: extractUInt256_def checkBounds_run)

lemma limb32_value:
  assumes w: "unat w = be_nat bs" "length bs = 32" and k: "k < 8"
  shows "\<exists>a b c d. take 4 (drop (28 - 4 * k) bs) = [a, b, c, d] \<and> limb32 k w = word4 a b c d"
proof -
  let ?n = "28 - 4 * k"
  have "length (take 4 (drop ?n bs)) = 4" using w(2) k by simp
  then obtain a b c d where m: "take 4 (drop ?n bs) = [a, b, c, d]" by (rule length_4E)
  have "bs = take ?n bs @ take 4 (drop ?n bs) @ drop 4 (drop ?n bs)" by (simp only: append_take_drop_id)
  moreover have "length (drop 4 (drop ?n bs)) = 4 * k" using w(2) k by simp
  ultimately have "be_nat bs div 256 ^ (4 * k) mod 256 ^ 4 = be_nat [a, b, c, d]"
    using be_nat_middle [of "take ?n bs" "[a, b, c, d]" "drop 4 (drop ?n bs)"] unfolding m by (simp del: drop_drop)
  moreover have "(256 :: nat) ^ (4 * k) = 2 ^ (32 * k)" by (simp add: power_mult)
  moreover have "limb32 k w = take_bit 32 (drop_bit (32 * k) w)"
    by (simp add: limb32_def take_bit_eq_mask mask_eq_exp_minus_1)
  moreover have "unat (take_bit 32 (drop_bit (32 * k) w)) = unat w div 2 ^ (32 * k) mod 2 ^ 32"
    unfolding unsigned_take_bit_eq unat_drop_bit_eq by (simp add: take_bit_eq_mod drop_bit_eq_div)
  ultimately have "unat (limb32 k w) = be_nat [a, b, c, d]" using w(1) by (simp del: be_nat.simps)
  with m be_nat_word4 show ?thesis by blast
qed

lemma horner_step:
  assumes "unat (x :: 256 word) = be_nat xs" and "length xs \<le> 28" and "y = word4 a b c d"
  shows "unat (push_bit 32 x OR y) = be_nat (xs @ [a, b, c, d])"
proof -
  have "unat x < 2 ^ (8 * length xs)" using be_nat_less [of xs] assms(1) by (simp add: power_mult)
  moreover have "unat y < 2 ^ 32" using be_nat_less [of "[a, b, c, d]"] assms(3) by (simp add: unat_word4)
  moreover have "8 * length xs + 32 \<le> 256" using assms(2) by linarith
  ultimately have "unat (push_bit 32 x OR y) = unat x * 2 ^ 32 + unat y" using join_words(1) by blast
  then show ?thesis using assms by (simp add: be_nat_append unat_word4 del: be_nat.simps)
qed

lemma extractUInt256FromBigEndian_value:
  assumes "offset + 32 \<le> length src"
  shows "\<exists>w. extractUInt256FromBigEndian src offset = Inr w \<and> unat w = le_nat (take 32 (drop offset src))"
proof -
  define bs where "bs = take 32 (drop offset src)"
  define w where "w = mload src offset"
  define v where "v k = swap32 (limb32 k w)" for k
  have w: "unat w = be_nat bs" "length bs = 32"
    using assms mload_shr [of 32 offset src] by (simp_all add: w_def bs_def)
  have g: "\<exists>a b c d. take 4 (drop (28 - 4 * k) bs) = [a, b, c, d] \<and> v k = word4 d c b a" if "k < 8" for k
    using limb32_value [OF w that] by (auto simp: v_def swap32_word4)
  have r: "rev (take 4 (drop (28 - 4 * k) bs)) = take 4 (drop (4 * k) (rev bs))" if "k < 8" for k
    by (rule nth_equalityI) (use that w(2) in \<open>auto simp: rev_nth intro!: arg_cong [of _ _ "nth bs"]\<close>)
  have step: "unat (push_bit 32 x OR v k) = be_nat (take (4 * k + 4) (rev bs))"
    if k8: "k < 8" and x: "unat x = be_nat (take (4 * k) (rev bs))" for k x
  proof -
    obtain a b c d where k: "take 4 (drop (28 - 4 * k) bs) = [a, b, c, d]" "v k = word4 d c b a" using g [OF k8] by blast
    have "take (4 * k + 4) (rev bs) = take (4 * k) (rev bs) @ [d, c, b, a]"
      using r [OF k8] k(1) by (simp add: take_add)
    with horner_step [OF x _ k(2)] k8 show ?thesis by simp
  qed
  have u: "[0..<8] = [0, 1, 2, 3, 4, 5, 6, 7]" by code_simp
  have "unat (foldl (\<lambda>x k. push_bit 32 x OR v k) 0 [0..<n]) = be_nat (take (4 * n) (rev bs))" if "n \<le> 8" for n
    using that
  proof (induction n)
    case (Suc n)
    with step [of n] show ?case by (simp add: add.commute)
  qed simp
  from this [of 8] have "unat (foldl (\<lambda>x k. push_bit 32 x OR v k) 0 [0..<8]) = be_nat (rev bs)" using w(2) by simp
  also have "foldl (\<lambda>x k. push_bit 32 x OR v k) 0 [0..<8]
      = ((((((push_bit 224 (v 0) OR push_bit 192 (v 1)) OR push_bit 160 (v 2)) OR push_bit 128 (v 3))
         OR push_bit 96 (v 4)) OR push_bit 64 (v 5)) OR push_bit 32 (v 6)) OR v 7"
    unfolding u by (simp add: push_bit_or push_bit_push_bit or.assoc)
  finally show ?thesis
    using assms w(2) by (simp add: extractUInt256FromBigEndian_def checkBounds_run Let_def w_def [symmetric] v_def [symmetric]
        bs_def [symmetric] le_nat_def)
qed

text \<open>\<open>reverse\<close> reverses.\<close>

lemma reverseLoop_nth:
  assumes "n \<le> length orig" and "length r = length orig" and "\<And>i. n \<le> i \<Longrightarrow> i < length orig \<Longrightarrow> r ! i = rev orig ! i"
  shows "reverseLoop orig n r = rev orig"
  using assms
proof (induction n arbitrary: r)
  case (Suc n)
  have i: "length orig - (length orig - Suc n) - 1 = n" "orig ! (length orig - Suc n) = rev orig ! n"
    using Suc.prems(1) by (auto simp: rev_nth)
  have "reverseLoop orig n (r[n := rev orig ! n]) = rev orig"
    using Suc.prems by (intro Suc.IH) (auto simp: nth_list_update intro!: Suc.prems(3))
  with i show ?case by (simp add: Let_def)
qed (auto intro: nth_equalityI)

lemma reverse_rev: "reverse orig = rev orig"
  unfolding reverse_def by (rule reverseLoop_nth) auto

section \<open>Properties\<close>

lemma extractUInt32_iff:
  "extractUInt32 src p = Inr w \<longleftrightarrow> p + 4 \<le> length src \<and> unat w = le_nat (take 4 (drop p src))"
  using extractUInt32_value [of p src] by (auto simp: extractUInt32_def checkBounds_run word_unat_eq_iff split: if_splits)

lemma extractUInt16_iff:
  "extractUInt16 src p = Inr w \<longleftrightarrow> p + 2 \<le> length src \<and> unat w = le_nat (take 2 (drop p src))"
  using extractUInt16_value [of p src] by (auto simp: extractUInt16_def checkBounds_run word_unat_eq_iff split: if_splits)

lemma extractBytes32_iff:
  "extractBytes32 src p = Inr w \<longleftrightarrow> p + 32 \<le> length src \<and> unat w = be_nat (take 32 (drop p src))"
  using mload_shr [of 32 p src] by (auto simp: extractBytes32_def checkBounds_run word_unat_eq_iff split: if_splits)

lemma getPointerOffsetAdjustment_iff:
  "getPointerOffsetAdjustment src p = Inr a \<longleftrightarrow>
     p + 2 \<le> length src \<and> le_nat (take 2 (drop p src)) \<in> {1, 2}
     \<and> a = (if le_nat (take 2 (drop p src)) = 1 then 8 else 0)"
proof -
  have "(w \<le> 0 \<or> 2 < w) \<longleftrightarrow> unat w \<notin> {1, 2}" "w = 1 \<longleftrightarrow> unat w = 1" for w :: "16 word"
    by (auto simp: word_le_nat_alt word_less_nat_alt word_unat_eq_iff)
  note w = this
  show ?thesis
  proof (cases "p + 2 \<le> length src")
    case True
    then obtain w where "extractUInt16 src p = Inr w" "unat w = le_nat (take 2 (drop p src))"
      using extractUInt16_value by blast
    with True w [of w] show ?thesis by (auto simp: getPointerOffsetAdjustment_def)
  qed (auto simp: getPointerOffsetAdjustment_def sbind_Inr_iff extractUInt16_iff)
qed

text \<open>The claims at an offset, with or without a transaction count.\<close>

definition claimsAt :: "byte list \<Rightarrow> nat \<Rightarrow> nat \<Rightarrow> BClaims \<Rightarrow> bool" where
  "claimsAt src p a bc =
     (p + 176 - a \<le> length src \<and> unat (bc_chainId bc) = le_nat (take 4 (drop p src)) \<and> bc_chainId bc \<noteq> 0
      \<and> unat (bc_height bc) = le_nat (take 4 (drop (p + 4) src)) \<and> bc_height bc \<noteq> 0
      \<and> unat (bc_txCount bc) = (if a = 0 then le_nat (take 4 (drop (p + 8) src)) else 0)
      \<and> unat (bc_prevBlock bc) = be_nat (take 32 (drop (p + 48 - a) src))
      \<and> unat (bc_txRoot bc) = be_nat (take 32 (drop (p + 80 - a) src))
      \<and> unat (bc_stateRoot bc) = be_nat (take 32 (drop (p + 112 - a) src))
      \<and> unat (bc_headerRoot bc) = be_nat (take 32 (drop (p + 144 - a) src)))"

lemma extractInnerBClaims_iff:
  assumes "a = 0 \<or> a = 8"
  shows "extractInnerBClaims src p a = Inr bc \<longleftrightarrow> claimsAt src p a bc"
  using assms by (cases bc)
    (auto simp: claimsAt_def extractInnerBClaims_def unat_eq_zero sbind_Inr_iff extractUInt32_iff extractBytes32_iff)

text \<open>The size in the header, in words, and by how much the places behind the transaction count move.\<close>

definition sectionSize :: "byte list \<Rightarrow> nat" where
  "sectionSize src = le_nat (take 2 (drop 4 src))"

definition pointerShift :: "byte list \<Rightarrow> nat" where
  "pointerShift src = (if sectionSize src = 1 then 8 else 0)"

text \<open>
  C24. Which byte strings are claims about a block, and what they claim. The parser accepts a string if and only if the size field of its
  header is 1 or 2, it is long enough, and chain and height are not 0; the fields of the result are then the
  bytes at their places, numbers with the least significant byte first, where all places behind the transaction
  count are 8 bytes earlier, and the count is 0, if the size is 1.
\<close>

theorem extractBClaims_iff:
  "extractBClaims src = Inr bc \<longleftrightarrow>
     sectionSize src \<in> {1, 2} \<and> 184 - pointerShift src \<le> length src
     \<and> unat (bc_chainId bc) = le_nat (take 4 (drop 8 src)) \<and> bc_chainId bc \<noteq> 0
     \<and> unat (bc_height bc) = le_nat (take 4 (drop 12 src)) \<and> bc_height bc \<noteq> 0
     \<and> unat (bc_txCount bc) = (if sectionSize src = 1 then 0 else le_nat (take 4 (drop 16 src)))
     \<and> unat (bc_prevBlock bc) = be_nat (take 32 (drop (56 - pointerShift src) src))
     \<and> unat (bc_txRoot bc) = be_nat (take 32 (drop (88 - pointerShift src) src))
     \<and> unat (bc_stateRoot bc) = be_nat (take 32 (drop (120 - pointerShift src) src))
     \<and> unat (bc_headerRoot bc) = be_nat (take 32 (drop (152 - pointerShift src) src))"
  using extractInnerBClaims_iff [of 0 src 8 bc] extractInnerBClaims_iff [of 8 src 8 bc]
  by (auto simp: extractBClaims_def sbind_Inr_iff getPointerOffsetAdjustment_iff pointerShift_def sectionSize_def claimsAt_def)

end
