(* ===== verification/Certificate_Parser.thy ===== *)
theory Certificate_Parser
  imports Claims_Parser
begin

text \<open>
  \<^verbatim>\<open>RClaimsParserLibrary.sol\<close>, \<^verbatim>\<open>RCertParserLibrary.sol\<close> and \<^verbatim>\<open>PClaimsParserLibrary.sol\<close>: reading the claims about a round, the
  certificate of a round, which has the group signature, and the claims of a proposal, in which the claims about a block
  and a certificate follow each other. As for the claims about a block, offsets are unbounded numbers.
\<close>

section \<open>Data\<close>

record RClaims =
  rc_chainId :: "32 word"
  rc_height :: "32 word"
  rc_round :: "32 word"
  rc_prevBlock :: bytes32

record RCert =
  rt_rClaims :: RClaims
  rt_sigGroupPublicKey :: "256 word list"
  rt_sigGroupSignature :: "256 word list"

record PClaims =
  pc_bClaims :: BClaims
  pc_rCert :: RCert

section \<open>Readers\<close>

definition checkSize :: "nat \<Rightarrow> byte list \<Rightarrow> nat \<Rightarrow> unit sol" where
  "checkSize n src dataOffset =
     sbind (revert_if (dataOffset + n \<le> dataOffset) (ParserError GenericDataOffsetOverflow)) (\<lambda>_.
       revert_if (length src < dataOffset + n) (ParserError (InsufficientBytes (length src) (dataOffset + n))))"

definition extractInnerRClaims :: "byte list \<Rightarrow> nat \<Rightarrow> RClaims sol" where
  "extractInnerRClaims src dataOffset =
     sbind (checkSize 56 src dataOffset) (\<lambda>_.
     sbind (extractUInt32 src dataOffset) (\<lambda>chainId.
     sbind (revert_if (chainId = 0) (ParserError ChainIdZero)) (\<lambda>_.
     sbind (extractUInt32 src (dataOffset + 4)) (\<lambda>height.
     sbind (revert_if (height = 0) (ParserError HeightZero)) (\<lambda>_.
     sbind (extractUInt32 src (dataOffset + 8)) (\<lambda>round.
     sbind (revert_if (round = 0) (ParserError RoundZero)) (\<lambda>_.
     sbind (extractBytes32 src (dataOffset + 24)) (\<lambda>prevBlock.
       Inr \<lparr>rc_chainId = chainId, rc_height = height, rc_round = round, rc_prevBlock = prevBlock\<rparr>))))))))"

definition extractRClaims :: "byte list \<Rightarrow> RClaims sol" where
  "extractRClaims src = extractInnerRClaims src 8"

definition extractSigGroup :: "byte list \<Rightarrow> nat \<Rightarrow> (256 word list \<times> 256 word list) sol" where
  "extractSigGroup src dataOffset =
     sbind (checkSize 192 src dataOffset) (\<lambda>_.
     sbind (extractUInt256 src (dataOffset + 0)) (\<lambda>k0.
     sbind (extractUInt256 src (dataOffset + 32)) (\<lambda>k1.
     sbind (extractUInt256 src (dataOffset + 64)) (\<lambda>k2.
     sbind (extractUInt256 src (dataOffset + 96)) (\<lambda>k3.
     sbind (extractUInt256 src (dataOffset + 128)) (\<lambda>s0.
     sbind (extractUInt256 src (dataOffset + 160)) (\<lambda>s1.
       Inr ([k0, k1, k2, k3], [s0, s1]))))))))"

definition extractInnerRCert :: "byte list \<Rightarrow> nat \<Rightarrow> RCert sol" where
  "extractInnerRCert src dataOffset =
     sbind (checkSize 264 src dataOffset) (\<lambda>_.
     sbind (extractInnerRClaims src (dataOffset + 16)) (\<lambda>rClaims.
     sbind (extractSigGroup src (dataOffset + 72)) (\<lambda>(publicKey, signature).
       Inr \<lparr>rt_rClaims = rClaims, rt_sigGroupPublicKey = publicKey, rt_sigGroupSignature = signature\<rparr>)))"

definition extractRCert :: "byte list \<Rightarrow> RCert sol" where
  "extractRCert src = extractInnerRCert src 8"

definition extractInnerPClaims :: "byte list \<Rightarrow> nat \<Rightarrow> (PClaims \<times> nat) sol" where
  "extractInnerPClaims src dataOffset =
     sbind (revert_if (dataOffset + 456 \<le> dataOffset) (ParserError GenericDataOffsetOverflow)) (\<lambda>_.
     sbind (getPointerOffsetAdjustment src (dataOffset + 4)) (\<lambda>adj.
     let pClaimsBinarySize = 456 - adj in
     sbind (revert_if (length src < dataOffset + pClaimsBinarySize)
              (ParserError (InsufficientBytes (length src) (dataOffset + pClaimsBinarySize)))) (\<lambda>_.
     sbind (extractInnerBClaims src (dataOffset + 16) adj) (\<lambda>bClaims.
     sbind (extractInnerRCert src (dataOffset + 16 + 176 - adj)) (\<lambda>rCert.
       Inr (\<lparr>pc_bClaims = bClaims, pc_rCert = rCert\<rparr>, pClaimsBinarySize))))))"

definition extractPClaims :: "byte list \<Rightarrow> PClaims sol" where
  "extractPClaims src = sbind (extractInnerPClaims src 8) (\<lambda>(pClaims, _). Inr pClaims)"

section \<open>What the readers return\<close>

text \<open>The numbers of 32 bytes that follow each other from an offset.\<close>

definition wordsAt :: "byte list \<Rightarrow> nat \<Rightarrow> nat \<Rightarrow> 256 word list" where
  "wordsAt src p n = map (\<lambda>i. of_nat (be_nat (take 32 (drop (p + 32 * i) src)))) [0..<n]"

definition roundAt :: "byte list \<Rightarrow> nat \<Rightarrow> RClaims \<Rightarrow> bool" where
  "roundAt src p rc =
     (p + 56 \<le> length src \<and> unat (rc_chainId rc) = le_nat (take 4 (drop p src)) \<and> rc_chainId rc \<noteq> 0
      \<and> unat (rc_height rc) = le_nat (take 4 (drop (p + 4) src)) \<and> rc_height rc \<noteq> 0
      \<and> unat (rc_round rc) = le_nat (take 4 (drop (p + 8) src)) \<and> rc_round rc \<noteq> 0
      \<and> unat (rc_prevBlock rc) = be_nat (take 32 (drop (p + 24) src)))"

lemma checkSize_iff [simp]: "0 < n \<Longrightarrow> checkSize n src p = Inr u \<longleftrightarrow> p + n \<le> length src"
  by (auto simp: checkSize_def sbind_Inr_iff)

lemma extractUInt256_run:
  "extractUInt256 src p =
     (if p + 32 \<le> length src then Inr (of_nat (be_nat (take 32 (drop p src))))
      else Inl (ParserError (LEUint256OffsetOutOfBounds (p + 32) (length src))))"
proof (cases "p + 32 \<le> length src")
  case True
  then obtain w where w: "extractUInt256 src p = Inr w" "unat w = be_nat (take 32 (drop p src))"
    using extractUInt256_value by blast
  then have "w = of_nat (be_nat (take 32 (drop p src)))" by (metis of_nat_unat ucast_id)
  with True w(1) show ?thesis by simp
qed (simp add: extractUInt256_def checkBounds_run)

lemma extractInnerRClaims_iff: "extractInnerRClaims src p = Inr rc \<longleftrightarrow> roundAt src p rc"
  by (cases rc) (auto simp: roundAt_def extractInnerRClaims_def sbind_Inr_iff extractUInt32_iff extractBytes32_iff)

lemma extractSigGroup_run:
  "extractSigGroup src p =
     (if p + 192 \<le> length src then Inr (wordsAt src p 4, wordsAt src (p + 128) 2)
      else Inl (ParserError (InsufficientBytes (length src) (p + 192))))"
  by (simp add: extractSigGroup_def checkSize_def extractUInt256_run wordsAt_def upt_rec revert_if_def add.assoc)

lemma extractInnerRCert_iff:
  "extractInnerRCert src p = Inr rt \<longleftrightarrow>
     p + 264 \<le> length src \<and> roundAt src (p + 16) (rt_rClaims rt)
     \<and> rt_sigGroupPublicKey rt = wordsAt src (p + 72) 4 \<and> rt_sigGroupSignature rt = wordsAt src (p + 200) 2"
  by (cases rt) (auto simp: extractInnerRCert_def sbind_Inr_iff extractInnerRClaims_iff extractSigGroup_run add.commute
    split: if_splits)

section \<open>Properties\<close>

text \<open>
  C25. Which byte strings are the claims of a proposal, and what they claim. The parser accepts a string if and only if the size
  field of its claims about a block is 1 or 2, it is long enough, and the claims about the block and about the round are valid at their
  places; the certificate begins where the claims about the block end, 8 bytes earlier if they have no
  transaction count, and has the four numbers of the public key and the two of the signature one after the
  other. The size it returns is that of the claims without the header.
\<close>

theorem extractInnerPClaims_iff:
  "extractInnerPClaims src 8 = Inr (pc, n) \<longleftrightarrow>
     (\<exists>a. le_nat (take 2 (drop 12 src)) = (if a = 0 then 2 else 1) \<and> a \<in> {0, 8} \<and> n = 456 - a \<and> 8 + n \<le> length src
      \<and> claimsAt src 24 a (pc_bClaims pc) \<and> roundAt src (216 - a) (rt_rClaims (pc_rCert pc))
      \<and> rt_sigGroupPublicKey (pc_rCert pc) = wordsAt src (272 - a) 4
      \<and> rt_sigGroupSignature (pc_rCert pc) = wordsAt src (400 - a) 2)"
proof -
  have "extractInnerPClaims src 8 = Inr (pc, n) \<longleftrightarrow>
      (\<exists>a. getPointerOffsetAdjustment src 12 = Inr a \<and> n = 456 - a \<and> 8 + n \<le> length src
       \<and> extractInnerBClaims src 24 a = Inr (pc_bClaims pc) \<and> extractInnerRCert src (200 - a) = Inr (pc_rCert pc))"
    by (cases pc) (auto simp: extractInnerPClaims_def Let_def sbind_Inr_iff not_less)
  also have "\<dots> \<longleftrightarrow> (\<exists>a. le_nat (take 2 (drop 12 src)) = (if a = 0 then 2 else 1) \<and> a \<in> {0, 8} \<and> n = 456 - a \<and> 8 + n \<le> length src
      \<and> extractInnerBClaims src 24 a = Inr (pc_bClaims pc) \<and> extractInnerRCert src (200 - a) = Inr (pc_rCert pc))"
    unfolding getPointerOffsetAdjustment_iff by (intro ex_cong1) auto
  also have "\<dots> \<longleftrightarrow> (\<exists>a. le_nat (take 2 (drop 12 src)) = (if a = 0 then 2 else 1) \<and> a \<in> {0, 8} \<and> n = 456 - a \<and> 8 + n \<le> length src
      \<and> claimsAt src 24 a (pc_bClaims pc) \<and> roundAt src (216 - a) (rt_rClaims (pc_rCert pc))
      \<and> rt_sigGroupPublicKey (pc_rCert pc) = wordsAt src (272 - a) 4
      \<and> rt_sigGroupSignature (pc_rCert pc) = wordsAt src (400 - a) 2)"
  proof (intro ex_cong1 conj_cong refl)
    fix a
    assume a: "a \<in> {0, 8 :: nat}" "n = 456 - a" "8 + n \<le> length src"
    then show "extractInnerBClaims src 24 a = Inr (pc_bClaims pc) \<longleftrightarrow> claimsAt src 24 a (pc_bClaims pc)"
      by (intro extractInnerBClaims_iff) simp
    show "extractInnerRCert src (200 - a) = Inr (pc_rCert pc) \<longleftrightarrow>
        roundAt src (216 - a) (rt_rClaims (pc_rCert pc)) \<and> rt_sigGroupPublicKey (pc_rCert pc) = wordsAt src (272 - a) 4
        \<and> rt_sigGroupSignature (pc_rCert pc) = wordsAt src (400 - a) 2"
      using a by (elim insertE) (simp_all add: extractInnerRCert_iff)
  qed
  finally show ?thesis .
qed

end
