(* ===== verification/Snapshots_Contract.thy ===== *)
theory Snapshots_Contract
  imports Dynamics_Contract Certificate_Parser
begin

unbundle bit_operations_syntax

text \<open>
  \<^verbatim>\<open>Snapshots.sol\<close> with \<^verbatim>\<open>SnapshotsStorage.sol\<close> and \<^verbatim>\<open>SnapshotRingBuffer.sol\<close>: the record of the last blocks of the epochs of the side
  chain, kept in a ring of six places, the election of the validator who may add one, and the function \<open>snapshot\<close>, which
  also moves the dynamic values forward.
\<close>

section \<open>Data\<close>

record Snapshot =
  sn_committedAt :: "256 word"
  sn_blockClaims :: BClaims

datatype snapshots_event =
  SnapshotTaken "256 word" "32 word" "32 word" addr bool "256 word list" "256 word list" BClaims

record snapshots =
  ss_initialized :: bool
  ss_minimumIntervalBetweenSnapshots :: "32 word"
  ss_snapshotDesperationDelay :: "32 word"
  ss_snapshotDesperationFactor :: "32 word"
  ss_epoch :: "32 word"
  ss_snapshots :: "Snapshot list"
  ss_events :: "snapshots_event list"

text \<open>
  The context of a call: sender, block number, the immutables of the contract, and the answers of the contracts it asks, which are not
  part of the model: \<open>ValidatorPool\<close> about the sender and the consensus, \<open>ETHDKG\<close> about the index of a validator and
  the master public key, and \<open>verifySignatureASM\<close>, which computes on the curve of the precompiled contracts.
\<close>

record snapshots_call =
  sc_sender :: addr
  sc_self :: addr
  sc_factory :: addr
  sc_block :: "256 word"
  sc_chainId :: "256 word"
  sc_epochLength :: "256 word"
  sc_isValidator :: "addr \<Rightarrow> bool"
  sc_isConsensusRunning :: bool
  sc_isMaintenanceScheduled :: bool
  sc_validatorsCount :: "256 word"
  sc_participantIndex :: "addr \<Rightarrow> 256 word sol"
  sc_keccak :: "byte list \<Rightarrow> bytes32"
  sc_masterPublicKeyHash :: bytes32
  sc_verifySignature :: "byte list \<Rightarrow> 256 word list \<Rightarrow> 256 word list \<Rightarrow> bool sol"

definition zeroClaims :: BClaims where
  "zeroClaims = \<lparr>bc_chainId = 0, bc_height = 0, bc_txCount = 0, bc_prevBlock = 0, bc_txRoot = 0, bc_stateRoot = 0,
     bc_headerRoot = 0\<rparr>"

definition zeroSnapshot :: Snapshot where
  "zeroSnapshot = \<lparr>sn_committedAt = 0, sn_blockClaims = zeroClaims\<rparr>"

definition snapshots0 :: snapshots where
  "snapshots0 = \<lparr>ss_initialized = False, ss_minimumIntervalBetweenSnapshots = 0, ss_snapshotDesperationDelay = 0,
     ss_snapshotDesperationFactor = 0, ss_epoch = 0, ss_snapshots = replicate 6 zeroSnapshot, ss_events = []\<rparr>"

abbreviation sn_height :: "Snapshot \<Rightarrow> 32 word" where
  "sn_height x \<equiv> bc_height (sn_blockClaims x)"

section \<open>The ring\<close>

definition getEpochFromHeight :: "256 word \<Rightarrow> 32 word \<Rightarrow> 32 word sol" where
  "getEpochFromHeight epochLength height =
     (if ucast height \<le> epochLength then Inr 1
      else
        sbind (checked_mod (ucast height) epochLength) (\<lambda>r.
        sbind (checked_div (ucast height) epochLength) (\<lambda>q.
          if r = 0 then Inr (ucast q) else sbind (checked_add q 1) (\<lambda>q. Inr (ucast q)))))"

definition indexFor :: "32 word \<Rightarrow> nat sol" where
  "indexFor epoch = (if epoch = 0 then Inl (SnapshotsError EpochMustBeNonZero) else Inr (unat epoch mod 6))"

definition ring_set :: "256 word \<Rightarrow> Snapshot \<Rightarrow> Snapshot list \<Rightarrow> (32 word \<times> Snapshot list) sol" where
  "ring_set epochLength new ring =
     sbind (getEpochFromHeight epochLength (sn_height new)) (\<lambda>epoch.
     sbind (indexFor epoch) (\<lambda>i.
     let old = ring ! i in
       if sn_height new \<le> sn_height old
       then Inl (SnapshotsError (InvalidRingBufferBlockHeight (unat (sn_height new)) (unat (sn_height old))))
       else Inr (epoch, ring[i := new])))"

definition setSnapshot :: "256 word \<Rightarrow> Snapshot \<Rightarrow> snapshots \<Rightarrow> snapshots sol" where
  "setSnapshot epochLength new s =
     sbind (ring_set epochLength new (ss_snapshots s)) (\<lambda>(epoch, ring).
       Inr (s\<lparr>ss_snapshots := ring, ss_epoch := epoch\<rparr>))"

definition getSnapshot :: "256 word \<Rightarrow> 32 word \<Rightarrow> snapshots \<Rightarrow> Snapshot sol" where
  "getSnapshot epochLength epoch s =
     (if epoch = 0 then Inr zeroSnapshot
      else
        sbind (indexFor epoch) (\<lambda>i.
        let snapshot = ss_snapshots s ! i in
        sbind (getEpochFromHeight epochLength (sn_height snapshot)) (\<lambda>e.
          if e \<noteq> epoch then Inl (SnapshotsError (SnapshotsNotInBuffer (unat epoch))) else Inr snapshot)))"

definition getLatestSnapshot :: "256 word \<Rightarrow> snapshots \<Rightarrow> Snapshot sol" where
  "getLatestSnapshot epochLength s = getSnapshot epochLength (ss_epoch s) s"

section \<open>The election\<close>

function electionLoop :: "256 word \<Rightarrow> 256 word \<Rightarrow> 256 word \<Rightarrow> 256 word \<Rightarrow> 256 word \<Rightarrow> 256 word sol" where
  "electionLoop numValidators blocks factor desperation allowed =
     (if desperation < blocks \<and> allowed < numValidators
      then sbind (checked_div factor allowed) (\<lambda>q.
           sbind (checked_add desperation q) (\<lambda>desperation.
             electionLoop numValidators blocks factor desperation (allowed + 1)))
      else Inr allowed)"
  by pat_completeness auto
termination
proof (relation "measure (\<lambda>(n, b, f, d, a). unat n - unat a)")
  fix n b f d a q x :: "256 word"
  assume "d < b \<and> a < n"
  then have "unat a < unat n" by (simp add: word_less_nat_alt)
  moreover then have "unat (a + 1) = unat a + 1"
    using unat_less_power [of n] by (simp add: unat_word_ariths)
  ultimately show "((n, b, f, x, a + 1), (n, b, f, d, a)) \<in> measure (\<lambda>(n, b, f, d, a). unat n - unat a)" by simp
qed simp

declare electionLoop.simps [simp del]

definition mayValidatorSnapshot ::
    "256 word \<Rightarrow> 256 word \<Rightarrow> 256 word \<Rightarrow> bytes32 \<Rightarrow> 256 word \<Rightarrow> (bool \<times> 256 word \<times> 256 word) sol" where
  "mayValidatorSnapshot numValidators myIdx blocksSinceDesperation randomSeed desperationFactor =
     sbind (electionLoop numValidators blocksSinceDesperation desperationFactor 0 1) (\<lambda>numValidatorsAllowed.
     sbind (checked_mod randomSeed numValidators) (\<lambda>start.
     sbind (checked_add start numValidatorsAllowed) (\<lambda>sum.
     sbind (checked_mod sum numValidators) (\<lambda>end'.
       Inr (if start < end' then start \<le> myIdx \<and> myIdx < end' else start \<le> myIdx \<or> myIdx < end', start, end')))))"

definition isValidatorElectedToPerformSnapshot ::
    "snapshots_call \<Rightarrow> addr \<Rightarrow> 256 word \<Rightarrow> bytes32 \<Rightarrow> snapshots \<Rightarrow> unit sol" where
  "isValidatorElectedToPerformSnapshot C validator lastSnapshotCommittedAt groupSignatureHash s =
     sbind (sc_participantIndex C validator) (\<lambda>validatorIndex.
     sbind (checked_sub (sc_block C) lastSnapshotCommittedAt) (\<lambda>ethBlocksSinceLastSnapshot.
     let desperationDelay = ucast (ss_snapshotDesperationDelay s);
         blocksSinceDesperation = (if desperationDelay \<le> ethBlocksSinceLastSnapshot
           then ethBlocksSinceLastSnapshot - desperationDelay else 0) in
     sbind (checked_sub validatorIndex 1) (\<lambda>myIdx.
     sbind (mayValidatorSnapshot (sc_validatorsCount C) myIdx blocksSinceDesperation groupSignatureHash
              (ucast (ss_snapshotDesperationFactor s))) (\<lambda>(isValidatorElected, startIndex, endIndex).
       revert_if (\<not> isValidatorElected)
         (SnapshotsError (ValidatorNotElected (unat myIdx) (unat startIndex) (unat endIndex) groupSignatureHash))))))"

section \<open>Functions\<close>

definition snapshots_onlyFactory :: "snapshots_call \<Rightarrow> unit sol" where
  "snapshots_onlyFactory C = revert_if (sc_sender C \<noteq> sc_factory C) (OnlyFactory (sc_sender C) (sc_factory C))"

definition snapshots_initialize :: "snapshots_call \<Rightarrow> 32 word \<Rightarrow> 32 word \<Rightarrow> snapshots \<Rightarrow> snapshots sol" where
  "snapshots_initialize C desperationDelay desperationFactor s =
     sbind (snapshots_onlyFactory C) (\<lambda>_.
     sbind (revert_if (ss_initialized s) AlreadyInitialized) (\<lambda>_.
       Inr (s\<lparr>ss_initialized := True, ss_minimumIntervalBetweenSnapshots := ucast (sc_epochLength C div 4),
         ss_snapshotDesperationDelay := desperationDelay, ss_snapshotDesperationFactor := desperationFactor\<rparr>)))"

definition setSnapshotDesperationDelay :: "snapshots_call \<Rightarrow> 32 word \<Rightarrow> snapshots \<Rightarrow> snapshots sol" where
  "setSnapshotDesperationDelay C desperationDelay s =
     sbind (snapshots_onlyFactory C) (\<lambda>_. Inr (s\<lparr>ss_snapshotDesperationDelay := desperationDelay\<rparr>))"

definition setSnapshotDesperationFactor :: "snapshots_call \<Rightarrow> 32 word \<Rightarrow> snapshots \<Rightarrow> snapshots sol" where
  "setSnapshotDesperationFactor C desperationFactor s =
     sbind (snapshots_onlyFactory C) (\<lambda>_. Inr (s\<lparr>ss_snapshotDesperationFactor := desperationFactor\<rparr>))"

definition setMinimumIntervalBetweenSnapshots :: "snapshots_call \<Rightarrow> 32 word \<Rightarrow> snapshots \<Rightarrow> snapshots sol" where
  "setMinimumIntervalBetweenSnapshots C interval s =
     sbind (snapshots_onlyFactory C) (\<lambda>_. Inr (s\<lparr>ss_minimumIntervalBetweenSnapshots := interval\<rparr>))"

definition parseAndValidateBClaims :: "snapshots_call \<Rightarrow> 32 word \<Rightarrow> byte list \<Rightarrow> BClaims sol" where
  "parseAndValidateBClaims C epoch bClaims =
     sbind (extractBClaims bClaims) (\<lambda>blockClaims.
     sbind (checked_mul (ucast epoch) (sc_epochLength C)) (\<lambda>height.
     sbind (revert_if (height \<noteq> ucast (bc_height blockClaims))
              (SnapshotsError (UnexpectedBlockHeight (unat (bc_height blockClaims)) (unat height)))) (\<lambda>_.
     sbind (revert_if (ucast (bc_chainId blockClaims) \<noteq> sc_chainId C)
              (SnapshotsError (InvalidChainId (unat (bc_chainId blockClaims))))) (\<lambda>_.
       Inr blockClaims))))"

definition checkBClaimsSignature ::
    "snapshots_call \<Rightarrow> byte list \<Rightarrow> byte list \<Rightarrow> (256 word list \<times> 256 word list) sol" where
  "checkBClaimsSignature C groupSignature bClaims =
     sbind (extractSigGroup groupSignature 0) (\<lambda>(masterPublicKey, signature).
     let calculated = sc_keccak C (concat (map (\<lambda>k. be_bytes 32 (unat k)) masterPublicKey));
         expected = sc_masterPublicKeyHash C in
     sbind (revert_if (calculated \<noteq> expected) (SnapshotsError (InvalidMasterPublicKey calculated expected))) (\<lambda>_.
     sbind (sc_verifySignature C (be_bytes 32 (unat (sc_keccak C bClaims))) signature masterPublicKey) (\<lambda>ok.
     sbind (revert_if (\<not> ok) (SnapshotsError SignatureVerificationFailed)) (\<lambda>_.
       Inr (masterPublicKey, signature)))))"

definition checkSnapshotMinimumInterval :: "snapshots_call \<Rightarrow> 256 word \<Rightarrow> snapshots \<Rightarrow> unit sol" where
  "checkSnapshotMinimumInterval C lastSnapshotCommittedAt s =
     sbind (checked_add lastSnapshotCommittedAt (ucast (ss_minimumIntervalBetweenSnapshots s))) (\<lambda>earliest.
       revert_if (sc_block C < earliest) (SnapshotsError (MinimumBlocksIntervalNotPassed (unat (sc_block C)) (unat earliest))))"

text \<open>
  \<open>snapshot\<close> changes this contract and, in its last call, the dynamic values; the result says whether the consensus may go on.
  The pause of the consensus is a call of \<open>ValidatorPool\<close> and outside of this state.
\<close>

definition snapshot ::
    "snapshots_call \<Rightarrow> dynamics_call \<Rightarrow> byte list \<Rightarrow> byte list \<Rightarrow> snapshots \<times> dynamics
     \<Rightarrow> (bool \<times> snapshots \<times> dynamics) sol" where
  "snapshot C D groupSignature bClaims = (\<lambda>(s, d).
     sbind (revert_if (\<not> sc_isValidator C (sc_sender C)) (SnapshotsError (OnlyValidatorsAllowed (sc_sender C)))) (\<lambda>_.
     sbind (revert_if (\<not> sc_isConsensusRunning C) (SnapshotsError ConsensusNotRunning)) (\<lambda>_.
     sbind (checked_add (ss_epoch s) 1) (\<lambda>epoch.
     sbind (parseAndValidateBClaims C epoch bClaims) (\<lambda>blockClaims.
     sbind (getLatestSnapshot (sc_epochLength C) s) (\<lambda>latest.
     let lastSnapshotCommittedAt = sn_committedAt latest in
     sbind (checkSnapshotMinimumInterval C lastSnapshotCommittedAt s) (\<lambda>_.
     sbind (isValidatorElectedToPerformSnapshot C (sc_sender C) lastSnapshotCommittedAt
              (sc_keccak C groupSignature) s) (\<lambda>_.
     sbind (checkBClaimsSignature C groupSignature bClaims) (\<lambda>(masterPublicKey, signature).
     let isSafeToProceedConsensus = \<not> sc_isMaintenanceScheduled C in
     sbind (setSnapshot (sc_epochLength C) \<lparr>sn_committedAt = sc_block C, sn_blockClaims = blockClaims\<rparr> s) (\<lambda>s.
     let s = s\<lparr>ss_epoch := epoch,
           ss_events := ss_events s @ [SnapshotTaken (sc_chainId C) epoch (bc_height blockClaims) (sc_sender C)
             isSafeToProceedConsensus masterPublicKey signature blockClaims]\<rparr> in
     sbind (updateHead (D\<lparr>dc_sender := sc_self C\<rparr>) epoch d) (\<lambda>d.
       Inr (isSafeToProceedConsensus, s, d))))))))))))"

fun migrateLoop :: "snapshots_call \<Rightarrow> (byte list \<times> byte list) list \<Rightarrow> 32 word \<Rightarrow> snapshots \<Rightarrow> (32 word \<times> snapshots) sol" where
  "migrateLoop C [] epoch s = Inr (epoch, s)"
| "migrateLoop C ((groupSignature, bClaims) # rest) epoch s =
     sbind (extractBClaims bClaims) (\<lambda>blockClaims.
     sbind (checked_mod (ucast (bc_height blockClaims)) (sc_epochLength C)) (\<lambda>r.
     sbind (revert_if (r \<noteq> 0)
              (SnapshotsError (BlockHeightNotMultipleOfEpochLength (unat (bc_height blockClaims)) (unat (sc_epochLength C))))) (\<lambda>_.
     sbind (checkBClaimsSignature C groupSignature bClaims) (\<lambda>(masterPublicKey, signature).
     sbind (getEpochFromHeight (sc_epochLength C) (bc_height blockClaims)) (\<lambda>epoch.
     sbind (setSnapshot (sc_epochLength C) \<lparr>sn_committedAt = sc_block C, sn_blockClaims = blockClaims\<rparr> s) (\<lambda>s.
       migrateLoop C rest epoch
         (s\<lparr>ss_events := ss_events s @ [SnapshotTaken (sc_chainId C) epoch (bc_height blockClaims) (sc_sender C)
            True masterPublicKey signature blockClaims]\<rparr>)))))))"

definition migrateSnapshots ::
    "snapshots_call \<Rightarrow> byte list list \<Rightarrow> byte list list \<Rightarrow> snapshots \<Rightarrow> snapshots sol" where
  "migrateSnapshots C groupSignature bClaims s =
     sbind (snapshots_onlyFactory C) (\<lambda>_.
     sbind (revert_if (ss_epoch s \<noteq> 0) (SnapshotsError MigrationNotAllowedAtCurrentEpoch)) (\<lambda>_.
     sbind (revert_if (length groupSignature \<noteq> length bClaims \<or> length groupSignature = 0)
              (SnapshotsError (MigrationInputDataMismatch (length groupSignature) (length bClaims)))) (\<lambda>_.
     sbind (migrateLoop C (zip groupSignature bClaims) 0 s) (\<lambda>(epoch, s). Inr (s\<lparr>ss_epoch := epoch\<rparr>)))))"

section \<open>Epochs and heights\<close>

lemma ucast_of_nat_32: "(ucast (of_nat e :: 256 word) :: 32 word) = of_nat e"
  unfolding word_unat_eq_iff unsigned_ucast_eq by (simp add: unat_of_nat take_bit_eq_mod mod_mod_cancel)

lemma getEpochFromHeight_multiple:
  assumes "unat height = e * unat L" and "0 < e" and "0 < unat L"
  shows "getEpochFromHeight L height = Inr (of_nat e)"
proof -
  have h: "unat (ucast height :: 256 word) = e * unat L" using assms(1) by simp
  show ?thesis
  proof (cases "e = 1")
    case True
    with h show ?thesis by (simp add: getEpochFromHeight_def word_le_nat_alt)
  next
    case False
    then have "\<not> ucast height \<le> L" using h assms(2,3) by (simp add: word_le_nat_alt)
    moreover have "checked_mod (ucast height) L = Inr 0" using h assms(3) by (auto simp: checked_mod_iff)
    moreover have "unat (ucast height div L :: 256 word) = e" using h assms(3) by (simp add: unat_div)
    then have "ucast height div L = (of_nat e :: 256 word)" by (metis of_nat_unat ucast_id)
    ultimately show ?thesis
      using assms(3) by (auto simp: getEpochFromHeight_def checked_div_def ucast_of_nat_32)
  qed
qed

lemma getEpochFromHeight_0 [simp]: "getEpochFromHeight L 0 = Inr 1"
  by (simp add: getEpochFromHeight_def)

section \<open>What the ring holds\<close>

text \<open>
  After the snapshots of the epochs 1, 2, and so on, the ring holds those of the last six epochs, each in the place of its epoch, and nothing in a
  place that was not used.
\<close>

definition ring_holds :: "256 word \<Rightarrow> Snapshot list \<Rightarrow> Snapshot list \<Rightarrow> bool" where
  "ring_holds L hist ring =
     (length ring = 6 \<and> (\<forall>e \<in> {1..length hist}. unat (sn_height (hist ! (e - 1))) = e * unat L \<and> 0 < unat L)
      \<and> (\<forall>e \<in> {1..length hist}. length hist < e + 6 \<longrightarrow> ring ! (e mod 6) = hist ! (e - 1))
      \<and> (\<forall>i < 6. (\<forall>e \<in> {1..length hist}. e mod 6 \<noteq> i) \<longrightarrow> ring ! i = zeroSnapshot))"

lemma ring_holds_start: "ring_holds L [] (replicate 6 zeroSnapshot)"
  by (simp add: ring_holds_def)

text \<open>The place of an epoch: the snapshot of the last epoch with this place, or none.\<close>

lemma ring_holds_place:
  assumes r: "ring_holds L hist ring" and i: "i < 6"
  obtains (used) e where "1 \<le> e" "e \<le> length hist" "length hist < e + 6" "e mod 6 = i" "ring ! i = hist ! (e - 1)"
    | (unused) "\<forall>e \<in> {1..length hist}. e mod 6 \<noteq> i" "ring ! i = zeroSnapshot"
proof (cases "\<exists>e \<in> {1..length hist}. e mod 6 = i")
  case True
  let ?S = "{e \<in> {1..length hist}. e mod 6 = i}"
  define e where "e = Max ?S"
  have e: "e \<in> ?S" unfolding e_def using True by (intro Max_in) auto
  moreover have "length hist < e + 6"
  proof (rule ccontr)
    assume "\<not> length hist < e + 6"
    then have "e + 6 \<in> ?S" using e by auto
    then have "e + 6 \<le> e" unfolding e_def by (intro Max_ge) auto
    then show False by simp
  qed
  ultimately show thesis using r by (intro used [of e]) (auto simp: ring_holds_def)
next
  case False
  with r i unused show thesis by (auto simp: ring_holds_def)
qed

lemma ring_holds_height:
  assumes "ring_holds L hist ring" and "1 \<le> e" and "e \<le> length hist"
  shows "unat (sn_height (hist ! (e - 1))) = e * unat L" and "getEpochFromHeight L (sn_height (hist ! (e - 1))) = Inr (of_nat e)"
proof -
  show h: "unat (sn_height (hist ! (e - 1))) = e * unat L" using assms by (auto simp: ring_holds_def)
  show "getEpochFromHeight L (sn_height (hist ! (e - 1))) = Inr (of_nat e)"
    by (rule getEpochFromHeight_multiple [OF h]) (use assms in \<open>auto simp: ring_holds_def\<close>)
qed

lemma ring_holds_small:
  assumes "ring_holds L hist ring"
  shows "length hist < 2 ^ 32"
proof (cases "hist = []")
  case False
  then have n: "1 \<le> length hist" by (simp add: Suc_le_eq)
  then have "0 < unat L" using assms unfolding ring_holds_def by (metis atLeastAtMost_iff order_refl)
  then have "length hist * 1 \<le> length hist * unat L" by (intro mult_le_mono2) simp
  also have "\<dots> < 2 ^ LENGTH(32)"
    using ring_holds_height(1) [OF assms n] unat_less_power [of "sn_height (hist ! (length hist - 1))"] by simp
  finally show ?thesis by simp
qed simp

lemma mod_6_window: "a < b \<Longrightarrow> b < a + 6 \<Longrightarrow> a mod 6 \<noteq> (b :: nat) mod 6"
  by presburger

text \<open>The next epoch is always accepted, and the ring then holds it.\<close>

lemma ring_set_next:
  assumes r: "ring_holds L hist ring" and h: "unat (sn_height x) = (length hist + 1) * unat L" and L: "0 < unat L"
  shows "\<exists>ring'. ring_set L x ring = Inr (of_nat (length hist + 1), ring') \<and> ring_holds L (hist @ [x]) ring'"
proof -
  define N where "N = length hist + 1"
  have h: "unat (sn_height x) = N * unat L" using h by (simp add: N_def)
  have e: "getEpochFromHeight L (sn_height x) = Inr (of_nat N)"
    by (rule getEpochFromHeight_multiple [OF h]) (use L in \<open>simp_all add: N_def\<close>)
  have "N * 1 \<le> N * unat L" using L by (intro mult_le_mono2) simp
  also have "\<dots> < 2 ^ LENGTH(32)" using h unat_less_power [of "sn_height x"] by simp
  finally have n: "unat (of_nat N :: 32 word) = N" by (simp add: unat_of_nat)
  then have n0: "(of_nat N :: 32 word) \<noteq> 0" unfolding N_def by (metis add_is_0 one_neq_zero unat_0)
  have "sn_height (ring ! (N mod 6)) < sn_height x"
  proof (rule ring_holds_place [OF r, of "N mod 6"])
    fix e
    assume "1 \<le> e" "e \<le> length hist" "ring ! (N mod 6) = hist ! (e - 1)"
    moreover from this have "e * unat L < N * unat L" using L by (intro mult_less_mono1) (simp_all add: N_def)
    ultimately show ?thesis using ring_holds_height(1) [OF r] h by (simp add: word_less_nat_alt)
  next
    assume "ring ! (N mod 6) = zeroSnapshot"
    then show ?thesis using h L by (simp add: word_less_nat_alt N_def zeroSnapshot_def zeroClaims_def)
  qed simp
  then have s: "ring_set L x ring = Inr (of_nat N, ring[N mod 6 := x])"
    using e n n0 by (simp add: ring_set_def indexFor_def Let_def not_le)
  have "ring_holds L (hist @ [x]) (ring[N mod 6 := x])"
    using r h L unfolding ring_holds_def N_def
  proof (intro conjI ballI allI impI, goal_cases)
    case (4 e)
    show ?case
    proof (cases "e = length hist + 1")
      case False
      with 4 have e: "e mod 6 \<noteq> (length hist + 1) mod 6" "e \<in> {1..length hist}" "length hist < e + 6"
        using mod_6_window [of e "length hist + 1"] by auto
      with 4 show ?thesis by (auto simp: nth_append)
    qed (use 4 in \<open>auto simp: nth_append\<close>)
  next
    case (5 i)
    then have "i \<noteq> (length hist + 1) mod 6" by fastforce
    with 5 show ?case by auto
  qed (auto simp: nth_append le_Suc_eq)
  with s show ?thesis by (auto simp: N_def)
qed

text \<open>Which snapshots the contract still answers with.\<close>

definition remembered :: "Snapshot list \<Rightarrow> nat \<Rightarrow> Snapshot sol" where
  "remembered hist e =
     (if e = 0 \<or> (e = 1 \<and> hist = []) then Inr zeroSnapshot
      else if e \<le> length hist \<and> length hist < e + 6 then Inr (hist ! (e - 1))
      else Inl (SnapshotsError (SnapshotsNotInBuffer e)))"

lemma getSnapshot_remembered:
  assumes r: "ring_holds L hist (ss_snapshots s)"
  shows "getSnapshot L e s = remembered hist (unat e)"
proof (cases "e = 0")
  case False
  let ?e = "unat e"
  have e: "0 < ?e" using False by (simp add: unat_gt_0)
  have g: "getSnapshot L e s = sbind (getEpochFromHeight L (sn_height (ss_snapshots s ! (?e mod 6))))
      (\<lambda>x. if x \<noteq> e then Inl (SnapshotsError (SnapshotsNotInBuffer ?e)) else Inr (ss_snapshots s ! (?e mod 6)))"
    using False by (simp add: getSnapshot_def indexFor_def Let_def)
  show ?thesis
  proof (rule ring_holds_place [OF r, of "?e mod 6"])
    fix k
    assume k: "1 \<le> k" "k \<le> length hist" "length hist < k + 6" "k mod 6 = ?e mod 6"
      "ss_snapshots s ! (?e mod 6) = hist ! (k - 1)"
    have "k < 2 ^ 32" using k(2) ring_holds_small [OF r] by simp
    then have "(of_nat k :: 32 word) = e \<longleftrightarrow> k = ?e" by (auto simp: word_unat_eq_iff unat_of_nat)
    then have g: "getSnapshot L e s = (if k = ?e then Inr (hist ! (k - 1)) else Inl (SnapshotsError (SnapshotsNotInBuffer ?e)))"
      unfolding g k(5) ring_holds_height(2) [OF r k(1,2)] by simp
    have "hist \<noteq> []" using k(1,2) by auto
    moreover have "?e = k" if "?e \<le> length hist" "length hist < ?e + 6"
      using mod_6_window [of k ?e] mod_6_window [of ?e k] k that by linarith
    ultimately show ?thesis using e k unfolding g by (auto simp: remembered_def)
  next
    assume u: "\<forall>k \<in> {1..length hist}. k mod 6 \<noteq> ?e mod 6" "ss_snapshots s ! (?e mod 6) = zeroSnapshot"
    then have "\<not> ?e \<le> length hist" using e by auto
    moreover have "1 \<noteq> e \<longleftrightarrow> ?e \<noteq> 1" by (auto simp: word_unat_eq_iff)
    moreover have "hist = []" if "?e = 1" using calculation(1) that by (cases hist) simp_all
    ultimately show ?thesis using e u(2) unfolding g
      by (auto simp: remembered_def zeroSnapshot_def zeroClaims_def)
  qed simp
qed (simp add: getSnapshot_def remembered_def)

section \<open>Who is elected\<close>

text \<open>The number of validators allowed, without bounds on the numbers.\<close>

function allowed_from :: "nat \<Rightarrow> nat \<Rightarrow> nat \<Rightarrow> nat \<Rightarrow> nat \<Rightarrow> nat" where
  "allowed_from n blocks factor d a =
     (if d < blocks \<and> a < n then allowed_from n blocks factor (d + factor div a) (a + 1) else a)"
  by pat_completeness auto
termination by (relation "measure (\<lambda>(n, b, f, d, a). n - a)") auto

declare allowed_from.simps [simp del]

lemma allowed_from_bounds: "a \<le> n \<Longrightarrow> a \<le> allowed_from n b f d a \<and> allowed_from n b f d a \<le> n"
proof (induction n b f d a rule: allowed_from.induct)
  case (1 n b f d a)
  then show ?case by (subst (1 2) allowed_from.simps) fastforce
qed

lemma mult_diff_step:
  assumes "a < n"
  shows "f * (n - a) = f * (n - (a + 1)) + (f :: nat)"
proof -
  have "n - a = Suc (n - (a + 1))" using assms by simp
  then show ?thesis by simp
qed

text \<open>More blocks allow at least as many validators.\<close>

lemma allowed_from_mono: "b \<le> b' \<Longrightarrow> a \<le> n \<Longrightarrow> allowed_from n b f d a \<le> allowed_from n b' f d a"
proof (induction n b f d a rule: allowed_from.induct)
  case (1 n b f d a)
  show ?case
  proof (cases "d < b \<and> a < n")
    case True
    with 1 show ?thesis by (subst (1 2) allowed_from.simps) auto
  next
    case False
    then have "allowed_from n b f d a = a" by (subst allowed_from.simps) auto
    with allowed_from_bounds [OF "1.prems"(2), of b' f d] show ?thesis by simp
  qed
qed

text \<open>With enough blocks every validator is allowed.\<close>

lemma allowed_from_all:
  assumes "d + f * (n - a) \<le> b" and "a \<le> n" and "0 < f" and "0 < a"
  shows "allowed_from n b f d a = n"
  using assms
proof (induction n b f d a rule: allowed_from.induct)
  case (1 n b f d a)
  show ?case
  proof (cases "a < n")
    case True
    then have "f * (n - a) = f * (n - (a + 1)) + f" by (rule mult_diff_step)
    moreover have "f div a \<le> f" "0 < f * (n - a)" using True "1.prems"(3) by simp_all
    ultimately have "d < b" "d + f div a + f * (n - (a + 1)) \<le> b" using "1.prems"(1) by linarith+
    with 1 True show ?thesis by (subst allowed_from.simps) simp
  next
    case False
    with "1.prems"(2) show ?thesis by (subst allowed_from.simps) simp
  qed
qed

lemma electionLoop_allowed:
  assumes "unat d + unat f * (unat n - unat a) < 2 ^ 256" and "a \<noteq> 0" and "a \<le> n"
  shows "electionLoop n b f d a = Inr (of_nat (allowed_from (unat n) (unat b) (unat f) (unat d) (unat a)))"
  using assms
proof (induction n b f d a rule: electionLoop.induct)
  case (1 n b f d a)
  show ?case
  proof (cases "d < b \<and> a < n")
    case True
    then have an: "unat a < unat n" "unat d < unat b" by (simp_all add: word_less_nat_alt)
    then have a1: "unat (a + 1) = unat a + 1" using unat_less_power [of n] by (simp add: unat_word_ariths)
    have q: "unat f div unat a \<le> unat f" by simp
    have m: "unat f * (unat n - unat a) = unat f * (unat n - unat (a + 1)) + unat f"
      unfolding a1 by (rule mult_diff_step [OF an(1)])
    with "1.prems"(1) q have s: "unat d + unat f div unat a + unat f * (unat n - unat (a + 1)) < 2 ^ 256" by linarith
    then have d: "unat (d + f div a) = unat d + unat f div unat a" by (simp add: unat_word_ariths unat_div)
    have c: "checked_div f a = Inr (f div a)" "checked_add d (f div a) = Inr (d + f div a)"
      using "1.prems"(2) s by (simp_all add: checked_div_def checked_add_def unat_div)
    have "a + 1 \<noteq> 0" "a + 1 \<le> n" using a1 an(1) by (metis add_is_0 one_neq_zero unat_0, simp add: word_le_nat_alt)
    from "1.IH" [OF True _ this, of "d + f div a"] s d
    have "electionLoop n b f (d + f div a) (a + 1)
        = Inr (of_nat (allowed_from (unat n) (unat b) (unat f) (unat d + unat f div unat a) (unat a + 1)))"
      by (simp add: a1)
    with True c an show ?thesis by (subst electionLoop.simps, subst allowed_from.simps) simp
  next
    case False
    then have "\<not> (unat d < unat b \<and> unat a < unat n)" by (simp add: word_less_nat_alt)
    with False show ?thesis by (subst electionLoop.simps, subst allowed_from.simps) auto
  qed
qed

text \<open>The validators whose index lies in the interval from the start, around the end of the list.\<close>

lemma cyclic_mod:
  fixes start n :: nat
  assumes "start < n"
  shows "j \<le> n \<Longrightarrow> (start + j) mod n = (if start + j < n then start + j else start + j - n)"
    and "i < n \<Longrightarrow> (i + n - start) mod n = (if start \<le> i then i - start else i + n - start)"
proof -
  show "(start + j) mod n = (if start + j < n then start + j else start + j - n)" if "j \<le> n"
    using assms that by (simp add: le_mod_geq)
  show "(i + n - start) mod n = (if start \<le> i then i - start else i + n - start)" if "i < n"
    using assms that by (simp add: le_mod_geq)
qed

lemma cyclic_interval:
  fixes start k n i :: nat
  assumes "start < n" and "1 \<le> k" and "k \<le> n" and "i < n"
  shows "(if start < (start + k) mod n then start \<le> i \<and> i < (start + k) mod n else start \<le> i \<or> i < (start + k) mod n)
    \<longleftrightarrow> (i + n - start) mod n < k"
  unfolding cyclic_mod(1) [OF assms(1,3)] cyclic_mod(2) [OF assms(1,4)] using assms by auto

lemma cyclic_count:
  fixes start k n :: nat
  assumes "start < n" and "k \<le> n"
  shows "card {i. i < n \<and> (i + n - start) mod n < k} = k"
proof -
  let ?f = "\<lambda>j. if start + j < n then start + j else start + j - n"
  let ?g = "\<lambda>i. if start \<le> i then i - start else i + n - start"
  have "{i. i < n \<and> (i + n - start) mod n < k} = {i. i < n \<and> ?g i < k}"
    using cyclic_mod(2) [OF assms(1)] by auto
  moreover have "bij_betw ?f {..<k} {i. i < n \<and> ?g i < k}"
    by (rule bij_betw_byWitness [where f' = ?g]) (use assms in auto)
  ultimately show ?thesis using bij_betw_same_card by fastforce
qed

section \<open>Properties\<close>

definition elected :: "256 word \<Rightarrow> 256 word \<Rightarrow> bytes32 \<Rightarrow> 256 word \<Rightarrow> 256 word \<Rightarrow> bool" where
  "elected n blocks seed factor i =
     (case mayValidatorSnapshot n i blocks seed factor of Inl _ \<Rightarrow> False | Inr (yes, _) \<Rightarrow> yes)"

lemma elected_iff:
  assumes n: "n \<noteq> 0" "unat n < 2 ^ 128" and f: "unat factor < 2 ^ 32" and i: "unat i < unat n"
  shows "elected n blocks seed factor i \<longleftrightarrow>
    (unat i + unat n - unat seed mod unat n) mod unat n < allowed_from (unat n) (unat blocks) (unat factor) 0 1"
proof -
  let ?s = "unat seed mod unat n"
  define k where k_def: "k = allowed_from (unat n) (unat blocks) (unat factor) 0 1"
  have n0: "0 < unat n" using n(1) by (simp add: unat_gt_0)
  have "unat factor * (unat n - 1) \<le> 2 ^ 32 * 2 ^ 128" using f n(2) by (intro mult_le_mono) simp_all
  then have l: "electionLoop n blocks factor 0 1 = Inr (of_nat k)"
    using electionLoop_allowed [of 0 factor n 1 blocks] n0 by (simp add: k_def word_le_nat_alt Suc_le_eq)
  have k: "1 \<le> k" "k \<le> unat n" using allowed_from_bounds [of 1 "unat n"] n0 unfolding k_def by (simp_all add: Suc_le_eq)
  then have uk: "unat (of_nat k :: 256 word) = k" using n(2) by (simp add: unat_of_nat)
  have s: "?s < unat n" using n0 by simp
  have sk: "?s + k < 2 ^ 256"
    using add_less_le_mono [OF s k(2)] n(2) order.strict_trans [of "?s + k" "unat n + unat n" "2 ^ 256"] by simp
  have c: "checked_mod seed n = Inr (seed mod n)" "checked_add (seed mod n) (of_nat k) = Inr (seed mod n + of_nat k)"
    "checked_mod (seed mod n + of_nat k) n = Inr ((seed mod n + of_nat k) mod n)"
    using n sk by (simp_all add: checked_mod_def checked_add_def unat_mod uk)
  have e: "unat ((seed mod n + of_nat k) mod n) = (?s + k) mod unat n"
    using sk by (simp add: unat_mod unat_word_ariths uk)
  have "elected n blocks seed factor i \<longleftrightarrow>
      (if ?s < (?s + k) mod unat n then ?s \<le> unat i \<and> unat i < (?s + k) mod unat n
       else ?s \<le> unat i \<or> unat i < (?s + k) mod unat n)"
    by (simp add: elected_def mayValidatorSnapshot_def l c word_less_nat_alt word_le_nat_alt e unat_mod [of seed n])
  with cyclic_interval [OF s k i] show ?thesis unfolding k_def by simp
qed

text \<open>
  C9. The election of the validator who takes a snapshot. Of the validators, exactly as many are elected as the desperation loop allows, at
  least one and at most all of them: one while there is no desperation, never fewer when more blocks have
  passed, and all of them once the desperation factor has passed for each of them.
\<close>

theorem election_count:
  assumes n: "n \<noteq> 0" "unat n < 2 ^ 128" and f: "unat factor < 2 ^ 32" and b: "blocks \<le> blocks'"
  shows "card {i. i < unat n \<and> elected n blocks seed factor (of_nat i)}
      = allowed_from (unat n) (unat blocks) (unat factor) 0 1
    \<and> 1 \<le> allowed_from (unat n) (unat blocks) (unat factor) 0 1
    \<and> allowed_from (unat n) (unat blocks) (unat factor) 0 1 \<le> allowed_from (unat n) (unat blocks') (unat factor) 0 1
    \<and> allowed_from (unat n) (unat blocks') (unat factor) 0 1 \<le> unat n
    \<and> (blocks = 0 \<longrightarrow> allowed_from (unat n) (unat blocks) (unat factor) 0 1 = 1)
    \<and> (0 < unat factor \<and> unat factor * unat n \<le> unat blocks \<longrightarrow>
         allowed_from (unat n) (unat blocks) (unat factor) 0 1 = unat n)"
proof (intro conjI impI)
  let ?k = "\<lambda>b. allowed_from (unat n) (unat b) (unat factor) 0 1"
  have n0: "1 \<le> unat n" using n(1) by (simp add: unat_gt_0 Suc_le_eq)
  have "{i. i < unat n \<and> elected n blocks seed factor (of_nat i)}
      = {i. i < unat n \<and> (i + unat n - unat seed mod unat n) mod unat n < ?k blocks}"
  proof -
    have "unat (of_nat i :: 256 word) = i" if "i < unat n" for i using that n(2) by (simp add: unat_of_nat)
    then show ?thesis using elected_iff [OF n f] by auto
  qed
  then show "card {i. i < unat n \<and> elected n blocks seed factor (of_nat i)} = ?k blocks"
    using allowed_from_bounds [OF n0] n0 by (simp add: cyclic_count)
  show "1 \<le> ?k blocks" "?k blocks' \<le> unat n" using allowed_from_bounds [OF n0] by blast+
  show "?k blocks \<le> ?k blocks'" using b by (intro allowed_from_mono n0) (simp add: word_le_nat_alt)
  show "?k blocks = 1" if "blocks = 0" using that by (subst allowed_from.simps) simp
  assume a: "0 < unat factor \<and> unat factor * unat n \<le> unat blocks"
  have "unat factor * (unat n - 1) \<le> unat factor * unat n" by simp
  with a have "0 + unat factor * (unat n - 1) \<le> unat blocks" by linarith
  with a show "?k blocks = unat n" by (intro allowed_from_all n0) simp_all
qed

theorem election_count_witness:
  "card {i. i < 4 \<and> elected 4 0 7 40 (of_nat i)} = 1 \<and> card {i. i < 4 \<and> elected 4 160 7 40 (of_nat i)} = 4"
  using election_count [of 4 40 0 0 7] election_count [of 4 40 160 160 7] by simp

end
