(* ===== verification/Epoch_System.thy ===== *)
theory Epoch_System
  imports Snapshots_Contract
begin

text \<open>
  The contracts \<open>Snapshots\<close> and \<open>Dynamics\<close> together: \<open>snapshot\<close> advances the epoch of the one and the head of the other, and
  \<open>changeDynamicValues\<close> schedules a change relative to the epoch of the snapshots. The theory has the runs of the two
  contracts, any sequence of accepted calls, with the snapshots taken and the changes scheduled, and what the contracts
  answer after such a run.
\<close>

section \<open>Runs\<close>

text \<open>
  A run from the initialised contracts. The two lists are its history: the snapshots in the order of their epochs, and the
  changes in the order in which they were scheduled, each with the epoch from which it is to hold. Left out are
  \<open>migrateSnapshots\<close>, which skips epochs without telling \<open>Dynamics\<close>, and a configuration that lets a change begin in the
  epoch in which it is scheduled.
\<close>

inductive epochs ::
    "256 word \<Rightarrow> snapshots \<times> dynamics \<Rightarrow> Snapshot list \<Rightarrow> (32 word \<times> DynamicValues) list \<Rightarrow> bool" for L where
  start: "dynamics_initialize D (dynamics0 code n) = Inr d \<Longrightarrow> epochs L (snapshots0, d) [] [(1, initialValues)]"
| initialize: "epochs L (s, d) hist sched \<Longrightarrow> sc_epochLength C = L \<Longrightarrow> snapshots_initialize C x y s = Inr s'
    \<Longrightarrow> epochs L (s', d) hist sched"
| delay: "epochs L (s, d) hist sched \<Longrightarrow> setSnapshotDesperationDelay C x s = Inr s' \<Longrightarrow> epochs L (s', d) hist sched"
| factor: "epochs L (s, d) hist sched \<Longrightarrow> setSnapshotDesperationFactor C x s = Inr s' \<Longrightarrow> epochs L (s', d) hist sched"
| interval: "epochs L (s, d) hist sched \<Longrightarrow> setMinimumIntervalBetweenSnapshots C x s = Inr s'
    \<Longrightarrow> epochs L (s', d) hist sched"
| take: "epochs L (s, d) hist sched \<Longrightarrow> sc_epochLength C = L \<Longrightarrow> snapshot C D groupSignature bClaims (s, d) = Inr (ok, s', d')
    \<Longrightarrow> extractBClaims bClaims = Inr bc
    \<Longrightarrow> epochs L (s', d') (hist @ [\<lparr>sn_committedAt = sc_block C, sn_blockClaims = bc\<rparr>]) sched"
| change: "epochs L (s, d) hist sched \<Longrightarrow> dc_epoch D = ucast (ss_epoch s) \<Longrightarrow> changeDynamicValues D rel v d = Inr d'
    \<Longrightarrow> epochs L (s, d') hist (sched @ [(rel + ss_epoch s, v)])"
| configure: "epochs L (s, d) hist sched \<Longrightarrow> setConfiguration D cfg d = Inr d' \<Longrightarrow> 0 < cf_minEpochsBetweenUpdates cfg
    \<Longrightarrow> epochs L (s, d') hist sched"
| version: "epochs L (s, d) hist sched \<Longrightarrow> updateAliceNetNodeVersion D rel a b c binaryHash d = Inr d'
    \<Longrightarrow> epochs L (s, d') hist sched"
| store: "epochs L (s, d) hist sched \<Longrightarrow> deployStorage D data d = Inr (a, d') \<Longrightarrow> epochs L (s, d') hist sched"

text \<open>The values that hold in an epoch: those of the last change that begins no later. The initial values hold before epoch 1, too.\<close>

definition in_force :: "(32 word \<times> DynamicValues) list \<Rightarrow> nat \<Rightarrow> DynamicValues" where
  "in_force sched n = snd (last (filter (\<lambda>(e, v). unat e \<le> max 1 n) sched))"

section \<open>Moving the head\<close>

lemma schedule_rep: "schedule d sched h \<Longrightarrow> rep (dy_dynamicValues d) (map fst sched) h"
  by (simp add: schedule_def)

lemma schedule_values:
  "schedule d sched h \<Longrightarrow> (e, v) \<in> set sched \<Longrightarrow> decodeDynamicValues (getValue (dy_dynamicValues d) (ucast e)) d = Inr v"
  by (auto simp: schedule_def)

lemma schedule_sorted: "schedule d sched h \<Longrightarrow> sorted_wrt (<) (map fst sched) \<and> (\<forall>e \<in> set (map fst sched). 0 < e)"
  by (auto simp: schedule_def rep_def)

lemma succ_in_split: "distinct (map fst (ps @ (h, v) # fs)) \<Longrightarrow>
    succ_in (map fst (ps @ (h, v) # fs)) h = (case fs of [] \<Rightarrow> 0 | f # _ \<Rightarrow> fst f)"
  by (induction ps) (auto split: list.splits)

lemma pred_in_split: "distinct (map fst (ps @ (h, v) # fs)) \<Longrightarrow>
    pred_in p (map fst (ps @ (h, v) # fs)) h = (if ps = [] then p else fst (last ps))"
  by (induction ps arbitrary: p) (auto split: list.splits)

text \<open>The head moves to the change that follows it, if this change begins by now.\<close>

fun next_head :: "32 word \<Rightarrow> (32 word \<times> DynamicValues) list \<Rightarrow> 32 word \<Rightarrow> 32 word" where
  "next_head h [] n = h"
| "next_head h ((e, v) # fs) n = (if e \<le> n then e else h)"

lemma updateHead_run:
  assumes sch: "schedule d (ps @ (h, v) # fs) h" and snd: "dc_sender D = dc_snapshots D"
  shows "\<exists>d'. updateHead D n d = Inr d' \<and> schedule d' (ps @ (h, v) # fs) (next_head h fs n)
    \<and> dy_configuration d' = dy_configuration d \<and> dy_initialized d' = dy_initialized d"
proof -
  let ?es = "map fst (ps @ (h, v) # fs)" and ?l = "dy_dynamicValues d"
  note r = schedule_rep [OF sch]
  have next_epoch: "getNextEpoch ?l (getHead ?l) = (case fs of [] \<Rightarrow> 0 | f # _ \<Rightarrow> fst f)"
    using rep_links(1) [OF r, of h] succ_in_split [OF rep_distinct [OF r]] by (simp add: rep_head(1) [OF r])
  have pos: "fst f \<noteq> 0" "fst f \<in> set ?es" if "fs = f # fs'" for f fs' using rep_pos [OF r, of "fst f"] that by auto
  let ?l' = "?l\<lparr>dl_head := ucast (next_head h fs n)\<rparr>"
  have same: "?l\<lparr>dl_head := ucast h\<rparr> = ?l" using r by (simp add: rep_def)
  have "(if getNextEpoch ?l (getHead ?l) \<noteq> 0 \<and> getNextEpoch ?l (getHead ?l) \<le> n
      then setHead ?l (ucast (getNextEpoch ?l (getHead ?l))) else Inr ?l) = Inr ?l'"
    using pos same setHead_rep(1) [OF r] unfolding next_epoch by (cases "(h, fs, n)" rule: next_head.cases) auto
  then have u: "updateHead D n d = Inr (let d = d\<lparr>dy_dynamicValues := ?l'\<rparr>; c = dy_aliceNetCanonicalVersion d in
      if cv_executionEpoch c \<noteq> 0 \<and> cv_executionEpoch c = n then emit (NewCanonicalAliceNetNodeVersion c) d else d)"
    using snd by (simp add: updateHead_def onlySnapshots_def Let_def)
  have "next_head h fs n \<in> set ?es" by (cases "(h, fs, n)" rule: next_head.cases) auto
  then have r': "rep ?l' ?es (next_head h fs n)" by (rule setHead_rep(2) [OF r])
  have "schedule (d\<lparr>dy_dynamicValues := ?l'\<rparr>) (ps @ (h, v) # fs) (next_head h fs n)"
    using sch r' by (auto simp: schedule_def decodeDynamicValues_def getValue_def)
  then have "schedule (emit x (d\<lparr>dy_dynamicValues := ?l'\<rparr>)) (ps @ (h, v) # fs) (next_head h fs n)" for x
    by (rule schedule_keeps) simp_all
  with \<open>schedule (d\<lparr>dy_dynamicValues := ?l'\<rparr>) _ _\<close> u show ?thesis by (auto simp: Let_def)
qed

section \<open>The invariant of a run\<close>

text \<open>
  The ring holds the snapshots taken, the epoch counts them, and the changes are divided by the head: it and the changes
  before it begin by now, the changes behind it later.
\<close>

definition system_inv ::
    "256 word \<Rightarrow> snapshots \<times> dynamics \<Rightarrow> Snapshot list \<Rightarrow> (32 word \<times> DynamicValues) list \<Rightarrow> bool" where
  "system_inv L = (\<lambda>(s, d) hist sched.
     ring_holds L hist (ss_snapshots s) \<and> unat (ss_epoch s) = length hist
     \<and> 0 < cf_minEpochsBetweenUpdates (dy_configuration d) \<and> dy_initialized d
     \<and> (\<exists>ps h v fs. sched = ps @ (h, v) # fs \<and> schedule d sched h \<and> unat h \<le> max 1 (length hist)
          \<and> (\<forall>e \<in> set (map fst fs). max 1 (length hist) < unat e)))"

text \<open>Calls that leave the ring and the epoch alone, and those that leave the schedule alone.\<close>

lemma system_inv_snapshots:
  assumes "system_inv L (s, d) hist sched" and "ss_snapshots s' = ss_snapshots s" and "ss_epoch s' = ss_epoch s"
  shows "system_inv L (s', d) hist sched"
  using assms unfolding system_inv_def by simp

lemma system_inv_dynamics:
  assumes "system_inv L (s, d) hist sched" and "dy_dynamicValues d' = dy_dynamicValues d"
    and "\<And>a. dy_code d a \<noteq> [] \<Longrightarrow> dy_code d' a = dy_code d a"
    and "0 < cf_minEpochsBetweenUpdates (dy_configuration d')" and "dy_initialized d' = dy_initialized d"
  shows "system_inv L (s, d') hist sched"
  using assms schedule_keeps [of d sched _ d'] unfolding system_inv_def by auto metis

lemma system_inv_start:
  assumes "dynamics_initialize D (dynamics0 code n) = Inr d"
  shows "system_inv L (snapshots0, d) [] [(1, initialValues)]"
proof -
  let ?d = "dynamics0 code n\<lparr>dy_initialized := True,
    dy_configuration := \<lparr>cf_minEpochsBetweenUpdates = 2, cf_maxEpochsBetweenUpdates = 336\<rparr>\<rparr>"
  have a: "dynAddNode D 1 initialValues ?d = Inr d"
    using assms by (auto simp: dynamics_initialize_def elim!: sbind_InrE)
  have "schedule ?d [] 0" by (rule schedule_keeps [OF schedule_empty]) (simp_all add: dynamics0_def)
  note n = dynAddNode_schedule [OF this a]
  have "[(1, initialValues)] = [] @ (1, initialValues) # []" by simp
  with n show ?thesis unfolding system_inv_def
    by (auto simp: snapshots0_def ring_holds_start intro!: exI [of _ "[]"])
qed

text \<open>A snapshot.\<close>

lemma snapshot_parts:
  assumes "snapshot C D groupSignature bClaims (s, d) = Inr (ok, s', d')"
  obtains bc s1 where "extractBClaims bClaims = Inr bc" and "unat (ss_epoch s) + 1 < 2 ^ 32"
    and "unat (bc_height bc) = (unat (ss_epoch s) + 1) * unat (sc_epochLength C)"
    and "setSnapshot (sc_epochLength C) \<lparr>sn_committedAt = sc_block C, sn_blockClaims = bc\<rparr> s = Inr s1"
    and "ss_snapshots s' = ss_snapshots s1" and "ss_epoch s' = ss_epoch s + 1"
    and "updateHead (D\<lparr>dc_sender := sc_self C\<rparr>) (ss_epoch s + 1) d = Inr d'"
proof -
  from assms obtain bc s1 where p: "parseAndValidateBClaims C (ss_epoch s + 1) bClaims = Inr bc"
    and e: "checked_add (ss_epoch s) 1 = Inr (ss_epoch s + 1)"
    and s1: "setSnapshot (sc_epochLength C) \<lparr>sn_committedAt = sc_block C, sn_blockClaims = bc\<rparr> s = Inr s1"
    and s': "ss_snapshots s' = ss_snapshots s1" "ss_epoch s' = ss_epoch s + 1"
    and u: "updateHead (D\<lparr>dc_sender := sc_self C\<rparr>) (ss_epoch s + 1) d = Inr d'"
    unfolding snapshot_def Let_def by (auto simp: checked_add_def split: if_splits elim!: sbind_InrE) blast
  from e have small: "unat (ss_epoch s) + 1 < 2 ^ 32" by (simp add: checked_iffs)
  then have "unat (ss_epoch s + 1) = unat (ss_epoch s) + 1" by (simp add: unat_word_ariths)
  with p have "extractBClaims bClaims = Inr bc" "unat (bc_height bc) = (unat (ss_epoch s) + 1) * unat (sc_epochLength C)"
    by (auto simp: parseAndValidateBClaims_def checked_iffs unat_word_ariths elim!: sbind_InrE)
  with small s1 s' u show thesis by (intro that)
qed

lemma extractBClaims_height: "extractBClaims src = Inr bc \<Longrightarrow> bc_height bc \<noteq> 0"
  unfolding extractBClaims_def extractInnerBClaims_def by (auto elim!: sbind_InrE)

lemma system_inv_head:
  assumes sch: "schedule d sched h" "sched = ps @ (h, v) # fs" and u: "updateHead D e d = Inr d'" and e: "unat e = Suc n"
    and h: "unat h \<le> max 1 n" and fs: "\<forall>x \<in> set (map fst fs). max 1 n < unat x"
  shows "\<exists>ps h v fs. sched = ps @ (h, v) # fs \<and> schedule d' sched h \<and> unat h \<le> max 1 (Suc n)
    \<and> (\<forall>x \<in> set (map fst fs). max 1 (Suc n) < unat x)"
    and "dy_configuration d' = dy_configuration d" and "dy_initialized d' = dy_initialized d"
proof -
  from u have "dc_sender D = dc_snapshots D" by (auto simp: updateHead_def onlySnapshots_def elim!: sbind_InrE)
  from updateHead_run [OF sch(1) [unfolded sch(2)] this, of e] u sch(2)
  have s': "schedule d' sched (next_head h fs e)" and "dy_configuration d' = dy_configuration d"
    and "dy_initialized d' = dy_initialized d" by auto
  then show "dy_configuration d' = dy_configuration d" "dy_initialized d' = dy_initialized d" by blast+
  have order: "sorted_wrt (<) (map fst (ps @ (h, v) # fs))" using schedule_sorted [OF sch(1)] sch(2) by simp
  show "\<exists>ps h v fs. sched = ps @ (h, v) # fs \<and> schedule d' sched h \<and> unat h \<le> max 1 (Suc n)
    \<and> (\<forall>x \<in> set (map fst fs). max 1 (Suc n) < unat x)"
  proof (cases fs)
    case Nil
    with s' h sch(2) show ?thesis by (intro exI [of _ ps] exI [of _ h] exI [of _ v] exI [of _ "[]"]) auto
  next
    case (Cons f fs')
    have later: "unat (fst f) < unat x" if "x \<in> set (map fst fs')" for x
      using order that Cons by (auto simp: sorted_wrt_append word_less_nat_alt)
    show ?thesis
    proof (cases "fst f \<le> e")
      case True
      with s' Cons have "schedule d' sched (fst f)" by (cases f) simp
      with True Cons fs e later sch(2) show ?thesis
        by (intro exI [of _ "ps @ [(h, v)]"] exI [of _ "fst f"] exI [of _ "snd f"] exI [of _ fs'])
          (fastforce simp: word_le_nat_alt)
    next
      case False
      with s' Cons have "schedule d' sched h" by (cases f) simp
      with False Cons h e later sch(2) show ?thesis
        by (intro exI [of _ ps] exI [of _ h] exI [of _ v] exI [of _ fs]) (fastforce simp: word_le_nat_alt)
    qed
  qed
qed

lemma system_inv_take:
  assumes inv: "system_inv (sc_epochLength C) (s, d) hist sched"
    and t: "snapshot C D groupSignature bClaims (s, d) = Inr (ok, s', d')" and bc: "extractBClaims bClaims = Inr bc"
  shows "system_inv (sc_epochLength C) (s', d') (hist @ [\<lparr>sn_committedAt = sc_block C, sn_blockClaims = bc\<rparr>]) sched"
proof -
  let ?x = "\<lparr>sn_committedAt = sc_block C, sn_blockClaims = bc\<rparr>" and ?L = "sc_epochLength C"
  from t bc obtain s1 where small: "unat (ss_epoch s) + 1 < 2 ^ 32"
    and height: "unat (bc_height bc) = (unat (ss_epoch s) + 1) * unat ?L"
    and s1: "setSnapshot ?L ?x s = Inr s1" and s': "ss_snapshots s' = ss_snapshots s1" "ss_epoch s' = ss_epoch s + 1"
    and u: "updateHead (D\<lparr>dc_sender := sc_self C\<rparr>) (ss_epoch s + 1) d = Inr d'"
    by (auto elim!: snapshot_parts)
  from inv obtain ps h v fs where ring: "ring_holds ?L hist (ss_snapshots s)" and n: "unat (ss_epoch s) = length hist"
    and cfg: "0 < cf_minEpochsBetweenUpdates (dy_configuration d)" "dy_initialized d"
    and sch: "schedule d sched h" "sched = ps @ (h, v) # fs" and h: "unat h \<le> max 1 (length hist)"
    and fs: "\<forall>e \<in> set (map fst fs). max 1 (length hist) < unat e"
    unfolding system_inv_def by auto
  have L: "0 < unat ?L"
    using extractBClaims_height [OF bc] height unfolding word_unat_eq_iff by (cases "unat ?L") simp_all
  obtain ring' where "ring_set ?L ?x (ss_snapshots s) = Inr (of_nat (length hist + 1), ring')" "ring_holds ?L (hist @ [?x]) ring'"
    using ring_set_next [OF ring, of ?x] height n L by auto
  then have ring': "ring_holds ?L (hist @ [?x]) (ss_snapshots s')" using s1 s' by (auto simp: setSnapshot_def)
  have e: "unat (ss_epoch s + 1) = Suc (length hist)" using small n by (simp add: unat_word_ariths)
  have len: "length (hist @ [?x]) = Suc (length hist)" by simp
  note head = system_inv_head [OF sch u e h fs]
  show ?thesis
    unfolding system_inv_def prod.case len
    by (intro conjI ring' head(1)) (simp_all only: s'(2) e head(2,3) cfg)
qed

text \<open>A change is scheduled behind all others, and for a later epoch.\<close>

lemma system_inv_change:
  assumes inv: "system_inv L (s, d) hist sched" and e: "dc_epoch D = ucast (ss_epoch s)"
    and c: "changeDynamicValues D rel v d = Inr d'"
  shows "system_inv L (s, d') hist (sched @ [(rel + ss_epoch s, v)])"
proof -
  from inv obtain ps h w fs where n: "unat (ss_epoch s) = length hist"
    and cfg: "0 < cf_minEpochsBetweenUpdates (dy_configuration d)" "dy_initialized d"
    and sch: "schedule d sched h" "sched = ps @ (h, w) # fs" and h: "unat h \<le> max 1 (length hist)"
    and fs: "\<forall>e \<in> set (map fst fs). max 1 (length hist) < unat e"
    unfolding system_inv_def by auto
  let ?e = "rel + ss_epoch s"
  from c e have min: "cf_minEpochsBetweenUpdates (dy_configuration d) \<le> ucast rel" and sum: "unat rel + unat (ss_epoch s) < 2 ^ 32"
    and a: "dynAddNode D ?e v d = Inr d'"
    by (auto simp: changeDynamicValues_def computeExecutionEpoch_def Let_def checked_add_def ucast_up_down
      split: if_splits elim!: sbind_InrE)
  note m = dynAddNode_schedule [OF sch(1) a]
  have "0 < unat rel" using less_le_trans [OF cfg(1) min] by (simp add: word_less_nat_alt)
  then have "length hist < unat ?e" using n sum by (simp add: unat_word_ariths)
  moreover have "1 < unat ?e"
  proof -
    have "0 < h" "h \<le> last (0 # map fst sched)"
      using rep_pos [OF schedule_rep [OF sch(1)]] rep_last [OF schedule_rep [OF sch(1)]] sch(2) by auto
    with m(1) have "0 < h" "h < ?e" by auto
    then show ?thesis by (simp add: word_less_nat_alt)
  qed
  ultimately have fs': "\<forall>x \<in> set (map fst (fs @ [(?e, v)])). max 1 (length hist) < unat x" using fs by auto
  have sch': "schedule d' (sched @ [(?e, v)]) h" using m(2) sch(2) by simp
  have split: "sched @ [(?e, v)] = ps @ (h, w) # (fs @ [(?e, v)])" using sch(2) by simp
  from inv have "ring_holds L hist (ss_snapshots s)" by (simp add: system_inv_def)
  then show ?thesis
    unfolding system_inv_def prod.case
    by (intro conjI exI [of _ ps] exI [of _ h] exI [of _ w] exI [of _ "fs @ [(?e, v)]"] split sch' h fs')
      (simp_all only: n m(3,4) cfg)
qed

lemma computeExecutionEpoch_iff:
  assumes "dc_epoch D = ucast (n :: 32 word)"
  shows "computeExecutionEpoch D rel d = Inr e \<longleftrightarrow>
    unat (cf_minEpochsBetweenUpdates (dy_configuration d)) \<le> unat rel
    \<and> unat rel \<le> unat (cf_maxEpochsBetweenUpdates (dy_configuration d))
    \<and> unat rel + unat n < 2 ^ 32 \<and> e = rel + n"
  using assms by (auto simp: computeExecutionEpoch_def Let_def checked_add_def ucast_up_down word_less_nat_alt)

lemma epochs_inv: "epochs L sd hist sched \<Longrightarrow> system_inv L sd hist sched"
proof (induction rule: epochs.induct)
  case (start D code n d)
  then show ?case by (rule system_inv_start)
next
  case (take s d hist sched C D groupSignature bClaims ok s' d' bc)
  then show ?case using system_inv_take by blast
next
  case (change s d hist sched D rel v d')
  then show ?case by (intro system_inv_change)
next
  case (configure s d hist sched D cfg d')
  show ?case
    by (rule system_inv_dynamics [OF configure.IH]) (use configure.hyps in \<open>auto simp: setConfiguration_def elim!: sbind_InrE\<close>)
next
  case (version s d hist sched D rel a b c binaryHash d')
  then have "0 < cf_minEpochsBetweenUpdates (dy_configuration d)" by (simp add: system_inv_def)
  then show ?case
    by (intro system_inv_dynamics [OF version.IH])
      (use version.hyps in \<open>auto simp: updateAliceNetNodeVersion_def Let_def elim!: sbind_InrE split: if_splits\<close>)
next
  case (store s d hist sched D data a d')
  then have "0 < cf_minEpochsBetweenUpdates (dy_configuration d)" by (simp add: system_inv_def)
  then show ?case
    by (intro system_inv_dynamics [OF store.IH]) (use store.hyps in \<open>auto simp: deployStorage_Inr\<close>)
qed (auto simp: snapshots_initialize_def setSnapshotDesperationDelay_def setSnapshotDesperationFactor_def
  setMinimumIntervalBetweenSnapshots_def elim!: sbind_InrE intro: system_inv_snapshots)

section \<open>What holds in an epoch\<close>

lemma in_force_split:
  assumes "sorted_wrt (<) (map fst (ps @ (h, v) # fs))" and "unat h \<le> max 1 n" and "\<forall>e \<in> set (map fst fs). max 1 n < unat e"
  shows "filter (\<lambda>(e, v). unat e \<le> max 1 n) (ps @ (h, v) # fs) = ps @ [(h, v)]" and "in_force (ps @ (h, v) # fs) n = v"
proof -
  have "\<forall>(e, w) \<in> set ps. unat e \<le> max 1 n"
    using assms(1,2) by (fastforce simp: sorted_wrt_append word_less_nat_alt)
  then have "filter (\<lambda>(e, v). unat e \<le> max 1 n) ps = ps" by (intro filter_True) auto
  moreover have "filter (\<lambda>(e, v). unat e \<le> max 1 n) fs = []" using assms(3) by (auto simp: filter_empty_conv)
  ultimately show f: "filter (\<lambda>(e, v). unat e \<le> max 1 n) (ps @ (h, v) # fs) = ps @ [(h, v)]" using assms(2) by simp
  show "in_force (ps @ (h, v) # fs) n = v" unfolding in_force_def f by simp
qed

lemma epochs_first: "epochs L sd hist sched \<Longrightarrow> sched \<noteq> [] \<and> fst (hd sched) = 1"
  by (induction rule: epochs.induct) auto

text \<open>How many changes came into force behind an epoch.\<close>

definition changes_since :: "(32 word \<times> DynamicValues) list \<Rightarrow> nat \<Rightarrow> nat \<Rightarrow> nat" where
  "changes_since sched k n = length (filter (\<lambda>(e, v). k < unat e \<and> unat e \<le> n) sched)"

lemma changes_since_split:
  assumes "sorted_wrt (<) (map fst (ps @ (h, v) # fs))" and "unat h \<le> max 1 n" and "\<forall>e \<in> set (map fst fs). max 1 n < unat e"
    and "1 \<le> k" and "k \<le> max 1 n"
  shows "changes_since (ps @ (h, v) # fs) k n \<le> 1 \<longleftrightarrow> unat h \<le> k \<or> ps = [] \<or> unat (fst (last ps)) \<le> k"
proof -
  let ?P = "\<lambda>(e, v :: DynamicValues). k < unat (e :: 32 word) \<and> unat e \<le> n"
  have fs: "filter ?P fs = []" using assms(3) by (auto simp: filter_empty_conv)
  have ps: "unat (fst x) < unat h" if "x \<in> set ps" for x
    using assms(1) that by (auto simp: sorted_wrt_append word_less_nat_alt)
  have last: "unat (fst x) \<le> unat (fst (last ps))" if "x \<in> set ps" for x
    using sorted_last [of "map fst ps" "fst x"] that assms(1)
    by (cases "ps = []") (auto simp: sorted_wrt_append last_map word_le_nat_alt)
  show ?thesis
  proof (cases "unat h \<le> k")
    case True
    then have "filter ?P ps = []" using ps by (force simp: filter_empty_conv)
    with True fs show ?thesis by (simp add: changes_since_def)
  next
    case False
    then have hn: "unat h \<le> n" "k < unat h" using assms(2,4) by auto
    have "filter ?P ps = [] \<longleftrightarrow> ps = [] \<or> unat (fst (last ps)) \<le> k"
    proof (cases "ps = []")
      case False
      have "?P x \<longleftrightarrow> k < unat (fst x)" if "x \<in> set ps" for x using ps [OF that] hn by (cases x) auto
      then have "filter ?P ps = [] \<longleftrightarrow> (\<forall>x \<in> set ps. unat (fst x) \<le> k)" by (auto simp: filter_empty_conv not_less)
      with False last show ?thesis by (meson last_in_set order_trans)
    qed simp
    with False hn fs show ?thesis by (simp add: changes_since_def)
  qed
qed

section \<open>When a call is accepted\<close>

text \<open>The block at which the last snapshot was taken, 0 before the first.\<close>

definition lastCommitted :: "Snapshot list \<Rightarrow> 256 word" where
  "lastCommitted hist = (if hist = [] then 0 else sn_committedAt (last hist))"

lemma getLatestSnapshot_run:
  assumes "system_inv L (s, d) hist sched"
  obtains x where "getLatestSnapshot L s = Inr x" and "sn_committedAt x = lastCommitted hist"
proof -
  from assms have "ring_holds L hist (ss_snapshots s)" and n: "unat (ss_epoch s) = length hist" by (auto simp: system_inv_def)
  then have "getLatestSnapshot L s = remembered hist (length hist)" by (simp add: getLatestSnapshot_def getSnapshot_remembered)
  then show thesis
    by (intro that [of "if hist = [] then zeroSnapshot else last hist"])
      (auto simp: remembered_def lastCommitted_def zeroSnapshot_def last_conv_nth)
qed

lemma setSnapshot_next:
  assumes "system_inv L (s, d) hist sched" and "unat (sn_height x) = (length hist + 1) * unat L" and "0 < unat L"
  obtains s1 where "setSnapshot L x s = Inr s1"
  using ring_set_next [of L hist "ss_snapshots s" x] assms by (auto simp: system_inv_def setSnapshot_def)

lemma updateHead_next:
  assumes "system_inv L (s, d) hist sched"
  shows "(\<exists>d'. updateHead D e d = Inr d') \<longleftrightarrow> dc_sender D = dc_snapshots D"
proof
  assume D: "dc_sender D = dc_snapshots D"
  from assms obtain ps h v fs where "schedule d sched h" "sched = ps @ (h, v) # fs" by (auto simp: system_inv_def)
  with updateHead_run [of d ps h v fs D e] D show "\<exists>d'. updateHead D e d = Inr d'" by auto
qed (auto simp: updateHead_def onlySnapshots_def elim!: sbind_InrE)

lemma parse_next:
  assumes "unat (ss_epoch s) = n" and "unat (ss_epoch s) + 1 < 2 ^ 32"
  shows "parseAndValidateBClaims C (ss_epoch s + 1) bClaims = Inr bc \<longleftrightarrow>
    extractBClaims bClaims = Inr bc \<and> unat (bc_height bc) = (n + 1) * unat (sc_epochLength C)
    \<and> unat (bc_chainId bc) = unat (sc_chainId C)"
proof -
  have e: "unat (ss_epoch s + 1) = n + 1" using assms by (simp add: unat_word_ariths)
  have "unat (bc_height bc) < 2 ^ 256" using unat_less_power [of "bc_height bc"] by (simp add: less_trans)
  with e show ?thesis
    by (auto simp: parseAndValidateBClaims_def sbind_Inr_iff checked_iffs word_unat_eq_iff
      intro!: exI [of _ "ucast (bc_height bc) :: 256 word"])
qed

lemma interval_iff:
  "checkSnapshotMinimumInterval C t s = Inr () \<longleftrightarrow> unat t + unat (ss_minimumIntervalBetweenSnapshots s) \<le> unat (sc_block C)"
proof
  assume "unat t + unat (ss_minimumIntervalBetweenSnapshots s) \<le> unat (sc_block C)"
  moreover from this have "unat t + unat (ss_minimumIntervalBetweenSnapshots s) < 2 ^ LENGTH(256)"
    using unat_less_power [of "sc_block C"] by (rule le_less_trans)
  ultimately show "checkSnapshotMinimumInterval C t s = Inr ()"
    by (simp add: checkSnapshotMinimumInterval_def checked_add_def word_less_nat_alt unat_word_ariths)
qed (auto simp: checkSnapshotMinimumInterval_def checked_iffs word_less_nat_alt not_less elim!: sbind_InrE)

lemma snapshot_accepts:
  assumes inv: "system_inv (sc_epochLength C) (s, d) hist sched" and "dc_snapshots D = sc_self C"
  shows "(\<exists>ok s' d'. snapshot C D groupSignature bClaims (s, d) = Inr (ok, s', d')) \<longleftrightarrow>
    sc_isValidator C (sc_sender C) \<and> sc_isConsensusRunning C
    \<and> (\<exists>bc. extractBClaims bClaims = Inr bc \<and> unat (bc_height bc) = (length hist + 1) * unat (sc_epochLength C)
         \<and> unat (bc_chainId bc) = unat (sc_chainId C))
    \<and> unat (lastCommitted hist) + unat (ss_minimumIntervalBetweenSnapshots s) \<le> unat (sc_block C)
    \<and> isValidatorElectedToPerformSnapshot C (sc_sender C) (lastCommitted hist) (sc_keccak C groupSignature) s = Inr ()
    \<and> (\<exists>key sig. checkBClaimsSignature C groupSignature bClaims = Inr (key, sig))"
    (is "?acc \<longleftrightarrow> ?cond")
proof -
  from inv have n: "unat (ss_epoch s) = length hist" by (simp add: system_inv_def)
  obtain x where x: "getLatestSnapshot (sc_epochLength C) s = Inr x" "sn_committedAt x = lastCommitted hist"
    by (rule getLatestSnapshot_run [OF inv])
  show ?thesis
  proof
    assume ?acc
    then obtain bc k where small: "unat (ss_epoch s) + 1 < 2 ^ 32" and "parseAndValidateBClaims C (ss_epoch s + 1) bClaims = Inr bc"
      and "sc_isValidator C (sc_sender C)" "sc_isConsensusRunning C" "checkSnapshotMinimumInterval C (lastCommitted hist) s = Inr ()"
        "isValidatorElectedToPerformSnapshot C (sc_sender C) (lastCommitted hist) (sc_keccak C groupSignature) s = Inr ()"
        "checkBClaimsSignature C groupSignature bClaims = Inr k"
      unfolding snapshot_def Let_def
      by (auto simp: checked_add_def x split: if_splits elim!: sbind_InrE)
    then show ?cond unfolding parse_next [OF n small] interval_iff by (cases k) auto
  next
    assume c: ?cond
    then obtain bc where bc: "extractBClaims bClaims = Inr bc" "unat (bc_height bc) = (length hist + 1) * unat (sc_epochLength C)"
      "unat (bc_chainId bc) = unat (sc_chainId C)" by auto
    have L: "0 < unat (sc_epochLength C)"
      using extractBClaims_height [OF bc(1)] bc(2) unfolding word_unat_eq_iff by (cases "unat (sc_epochLength C)") simp_all
    have "(length hist + 1) * 1 \<le> (length hist + 1) * unat (sc_epochLength C)" using L by (intro mult_le_mono2) simp
    also have "\<dots> < 2 ^ LENGTH(32)" unfolding bc(2) [symmetric] by (rule unat_less_power)
    finally have small: "unat (ss_epoch s) + 1 < 2 ^ 32" using n by simp
    obtain s1 where s1: "setSnapshot (sc_epochLength C) \<lparr>sn_committedAt = sc_block C, sn_blockClaims = bc\<rparr> s = Inr s1"
      by (rule setSnapshot_next [OF inv, of "\<lparr>sn_committedAt = sc_block C, sn_blockClaims = bc\<rparr>"]) (use bc(2) L in auto)
    obtain d' where d': "updateHead (D\<lparr>dc_sender := sc_self C\<rparr>) (ss_epoch s + 1) d = Inr d'"
      using updateHead_next [OF inv, of "D\<lparr>dc_sender := sc_self C\<rparr>"] assms(2) by auto
    have "parseAndValidateBClaims C (ss_epoch s + 1) bClaims = Inr bc" "checked_add (ss_epoch s) 1 = Inr (ss_epoch s + 1)"
      "checkSnapshotMinimumInterval C (lastCommitted hist) s = Inr ()"
      using bc small c unfolding parse_next [OF n small] interval_iff by (simp_all add: checked_add_def)
    with c x s1 d' show ?acc by (auto simp: snapshot_def Let_def)
  qed
qed

text \<open>The entry of a change is accepted behind the last epoch of the schedule, at an unused address.\<close>

lemma dynAddNode_accepted:
  assumes h: "schedule d sched h"
  shows "(\<exists>d'. dynAddNode D e v d = Inr d') \<longleftrightarrow>
    last (0 # map fst sched) < e \<and> dc_create D (dy_nonce d) \<noteq> 0 \<and> dy_code d (dc_create D (dy_nonce d)) = []"
proof -
  have enc: "take (Suc 0) (encodeDynamicValues v) \<noteq> [0xef]"
    by (cases "dv_encoderVersion v") (simp add: encodeDynamicValues_def)
  show ?thesis
    by (auto simp: dynAddNode_def Let_def sbind_Inr_iff deployStorage_Inr addNode_cases [OF schedule_rep [OF h]] enc
      simp del: last.simps split: if_splits)
qed

lemma dynAddNode_chain:
  assumes "dynAddNode D e v d = Inr d'"
  shows "dy_nonce d' = dy_nonce d + 1"
    and "dy_code d' = (dy_code d)(dc_create D (dy_nonce d) := encodeDynamicValues v @ replicate 8 0)"
  using assms by (auto simp: dynAddNode_def Let_def deployStorage_Inr elim!: sbind_InrE)

lemma changeDynamicValues_split:
  assumes "dc_epoch D = ucast n"
  shows "changeDynamicValues D rel v d = Inr d' \<longleftrightarrow>
    dc_sender D = dc_factory D \<and> computeExecutionEpoch D rel d = Inr (rel + n) \<and> dynAddNode D (rel + n) v d = Inr d'"
  by (auto simp: changeDynamicValues_def onlyFactory_def sbind_Inr_iff computeExecutionEpoch_iff [OF assms])

text \<open>The compacted version orders versions by their parts.\<close>

lemma computeCompactedVersion_value:
  "unat (computeCompactedVersion (ucast (a :: 32 word)) (ucast (b :: 32 word)) (ucast (c :: 32 word)))
    = unat a * 2 ^ 64 + unat b * 2 ^ 32 + unat c"
proof -
  let ?a = "ucast a :: 256 word" and ?b = "ucast b :: 256 word" and ?c = "ucast c :: 256 word"
  have less: "unat (ucast x :: 256 word) < 2 ^ 32" for x :: "32 word" using unat_less_power [of x] by simp
  have "push_bit 64 ?a = push_bit 32 (push_bit 32 ?a)" by simp
  then have "computeCompactedVersion ?a ?b ?c = push_bit 32 (push_bit 32 ?a OR ?b) OR ?c"
    by (simp add: computeCompactedVersion_def push_bit_or)
  moreover note ab = join_words [OF less [of a] _ less [of b]]
  moreover note abc = join_words(1) [OF ab(2) _ less [of c]]
  ultimately show ?thesis by simp
qed

definition newer :: "32 word \<times> 32 word \<times> 32 word \<Rightarrow> 32 word \<times> 32 word \<times> 32 word \<Rightarrow> bool" where
  "newer = (\<lambda>(a, b, c) (a', b', c'). a' < a \<or> a = a' \<and> (b' < b \<or> b = b' \<and> c' < c))"

lemma compacted_newer:
  "computeCompactedVersion (ucast a') (ucast b') (ucast c') < computeCompactedVersion (ucast a) (ucast b) (ucast c)
    \<longleftrightarrow> newer (a, b, c) (a', b', c')"
proof -
  have bound: "unat x < 4294967296" for x :: "32 word" using unat_less_power [of x] by simp
  show ?thesis
    using bound [of b] bound [of b'] bound [of c] bound [of c']
    unfolding word_less_nat_alt computeCompactedVersion_value newer_def prod.case word_unat_eq_iff power_numeral
    by simp linarith
qed

section \<open>Properties\<close>





text \<open>
  C21. When a change of the dynamic values is accepted, after any run: if and only if the factory sends it, the number of epochs until it
  holds is within the configured bounds, its epoch fits its 32 bits and lies behind that of every earlier change, and the
  storage contract can be created. The order of the accepted changes is therefore the order in which they come into force.
\<close>

theorem change_accepted:
  assumes "epochs L (s, d) hist sched" and e: "dc_epoch D = ucast (ss_epoch s)"
  shows "(\<exists>d'. changeDynamicValues D rel v d = Inr d') \<longleftrightarrow>
    dc_sender D = dc_factory D
    \<and> unat (cf_minEpochsBetweenUpdates (dy_configuration d)) \<le> unat rel
    \<and> unat rel \<le> unat (cf_maxEpochsBetweenUpdates (dy_configuration d))
    \<and> unat rel + length hist < 2 ^ 32 \<and> (\<forall>x \<in> set sched. unat (fst x) < unat rel + length hist)
    \<and> dc_create D (dy_nonce d) \<noteq> 0 \<and> dy_code d (dc_create D (dy_nonce d)) = []"
proof -
  from epochs_inv [OF assms(1)] obtain h where n: "unat (ss_epoch s) = length hist" and sch: "schedule d sched h" "sched \<noteq> []"
    unfolding system_inv_def by auto
  have "(last (0 # map fst sched) < rel + ss_epoch s) \<longleftrightarrow> (\<forall>x \<in> set sched. unat (fst x) < unat rel + length hist)"
    if "unat rel + length hist < 2 ^ 32"
  proof -
    have u: "unat (rel + ss_epoch s) = unat rel + length hist" using that n by (simp add: unat_word_ariths)
    have "\<forall>x \<in> set sched. fst x \<le> last (0 # map fst sched)"
      using rep_last [OF schedule_rep [OF sch(1)]] by (auto simp del: last.simps)
    moreover have "last (0 # map fst sched) \<in> fst ` set sched"
      using sch(2) last_in_set [of "map fst sched"] by simp
    ultimately show ?thesis unfolding word_less_nat_alt u word_le_nat_alt by (fastforce simp del: last.simps)
  qed
  then show ?thesis
    using dynAddNode_accepted [OF sch(1), of D "rel + ss_epoch s" v] unfolding changeDynamicValues_split [OF e] computeExecutionEpoch_iff [OF e] n by auto
qed

text \<open>
  C20. When a new version of the node is accepted, and what is then stored: if and only if the factory sends it, its epoch is within the
  configured bounds, the version is newer than the current one in the order of major, minor and patch number, though by
  at most one major number, and its hash is new and not 0. The call stores this version and announces it; every other call reverts.
\<close>

theorem updateAliceNetNodeVersion_iff:
  assumes e: "dc_epoch D = ucast (n :: 32 word)" and v: "v = dy_aliceNetCanonicalVersion d"
    and w: "w = \<lparr>cv_major = a, cv_minor = b, cv_patch = c, cv_executionEpoch = rel + n, cv_binaryHash = binaryHash\<rparr>"
  shows "updateAliceNetNodeVersion D rel a b c binaryHash d = Inr d' \<longleftrightarrow>
    dc_sender D = dc_factory D
    \<and> unat (cf_minEpochsBetweenUpdates (dy_configuration d)) \<le> unat rel
    \<and> unat rel \<le> unat (cf_maxEpochsBetweenUpdates (dy_configuration d)) \<and> unat rel + unat n < 2 ^ 32
    \<and> newer (a, b, c) (cv_major v, cv_minor v, cv_patch v)
    \<and> unat a \<le> unat (cv_major v) + 1 \<and> unat (cv_major v) + 1 < 2 ^ 32
    \<and> binaryHash \<noteq> 0 \<and> binaryHash \<noteq> cv_binaryHash v
    \<and> d' = emit (NewAliceNetNodeVersionAvailable w) (d\<lparr>dy_aliceNetCanonicalVersion := w\<rparr>)"
proof -
  define G where "G = (if computeCompactedVersion (ucast a) (ucast b) (ucast c)
      \<le> computeCompactedVersion (ucast (cv_major v)) (ucast (cv_minor v)) (ucast (cv_patch v)) then Inr True
    else sbind (checked_add (cv_major v) 1) (\<lambda>m. Inr (m < a)))"
  have G: "G = Inr False \<longleftrightarrow> newer (a, b, c) (cv_major v, cv_minor v, cv_patch v)
      \<and> unat a \<le> unat (cv_major v) + 1 \<and> unat (cv_major v) + 1 < 2 ^ 32"
    unfolding G_def compacted_newer [symmetric]
    by (auto simp: checked_add_def word_less_nat_alt word_le_nat_alt unat_word_ariths)
  have "updateAliceNetNodeVersion D rel a b c binaryHash d = Inr d' \<longleftrightarrow>
      dc_sender D = dc_factory D \<and> computeExecutionEpoch D rel d = Inr (rel + n) \<and> G = Inr False
      \<and> binaryHash \<noteq> 0 \<and> binaryHash \<noteq> cv_binaryHash v
      \<and> d' = emit (NewAliceNetNodeVersionAvailable w) (d\<lparr>dy_aliceNetCanonicalVersion := w\<rparr>)"
    unfolding updateAliceNetNodeVersion_def Let_def v [symmetric] G_def [symmetric] w
    by (cases G; cases "projr G")
      (auto simp: onlyFactory_def sbind_Inr_iff computeExecutionEpoch_iff [OF e] revert_if_def split: if_splits)
  then show ?thesis unfolding G computeExecutionEpoch_iff [OF e] by blast
qed

section \<open>A run\<close>

text \<open>
  The initial contracts, a change for two epochs later and the snapshot of the first epoch, with concrete
  functions for the contracts that are parameters.
\<close>

definition sampleD :: dynamics_call where
  "sampleD = \<lparr>dc_sender = 1, dc_factory = 1, dc_snapshots = 2, dc_epoch = 0, dc_create = \<lambda>n. 100 + of_nat n\<rparr>"

definition sampleC :: snapshots_call where
  "sampleC = \<lparr>sc_sender = 7, sc_self = 2, sc_factory = 1, sc_block = 5000, sc_chainId = 21, sc_epochLength = 1024,
     sc_isValidator = (\<lambda>a. a = 7), sc_isConsensusRunning = True, sc_isMaintenanceScheduled = False, sc_validatorsCount = 4,
     sc_participantIndex = (\<lambda>a. Inr 1), sc_keccak = (\<lambda>bs. of_nat (length bs)), sc_masterPublicKeyHash = 128,
     sc_verifySignature = (\<lambda>m s k. Inr True)\<rparr>"

definition sampleClaims :: "byte list" where
  "sampleClaims = [0, 0, 0, 0, 2, 0, 0, 0, 21, 0, 0, 0, 0, 4, 0, 0] @ replicate 168 0"

definition sampleValues :: DynamicValues where
  "sampleValues = initialValues\<lparr>dv_dataStoreFee := 9\<rparr>"

lemma sample_start:
  obtains d where "epochs 1024 (snapshots0, d) [] [(1, initialValues)]" and "dy_nonce d = 1"
    and "\<forall>a. a \<noteq> 100 \<longrightarrow> dy_code d a = []"
    and "dy_configuration d = \<lparr>cf_minEpochsBetweenUpdates = 2, cf_maxEpochsBetweenUpdates = 336\<rparr>"
proof -
  let ?d = "dynamics0 (\<lambda>a. []) 0\<lparr>dy_initialized := True,
    dy_configuration := \<lparr>cf_minEpochsBetweenUpdates = 2, cf_maxEpochsBetweenUpdates = 336\<rparr>\<rparr>"
  have s: "schedule ?d [] 0" by (rule schedule_keeps [OF schedule_empty]) (simp_all add: dynamics0_def)
  then obtain d where d: "dynAddNode sampleD 1 initialValues ?d = Inr d"
    using dynAddNode_accepted [OF s, of sampleD 1 initialValues] by (auto simp: sampleD_def dynamics0_def)
  then have "dynamics_initialize sampleD (dynamics0 (\<lambda>a. []) 0) = Inr d"
    by (simp add: dynamics_initialize_def onlyFactory_def sampleD_def dynamics0_def)
  from epochs.start [OF this] dynAddNode_chain [OF d] dynAddNode_schedule(3) [OF s d] show thesis
    by (intro that [of d]) (simp_all add: sampleD_def dynamics0_def)
qed

lemma sample_change:
  obtains d where "epochs 1024 (snapshots0, d) [] [(1, initialValues), (2, sampleValues)]"
proof -
  obtain d where d: "epochs 1024 (snapshots0, d) [] [(1, initialValues)]" "dy_nonce d = 1" "\<forall>a. a \<noteq> 100 \<longrightarrow> dy_code d a = []"
    "dy_configuration d = \<lparr>cf_minEpochsBetweenUpdates = 2, cf_maxEpochsBetweenUpdates = 336\<rparr>"
    by (rule sample_start)
  have e: "dc_epoch sampleD = ucast (0 :: 32 word)" by (simp add: sampleD_def)
  from epochs_inv [OF d(1)] obtain h where "schedule d [(1, initialValues)] h" by (auto simp: system_inv_def)
  from dynAddNode_accepted [OF this, of sampleD 2 sampleValues] d obtain d' where
    "dynAddNode sampleD 2 sampleValues d = Inr d'" by (auto simp: sampleD_def)
  then have "changeDynamicValues sampleD 2 sampleValues d = Inr d'"
    unfolding changeDynamicValues_split [OF e] computeExecutionEpoch_iff [OF e] by (simp add: d(4) sampleD_def)
  from epochs.change [OF d(1) _ this] show thesis by (intro that [of d']) (simp add: e snapshots0_def)
qed

definition sampleBClaims :: BClaims where
  "sampleBClaims = \<lparr>bc_chainId = 21, bc_height = 1024, bc_txCount = 0, bc_prevBlock = 0, bc_txRoot = 0, bc_stateRoot = 0,
     bc_headerRoot = 0\<rparr>"

lemma be_nat_zeros: "be_nat (replicate n 0) = 0"
  by (induction n) simp_all

lemma sample_claims: "extractBClaims sampleClaims = Inr sampleBClaims"
proof -
  have "getPointerOffsetAdjustment sampleClaims 4 = Inr 0"
    by (simp add: getPointerOffsetAdjustment_iff sampleClaims_def le_nat_def)
  moreover have "extractInnerBClaims sampleClaims 8 0 = Inr sampleBClaims"
    by (simp add: extractInnerBClaims_iff claimsAt_def sampleClaims_def sampleBClaims_def le_nat_def be_nat_zeros take_replicate)
  ultimately show ?thesis by (simp add: extractBClaims_def)
qed

lemma sample_accepted:
  assumes "system_inv 1024 (snapshots0, d) [] sched"
  shows "\<exists>ok s' d'. snapshot sampleC sampleD (replicate 192 0) sampleClaims (snapshots0, d) = Inr (ok, s', d')"
proof -
  have elected: "isValidatorElectedToPerformSnapshot sampleC 7 0 192 snapshots0 = Inr ()"
    by (simp add: isValidatorElectedToPerformSnapshot_def sampleC_def snapshots0_def mayValidatorSnapshot_def Let_def
      electionLoop.simps checked_sub_def checked_add_def checked_mod_def checked_div_def)
  have signature: "\<exists>key sig. checkBClaimsSignature sampleC (replicate 192 0) sampleClaims = Inr (key, sig)"
    by (simp add: checkBClaimsSignature_def sampleC_def extractSigGroup_run wordsAt_def upt_rec Let_def)
  have "system_inv (sc_epochLength sampleC) (snapshots0, d) [] sched" "dc_snapshots sampleD = sc_self sampleC"
    using assms by (simp_all add: sampleC_def sampleD_def)
  from snapshot_accepts [OF this, of "replicate 192 0" sampleClaims] elected signature sample_claims show ?thesis
    by (auto simp: lastCommitted_def sampleBClaims_def snapshots0_def) (simp_all add: sampleC_def)
qed

definition sampleSnapshot :: Snapshot where
  "sampleSnapshot = \<lparr>sn_committedAt = 5000, sn_blockClaims = sampleBClaims\<rparr>"

lemma sample_run:
  obtains s d where "epochs 1024 (s, d) [sampleSnapshot] [(1, initialValues), (2, sampleValues)]"
proof -
  obtain d where d: "epochs 1024 (snapshots0, d) [] [(1, initialValues), (2, sampleValues)]" by (rule sample_change)
  from sample_accepted [OF epochs_inv [OF d]] obtain ok s' d' where
    "snapshot sampleC sampleD (replicate 192 0) sampleClaims (snapshots0, d) = Inr (ok, s', d')" by blast
  from epochs.take [OF d _ this sample_claims] show thesis
    by (intro that [of s' d']) (simp add: sampleC_def sampleSnapshot_def)
qed





theorem change_accepted_witness:
  "\<exists>d. epochs 1024 (snapshots0, d) [] [(1, initialValues)] \<and> (\<exists>d'. changeDynamicValues sampleD 2 sampleValues d = Inr d')
     \<and> \<not> (\<exists>d'. changeDynamicValues sampleD 1 sampleValues d = Inr d')"
proof -
  obtain d where d: "epochs 1024 (snapshots0, d) [] [(1, initialValues)]" "dy_nonce d = 1" "\<forall>a. a \<noteq> 100 \<longrightarrow> dy_code d a = []"
    "dy_configuration d = \<lparr>cf_minEpochsBetweenUpdates = 2, cf_maxEpochsBetweenUpdates = 336\<rparr>"
    by (rule sample_start)
  moreover have "dc_epoch sampleD = ucast (ss_epoch snapshots0)" by (simp add: sampleD_def snapshots0_def)
  ultimately show ?thesis
    using change_accepted [OF d(1), of sampleD 2 sampleValues] change_accepted [OF d(1), of sampleD 1 sampleValues]
    by (auto simp: sampleD_def)
qed

theorem updateAliceNetNodeVersion_iff_witness:
  "(\<exists>d'. updateAliceNetNodeVersion sampleD 0 1 0 0 5 (dynamics0 (\<lambda>a. []) 0) = Inr d')
     \<and> \<not> (\<exists>d'. updateAliceNetNodeVersion sampleD 0 2 0 0 5 (dynamics0 (\<lambda>a. []) 0) = Inr d')"
proof -
  have "dc_epoch sampleD = ucast (0 :: 32 word)" by (simp add: sampleD_def)
  from updateAliceNetNodeVersion_iff [OF this refl refl, of 0 1 0 0 5 "dynamics0 (\<lambda>a. []) 0"]
    updateAliceNetNodeVersion_iff [OF this refl refl, of 0 2 0 0 5 "dynamics0 (\<lambda>a. []) 0"]
  show ?thesis by (simp add: sampleD_def dynamics0_def newer_def)
qed

end
