(* ===== verification/Validator_Map.thy ===== *)
theory Validator_Map
  imports Solidity_Base
begin

text \<open>
  \<^verbatim>\<open>CustomEnumerableMaps.sol\<close>: the table of the active validators, an array of their data with an index from addresses to
  places, from which entries are removed by moving the last one into the gap. The theory has its operations, the
  interface its clients rely on as a locale, and the interpretation of this interface on the operations. Lengths and
  places of the array are natural numbers: an array in storage never reaches the length \<open>2 ^ 256\<close>.
\<close>

section \<open>The table\<close>

record ValidatorData =
  vd_address :: addr
  vd_tokenID :: "256 word"

record ExitingValidatorData =
  ed_tokenID :: "128 word"
  ed_freeAfter :: "128 word"

record ValidatorDataMap =
  vm_values :: "ValidatorData list"
  vm_indexes :: "addr \<Rightarrow> nat"

definition empty_map :: ValidatorDataMap where
  "empty_map = \<lparr>vm_values = [], vm_indexes = \<lambda>a. 0\<rparr>"

definition map_contains :: "ValidatorDataMap \<Rightarrow> addr \<Rightarrow> bool" where
  "map_contains m key = (vm_indexes m key \<noteq> 0)"

definition map_add :: "ValidatorDataMap \<Rightarrow> ValidatorData \<Rightarrow> bool \<times> ValidatorDataMap" where
  "map_add m value =
     (if \<not> map_contains m (vd_address value) then
        let values = vm_values m @ [value] in
          (True, m\<lparr>vm_values := values, vm_indexes := (vm_indexes m)(vd_address value := length values)\<rparr>)
      else (False, m))"

text \<open>An index of an array, and the removal of its last element: out of range they panic.\<close>

definition array_at :: "'a list \<Rightarrow> nat \<Rightarrow> 'a sol" where
  "array_at xs i = (if i < length xs then Inr (xs ! i) else Inl (Panic 0x32))"

definition array_pop :: "'a list \<Rightarrow> 'a list sol" where
  "array_pop xs = (if xs = [] then Inl (Panic 0x31) else Inr (butlast xs))"

definition map_remove :: "ValidatorDataMap \<Rightarrow> addr \<Rightarrow> (bool \<times> ValidatorDataMap) sol" where
  "map_remove m key =
     (let valueIndex = vm_indexes m key in
      if valueIndex \<noteq> 0 then
        let toDeleteIndex = valueIndex - 1 in
        sbind (if vm_values m = [] then Inl (Panic 0x11) else Inr (length (vm_values m) - 1)) (\<lambda>lastIndex.
        sbind (if lastIndex \<noteq> toDeleteIndex then
                 sbind (array_at (vm_values m) lastIndex) (\<lambda>lastValue.
                 sbind (array_at (vm_values m) toDeleteIndex) (\<lambda>_.
                   Inr (m\<lparr>vm_values := (vm_values m)[toDeleteIndex := lastValue],
                     vm_indexes := (vm_indexes m)(vd_address lastValue := valueIndex)\<rparr>)))
               else Inr m) (\<lambda>m.
        sbind (array_pop (vm_values m)) (\<lambda>values.
          Inr (True, m\<lparr>vm_values := values, vm_indexes := (vm_indexes m)(key := 0)\<rparr>))))
      else Inr (False, m))"

definition map_length :: "ValidatorDataMap \<Rightarrow> nat" where
  "map_length m = length (vm_values m)"

definition map_at :: "ValidatorDataMap \<Rightarrow> nat \<Rightarrow> ValidatorData sol" where
  "map_at m index = array_at (vm_values m) index"

definition map_tryGet :: "ValidatorDataMap \<Rightarrow> addr \<Rightarrow> (bool \<times> ValidatorData) sol" where
  "map_tryGet m key =
     (let index = vm_indexes m key in
      if index = 0 then Inr (False, \<lparr>vd_address = 0, vd_tokenID = 0\<rparr>)
      else sbind (array_at (vm_values m) (index - 1)) (\<lambda>v. Inr (True, v)))"

definition map_get :: "ValidatorDataMap \<Rightarrow> addr \<Rightarrow> ValidatorData sol" where
  "map_get m key =
     sbind (map_tryGet m key) (\<lambda>(success, value).
     sbind (revert_if (\<not> success) (KeyNotInMap key)) (\<lambda>_. Inr value))"

definition map_values :: "ValidatorDataMap \<Rightarrow> ValidatorData list" where
  "map_values m = vm_values m"

fun addressLoop :: "ValidatorData list \<Rightarrow> nat \<Rightarrow> addr list \<Rightarrow> addr list" where
  "addressLoop values 0 addresses = addresses"
| "addressLoop values (Suc n) addresses =
     (let i = length values - Suc n in addressLoop values n (addresses[i := vd_address (values ! i)]))"

definition map_addressValues :: "ValidatorDataMap \<Rightarrow> addr list" where
  "map_addressValues m =
     (let values = map_values m in addressLoop values (length values) (replicate (length values) 0))"

section \<open>The interface\<close>

text \<open>
  What a client relies on: a table holds at most one entry for a key, adding never replaces one, removing never fails
  and forgets this key only, and the size is the number of the keys.
\<close>

locale key_table =
  fixes inv :: "'m \<Rightarrow> bool" and key :: "'v \<Rightarrow> 'k" and lookup :: "'m \<Rightarrow> 'k \<Rightarrow> 'v option" and count :: "'m \<Rightarrow> nat"
    and add :: "'m \<Rightarrow> 'v \<Rightarrow> bool \<times> 'm" and remove :: "'m \<Rightarrow> 'k \<Rightarrow> (bool \<times> 'm) sol"
  assumes count_dom: "inv m \<Longrightarrow> finite (dom (lookup m)) \<and> count m = card (dom (lookup m))"
    and key_lookup: "inv m \<Longrightarrow> lookup m k = Some v \<Longrightarrow> key v = k"
    and add_law: "inv m \<Longrightarrow> add m v = (b, m') \<Longrightarrow>
      inv m' \<and> (b \<longleftrightarrow> lookup m (key v) = None) \<and> lookup m' = (if b then (lookup m)(key v \<mapsto> v) else lookup m)"
    and remove_law: "inv m \<Longrightarrow>
      \<exists>m'. remove m k = Inr (lookup m k \<noteq> None, m') \<and> inv m' \<and> lookup m' = (lookup m)(k := None)"
begin

lemma count_add: "inv m \<Longrightarrow> add m v = (b, m') \<Longrightarrow> count m' = (if b then count m + 1 else count m)"
  using count_dom [of m] count_dom [of m'] add_law [of m v b m'] by (auto simp: domIff)

lemma count_remove:
  assumes "inv m" and "remove m k = Inr (b, m')"
  shows "count m' = (if b then count m - 1 else count m)" and "inv m'" and "b \<longleftrightarrow> lookup m k \<noteq> None"
    and "lookup m' = (lookup m)(k := None)"
proof -
  from remove_law [OF assms(1), of k] assms(2)
  have m': "inv m'" "lookup m' = (lookup m)(k := None)" "b \<longleftrightarrow> lookup m k \<noteq> None" by auto
  then show "inv m'" "lookup m' = (lookup m)(k := None)" "b \<longleftrightarrow> lookup m k \<noteq> None" by blast+
  have "dom (lookup m') = dom (lookup m) - {k}" using m'(2) by auto
  with m' count_dom [OF assms(1)] count_dom [OF m'(1)] show "count m' = (if b then count m - 1 else count m)"
    by (auto simp: domIff card_Diff_singleton_if)
qed

text \<open>Adding an entry and removing it again.\<close>

lemma add_remove:
  assumes "inv m" and "add m v = (True, m')"
  shows "\<exists>m''. remove m' (key v) = Inr (True, m'') \<and> inv m'' \<and> lookup m'' = lookup m \<and> count m'' = count m"
proof -
  note m' = add_law [OF assms]
  then obtain m'' where r: "remove m' (key v) = Inr (lookup m' (key v) \<noteq> None, m'')" "inv m''"
    "lookup m'' = (lookup m')(key v := None)" using remove_law by blast
  with m' have "lookup m'' = lookup m" by (auto simp: fun_eq_iff)
  moreover from this have "count m'' = count m" using count_dom [OF assms(1)] count_dom [OF r(2)] by simp
  ultimately show ?thesis using r m' by auto
qed

text \<open>Entries that differ in their keys can be added in any order.\<close>

lemma add_commutes:
  assumes "inv m" and "key v \<noteq> key w" and "add m v = (b, m1)" and "add m1 w = (c, m2)" and "add m w = (c', m3)" and "add m3 v = (b', m4)"
  shows "lookup m2 = lookup m4 \<and> b = b' \<and> c = c'"
  using add_law [OF assms(1,3)] add_law [OF assms(1,5)] add_law [of m1 w c m2] add_law [of m3 v b' m4] assms
  by (auto simp: fun_upd_twist split: if_splits)

end

section \<open>The table provides the interface\<close>

text \<open>The index and the array point at each other.\<close>

definition valid_map :: "ValidatorDataMap \<Rightarrow> bool" where
  "valid_map m =
     ((\<forall>a. vm_indexes m a \<noteq> 0 \<longrightarrow>
         vm_indexes m a \<le> length (vm_values m) \<and> vd_address (vm_values m ! (vm_indexes m a - 1)) = a)
      \<and> (\<forall>i < length (vm_values m). vm_indexes m (vd_address (vm_values m ! i)) = i + 1))"

definition map_lookup :: "ValidatorDataMap \<Rightarrow> addr \<Rightarrow> ValidatorData option" where
  "map_lookup m a = (if vm_indexes m a = 0 then None else Some (vm_values m ! (vm_indexes m a - 1)))"

lemma valid_empty: "valid_map empty_map"
  by (simp add: valid_map_def empty_map_def)

lemma valid_index:
  assumes "valid_map m" and "vm_indexes m a \<noteq> 0"
  shows "vm_indexes m a \<le> length (vm_values m)" and "vd_address (vm_values m ! (vm_indexes m a - 1)) = a"
  using assms by (auto simp: valid_map_def)

lemma valid_place: "valid_map m \<Longrightarrow> i < length (vm_values m) \<Longrightarrow> vm_indexes m (vd_address (vm_values m ! i)) = i + 1"
  by (simp add: valid_map_def)

lemma map_count:
  assumes "valid_map m"
  shows "finite (dom (map_lookup m)) \<and> map_length m = card (dom (map_lookup m))"
proof -
  have "bij_betw (\<lambda>i. vd_address (vm_values m ! i)) {..<length (vm_values m)} (dom (map_lookup m))"
    by (rule bij_betw_byWitness [where f' = "\<lambda>a. vm_indexes m a - 1"])
      (use valid_index [OF assms] valid_place [OF assms] in \<open>fastforce simp: map_lookup_def dom_def split: if_splits\<close>)+
  then show ?thesis using bij_betw_finite bij_betw_same_card by (fastforce simp: map_length_def)
qed

lemma map_add_law:
  assumes "valid_map m" and "map_add m v = (b, m')"
  shows "valid_map m' \<and> (b \<longleftrightarrow> map_lookup m (vd_address v) = None)
    \<and> map_lookup m' = (if b then (map_lookup m)(vd_address v \<mapsto> v) else map_lookup m)"
proof (cases "vm_indexes m (vd_address v) = 0")
  case True
  let ?vs = "vm_values m" and ?a = "vd_address v"
  have m': "m' = m\<lparr>vm_values := ?vs @ [v], vm_indexes := (vm_indexes m)(?a := length ?vs + 1)\<rparr>"
    using assms(2) True by (simp add: map_add_def map_contains_def Let_def)
  have new: "vd_address (?vs ! i) \<noteq> ?a" if "i < length ?vs" for i using valid_place [OF assms(1) that] True by auto
  have old: "(?vs @ [v]) ! (vm_indexes m a - 1) = ?vs ! (vm_indexes m a - 1)" if "vm_indexes m a \<noteq> 0" for a
    using valid_index(1) [OF assms(1) that] that by (simp add: nth_append)
  have "valid_map m'"
    unfolding valid_map_def
  proof (intro conjI allI impI)
    fix a
    assume "vm_indexes m' a \<noteq> 0"
    then show "vm_indexes m' a \<le> length (vm_values m')" "vd_address (vm_values m' ! (vm_indexes m' a - 1)) = a"
      using valid_index [OF assms(1), of a] old [of a] by (cases "a = ?a"; simp add: m')+
  next
    fix i
    assume "i < length (vm_values m')"
    then show "vm_indexes m' (vd_address (vm_values m' ! i)) = i + 1"
      using new [of i] valid_place [OF assms(1), of i] by (cases "i = length ?vs") (simp_all add: m' nth_append)
  qed
  moreover have "map_lookup m' = (map_lookup m)(?a \<mapsto> v)"
    using old by (auto simp: map_lookup_def m')
  ultimately show ?thesis using assms True by (auto simp: map_add_def map_contains_def map_lookup_def)
next
  case False
  then show ?thesis using assms by (auto simp: map_add_def map_contains_def map_lookup_def)
qed

text \<open>Removing an entry: the last entry takes its place.\<close>

lemma map_remove_run:
  assumes "valid_map m" and "vm_indexes m k = Suc p"
  shows "map_remove m k = Inr (True, m\<lparr>vm_values := butlast ((vm_values m)[p := last (vm_values m)]),
    vm_indexes := (vm_indexes m)(vd_address (last (vm_values m)) := Suc p, k := 0)\<rparr>)"
proof -
  let ?vs = "vm_values m"
  have p: "p < length ?vs" "vd_address (?vs ! p) = k" using valid_index [OF assms(1), of k] assms(2) by simp_all
  then have "?vs \<noteq> []" by auto
  show ?thesis
  proof (cases "p = length ?vs - 1")
    case True
    with p have "last ?vs = ?vs ! p" "?vs[p := last ?vs] = ?vs" using \<open>?vs \<noteq> []\<close> by (simp_all add: last_conv_nth)
    with True p assms(2) \<open>?vs \<noteq> []\<close> show ?thesis by (simp add: map_remove_def Let_def array_pop_def)
  next
    case False
    with p assms(2) \<open>?vs \<noteq> []\<close> show ?thesis
      by (auto simp: map_remove_def Let_def array_pop_def array_at_def last_conv_nth)
  qed
qed

lemma map_remove_law:
  assumes "valid_map m"
  shows "\<exists>m'. map_remove m k = Inr (map_lookup m k \<noteq> None, m') \<and> valid_map m' \<and> map_lookup m' = (map_lookup m)(k := None)"
proof (cases "vm_indexes m k")
  case 0
  then show ?thesis using assms by (auto simp: map_remove_def map_lookup_def)
next
  case (Suc p)
  define vs where "vs = vm_values m"
  define m' where "m' = m\<lparr>vm_values := butlast (vs[p := last vs]), vm_indexes := (vm_indexes m)(vd_address (last vs) := Suc p, k := 0)\<rparr>"
  have p: "p < length vs" "vd_address (vs ! p) = k" using valid_index [OF assms, of k] Suc by (simp_all add: vs_def)
  then have l: "last vs = vs ! (length vs - 1)" by (cases vs) (auto simp: last_conv_nth)
  note place = valid_place [OF assms, folded vs_def]
  have nth: "vm_values m' ! i = (if i = p then last vs else vs ! i)" if "i < length vs - 1" for i
    using that p by (auto simp: m'_def nth_butlast)
  have last_index: "vm_indexes m (vd_address (last vs)) = length vs" using place [of "length vs - 1"] p l by auto
  then have k: "vd_address (last vs) = k \<longleftrightarrow> p = length vs - 1" using Suc p l by (metis Suc_diff_1 diff_Suc_1 length_pos_if_in_set nth_mem)
  have q: "vm_indexes m a \<noteq> 0 \<and> vm_indexes m a - 1 < length vs - 1 \<and> vm_indexes m a - 1 \<noteq> p
      \<and> vd_address (vs ! (vm_indexes m a - 1)) = a"
    if "vm_indexes m a \<noteq> 0" "a \<noteq> k" "a \<noteq> vd_address (last vs)" for a
    using valid_index [OF assms that(1), folded vs_def] that p l by (cases "vm_indexes m a = length vs") auto
  have "valid_map m'"
    unfolding valid_map_def
  proof (intro conjI allI impI)
    fix a
    assume "vm_indexes m' a \<noteq> 0"
    then have a: "a \<noteq> k" "a \<noteq> vd_address (last vs) \<Longrightarrow> vm_indexes m a \<noteq> 0" by (auto simp: m'_def split: if_splits)
    show "vm_indexes m' a \<le> length (vm_values m')" "vd_address (vm_values m' ! (vm_indexes m' a - 1)) = a"
      using a k q [OF a(2) a(1)] p nth by (cases "a = vd_address (last vs)"; auto simp: m'_def)+
  next
    fix i
    assume "i < length (vm_values m')"
    then have i: "i < length vs - 1" by (simp add: m'_def)
    then have pi: "vm_indexes m (vd_address (vs ! i)) = i + 1" by (intro place) simp
    with i last_index have "vd_address (vs ! i) \<noteq> vd_address (last vs)" by auto
    moreover have "vd_address (vs ! i) \<noteq> k" if "i \<noteq> p" using pi that Suc by auto
    ultimately show "vm_indexes m' (vd_address (vm_values m' ! i)) = i + 1"
      using i k pi unfolding nth [OF i] by (auto simp: m'_def)
  qed
  moreover have "map_lookup m' a = ((map_lookup m)(k := None)) a" for a
  proof -
    consider "a = k" | "a \<noteq> k" "a = vd_address (last vs)" | "a \<noteq> k" "a \<noteq> vd_address (last vs)" by blast
    then show ?thesis
    proof cases
      case 2
      then have "p < length vs - 1" using k p by auto
      with 2 nth [of p] last_index l p show ?thesis by (auto simp: map_lookup_def m'_def vs_def)
    next
      case 3
      then show ?thesis using nth q [of a] by (auto simp: map_lookup_def m'_def vs_def)
    qed (simp add: map_lookup_def m'_def)
  qed
  moreover have "map_lookup m k \<noteq> None" using Suc by (simp add: map_lookup_def)
  ultimately show ?thesis using map_remove_run [OF assms Suc, folded vs_def, folded m'_def] by auto
qed

interpretation vt: key_table valid_map vd_address map_lookup map_length map_add map_remove
proof unfold_locales
  show "vd_address v = k" if "valid_map m" "map_lookup m k = Some v" for m k v
    using that valid_index(2) by (auto simp: map_lookup_def split: if_splits)
qed (use map_count map_add_law map_remove_law in blast)+

section \<open>Reading the table\<close>

lemma addressLoop_nth:
  assumes "n \<le> length vs" and "length r = length vs" and "\<And>i. i < length vs - n \<Longrightarrow> r ! i = vd_address (vs ! i)"
  shows "addressLoop vs n r = map vd_address vs"
  using assms
proof (induction n arbitrary: r)
  case 0
  then show ?case by (simp add: list_eq_iff_nth_eq)
next
  case (Suc n)
  let ?i = "length vs - Suc n"
  have "addressLoop vs n (r[?i := vd_address (vs ! ?i)]) = map vd_address vs"
  proof (rule Suc.IH)
    fix i
    assume "i < length vs - n"
    then show "r[?i := vd_address (vs ! ?i)] ! i = vd_address (vs ! i)"
      using Suc.prems by (cases "i = ?i") (simp_all add: less_Suc_eq)
  qed (use Suc.prems in simp_all)
  then show ?case by (simp add: Let_def)
qed

lemma map_addressValues_map: "map_addressValues m = map vd_address (vm_values m)"
  unfolding map_addressValues_def map_values_def Let_def by (rule addressLoop_nth) simp_all

lemma map_addresses:
  assumes "valid_map m"
  shows "distinct (map_addressValues m)" and "set (map_addressValues m) = dom (map_lookup m)"
proof -
  show "distinct (map_addressValues m)"
    unfolding map_addressValues_map distinct_conv_nth
    using valid_place [OF assms] by (auto simp del: One_nat_def) (metis Suc_eq_plus1 nat.inject)
  show "set (map_addressValues m) = dom (map_lookup m)"
  proof (intro equalityI subsetI)
    fix a
    assume "a \<in> set (map_addressValues m)"
    then obtain i where "i < length (vm_values m)" "a = vd_address (vm_values m ! i)"
      unfolding map_addressValues_map by (auto simp: in_set_conv_nth)
    then show "a \<in> dom (map_lookup m)" using valid_place [OF assms, of i] by (auto simp: map_lookup_def)
  next
    fix a
    assume "a \<in> dom (map_lookup m)"
    then have i: "vm_indexes m a \<noteq> 0" by (auto simp: map_lookup_def split: if_splits)
    then have "vm_indexes m a - 1 < length (vm_values m)" using valid_index(1) [OF assms i] by simp
    then have "vd_address (vm_values m ! (vm_indexes m a - 1)) \<in> set (map vd_address (vm_values m))" by auto
    then show "a \<in> set (map_addressValues m)" using valid_index(2) [OF assms i] by (simp add: map_addressValues_map)
  qed
qed

lemma map_get_run:
  assumes "valid_map m"
  shows "map_get m a = (case map_lookup m a of None \<Rightarrow> Inl (KeyNotInMap a) | Some v \<Rightarrow> Inr v)"
proof (cases "vm_indexes m a = 0")
  case False
  then have "vm_indexes m a - 1 < length (vm_values m)" using valid_index(1) [OF assms False] by simp
  with False show ?thesis by (simp add: map_get_def map_tryGet_def map_lookup_def array_at_def Let_def)
qed (simp add: map_get_def map_tryGet_def map_lookup_def)

section \<open>Properties\<close>

datatype map_op = Add ValidatorData | Remove addr

fun run_map :: "map_op list \<Rightarrow> ValidatorDataMap \<Rightarrow> ValidatorDataMap sol" where
  "run_map [] m = Inr m"
| "run_map (Add v # ops) m = run_map ops (snd (map_add m v))"
| "run_map (Remove a # ops) m = sbind (map_remove m a) (\<lambda>(_, m). run_map ops m)"

text \<open>The same on a finite map from addresses to their data, in which the first entry of an address stays.\<close>

fun spec_map :: "map_op list \<Rightarrow> (addr \<Rightarrow> ValidatorData option) \<Rightarrow> addr \<Rightarrow> ValidatorData option" where
  "spec_map [] f = f"
| "spec_map (Add v # ops) f = spec_map ops (if f (vd_address v) = None then f(vd_address v \<mapsto> v) else f)"
| "spec_map (Remove a # ops) f = spec_map ops (f(a := None))"

lemma run_map_spec:
  "valid_map m \<Longrightarrow> \<exists>m'. run_map ops m = Inr m' \<and> valid_map m' \<and> map_lookup m' = spec_map ops (map_lookup m)"
proof (induction ops arbitrary: m)
  case (Cons x ops)
  show ?case
  proof (cases x)
    case (Add v)
    obtain b m' where a: "map_add m v = (b, m')" by force
    from vt.add_law [OF Cons.prems a] Cons.IH [of m'] a Add show ?thesis by (auto split: if_splits)
  next
    case (Remove a)
    from vt.remove_law [OF Cons.prems, of a] obtain b m' where
      r: "map_remove m a = Inr (b, m')" "valid_map m'" "map_lookup m' = (map_lookup m)(a := None)" by auto
    show ?thesis
      using Cons.IH [OF r(2)] unfolding Remove run_map.simps spec_map.simps r(1,3) sbind_simps prod.case .
  qed
qed simp

text \<open>
  C23. The table of validators implements a finite map. Any sequence of additions and removals on the empty table goes through without a
  panic, and then every lookup, the list of the addresses and the length are those of the map that the same
  sequence gives, where the array has each address once.
\<close>

theorem table_refines_map:
  "\<exists>m. run_map ops empty_map = Inr m
     \<and> (\<forall>a. map_get m a = (case spec_map ops (\<lambda>a. None) a of None \<Rightarrow> Inl (KeyNotInMap a) | Some v \<Rightarrow> Inr v))
     \<and> distinct (map_addressValues m) \<and> set (map_addressValues m) = dom (spec_map ops (\<lambda>a. None))
     \<and> map_length m = card (dom (spec_map ops (\<lambda>a. None)))"
proof -
  have "map_lookup empty_map = (\<lambda>a. None)" by (simp add: map_lookup_def empty_map_def fun_eq_iff)
  with run_map_spec [OF valid_empty, of ops] obtain m where m: "run_map ops empty_map = Inr m" "valid_map m"
    "map_lookup m = spec_map ops (\<lambda>a. None)" by auto
  with map_get_run [OF m(2)] map_addresses [OF m(2)] vt.count_dom [OF m(2)] show ?thesis by auto
qed

end
