(* ===== verification/Spec2Isabelle.thy ===== *)
theory Spec2Isabelle
  imports Deployment_Pipeline Maintenance_Scripts Network_Correctness Generator_Correctness Hardhat_Config Epoch_System
    Validator_Map
begin

text \<open>
  A verification development for the deployment scripts of AliceNet's bridge (\<^verbatim>\<open>src/bridge/scripts\<close>) for the
  factory and proxy contracts these scripts drive, and for the contracts of the deployed system that keep the epochs of the side
  chain (\<^verbatim>\<open>src/bridge/contracts\<close>).

  \<^bold>\<open>The program.\<close> The scripts are hardhat tasks. The owner of a factory contract uses them to deploy logic
  contracts and the proxies in front of them, to upgrade proxies, and to administer the deployed system
  through the factory. What was deployed is recorded per network in a TOML file, the factory state; what is to be
  deployed, in which order and with which arguments, comes from two other TOML files, the deployment list and
  the argument template, which tasks generate from the compiler's artifacts. On the chain, a proxy's address
  depends only on the factory and a salt, which the documentation comment of the contract carries; a logic
  contract's address depends on the factory's nonce, which the scripts read to predict it. Further scripts
  generate Solidity and Go sources from the same artifacts, run a local node and put load on a network.

  Of the deployed contracts, \<open>Snapshots\<close> records the last block of every epoch of the side chain, sent by an elected validator as
  a signed byte string, and tells \<open>Dynamics\<close> about each new epoch; \<open>Dynamics\<close> keeps the values that govern the side chain and
  schedules changes of them, which the factory sends, for later epochs. The validators are kept in an
  enumerable table.

  \<^bold>\<open>How it is modelled.\<close> A script is a function from a \<open>world\<close> to a result, a value or a thrown \<open>js_error\<close>, and
  the world it leaves (\<open>Js_World\<close>): what it did before it threw stays done. The world holds the file system, a
  map from paths to files and folders; the chain; the log of what was sent, waited for, requested or
  executed; and the console. \<open>bnd\<close>, \<open>andThen\<close>, \<open>foldJs\<close> and \<open>tryCatch\<close> stand for \<open>await\<close>, sequence, \<open>for\<close> and \<open>try\<close>.
  A script that polls may not return; it has the type \<open>jsd\<close>, where \<open>None\<close> is the run that does not end, and its
  loop is a partial function. There are no bounds and no fuel in the development; the loops of the contracts are structural or have a
  measure. Values of JavaScript whose type the
  sources leave open are the datatype \<open>jsval\<close>; addresses and storage slots are machine words; amounts are
  natural numbers or integers, as big numbers are unbounded in the sources.

  Everything the scripts call and do not define is a field of the record \<open>hre\<close>: hardhat's artifacts and accounts, the
  ABI coder, the TOML and JSON libraries, gas and fees, the HTTP client, the random source, the time in
  which blocks are mined. \<open>evm\<close> has the parameters of the chain: the addresses of created accounts, the hash, and what
  contracts other than factory and proxy do when they are called. Theorems that depend on a behaviour of
  these state it: \<open>toml_library\<close> (a printed document parses to its normal form, comment lines are skipped) and
  the equation between the hash of the metamorphic code and the constant in \<^verbatim>\<open>DeterministicAddress.sol\<close>. The theorems about whole
  deployments add, in \<open>deployable_from\<close>, that no called contract replaces the code of the factory, that the source names of
  artifacts have no colon and that the signer is not the factory.
  A function of a contract is a function from its storage, a record, and the context of the call to \<open>Inl\<close> of the error it reverts
  with or \<open>Inr\<close> of its result and the new storage (\<open>Solidity_Base\<close>). Numbers have the width of the sources, and arithmetic panics
  where the compiler makes it; offsets into byte strings and lengths of arrays are natural numbers. What a contract asks of contracts
  that are not modelled, the hash and the check of a signature are fields of the context.
  \<open>Sample_Toml\<close> and \<open>Sample_Env\<close> hold concrete functions for all of them, in which the witnesses run the tasks.

  \<^bold>\<open>The theories.\<close>

  \<^item> \<open>Js_Prelude\<close>: strings, arrays and objects of JavaScript, with the shared lemmas; the locale \<open>prop_store\<close> of keyed stores.
  \<^item> \<open>Evm_Chain\<close>: \<^verbatim>\<open>AliceNetFactory.sol\<close>, \<^verbatim>\<open>AliceNetFactoryBase.sol\<close>, \<^verbatim>\<open>Proxy.sol\<close>, the libraries that lock and unlock a
    proxy, and \<^verbatim>\<open>DeterministicAddress.sol\<close>, at the level of calls. A call gives events and a chain or a revert.
  \<^item> \<open>Js_World\<close>: the world, the operations on it, transactions, and the locale \<open>js_frame\<close>: what a script keeps, for any
    reflexive and transitive relation between worlds.
  \<^item> \<open>Constants\<close> (\<^verbatim>\<open>constants.ts\<close>), \<open>Config_Util\<close> (\<^verbatim>\<open>deploymentConfigUtil.ts\<close>), \<open>Factory_State\<close> (\<^verbatim>\<open>factoryStateUtil.ts\<close>),
    \<open>Deployment_Util\<close> (\<^verbatim>\<open>deploymentUtil.ts\<close>), \<open>Deploy_Args\<close> (\<^verbatim>\<open>deployArgUtil.ts\<close>), \<open>Deployment_List\<close> (\<^verbatim>\<open>deploymentListUtil.ts\<close>).
  \<^item> \<open>Task_Support\<close> and \<open>Factory_Tasks\<close>: the functions and the tasks of \<^verbatim>\<open>alicenetFactoryTasks.ts\<close>; a task \<open>x\<close> is \<open>xTask\<close>.
  \<^item> \<open>Admin_Tasks\<close>, \<open>Validator_Tasks\<close>, \<open>Network_Tasks\<close>: the tasks of \<^verbatim>\<open>alicenetTasks.ts\<close>.
  \<^item> \<open>Alicenet_Factory\<close> (\<^verbatim>\<open>alicenetFactory.ts\<close>) and \<open>Code_Generators\<close> (\<^verbatim>\<open>generateImmutableAuth.ts\<close>, \<^verbatim>\<open>gogogen.ts\<close>, \<^verbatim>\<open>build.ts\<close>, the
    scripts that only call the deployment utilities, and the task \<open>accounts\<close> of \<^verbatim>\<open>hardhat.config.ts\<close>). Functions that the sources
    repeat under one name carry the prefix \<open>task_\<close>, \<open>af_\<close> or \<open>ia_\<close> of their file.
  \<^item> \<open>Maintenance_Scripts\<close>: \<^verbatim>\<open>sumGasInFactoryState.ts\<close> and \<^verbatim>\<open>deployAllContracts.ts\<close>, with their properties. \<open>Hardhat_Config\<close>: the named
    accounts and the networks of \<^verbatim>\<open>hardhat.config.ts\<close>.
  \<^item> \<open>Task_Frames\<close>: the frame locales for scripts that print, write files or send transactions, interpreted on the relations
    between worlds that the properties use.
  \<^item> \<open>Factory_Steps\<close>, \<open>Factory_Correctness\<close>, \<open>Upgrade_Correctness\<close>, \<open>Library_Correctness\<close>, \<open>Admin_Correctness\<close>, \<open>Validator_Correctness\<close>,
    \<open>Network_Correctness\<close>, \<open>Generator_Correctness\<close>: what the tasks achieve.
  \<^item> \<open>Deployment_Pipeline\<close>: the task \<open>deployContracts\<close>, which composes them: the configuration files, the factory, the deployment of each
    contract of the list and the factory state.
  \<^item> \<open>Solidity_Base\<close>: errors, checked arithmetic, byte strings. \<open>Epoch_List\<close>: \<^verbatim>\<open>DoublyLinkedList.sol\<close>, as a strictly increasing
    sequence of epochs with a head. \<open>Dynamics_Contract\<close>: \<^verbatim>\<open>Dynamics.sol\<close> with the creation code of the storage contracts.
  \<^item> \<open>Claims_Parser\<close> and \<open>Certificate_Parser\<close>: \<^verbatim>\<open>BaseParserLibrary.sol\<close> and the parsers of claims and certificates.
    \<open>Snapshots_Contract\<close>: \<^verbatim>\<open>Snapshots.sol\<close>, \<^verbatim>\<open>SnapshotsStorage.sol\<close> and \<^verbatim>\<open>SnapshotRingBuffer.sol\<close>.
  \<^item> \<open>Epoch_System\<close>: the runs of \<open>Snapshots\<close> and \<open>Dynamics\<close> together, as an inductive relation.
  \<^item> \<open>Validator_Map\<close>: \<^verbatim>\<open>CustomEnumerableMaps.sol\<close>, with the locale \<open>key_table\<close> of its interface.

  \<^bold>\<open>What is shown.\<close>

  \<^item> Deployment. The address the scripts predict for a logic contract is the one the factory creates it at; each deployment
    task that returns has sent exactly the transactions it should, the proxy of the salt points at the logic contract
    and the returned data names both. This covers the deployment in one transaction, in two transactions, from
    descriptors and by the library functions, the deployment of the factory itself, and both kinds of upgrade.
    An upgrade of a locked or missing proxy is rejected and leaves nothing behind.
  \<^item> Whole deployments. When \<open>deployContracts\<close> returns, the contracts of the deployment list were deployed one after the other with the arguments of the
    argument file, through the given factory or one it created first, and nothing else was sent (\<open>deploys\<close>); the gas it
    prints is the sum; the factory state has one new entry per upgradeable contract, in the order of the list.
  \<^item> Records. Writing the factory state refines updates of a store indexed by network and field; an appended proxy entry is the data
    the task returned. The argument template and the deployment list are read back as they were written; the list is
    sorted stably by the index within each group.
  \<^item> Frames. No task, also when it throws, turns the file system into something that is not a tree or removes a log entry; with
    the silencer set the deployment tasks write no file.
  \<^item> Administration. Without the key of the owner every administration task throws and changes nothing; with it, exactly one
    call reaches the contract the factory looks up, with the encoded arguments. Registering validators sends two
    transactions, the second with exactly the tokens that the events of the first name.
  \<^item> Loops. \<open>waitBlocks\<close> returns when blocks are mined while it sleeps and not when none ever is; the seed node task returns when the node answers; the load
    generator ends only by throwing, with an invariant on every state of its loop.
  \<^item> Generated sources. The salts and the order of the generated contracts, and the selectors of the generated map.
  \<^item> Epochs. After any run of \<open>Snapshots\<close> and \<open>Dynamics\<close>, the values in force are those of the last change scheduled for the current epoch or
    an earlier one, the snapshots of the last six epochs are remembered and no others, and a snapshot or a change is
    accepted exactly under the stated conditions. The number of validators elected for a snapshot is bounded and grows with the blocks passed.
    New versions of the node are ordered by their parts.
  \<^item> Parsers and tables. The byte strings that are claims about blocks and proposals, and the fields they have; the table of
    validators refines a finite map.
  \<^item> Error paths, among them some in which the code does not do what its description says: the factory address that is never
    found, the argument count that is always 0, the amounts in the wrong unit, the migration that forgets the
    staked tokens, the salt type that only the generator knows, the old deployment script that deploys only a factory.

  \<^bold>\<open>Not modelled.\<close> Descriptions of tasks and parameters; file modes; the type layer of TypeScript, which hardhat removes without
  checking it before it runs a script. JSON has fractions and \<open>null\<close>, which \<open>jsval\<close> leaves out. The settings of the compiler, the test
  runner and the plugins in \<^verbatim>\<open>hardhat.config.ts\<close>, its task \<open>storage-check\<close>, which only calls a plugin, and the files of declarations
  and lint rules are configuration without operations. The staking, token and accusation contracts, \<open>ETHDKG\<close> and the
  node written in Go are separate programs; where the scripts or the modelled contracts call them they are parameters. The curve
  operations behind a signature are precompiled contracts. \<open>migrateSnapshots\<close> is modelled, but not a step of the runs of
  \<open>Epoch_System\<close>: it advances the epoch without moving the dynamic values. Ether sent along with calls of the factory is
  modelled only where a script sends some, and gas only as the amount a receipt reports.
\<close>

end
